(* ===== verification/Prelude.thy ===== *)
theory Prelude
  imports Complex_Main "HOL-Library.AList" "HOL-Library.Char_ord" "HOL-Library.List_Lexorder"
begin

section \<open>Shared vocabulary: Python values, exceptions, dictionaries, strings\<close>

text \<open>
  What every component of the development shares.
  \<^item> \<open>pyval\<close>: the JSON-like values that plan parameters, metadata and configuration hold;
  \<^item> \<open>exn\<close>: the exceptions the sources raise or catch, with the class name and the
    \<open>str\<close> of each; a computation that can raise returns \<open>exn + 'a\<close>, \<open>Inl\<close> being the raise;
  \<^item> dictionaries as association lists in insertion order (\<^term>\<open>AList.update\<close> keeps the
    position of an existing key and appends a new one, as Python does), and the locale
    \<open>keyed_store\<close> of what a lookup returns after an insertion, which registries share;
  \<^item> the string operations the sources use.
  Strings are lists of ASCII characters. Floating point numbers are rationals: no claim of
  the development is about rounding.
\<close>

named_theorems dict_simps \<open>lookups and keys of updated dictionaries\<close>

subsection \<open>Values\<close>

datatype pyval =
    PNone
  | PBool bool
  | PInt int
  | PFloat rat
  | PStr string
  | PList "pyval list"
  | PDict "(string \<times> pyval) list"

type_synonym pydict = "(string \<times> pyval) list"

text \<open>Python truthiness.\<close>

fun truthy :: "pyval \<Rightarrow> bool" where
  "truthy PNone = False"
| "truthy (PBool b) = b"
| "truthy (PInt i) = (i \<noteq> 0)"
| "truthy (PFloat r) = (r \<noteq> 0)"
| "truthy (PStr s) = (s \<noteq> [])"
| "truthy (PList xs) = (xs \<noteq> [])"
| "truthy (PDict d) = (d \<noteq> [])"

text \<open>\<open>x or default\<close> on an optional string.\<close>

fun or_str :: "string option \<Rightarrow> string \<Rightarrow> string" where
  "or_str None d = d"
| "or_str (Some s) d = (if s = [] then d else s)"

subsection \<open>Exceptions\<close>

datatype loc_item = LStr string | LInt int

text \<open>One entry of pydantic's \<open>ValidationError.errors()\<close>.\<close>

record verror =
  ve_loc :: "loc_item list"
  ve_msg :: string
  ve_type :: string
  ve_input :: pyval

datatype detail = NoDetail | DText string | DErrors "verror list"

datatype exn =
    KeyError string
  | ValueError string
  | TypeError string
  | AttributeError string
  | IndexError string
  | AssertionError string
  | TimeoutError string
  | RuntimeError string
  | PermissionError string
  | FileNotFoundError string
  | IsADirectoryError string
  | BrokenPipeError string
  | WorkerBusyError string
  | WorkerAlreadyStartedError string
  | TransitionError string
  | InvalidConfigError string
  | InvalidRunnerStateError string
  | RpcError string
  | BlueskyRunStructureError string
  | ValidationError string "verror list"
  | HTTPException nat detail
  | ExceptionGroup string "exn list"
  | ForeignError string string

type_synonym 'a result = "exn + 'a"

text \<open>The \<open>repr\<close> of a string, which is how \<open>str\<close> shows a \<open>KeyError\<close>.\<close>

definition quote_char :: char where "quote_char = CHR 0x27"

definition dquote_char :: char where "dquote_char = CHR 0x22"

definition backslash :: char where "backslash = CHR 0x5C"

definition newline :: char where "newline = CHR 0x0A"

definition hex_digit :: "nat \<Rightarrow> char" where
  "hex_digit n = ''0123456789abcdef'' ! n"

definition repr_char :: "char \<Rightarrow> char \<Rightarrow> string" where
  "repr_char q c =
     (if c = q \<or> c = backslash then [backslash, c]
      else if c = CHR 0x0A then [backslash, CHR ''n'']
      else if c = CHR 0x0D then [backslash, CHR ''r'']
      else if c = CHR 0x09 then [backslash, CHR ''t'']
      else if of_char c < (32 :: nat) \<or> (127 :: nat) \<le> of_char c
        then [backslash, CHR ''x'', hex_digit (of_char c div 16), hex_digit (of_char c mod 16)]
      else [c])"

definition py_repr :: "string \<Rightarrow> string" where
  "py_repr s =
     (let q = (if quote_char \<in> set s \<and> dquote_char \<notin> set s then dquote_char else quote_char)
      in [q] @ concat (map (repr_char q) s) @ [q])"

text \<open>The class name of an exception (\<open>type(e).__name__\<close>) and its \<open>str\<close>.\<close>

fun exn_class :: "exn \<Rightarrow> string" where
  "exn_class (KeyError _) = ''KeyError''"
| "exn_class (ValueError _) = ''ValueError''"
| "exn_class (TypeError _) = ''TypeError''"
| "exn_class (AttributeError _) = ''AttributeError''"
| "exn_class (IndexError _) = ''IndexError''"
| "exn_class (AssertionError _) = ''AssertionError''"
| "exn_class (TimeoutError _) = ''TimeoutError''"
| "exn_class (RuntimeError _) = ''RuntimeError''"
| "exn_class (PermissionError _) = ''PermissionError''"
| "exn_class (FileNotFoundError _) = ''FileNotFoundError''"
| "exn_class (IsADirectoryError _) = ''IsADirectoryError''"
| "exn_class (BrokenPipeError _) = ''BrokenPipeError''"
| "exn_class (WorkerBusyError _) = ''WorkerBusyError''"
| "exn_class (WorkerAlreadyStartedError _) = ''WorkerAlreadyStartedError''"
| "exn_class (TransitionError _) = ''TransitionError''"
| "exn_class (InvalidConfigError _) = ''InvalidConfigError''"
| "exn_class (InvalidRunnerStateError _) = ''InvalidRunnerStateError''"
| "exn_class (RpcError _) = ''RpcError''"
| "exn_class (BlueskyRunStructureError _) = ''BlueskyRunStructureError''"
| "exn_class (ValidationError _ _) = ''ValidationError''"
| "exn_class (HTTPException _ _) = ''HTTPException''"
| "exn_class (ExceptionGroup _ _) = ''ExceptionGroup''"
| "exn_class (ForeignError c _) = c"

text \<open>Decimal numerals.\<close>

fun show_nat :: "nat \<Rightarrow> string" where
  "show_nat n = (if n < 10 then [char_of (48 + n)]
                 else show_nat (n div 10) @ [char_of (48 + n mod 10)])"

declare show_nat.simps [simp del]

definition digit_val :: "char \<Rightarrow> nat" where
  "digit_val c = of_char c - 48"

definition is_digit :: "char \<Rightarrow> bool" where
  "is_digit c \<longleftrightarrow> (48 :: nat) \<le> of_char c \<and> of_char c \<le> (57 :: nat)"

definition parse_nat :: "string \<Rightarrow> nat" where
  "parse_nat s = foldl (\<lambda>n c. 10 * n + digit_val c) 0 s"

fun exn_str :: "exn \<Rightarrow> string" where
  "exn_str (KeyError s) = py_repr s"
| "exn_str (ValueError s) = s"
| "exn_str (TypeError s) = s"
| "exn_str (AttributeError s) = s"
| "exn_str (IndexError s) = s"
| "exn_str (AssertionError s) = s"
| "exn_str (TimeoutError s) = s"
| "exn_str (RuntimeError s) = s"
| "exn_str (PermissionError s) = s"
| "exn_str (FileNotFoundError s) = s"
| "exn_str (IsADirectoryError s) = s"
| "exn_str (BrokenPipeError s) = s"
| "exn_str (WorkerBusyError s) = s"
| "exn_str (WorkerAlreadyStartedError s) = s"
| "exn_str (TransitionError s) = s"
| "exn_str (InvalidConfigError s) = s"
| "exn_str (InvalidRunnerStateError s) = s"
| "exn_str (RpcError s) = s"
| "exn_str (BlueskyRunStructureError s) = s"
| "exn_str (ValidationError s _) = s"
| "exn_str (HTTPException code d) =
     show_nat code @ '': '' @ (case d of DText t \<Rightarrow> t | NoDetail \<Rightarrow> [] | DErrors _ \<Rightarrow> ''...'')"
| "exn_str (ExceptionGroup s es) =
     s @ '' ('' @ show_nat (length es) @ '' sub-exception'' @ (if length es = 1 then [] else ''s'') @ '')''"
| "exn_str (ForeignError _ s) = s"

text \<open>Sequencing of computations that can raise.\<close>

fun bind_r :: "'a result \<Rightarrow> ('a \<Rightarrow> 'b result) \<Rightarrow> 'b result" where
  "bind_r (Inl e) f = Inl e"
| "bind_r (Inr x) f = f x"

fun mapM_r :: "('a \<Rightarrow> 'b result) \<Rightarrow> 'a list \<Rightarrow> 'b list result" where
  "mapM_r f [] = Inr []"
| "mapM_r f (x # xs) = bind_r (f x) (\<lambda>y. bind_r (mapM_r f xs) (\<lambda>ys. Inr (y # ys)))"

lemma bind_r_Inr [simp]: "bind_r m f = Inr y \<longleftrightarrow> (\<exists>x. m = Inr x \<and> f x = Inr y)"
  by (cases m) auto

lemma bind_r_Inl: "bind_r m f = Inl e \<longleftrightarrow> m = Inl e \<or> (\<exists>x. m = Inr x \<and> f x = Inl e)"
  by (cases m) auto

lemma mapM_r_length: "mapM_r f xs = Inr ys \<Longrightarrow> length ys = length xs"
  by (induction xs arbitrary: ys) auto

lemma mapM_r_nth: "mapM_r f xs = Inr ys \<Longrightarrow> i < length xs \<Longrightarrow> f (xs ! i) = Inr (ys ! i)"
  by (induction xs arbitrary: ys i) (auto simp: nth_Cons split: nat.splits)


subsection \<open>Dictionaries\<close>

text \<open>
  A dictionary is an association list with distinct keys in insertion order. \<open>d[k] = v\<close> is
  \<^term>\<open>AList.update\<close>, \<open>d.get(k)\<close> is \<^term>\<open>map_of\<close>, \<open>d.pop(k)\<close> and \<open>del d[k]\<close> raise
  on a missing key, \<open>d.values()\<close> is the list of second components.
\<close>

abbreviation dict_ok :: "('k \<times> 'v) list \<Rightarrow> bool" where
  "dict_ok d \<equiv> distinct (map fst d)"

abbreviation dict_set :: "'k \<Rightarrow> 'v \<Rightarrow> ('k \<times> 'v) list \<Rightarrow> ('k \<times> 'v) list" where
  "dict_set \<equiv> AList.update"

abbreviation dict_del :: "'k \<Rightarrow> ('k \<times> 'v) list \<Rightarrow> ('k \<times> 'v) list" where
  "dict_del \<equiv> AList.delete"

abbreviation dict_values :: "('k \<times> 'v) list \<Rightarrow> 'v list" where
  "dict_values d \<equiv> map snd d"

abbreviation dict_keys :: "('k \<times> 'v) list \<Rightarrow> 'k list" where
  "dict_keys d \<equiv> map fst d"

text \<open>\<open>old.update(new)\<close> and \<open>{**old, **new}\<close>.\<close>

definition dict_update :: "('k \<times> 'v) list \<Rightarrow> ('k \<times> 'v) list \<Rightarrow> ('k \<times> 'v) list" where
  "dict_update old new = fold (\<lambda>(k, v) d. dict_set k v d) new old"

lemmas dict_lookup_set [dict_simps, simp] = AList.update_conv'
lemmas dict_lookup_del [dict_simps, simp] = AList.delete_conv'
lemmas dict_keys_set [dict_simps] = AList.update_keys

lemma dict_ok_set [simp, intro]: "dict_ok d \<Longrightarrow> dict_ok (dict_set k v d)"
  by (rule distinct_update)

lemma dict_ok_del [simp, intro]: "dict_ok d \<Longrightarrow> dict_ok (dict_del k d)"
  by (rule distinct_delete)

lemma dict_set_new [dict_simps]: "k \<notin> fst ` set d \<Longrightarrow> dict_set k v d = d @ [(k, v)]"
  by (induction d) auto

lemma dict_set_keys_mem: "fst ` set (dict_set k v d) = insert k (fst ` set d)"
  by (simp add: dom_update)

lemma dict_del_eq_filter: "dict_del k d = filter (\<lambda>p. fst p \<noteq> k) d"
  by (induction d) auto

lemma dict_del_set_new: "k \<notin> fst ` set d \<Longrightarrow> dict_del k (dict_set k v d) = d"
  by (induction d) auto

lemma map_of_mem: "dict_ok d \<Longrightarrow> map_of d k = Some v \<longleftrightarrow> (k, v) \<in> set d"
  by (metis map_of_SomeD map_of_is_SomeI)

lemma map_of_None_keys: "map_of d k = None \<longleftrightarrow> k \<notin> fst ` set d"
  by (simp add: map_of_eq_None_iff)

subsection \<open>The interface of a keyed store\<close>

text \<open>
  Registries of the sources (dictionaries, the device and plan registries, the task registry of
  the worker, the client's caches) promise the same thing: what was stored last under a key is
  what a lookup returns, and other keys are not touched. \<open>ok\<close> is the provider's invariant.
\<close>

locale keyed_store =
  fixes ok :: "'s \<Rightarrow> bool"
    and look :: "'s \<Rightarrow> 'k \<Rightarrow> 'v option"
    and put :: "'k \<Rightarrow> 'v \<Rightarrow> 's \<Rightarrow> 's"
  assumes look_put: "ok s \<Longrightarrow> look (put k v s) = (look s)(k \<mapsto> v)"
    and ok_put: "ok s \<Longrightarrow> ok (put k v s)"
begin

lemma look_put_same: "ok s \<Longrightarrow> look (put k v s) k = Some v"
  by (simp add: look_put)

lemma look_put_other: "ok s \<Longrightarrow> k' \<noteq> k \<Longrightarrow> look (put k v s) k' = look s k'"
  by (simp add: look_put)

lemma ok_put_all: "ok s \<Longrightarrow> ok (fold (\<lambda>(k, v). put k v) kvs s)"
  by (induction kvs arbitrary: s) (auto intro: ok_put)

lemma look_put_all:
  "ok s \<Longrightarrow> look (fold (\<lambda>(k, v). put k v) kvs s) = look s ++ map_of (rev kvs)"
proof (induction kvs arbitrary: s)
  case (Cons p kvs)
  obtain k v where p: "p = (k, v)" by (cases p)
  from Cons.prems have "ok (put k v s)" by (rule ok_put)
  from Cons.IH [OF this] show ?case
    using Cons.prems by (simp add: p look_put map_add_upd_left map_add_def fun_eq_iff split: option.splits)
qed simp

lemma look_put_all_distinct:
  assumes "ok s" and "distinct (map fst kvs)" and "(k, v) \<in> set kvs"
  shows "look (fold (\<lambda>(k, v). put k v) kvs s) k = Some v"
proof -
  have "distinct (map fst (rev kvs))" using assms(2) by (metis distinct_rev rev_map)
  then have "map_of (rev kvs) k = Some v" using assms(3) by simp
  with assms(1) show ?thesis by (simp add: look_put_all map_add_Some_iff)
qed

lemma look_put_all_new:
  "ok s \<Longrightarrow> k \<notin> fst ` set kvs \<Longrightarrow> look (fold (\<lambda>(k, v). put k v) kvs s) k = look s k"
  by (simp add: look_put_all map_add_def map_of_eq_None_iff [THEN iffD2])

end

locale removable_store = keyed_store ok look put
  for ok :: "'s \<Rightarrow> bool" and look :: "'s \<Rightarrow> 'k \<Rightarrow> 'v option" and put :: "'k \<Rightarrow> 'v \<Rightarrow> 's \<Rightarrow> 's" +
  fixes del :: "'k \<Rightarrow> 's \<Rightarrow> 's"
  assumes look_del: "ok s \<Longrightarrow> look (del k s) = (look s)(k := None)"
    and ok_del: "ok s \<Longrightarrow> ok (del k s)"
begin

lemma look_del_put: "ok s \<Longrightarrow> look s k = None \<Longrightarrow> look (del k (put k v s)) = look s"
  by (simp add: look_del look_put ok_put fun_upd_idem)

lemma look_del_other: "ok s \<Longrightarrow> k' \<noteq> k \<Longrightarrow> look (del k s) k' = look s k'"
  by (simp add: look_del)

end

interpretation dict: removable_store "dict_ok" map_of dict_set dict_del
  by unfold_locales auto

lemma dict_update_lookup [dict_simps]:
  "dict_ok old \<Longrightarrow> map_of (dict_update old new) = map_of old ++ map_of (rev new)"
  unfolding dict_update_def by (rule dict.look_put_all)

lemma dict_update_ok [simp, intro]: "dict_ok old \<Longrightarrow> dict_ok (dict_update old new)"
  unfolding dict_update_def by (rule dict.ok_put_all)

lemma dict_update_keys: "fst ` set (dict_update old new) = fst ` set old \<union> fst ` set new"
  unfolding dict_update_def
  by (induction new arbitrary: old) (simp_all add: dict_set_keys_mem case_prod_beta)

text \<open>A dictionary comprehension \<open>{key(x): value(x) for x in xs}\<close>.\<close>

definition dict_comp :: "('a \<Rightarrow> 'k) \<Rightarrow> ('a \<Rightarrow> 'v) \<Rightarrow> 'a list \<Rightarrow> ('k \<times> 'v) list" where
  "dict_comp key val xs = dict_update [] (map (\<lambda>x. (key x, val x)) xs)"

lemma dict_comp_ok [simp, intro]: "dict_ok (dict_comp key val xs)"
  by (auto simp: dict_comp_def)

lemma dict_comp_lookup:
  "map_of (dict_comp key val xs) = map_of (rev (map (\<lambda>x. (key x, val x)) xs))"
  by (simp add: dict_comp_def dict_update_lookup)

lemma dict_comp_distinct:
  "distinct (map key xs) \<Longrightarrow> x \<in> set xs \<Longrightarrow> map_of (dict_comp key val xs) (key x) = Some (val x)"
  by (auto simp: dict_comp_lookup comp_def rev_map [symmetric] distinct_rev intro!: map_of_is_SomeI)

lemma dict_comp_keys: "fst ` set (dict_comp key val xs) = key ` set xs"
  by (auto simp: dict_comp_def dict_update_keys image_iff)

end
