(* ===== verification/Events.thy ===== *)
theory Events
  imports PyStrings
begin

section \<open>The event publisher (core/event.py)\<close>

text \<open>
  \<open>EventPublisher\<close> keeps its subscriptions in a dictionary from tokens to callbacks and hands
  out tokens from \<open>itertools.count()\<close>. A callback acts on the state of the program, so
  \<open>publish\<close> threads a state \<open>'s\<close> through the calls; \<open>call cb ev cid s\<close> is what calling the
  callback \<open>cb\<close> does. \<open>publish\<close> first copies the list of callbacks, so that one that
  unsubscribes itself (as the service layer's does) cannot disturb the delivery, and it collects
  the exceptions instead of stopping at the first.

  The abstract base class \<open>EventStream\<close> is the locale \<open>event_stream\<close>, which extends the part that
  other sources of events share (\<open>event_source\<close>); the publisher interprets it.
\<close>

subsection \<open>The interface\<close>

locale event_source =
  fixes ok :: "'p \<Rightarrow> bool"
    and active :: "'p \<Rightarrow> (nat \<times> 'cb) list"
    and sub :: "'cb \<Rightarrow> 'p \<Rightarrow> nat \<times> 'p"
    and unsub :: "nat \<Rightarrow> 'p \<Rightarrow> unit result \<times> 'p"
  assumes sub_active: "ok p \<Longrightarrow> active (snd (sub cb p)) = active p @ [(fst (sub cb p), cb)]"
    and sub_fresh: "ok p \<Longrightarrow> fst (sub cb p) \<notin> fst ` set (active p)"
    and sub_ok: "ok p \<Longrightarrow> ok (snd (sub cb p))"
    and unsub_known: "ok p \<Longrightarrow> t \<in> fst ` set (active p) \<Longrightarrow>
      fst (unsub t p) = Inr () \<and> active (snd (unsub t p)) = filter (\<lambda>q. fst q \<noteq> t) (active p)"
    and unsub_unknown: "ok p \<Longrightarrow> t \<notin> fst ` set (active p) \<Longrightarrow>
      (\<exists>e. fst (unsub t p) = Inl e) \<and> snd (unsub t p) = p"
    and unsub_ok: "ok p \<Longrightarrow> ok (snd (unsub t p))"
begin

lemma stream_sub_unsub:
  assumes "ok p"
  shows "fst (unsub (fst (sub cb p)) (snd (sub cb p))) = Inr ()"
    and "active (snd (unsub (fst (sub cb p)) (snd (sub cb p)))) = active p"
proof -
  from assms have ok': "ok (snd (sub cb p))" by (rule sub_ok)
  have mem: "fst (sub cb p) \<in> fst ` set (active (snd (sub cb p)))"
    using assms by (simp add: sub_active)
  have flt: "filter (\<lambda>q. fst q \<noteq> fst (sub cb p)) (active p) = active p"
    using sub_fresh [OF assms, of cb] by (force simp: filter_id_conv)
  show "fst (unsub (fst (sub cb p)) (snd (sub cb p))) = Inr ()"
    using unsub_known [OF ok' mem] by simp
  show "active (snd (unsub (fst (sub cb p)) (snd (sub cb p)))) = active p"
    using unsub_known [OF ok' mem] by (simp add: sub_active [OF assms] flt)
qed

lemma stream_unsub_twice:
  assumes "ok p"
  shows "\<exists>e. fst (unsub t (snd (unsub t p))) = Inl e"
proof (cases "t \<in> fst ` set (active p)")
  case True
  with unsub_known [OF assms True] have "t \<notin> fst ` set (active (snd (unsub t p)))" by auto
  then show ?thesis using unsub_unknown [OF unsub_ok [OF assms]] by blast
next
  case False
  then show ?thesis using unsub_unknown [OF assms False] by auto
qed

lemma stream_unsub_other:
  "ok p \<Longrightarrow> t' \<noteq> t \<Longrightarrow> (t', cb) \<in> set (active p) \<Longrightarrow> (t', cb) \<in> set (active (snd (unsub t p)))"
  by (cases "t \<in> fst ` set (active p)") (auto simp: unsub_known unsub_unknown)

lemma stream_tokens_distinct:
  "ok p \<Longrightarrow> fst (sub cb p) \<noteq> fst (sub cb' (snd (sub cb p)))"
  using sub_fresh [of "snd (sub cb p)" cb'] by (auto simp: sub_active sub_ok)

end

text \<open>A stream whose subscriptions can also be dropped all at once.\<close>

locale event_stream = event_source ok active sub unsub
  for ok :: "'p \<Rightarrow> bool" and active :: "'p \<Rightarrow> (nat \<times> 'cb) list" and sub :: "'cb \<Rightarrow> 'p \<Rightarrow> nat \<times> 'p"
    and unsub :: "nat \<Rightarrow> 'p \<Rightarrow> unit result \<times> 'p" +
  fixes unsub_all :: "'p \<Rightarrow> 'p"
  assumes unsub_all_active: "active (unsub_all p) = []"
    and unsub_all_ok: "ok p \<Longrightarrow> ok (unsub_all p)"
begin

lemma stream_unsub_all: "t \<notin> fst ` set (active (unsub_all p))"
  by (simp add: unsub_all_active)

end

subsection \<open>The publisher\<close>

record 'cb publisher =
  subscriptions :: "(nat \<times> 'cb) list"
  sub_count :: nat

definition new_publisher :: "'cb publisher" where
  "new_publisher = \<lparr>subscriptions = [], sub_count = 0\<rparr>"

definition subscribe :: "'cb \<Rightarrow> 'cb publisher \<Rightarrow> nat \<times> 'cb publisher" where
  "subscribe callback p =
     (let sub_id = sub_count p
      in (sub_id, p\<lparr>subscriptions := dict_set sub_id callback (subscriptions p),
                    sub_count := Suc (sub_count p)\<rparr>))"

definition unsubscribe :: "nat \<Rightarrow> 'cb publisher \<Rightarrow> unit result \<times> 'cb publisher" where
  "unsubscribe subscription p =
     (case map_of (subscriptions p) subscription of
        None \<Rightarrow> (Inl (KeyError (show_nat subscription)), p)
      | Some _ \<Rightarrow> (Inr (), p\<lparr>subscriptions := dict_del subscription (subscriptions p)\<rparr>))"

definition unsubscribe_all :: "'cb publisher \<Rightarrow> 'cb publisher" where
  "unsubscribe_all p = p\<lparr>subscriptions := []\<rparr>"

text \<open>The loop of \<open>publish\<close>: every callback of the copied list is called.\<close>

fun deliver :: "('cb \<Rightarrow> 'ev \<Rightarrow> string option \<Rightarrow> 's \<Rightarrow> unit result \<times> 's) \<Rightarrow>
    'cb list \<Rightarrow> 'ev \<Rightarrow> string option \<Rightarrow> 's \<Rightarrow> exn list \<times> 's" where
  "deliver call [] ev cid s = ([], s)"
| "deliver call (cb # cbs) ev cid s =
     (case call cb ev cid s of
        (Inr _, s') \<Rightarrow> deliver call cbs ev cid s'
      | (Inl e, s') \<Rightarrow> (let (errs, s'') = deliver call cbs ev cid s' in (e # errs, s'')))"

definition publish :: "('ev \<Rightarrow> string) \<Rightarrow>
    ('cb \<Rightarrow> 'ev \<Rightarrow> string option \<Rightarrow> 's \<Rightarrow> unit result \<times> 's) \<Rightarrow>
    'cb publisher \<Rightarrow> 'ev \<Rightarrow> string option \<Rightarrow> 's \<Rightarrow> unit result \<times> 's" where
  "publish str_of call p event correlation_id s =
     (let (errs, s') = deliver call (dict_values (subscriptions p)) event correlation_id s
      in if errs \<noteq> []
         then (Inl (ExceptionGroup (''Error(s) publishing event: '' @ str_of event) errs), s')
         else (Inr (), s'))"

text \<open>Tokens are distinct and below the counter, so a new one is never in use.\<close>

definition publisher_ok :: "'cb publisher \<Rightarrow> bool" where
  "publisher_ok p \<longleftrightarrow>
     dict_ok (subscriptions p) \<and> list_all (\<lambda>q. fst q < sub_count p) (subscriptions p)"

lemma new_publisher_ok [simp]: "publisher_ok new_publisher"
  by (simp add: publisher_ok_def new_publisher_def)

lemma fresh_token: "publisher_ok p \<Longrightarrow> sub_count p \<notin> fst ` set (subscriptions p)"
  by (auto simp: publisher_ok_def list_all_iff)

lemma subscribe_token [simp]: "fst (subscribe cb p) = sub_count p"
  by (simp add: subscribe_def Let_def)

lemma unsubscribe_all_ok: "publisher_ok p \<Longrightarrow> publisher_ok (p\<lparr>subscriptions := []\<rparr>)"
  by (simp add: publisher_ok_def)

lemma subscribe_active:
  "publisher_ok p \<Longrightarrow>
     subscriptions (snd (subscribe cb p)) = subscriptions p @ [(fst (subscribe cb p), cb)]"
  by (simp add: subscribe_def Let_def dict_set_new fresh_token)

lemma subscribe_ok: "publisher_ok p \<Longrightarrow> publisher_ok (snd (subscribe cb p))"
  using fresh_token [of p]
  by (auto simp: publisher_ok_def subscribe_def Let_def dict_set_new list_all_iff less_Suc_eq)

lemma unsubscribe_ok: "publisher_ok p \<Longrightarrow> publisher_ok (snd (unsubscribe t p))"
  by (auto simp: publisher_ok_def unsubscribe_def list_all_iff dict_del_eq_filter distinct_map_filter
      split: option.splits)

interpretation pub: event_stream publisher_ok subscriptions subscribe unsubscribe unsubscribe_all
proof unfold_locales
  fix p :: "'cb publisher" and t
  assume "publisher_ok p" "t \<in> fst ` set (subscriptions p)"
  then obtain cb where "map_of (subscriptions p) t = Some cb"
    by (metis map_of_None_keys not_Some_eq)
  then show "fst (unsubscribe t p) = Inr () \<and>
      subscriptions (snd (unsubscribe t p)) = filter (\<lambda>q. fst q \<noteq> t) (subscriptions p)"
    by (simp add: unsubscribe_def dict_del_eq_filter)
next
  fix p :: "'cb publisher" and t
  assume "t \<notin> fst ` set (subscriptions p)"
  then have "map_of (subscriptions p) t = None" by (simp add: map_of_None_keys)
  then show "(\<exists>e. fst (unsubscribe t p) = Inl e) \<and> snd (unsubscribe t p) = p"
    by (simp add: unsubscribe_def)
qed (simp_all add: subscribe_active subscribe_ok unsubscribe_ok fresh_token subscribe_token
      unsubscribe_all_def unsubscribe_all_ok)

subsection \<open>Delivery\<close>

lemma deliver_state: "snd (deliver call cbs ev cid s) = fold (\<lambda>cb s. snd (call cb ev cid s)) cbs s"
proof (induction cbs arbitrary: s)
  case (Cons cb cbs)
  obtain r s' where "call cb ev cid s = (r, s')" by (cases "call cb ev cid s")
  with Cons.IH [of s'] show ?case by (cases r) (simp_all add: case_prod_beta)
qed simp

text \<open>The callback at position \<open>i\<close> runs in the state the earlier ones left.\<close>

definition state_before :: "('cb \<Rightarrow> 'ev \<Rightarrow> string option \<Rightarrow> 's \<Rightarrow> unit result \<times> 's) \<Rightarrow>
    'cb list \<Rightarrow> 'ev \<Rightarrow> string option \<Rightarrow> 's \<Rightarrow> nat \<Rightarrow> 's" where
  "state_before call cbs ev cid s i = fold (\<lambda>cb s. snd (call cb ev cid s)) (take i cbs) s"

definition error_of :: "unit result \<Rightarrow> exn list" where
  "error_of r = (case r of Inl e \<Rightarrow> [e] | Inr _ \<Rightarrow> [])"

lemma deliver_errors:
  "fst (deliver call cbs ev cid s) =
     concat (map (\<lambda>i. error_of (fst (call (cbs ! i) ev cid (state_before call cbs ev cid s i))))
       [0..<length cbs])"
proof (induction cbs arbitrary: s)
  case (Cons cb cbs)
  obtain r s' where c: "call cb ev cid s = (r, s')" by (cases "call cb ev cid s")
  have sh: "[0..<length (cb # cbs)] = 0 # map Suc [0..<length cbs]"
    by (simp add: map_Suc_upt upt_conv_Cons del: upt_Suc)
  show ?case
    unfolding sh using Cons.IH [of s']
    by (cases r) (simp_all add: c state_before_def comp_def error_of_def case_prod_beta)
qed simp

lemma publish_ok_iff:
  "fst (publish str_of call p ev cid s) = Inr () \<longleftrightarrow>
     fst (deliver call (dict_values (subscriptions p)) ev cid s) = []"
  by (auto simp: publish_def case_prod_beta)

lemma publish_state:
  "snd (publish str_of call p ev cid s) =
     fold (\<lambda>cb s. snd (call cb ev cid s)) (dict_values (subscriptions p)) s"
  by (simp add: publish_def case_prod_beta deliver_state)

text \<open>
  Claim C9. \<open>publish\<close> calls every callback that was subscribed when it started, in the order of
  subscription, whatever the earlier callbacks raised or changed; it raises exactly when one of
  them raised, and then the exception group holds their exceptions in that order.
\<close>

theorem publish_reaches_every_subscriber:
  fixes call :: "'cb \<Rightarrow> 'ev \<Rightarrow> string option \<Rightarrow> 's \<Rightarrow> unit result \<times> 's"
  defines "cbs p \<equiv> dict_values (subscriptions p)"
  defines "errs p ev cid s \<equiv> concat (map (\<lambda>i. error_of (fst (call (cbs p ! i) ev cid
              (state_before call (cbs p) ev cid s i)))) [0..<length (cbs p)])"
  shows "snd (publish str_of call p ev cid s) = fold (\<lambda>cb s. snd (call cb ev cid s)) (cbs p) s \<and>
    fst (publish str_of call p ev cid s) =
      (if errs p ev cid s = [] then Inr ()
       else Inl (ExceptionGroup (''Error(s) publishing event: '' @ str_of ev) (errs p ev cid s)))"
  unfolding cbs_def errs_def deliver_errors [symmetric]
  by (simp add: publish_def case_prod_beta deliver_state)

text \<open>
  A subscription followed by its own unsubscription succeeds and leaves exactly the
  subscriptions that were there before, in their order; a second unsubscription with the same
  token raises and changes nothing.
\<close>

theorem subscribe_unsubscribe_balanced:
  assumes "publisher_ok p"
  shows "fst (unsubscribe (fst (subscribe cb p)) (snd (subscribe cb p))) = Inr () \<and>
    subscriptions (snd (unsubscribe (fst (subscribe cb p)) (snd (subscribe cb p)))) = subscriptions p \<and>
    (\<exists>e. fst (unsubscribe t (snd (unsubscribe t p))) = Inl e)"
  using pub.stream_sub_unsub [OF assms] pub.stream_unsub_twice [OF assms] by blast

theorem subscribe_unsubscribe_balanced_witness:
  "publisher_ok (new_publisher :: nat publisher) \<and>
   subscriptions (snd (unsubscribe (fst (subscribe (7 :: nat) new_publisher)) (snd (subscribe (7 :: nat) new_publisher)))) = []"
proof -
  have "subscriptions (snd (unsubscribe (fst (subscribe (7 :: nat) new_publisher))
      (snd (subscribe (7 :: nat) new_publisher)))) = subscriptions new_publisher"
    using subscribe_unsubscribe_balanced [OF new_publisher_ok, where cb = "7 :: nat"] by blast
  then show ?thesis by (simp add: new_publisher_def publisher_ok_def)
qed

end
