(* ===== verification/Devices.thy ===== *)
theory Devices
  imports PyStrings
begin

section \<open>Devices, types and device addresses (core/device_lookup.py, core/bluesky_types.py)\<close>

text \<open>
  Python's classes, annotations and objects as far as the context inspects them. What the
  interpreter answers by reflection is data of the model: a class carries the names of its
  superclasses and of the runtime-checkable protocols its class object satisfies, an instance the
  names of everything \<open>isinstance\<close> holds for. \<open>find_component\<close> walks an address through
  dictionaries and device attributes; \<open>at_path\<close> is the specification of that walk.
\<close>

subsection \<open>Classes, annotations, objects\<close>

record cls =
  cls_module :: string
  cls_qualname :: string
  cls_supers :: "string list"    \<comment> \<open>full names of all superclasses, itself included\<close>
  cls_conforms :: "string list"  \<comment> \<open>protocols the class object itself is an instance of\<close>
  cls_composite :: bool          \<comment> \<open>a pydantic \<open>BaseModel\<close> or a dataclass\<close>
  cls_fields :: "string list"    \<comment> \<open>field names of such a class\<close>

definition cls_full :: "cls \<Rightarrow> string" where
  "cls_full c = cls_module c @ ''.'' @ cls_qualname c"

datatype pyty =
    TClass cls
  | TGen cls "pyty list"      \<comment> \<open>\<open>origin[args]\<close>\<close>
  | TUnion "pyty list"        \<comment> \<open>\<open>Union[...]\<close>\<close>
  | TPipe "pyty list"         \<comment> \<open>\<open>a | b\<close>, whose origin is \<open>types.UnionType\<close>\<close>
  | TNone
  | TAny
  | TVar string

record dev_info =
  dv_class :: cls
  dv_insts :: "string list"    \<comment> \<open>full names of classes and protocols it is an instance of\<close>
  dv_name :: "string option"   \<comment> \<open>its \<open>name\<close>, for an instance of \<open>HasName\<close>\<close>
  dv_orig_bases :: "pyty list" \<comment> \<open>its \<open>__orig_bases__\<close>\<close>

datatype pyobj =
    NoneObj
  | DictObj "(string \<times> pyobj) list"
  | InstObj dev_info "(string \<times> pyobj) list"
  | ClassObj cls

definition bluesky_protocols :: "string list" where
  "bluesky_protocols =
     map (\<lambda>n. ''bluesky.protocols.'' @ n)
       [''Checkable'', ''Flyable'', ''Movable'', ''Pausable'', ''Readable'', ''Stageable'',
        ''Stoppable'', ''Subscribable'', ''WritesExternalAssets'', ''Configurable'', ''Triggerable'']
     @ [''ophyd_async.core.Device'']"

definition async_device :: string where
  "async_device = ''ophyd_async.core.Device''"

fun isclass :: "pyobj \<Rightarrow> bool" where
  "isclass (ClassObj _) = True"
| "isclass _ = False"

fun follows_bluesky_protocols :: "pyobj \<Rightarrow> bool" where
  "follows_bluesky_protocols (InstObj i _) = list_ex (\<lambda>p. p \<in> set (dv_insts i)) bluesky_protocols"
| "follows_bluesky_protocols (ClassObj c) = list_ex (\<lambda>p. p \<in> set (cls_conforms c)) bluesky_protocols"
| "follows_bluesky_protocols _ = False"

definition is_bluesky_compatible_device :: "pyobj \<Rightarrow> bool" where
  "is_bluesky_compatible_device obj \<longleftrightarrow> \<not> isclass obj \<and> follows_bluesky_protocols obj"

definition is_bluesky_compatible_device_type :: "pyobj \<Rightarrow> bool" where
  "is_bluesky_compatible_device_type obj \<longleftrightarrow> isclass obj \<and> follows_bluesky_protocols obj"

lemma device_is_instance:
  "is_bluesky_compatible_device obj \<longleftrightarrow>
     (\<exists>i attrs. obj = InstObj i attrs \<and> list_ex (\<lambda>p. p \<in> set (dv_insts i)) bluesky_protocols)"
  by (cases obj) (auto simp: is_bluesky_compatible_device_def)

lemma device_type_is_no_device:
  "is_bluesky_compatible_device_type obj \<Longrightarrow> \<not> is_bluesky_compatible_device obj"
  by (simp add: is_bluesky_compatible_device_def is_bluesky_compatible_device_type_def)

subsection \<open>Finding a component by its address\<close>

text \<open>
  \<open>getattr(obj, head, None)\<close> on an instance. The texts of the two \<open>ValueError\<close>s leave out the
  \<open>str\<close> of the objects.
\<close>

fun get_attr :: "pyobj \<Rightarrow> string \<Rightarrow> pyobj" where
  "get_attr (InstObj i attrs) a = (case map_of attrs a of None \<Rightarrow> NoneObj | Some c \<Rightarrow> c)"
| "get_attr _ a = NoneObj"

definition get_component :: "pyobj \<Rightarrow> string list \<Rightarrow> pyobj result" where
  "get_component obj addr =
     (case obj of
        DictObj d \<Rightarrow> Inr (case map_of d (hd addr) of None \<Rightarrow> NoneObj | Some c \<Rightarrow> c)
      | _ \<Rightarrow>
          if is_bluesky_compatible_device obj then Inr (get_attr obj (hd addr))
          else Inl (ValueError (''Searching for '' @ py_list_str addr @
                 '', but it is not a device or a dictionary'')))"

fun find_component :: "pyobj \<Rightarrow> string list \<Rightarrow> pyobj result" where
  "find_component obj [] = Inl (IndexError ''list index out of range'')"
| "find_component obj (head # tail) =
     bind_r (get_component obj (head # tail))
       (\<lambda>component.
          if tail \<noteq> [] then find_component component tail
          else if is_bluesky_compatible_device component \<or> component = NoneObj then Inr component
          else Inl (ValueError (''Found while searching for '' @ py_list_str (head # tail) @
                 '' but it is not a device'')))"

text \<open>The address leads from an object to a component: through dictionary keys and through
  attributes of devices.\<close>

inductive at_path :: "pyobj \<Rightarrow> string list \<Rightarrow> pyobj \<Rightarrow> bool" where
  in_dict: "map_of d head = Some c \<Longrightarrow> at_path (DictObj d) [head] c"
| in_device: "is_bluesky_compatible_device (InstObj i attrs) \<Longrightarrow> map_of attrs head = Some c \<Longrightarrow>
    at_path (InstObj i attrs) [head] c"
| deeper: "at_path obj [head] m \<Longrightarrow> tail \<noteq> [] \<Longrightarrow> at_path m tail c \<Longrightarrow> at_path obj (head # tail) c"

inductive_cases at_path_singleE: "at_path obj [head] c"
inductive_cases at_path_consE: "at_path obj (head # tail) c"
inductive_simps at_path_dict: "at_path (DictObj d) [head] c"
inductive_simps at_path_inst: "at_path (InstObj i attrs) [head] c"

lemma at_path_deterministic: "at_path obj addr c \<Longrightarrow> at_path obj addr c' \<Longrightarrow> c' = c"
proof (induction arbitrary: c' rule: at_path.induct)
  case (deeper obj head m tail c)
  from deeper.prems deeper.hyps(2) obtain m' where "at_path obj [head] m'" "at_path m' tail c'"
    by (auto elim: at_path_consE)
  with deeper.IH show ?case by blast
qed (auto elim: at_path_singleE)

lemma at_path_not_none: "at_path obj addr c \<Longrightarrow> obj \<noteq> NoneObj"
  by (induction rule: at_path.induct) auto

lemma get_component_at_path:
  "get_component obj (head # tail) = Inr m \<Longrightarrow> m \<noteq> NoneObj \<Longrightarrow> at_path obj [head] m"
  by (cases obj)
    (auto simp: get_component_def is_bluesky_compatible_device_def
      intro!: at_path.in_dict at_path.in_device split: option.splits if_splits)

lemma at_path_get_component: "at_path obj [head] m \<Longrightarrow> get_component obj (head # tail) = Inr m"
  by (auto simp: get_component_def elim!: at_path_singleE)

lemma find_component_sound:
  "find_component obj addr = Inr c \<Longrightarrow> c \<noteq> NoneObj \<Longrightarrow> at_path obj addr c \<and> is_bluesky_compatible_device c"
proof (induction obj addr rule: find_component.induct)
  case (2 obj head tail)
  show ?case
  proof (cases "tail = []")
    case True
    with "2.prems" show ?thesis by (auto intro: get_component_at_path split: if_splits)
  next
    case False
    with "2.prems"(1) obtain m where m: "get_component obj (head # tail) = Inr m" "find_component m tail = Inr c"
      by auto
    from "2.IH" [OF False m(2) "2.prems"(2)] have IH: "at_path m tail c" "is_bluesky_compatible_device c"
      by simp_all
    have "at_path obj [head] m"
      using get_component_at_path [OF m(1)] at_path_not_none [OF IH(1)] by blast
    with IH False show ?thesis by (blast intro: at_path.deeper)
  qed
qed simp

lemma find_component_complete:
  "at_path obj addr c \<Longrightarrow> is_bluesky_compatible_device c \<or> c = NoneObj \<Longrightarrow> find_component obj addr = Inr c"
proof (induction rule: at_path.induct)
  case (deeper obj head m tail c)
  then show ?case by (simp add: at_path_get_component)
next
  case (in_dict d head c)
  then show ?case by (auto simp: get_component_def)
next
  case (in_device i attrs head c)
  then show ?case by (auto simp: get_component_def)
qed

text \<open>
  Claim C13. \<open>find_component\<close> returns a component exactly when the address leads to it through
  dictionary keys and device attributes and it is a device.
\<close>

theorem find_component_iff_at_path:
  assumes "c \<noteq> NoneObj"
  shows "find_component obj addr = Inr c \<longleftrightarrow> at_path obj addr c \<and> is_bluesky_compatible_device c"
  using assms find_component_sound find_component_complete by blast

definition sim_motor :: "string \<Rightarrow> (string \<times> pyobj) list \<Rightarrow> pyobj" where
  "sim_motor n attrs =
     InstObj \<lparr>dv_class = \<lparr>cls_module = ''ophyd_async.sim'', cls_qualname = ''SimMotor'',
                cls_supers = [''ophyd_async.sim.SimMotor'', ''ophyd_async.core.Device''], cls_conforms = [],
                cls_composite = False, cls_fields = []\<rparr>,
              dv_insts = [''ophyd_async.core.Device'', ''bluesky.protocols.Movable''],
              dv_name = Some n, dv_orig_bases = []\<rparr> attrs"

lemma sim_motor_device [simp]: "is_bluesky_compatible_device (sim_motor n attrs)"
  by (simp add: sim_motor_def is_bluesky_compatible_device_def bluesky_protocols_def)

theorem find_component_iff_at_path_witness:
  "find_component (DictObj [(''stage'', sim_motor ''stage'' [(''x'', sim_motor ''stage-x'' [])])]) [''stage'', ''x'']
     = Inr (sim_motor ''stage-x'' [])"
proof -
  have n: "sim_motor ''stage-x'' [] \<noteq> NoneObj" by (simp add: sim_motor_def)
  have "at_path (DictObj [(''stage'', sim_motor ''stage'' [(''x'', sim_motor ''stage-x'' [])])]) [''stage'', ''x'']
      (sim_motor ''stage-x'' [])"
    by (rule at_path.deeper [where m = "sim_motor ''stage'' [(''x'', sim_motor ''stage-x'' [])]"])
      (auto intro: at_path.in_dict simp: sim_motor_def at_path_inst is_bluesky_compatible_device_def
        bluesky_protocols_def)
  then show ?thesis using find_component_iff_at_path [OF n] sim_motor_device by blast
qed

text \<open>
  A missing last component is \<open>None\<close>, but a missing component on the way is a \<open>ValueError\<close>.
\<close>

lemma find_component_missing_parent:
  "map_of d p = None \<Longrightarrow> \<exists>m. find_component (DictObj d) [p, q] = Inl (ValueError m)"
  by (simp add: get_component_def is_bluesky_compatible_device_def)

end
