(* ===== verification/TypeSpecs.thy ===== *)
theory TypeSpecs
  imports Devices
begin

section \<open>Annotations of plans and devices (core/context.py)\<close>

text \<open>
  How the context turns the annotations of a plan's parameters into types pydantic can validate:
  every Bluesky type at a position \<open>_convert_type\<close> reaches becomes a \<open>Reference\<close>, whose validator
  looks the device up by name and checks its type. \<open>is_compatible\<close> and \<open>generic_bounds\<close> are that
  check, \<open>_type_spec_for_function\<close> builds the fields of a plan's model.
\<close>

subsection \<open>Compatibility of a device with an annotation\<close>

fun is_tvar :: "pyty \<Rightarrow> bool" where
  "is_tvar (TVar _) = True"
| "is_tvar _ = False"

fun get_args :: "pyty \<Rightarrow> pyty list" where
  "get_args (TGen _ ts) = ts"
| "get_args (TUnion ts) = ts"
| "get_args (TPipe ts) = ts"
| "get_args _ = []"

text \<open>\<open>(get_origin(base) or base) == target\<close> for an entry of \<open>__orig_bases__\<close> and a class.\<close>

fun base_is :: "pyty \<Rightarrow> cls \<Rightarrow> bool" where
  "base_is (TGen c _) t = (cls_full c = cls_full t)"
| "base_is (TClass c) t = (cls_full c = cls_full t)"
| "base_is _ t = False"

definition generic_bounds :: "dev_info \<Rightarrow> cls \<Rightarrow> pyty list" where
  "generic_bounds v target =
     (case find (\<lambda>b. base_is b target) (dv_orig_bases v) of
        None \<Rightarrow> []
      | Some b \<Rightarrow> get_args b)"

text \<open>\<open>issubclass\<close> raises a \<open>TypeError\<close> on anything that is not a class.\<close>

definition issubclass :: "pyty \<Rightarrow> pyty \<Rightarrow> bool result" where
  "issubclass s t =
     (case s of
        TClass a \<Rightarrow>
          (case t of
             TClass b \<Rightarrow> Inr (cls_full b \<in> set (cls_supers a))
           | _ \<Rightarrow> Inl (TypeError ''issubclass() arg 2 must be a class, a tuple of classes, or a union''))
      | _ \<Rightarrow> Inl (TypeError ''issubclass() arg 1 must be a class''))"

definition arg_compatible :: "pyty \<Rightarrow> pyty \<Rightarrow> bool result" where
  "arg_compatible expected actual =
     (if actual = TAny \<or> is_tvar actual \<or> is_tvar expected \<or> expected = actual then Inr True
      else issubclass actual expected)"

fun all_r :: "bool result list \<Rightarrow> bool result" where
  "all_r [] = Inr True"
| "all_r (r # rs) = (case r of Inl e \<Rightarrow> Inl e | Inr False \<Rightarrow> Inr False | Inr True \<Rightarrow> all_r rs)"

definition is_compatible_args :: "dev_info \<Rightarrow> cls \<Rightarrow> pyty list option \<Rightarrow> bool result" where
  "is_compatible_args v target args =
     (case args of
        None \<Rightarrow> Inr True
      | Some as \<Rightarrow>
          if as = [] then Inr True
          else all_r (map (\<lambda>(expected, actual). arg_compatible expected actual)
                       (zip as (generic_bounds v target))))"

definition is_compatible :: "dev_info \<Rightarrow> cls \<Rightarrow> pyty list option \<Rightarrow> bool result" where
  "is_compatible v target args =
     (if cls_full target \<in> set (dv_insts v) then is_compatible_args v target args else Inr False)"

lemma all_r_True: "all_r rs = Inr True \<longleftrightarrow> (\<forall>r \<in> set rs. r = Inr True)"
  by (induction rs) (auto split: sum.splits bool.splits)

subsection \<open>Names of types\<close>

fun qualified_name :: "pyty \<Rightarrow> string" where
  "qualified_name (TVar _) = ''Any''"
| "qualified_name (TClass c) =
     (if cls_module c \<noteq> ''builtins'' then cls_module c @ ''.'' else []) @ cls_qualname c"
| "qualified_name (TGen c _) =
     (if cls_module c \<noteq> ''builtins'' then cls_module c @ ''.'' else []) @ cls_qualname c"
| "qualified_name TAny = ''typing.Any''"
| "qualified_name TNone = ''NoneType''"
| "qualified_name (TUnion _) = ''typing.Union''"
| "qualified_name (TPipe _) = ''types.UnionType''"

definition qualified_generic_name :: "pyty \<Rightarrow> string" where
  "qualified_generic_name target =
     qualified_name target @
     (if get_args target \<noteq> [] then ''['' @ join '', '' (map qualified_name (get_args target)) @ '']'' else [])"

subsection \<open>Converting annotations\<close>

definition class_is_bluesky :: "cls \<Rightarrow> bool" where
  "class_is_bluesky c \<longleftrightarrow>
     cls_full c \<in> set bluesky_protocols \<or>
     list_ex (\<lambda>p. p \<in> set (cls_conforms c)) bluesky_protocols \<or>
     async_device \<in> set (cls_supers c)"

text \<open>\<open>is_bluesky_type(get_origin(typ) or typ)\<close>.\<close>

fun is_bluesky_type :: "pyty \<Rightarrow> bool" where
  "is_bluesky_type (TClass c) = class_is_bluesky c"
| "is_bluesky_type (TGen c _) = class_is_bluesky c"
| "is_bluesky_type _ = False"

text \<open>What pydantic is given: references, skipped types, and the rest.\<close>

datatype conv =
    CRef pyty              \<comment> \<open>\<open>self._reference(typ)\<close>\<close>
  | CSkip conv             \<comment> \<open>\<open>SkipJsonSchema[...]\<close>\<close>
  | CGen cls "conv list"   \<comment> \<open>\<open>root[new_types]\<close>\<close>
  | CUnion "conv list"     \<comment> \<open>\<open>Union[new_types]\<close>\<close>
  | CKeep pyty             \<comment> \<open>returned as passed in\<close>

fun convert_type :: "bool \<Rightarrow> pyty \<Rightarrow> conv" where
  "convert_type no_default TNone = (if \<not> no_default then CSkip (CKeep TNone) else CKeep TNone)"
| "convert_type no_default (TClass c) = (if class_is_bluesky c then CRef (TClass c) else CKeep (TClass c))"
| "convert_type no_default (TGen c ts) =
     (if class_is_bluesky c then CRef (TGen c ts)
      else if ts \<noteq> [] then CGen c (map (convert_type no_default) ts)
      else CKeep (TGen c ts))"
| "convert_type no_default (TUnion ts) =
     (if ts \<noteq> [] then CUnion (map (convert_type no_default) ts) else CKeep (TUnion ts))"
| "convert_type no_default (TPipe ts) =
     (if ts \<noteq> [] then CUnion (map (convert_type no_default) ts) else CKeep (TPipe ts))"
| "convert_type no_default TAny = CKeep TAny"
| "convert_type no_default (TVar v) = CKeep (TVar v)"

text \<open>The annotations that are still handed to pydantic as written, and the references.\<close>

fun kept :: "conv \<Rightarrow> pyty set" where
  "kept (CRef t) = {}"
| "kept (CSkip c) = kept c"
| "kept (CGen c ts) = (\<Union>t \<in> set ts. kept t)"
| "kept (CUnion ts) = (\<Union>t \<in> set ts. kept t)"
| "kept (CKeep t) = {t}"

fun refs :: "conv \<Rightarrow> pyty set" where
  "refs (CRef t) = {t}"
| "refs (CSkip c) = refs c"
| "refs (CGen c ts) = (\<Union>t \<in> set ts. refs t)"
| "refs (CUnion ts) = (\<Union>t \<in> set ts. refs t)"
| "refs (CKeep t) = {}"

text \<open>The positions \<open>_convert_type\<close> visits: it does not look inside a Bluesky type.\<close>

fun visited :: "pyty \<Rightarrow> pyty set" where
  "visited (TGen c ts) = insert (TGen c ts) (if class_is_bluesky c then {} else \<Union>t \<in> set ts. visited t)"
| "visited (TUnion ts) = insert (TUnion ts) (\<Union>t \<in> set ts. visited t)"
| "visited (TPipe ts) = insert (TPipe ts) (\<Union>t \<in> set ts. visited t)"
| "visited t = {t}"

lemma convert_refs: "refs (convert_type nd t) = {u \<in> visited t. is_bluesky_type u}"
  by (induction nd t rule: convert_type.induct) auto

lemma convert_kept_not_bluesky: "u \<in> kept (convert_type nd t) \<Longrightarrow> \<not> is_bluesky_type u"
  by (induction nd t rule: convert_type.induct) (auto split: if_splits)


subsection \<open>The fields of a plan's model\<close>

record param =
  p_name :: string
  p_annotation :: "pyty option"  \<comment> \<open>\<open>None\<close>: \<open>Parameter.empty\<close>\<close>
  p_default :: "pyval option"    \<comment> \<open>\<open>None\<close>: \<open>Parameter.empty\<close>\<close>

text \<open>\<open>DefaultFactory(value)\<close>, or the factory that builds a composite from the context's devices.\<close>

datatype factory = DefaultFactory pyval | CompositeFactory cls

fun factory_eq :: "factory \<Rightarrow> factory \<Rightarrow> bool" where
  "factory_eq (DefaultFactory a) (DefaultFactory b) = (a = b)"
| "factory_eq _ _ = False"

record field_spec =
  fs_type :: conv
  fs_factory :: "factory option"

fun is_str :: "pyval \<Rightarrow> bool" where
  "is_str (PStr _) = True"
| "is_str _ = False"

fun is_composite :: "pyty \<Rightarrow> bool" where
  "is_composite (TClass c) = cls_composite c"
| "is_composite _ = False"

fun the_class :: "pyty \<Rightarrow> cls option" where
  "the_class (TClass c) = Some c"
| "the_class _ = None"

definition field_for :: "pyty \<Rightarrow> pyval option \<Rightarrow> field_spec" where
  "field_for arg_type dflt =
     (let no_default = (dflt = None) in
      case (the_class arg_type, dflt) of
        (Some c, Some v) \<Rightarrow>
          if is_composite arg_type \<and> is_str v
          then \<lparr>fs_type = CSkip (convert_type no_default arg_type), fs_factory = Some (CompositeFactory c)\<rparr>
          else \<lparr>fs_type = convert_type no_default arg_type, fs_factory = Some (DefaultFactory v)\<rparr>
      | (None, Some v) \<Rightarrow> \<lparr>fs_type = convert_type no_default arg_type, fs_factory = Some (DefaultFactory v)\<rparr>
      | (_, None) \<Rightarrow> \<lparr>fs_type = convert_type no_default arg_type, fs_factory = None\<rparr>)"

fun type_spec_loop :: "string \<Rightarrow> param list \<Rightarrow> (string \<times> field_spec) list \<Rightarrow> (string \<times> field_spec) list result" where
  "type_spec_loop fname [] new_args = Inr new_args"
| "type_spec_loop fname (para # paras) new_args =
     (case p_annotation para of
        None \<Rightarrow> Inl (ValueError (''Type annotation is required for '' @ quote_char # p_name para @ [quote_char] @
                 '' in '' @ quote_char # fname @ [quote_char]))
      | Some arg_type \<Rightarrow>
          type_spec_loop fname paras (dict_set (p_name para) (field_for arg_type (p_default para)) new_args))"

definition type_spec_for_function :: "string \<Rightarrow> param list \<Rightarrow> (string \<times> field_spec) list result" where
  "type_spec_for_function fname paras = type_spec_loop fname paras []"

lemma type_spec_loop_ok:
  "type_spec_loop fname paras acc = Inr spec \<Longrightarrow> distinct (map p_name paras) \<Longrightarrow>
     fst ` set acc \<inter> p_name ` set paras = {} \<Longrightarrow>
     list_all (\<lambda>p. p_annotation p \<noteq> None) paras \<and>
     spec = acc @ map (\<lambda>p. (p_name p, field_for (the (p_annotation p)) (p_default p))) paras"
proof (induction paras arbitrary: acc)
  case (Cons p paras)
  from Cons.prems obtain t where t: "p_annotation p = Some t" by (auto split: option.splits)
  from Cons.prems have new: "p_name p \<notin> fst ` set acc" by auto
  have "fst ` set (acc @ [(p_name p, field_for t (p_default p))]) \<inter> p_name ` set paras = {}"
    using Cons.prems by auto
  with Cons.IH [of "acc @ [(p_name p, field_for t (p_default p))]"] Cons.prems t new
  show ?case by (simp add: dict_set_new)
qed simp

text \<open>
  The model of a plan has one field per parameter of its function, in the order of the
  signature; it is built exactly when every parameter is annotated, and a field is required (has no
  default factory) exactly when its parameter has no default.
\<close>

theorem type_spec_fields:
  assumes "distinct (map p_name paras)"
  shows "((\<exists>spec. type_spec_for_function fname paras = Inr spec) \<longleftrightarrow>
           list_all (\<lambda>p. p_annotation p \<noteq> None) paras) \<and>
    (\<forall>spec. type_spec_for_function fname paras = Inr spec \<longrightarrow>
       map fst spec = map p_name paras \<and>
       map (\<lambda>f. fs_factory (snd f) = None) spec = map (\<lambda>p. p_default p = None) paras)"
proof -
  have total: "\<exists>spec. type_spec_loop fname paras acc = Inr spec"
    if "list_all (\<lambda>p. p_annotation p \<noteq> None) paras" for paras acc
    using that by (induction paras arbitrary: acc) auto
  have req: "(fs_factory (field_for t d) = None) = (d = None)" for t d
    by (cases t; cases d) (auto simp: field_for_def)
  show ?thesis
    using type_spec_loop_ok [OF _ assms, of fname "[]"] total [of paras "[]"]
    by (auto simp: type_spec_for_function_def comp_def req)
qed

definition count_params :: "param list" where
  "count_params =
     [\<lparr>p_name = ''detectors'', p_annotation = Some (TGen \<lparr>cls_module = ''builtins'', cls_qualname = ''list'',
         cls_supers = [], cls_conforms = [], cls_composite = False, cls_fields = []\<rparr> [TAny]), p_default = None\<rparr>,
      \<lparr>p_name = ''num'', p_annotation = Some (TClass \<lparr>cls_module = ''builtins'', cls_qualname = ''int'',
         cls_supers = [], cls_conforms = [], cls_composite = False, cls_fields = []\<rparr>), p_default = Some (PInt 1)\<rparr>]"

theorem type_spec_fields_witness:
  "\<exists>spec. type_spec_for_function ''count'' count_params = Inr spec \<and>
     map (\<lambda>f. fs_factory (snd f) = None) spec = [True, False]"
proof -
  have d: "distinct (map p_name count_params)" by (simp add: count_params_def)
  show ?thesis
    using type_spec_fields [OF d, of "''count''"] by (auto simp: count_params_def)
qed

end
