(* ===== verification/Config.thy ===== *)
theory Config
  imports PyStrings
begin

section \<open>Configuration (config.py)\<close>

text \<open>
  The configuration records other components read, the rules the configuration classes enforce
  themselves (\<open>OIDCConfig.check_urls\<close>, \<open>ScratchRepository.check_remote_url\<close>), the derived
  values (\<open>RestConfig.ws_address\<close>, the OIDC endpoints) and \<open>ConfigLoader\<close>: the recursive
  merge of dictionaries, the expansion of environment variables in YAML scalars, and the final
  validation. pydantic's validation of a configuration dictionary, the YAML parser and the HTTP
  request for the OIDC document are parameters. The class variables of \<open>ApplicationConfig\<close> (version,
  licence, documentation texts) are left out.
\<close>

subsection \<open>The configuration records\<close>

definition forbidden_own_remote_url :: string where
  "forbidden_own_remote_url = ''https://github.com/DiamondLightSource/blueapi.git''"

datatype source =
    PlanSource string
  | DeviceManagerSource string bool string

fun source_module :: "source \<Rightarrow> string" where
  "source_module (PlanSource m) = m"
| "source_module (DeviceManagerSource m _ _) = m"

record url =
  url_scheme :: string
  url_host :: "string option"
  url_port :: "nat option"
  url_path :: "string option"

record basic_authentication =
  auth_username :: string
  auth_password :: string

record stomp_config =
  stomp_enabled :: bool
  stomp_url :: url
  stomp_auth :: "basic_authentication option"

record service_account =
  sa_client_id :: string
  sa_client_secret :: string
  sa_token_url :: string

datatype tiled_auth = NoTiledAuth | ApiKey string | TiledServiceAccount service_account

record tiled_config =
  tiled_enabled :: bool
  tiled_url :: string
  tiled_authentication :: tiled_auth

record metadata_config =
  md_instrument :: string

record env_config =
  env_sources :: "source list"
  env_broadcast_status_events :: bool
  env_metadata :: "metadata_config option"

record oidc_config =
  oidc_well_known_url :: "string option"
  oidc_issuer :: "string option"
  oidc_client_id :: string
  oidc_client_audience :: string
  oidc_logout_redirect :: string

record scratch_repository =
  repo_name :: string
  repo_remote_url :: string
  repo_target_revision :: "string option"

record scratch_config =
  scratch_root :: string
  scratch_required_gid :: "int option"
  scratch_repositories :: "scratch_repository list"

record numtracker_config =
  nt_url :: string
  nt_detector_file_template :: string

record opa_config =
  opa_root :: string
  opa_audience :: string
  opa_tiled_check :: string
  opa_submit_check :: string
  opa_admin_check :: string

text \<open>Python's \<open>logging\<close> levels; the order is the one the handlers compare.\<close>

datatype log_level = NOTSET | DEBUG | INFO | WARNING | ERROR | CRITICAL

fun level_no :: "log_level \<Rightarrow> nat" where
  "level_no NOTSET = 0"
| "level_no DEBUG = 10"
| "level_no INFO = 20"
| "level_no WARNING = 30"
| "level_no ERROR = 40"
| "level_no CRITICAL = 50"

lemma level_no_inject: "level_no a = level_no b \<Longrightarrow> a = b"
  by (cases a; cases b) auto

instantiation log_level :: linorder
begin

definition less_eq_log_level :: "log_level \<Rightarrow> log_level \<Rightarrow> bool" where
  "a \<le> b \<longleftrightarrow> level_no a \<le> level_no b"

definition less_log_level :: "log_level \<Rightarrow> log_level \<Rightarrow> bool" where
  "a < b \<longleftrightarrow> level_no a < level_no b"

instance
  by standard (auto simp: less_eq_log_level_def less_log_level_def intro: level_no_inject)

end

record logging_config =
  log_level_set :: log_level
  graylog_enabled :: bool
  graylog_url :: url

record cors_config =
  cors_origins :: "string list"
  cors_allow_credentials :: bool
  cors_allow_methods :: "string list"
  cors_allow_headers :: "string list"

record rest_config =
  rest_url :: url
  rest_cors :: "cors_config option"

record app_config =
  cfg_stomp :: stomp_config
  cfg_tiled :: tiled_config
  cfg_env :: env_config
  cfg_logging :: logging_config
  cfg_api :: rest_config
  cfg_scratch :: "scratch_config option"
  cfg_oidc :: "oidc_config option"
  cfg_auth_token_path :: "string option"
  cfg_numtracker :: "numtracker_config option"
  cfg_opa :: "opa_config option"

text \<open>
  The defaults of \<open>ApplicationConfig()\<close>; \<open>api_key\<close> is the environment's
  \<open>TILED_SINGLE_USER_API_KEY\<close>.
\<close>

definition default_app_config :: "string option \<Rightarrow> app_config" where
  "default_app_config api_key =
     \<lparr>cfg_stomp = \<lparr>stomp_enabled = False,
        stomp_url = \<lparr>url_scheme = ''tcp'', url_host = Some ''localhost'', url_port = Some 61613, url_path = None\<rparr>,
        stomp_auth = None\<rparr>,
      cfg_tiled = \<lparr>tiled_enabled = False, tiled_url = ''http://localhost:8407'',
        tiled_authentication = (case api_key of None \<Rightarrow> NoTiledAuth | Some k \<Rightarrow> ApiKey k)\<rparr>,
      cfg_env = \<lparr>env_sources = [], env_broadcast_status_events = True, env_metadata = None\<rparr>,
      cfg_logging = \<lparr>log_level_set = INFO, graylog_enabled = False,
        graylog_url = \<lparr>url_scheme = ''tcp'', url_host = Some ''localhost'', url_port = Some 5555, url_path = None\<rparr>\<rparr>,
      cfg_api = \<lparr>rest_url = \<lparr>url_scheme = ''http'', url_host = Some ''localhost'', url_port = Some 8000,
                    url_path = Some ''/''\<rparr>, rest_cors = None\<rparr>,
      cfg_scratch = None,
      cfg_oidc = None,
      cfg_auth_token_path = None,
      cfg_numtracker = None,
      cfg_opa = None\<rparr>"

text \<open>\<open>ApplicationConfig.__eq__\<close>, field by field.\<close>

definition app_config_eq :: "app_config \<Rightarrow> app_config \<Rightarrow> bool" where
  "app_config_eq a b \<longleftrightarrow>
     cfg_stomp a = cfg_stomp b \<and> cfg_tiled a = cfg_tiled b \<and> cfg_env a = cfg_env b \<and>
     cfg_logging a = cfg_logging b \<and> cfg_api a = cfg_api b \<and> cfg_scratch a = cfg_scratch b \<and>
     cfg_oidc a = cfg_oidc b \<and> cfg_auth_token_path a = cfg_auth_token_path b \<and>
     cfg_numtracker a = cfg_numtracker b \<and> cfg_opa a = cfg_opa b"

lemma app_config_eq_iff: "app_config_eq a b \<longleftrightarrow> a = b"
  by (cases a; cases b) (auto simp: app_config_eq_def)

subsection \<open>Rules and derived values\<close>

text \<open>\<open>RestConfig.ws_address\<close>.\<close>

definition ws_address :: "rest_config \<Rightarrow> url result" where
  "ws_address c =
     (let api = rest_url c in
      case url_host api of
        None \<Rightarrow> Inl (ValueError ''No host configured'')
      | Some host \<Rightarrow>
          (let scheme = (if url_scheme api = ''http'' then ''ws'' else ''wss'');
               path = remove_prefix ''/'' (case url_path api of None \<Rightarrow> [] | Some p \<Rightarrow> p)
           in Inr \<lparr>url_scheme = scheme, url_host = Some host, url_port = url_port api,
                   url_path = Some path\<rparr>))"

text \<open>\<open>ScratchRepository.check_remote_url\<close>.\<close>

definition check_remote_url :: "string \<Rightarrow> string result" where
  "check_remote_url value =
     (if value = forbidden_own_remote_url
      then Inl (ValueError (''remote_url '' @ quote_char # value @ [quote_char] @ '' is not allowed.''))
      else Inr value)"

text \<open>\<open>OIDCConfig.check_urls\<close> and \<open>OIDCConfig._well_known_url\<close>.\<close>

definition check_urls :: "oidc_config \<Rightarrow> oidc_config result" where
  "check_urls c =
     (if oidc_issuer c = None \<and> oidc_well_known_url c = None
      then Inl (ValueError (''Please provide '' @ quote_char # ''OIDCConfig.issuer'' @ [quote_char]))
      else Inr c)"

definition well_known_url :: "oidc_config \<Rightarrow> string option" where
  "well_known_url c =
     (case oidc_issuer c of
        Some issuer \<Rightarrow>
          if issuer \<noteq> [] then Some (issuer @ ''/.well-known/openid-configuration'')
          else oidc_well_known_url c
      | None \<Rightarrow> oidc_well_known_url c)"

text \<open>
  The endpoints are looked up in the document the provider serves at that address; \<open>fetch\<close> is
  the HTTP request and the JSON decoding of its answer.
\<close>

definition oidc_endpoint :: "(string option \<Rightarrow> pydict result) \<Rightarrow> string \<Rightarrow> oidc_config \<Rightarrow> pyval option result" where
  "oidc_endpoint fetch name c = bind_r (fetch (well_known_url c)) (\<lambda>doc. Inr (map_of doc name))"

lemma well_known_url_defined:
  "check_urls c = Inr c' \<Longrightarrow> oidc_issuer c \<noteq> Some [] \<Longrightarrow> well_known_url c' \<noteq> None"
  by (auto simp: check_urls_def well_known_url_def split: if_splits option.splits)

end
