(* ===== verification/Support.thy ===== *)
theory Support
  imports PyStrings "HOL-Library.Word"
begin

section \<open>Support code (utils)\<close>

text \<open>
  Instrument sessions and the access blob built from them, the path provider that follows the nesting
  of runs, the permission bits of a directory and the wrapper of deprecated functions. The formatting of
  a file template and file status are parameters.
\<close>

unbundle bit_operations_syntax

subsection \<open>Instrument sessions (utils/__init__.py, utils/serialization.py)\<close>

definition is_lower :: "char \<Rightarrow> bool" where
  "is_lower c \<longleftrightarrow> (97 :: nat) \<le> of_char c \<and> of_char c \<le> (122 :: nat)"

text \<open>
  \<open>INSTRUMENT_SESSION_RE\<close>, \<open>^[a-z]{2}(\d+)-(\d+)$\<close>: its two groups. As in Python \<open>$\<close> also matches
  before a newline that ends the text.
\<close>

definition match_instrument_session :: "string \<Rightarrow> (string \<times> string) option" where
  "match_instrument_session s =
     (case s of
        a # b # rest \<Rightarrow>
          (let proposal = takeWhile is_digit rest; after = dropWhile is_digit rest in
           if is_lower a \<and> is_lower b \<and> proposal \<noteq> [] \<and> after \<noteq> [] \<and> hd after = CHR ''-'' then
             (let visit = takeWhile is_digit (tl after); end_text = dropWhile is_digit (tl after) in
              if visit \<noteq> [] \<and> (end_text = [] \<or> end_text = [newline]) then Some (proposal, visit) else None)
           else None)
      | _ \<Rightarrow> None)"

text \<open>\<open>json.dumps\<close> of a string and of the blob.\<close>

definition json_char :: "char \<Rightarrow> string" where
  "json_char c =
     (if c = dquote_char \<or> c = backslash then [backslash, c]
      else if c = CHR 0x0A then [backslash, CHR ''n'']
      else if c = CHR 0x0D then [backslash, CHR ''r'']
      else if c = CHR 0x09 then [backslash, CHR ''t'']
      else if c = CHR 0x08 then [backslash, CHR ''b'']
      else if c = CHR 0x0C then [backslash, CHR ''f'']
      else if of_char c < (32 :: nat) \<or> (127 :: nat) \<le> of_char c
        then [backslash] @ ''u00'' @ [hex_digit (of_char c div 16), hex_digit (of_char c mod 16)]
      else [c])"

definition json_string :: "string \<Rightarrow> string" where
  "json_string s = [dquote_char] @ concat (map json_char s) @ [dquote_char]"

definition blob_text :: "nat \<Rightarrow> nat \<Rightarrow> string \<Rightarrow> string" where
  "blob_text proposal visit beamline =
     ''{'' @ json_string ''proposal'' @ '': '' @ show_nat proposal @ '', '' @
     json_string ''visit'' @ '': '' @ show_nat visit @ '', '' @
     json_string ''beamline'' @ '': '' @ json_string beamline @ ''}''"

definition access_blob :: "string \<Rightarrow> string \<Rightarrow> string result" where
  "access_blob instrument_session beamline =
     (case match_instrument_session instrument_session of
        None \<Rightarrow> Inl (ValueError (''Unable to extract proposal and visit from instrument session '' @ instrument_session))
      | Some (proposal, visit) \<Rightarrow> Inr (blob_text (parse_nat proposal) (parse_nat visit) beamline))"

lemma takeWhile_digits:
  "list_all is_digit xs \<Longrightarrow> ys = [] \<or> \<not> is_digit (hd ys) \<Longrightarrow> takeWhile is_digit (xs @ ys) = xs \<and> dropWhile is_digit (xs @ ys) = ys"
  by (induction xs) (cases ys; auto)+

lemma dash_no_digit [simp]: "\<not> is_digit (CHR ''-'')"
  by (simp add: is_digit_def)

lemma newline_no_digit [simp]: "\<not> is_digit newline"
  by (simp add: is_digit_def newline_def)

lemma match_instrument_session_parts:
  assumes "is_lower a" "is_lower b" "p \<noteq> []" "v \<noteq> []" "list_all is_digit p" "list_all is_digit v"
  shows "match_instrument_session ([a, b] @ p @ ''-'' @ v) = Some (p, v)"
proof -
  have "takeWhile is_digit (p @ ''-'' @ v) = p \<and> dropWhile is_digit (p @ ''-'' @ v) = ''-'' @ v"
    by (rule takeWhile_digits [OF assms(5)]) simp
  moreover have "takeWhile is_digit v = v \<and> dropWhile is_digit v = []"
    using takeWhile_digits [OF assms(6), of "[]"] by simp
  ultimately show ?thesis using assms
    by (simp add: match_instrument_session_def Let_def del: takeWhile_eq_all_conv dropWhile_eq_Nil_conv)
qed

lemma takeWhile_digits_ok: "list_all is_digit (takeWhile is_digit xs)"
  by (induction xs) auto

lemma match_instrument_session_shape:
  assumes "match_instrument_session s = Some (p, v)"
  shows "\<exists>a b. is_lower a \<and> is_lower b \<and> p \<noteq> [] \<and> v \<noteq> [] \<and> list_all is_digit p \<and> list_all is_digit v \<and>
    (s = [a, b] @ p @ ''-'' @ v \<or> s = [a, b] @ p @ ''-'' @ v @ [newline])"
proof -
  from assms obtain a b rest where s: "s = a # b # rest"
    by (auto simp: match_instrument_session_def split: list.splits)
  let ?p = "takeWhile is_digit rest" and ?a = "dropWhile is_digit rest"
  let ?v = "takeWhile is_digit (tl ?a)" and ?e = "dropWhile is_digit (tl ?a)"
  from assms have c: "is_lower a" "is_lower b" "?p \<noteq> []" "?a \<noteq> []" "hd ?a = CHR ''-''" "?v \<noteq> []"
    "?e = [] \<or> ?e = [newline]" "p = ?p" "v = ?v"
    by (auto simp: match_instrument_session_def s Let_def split: if_splits)
  have "rest = ?p @ ?a" by simp
  moreover have "?a = CHR ''-'' # tl ?a" using c(4,5) by (metis list.collapse)
  moreover have "tl ?a = ?v @ ?e" by simp
  ultimately have "rest = ?p @ ''-'' @ ?v @ ?e" by (metis append_Cons append_Nil)
  with c takeWhile_digits_ok show ?thesis unfolding s by (metis append.right_neutral append_Cons append_Nil)
qed

text \<open>
  An access blob is built exactly for an instrument session made of two lower-case letters,
  a number, a dash and a number (a newline may follow), and it holds these two numbers and the
  beamline; anything else raises a \<open>ValueError\<close>. Numbers written in decimal come back unchanged.
\<close>

theorem access_blob_correct:
  "((\<exists>t. access_blob s beamline = Inr t) \<longleftrightarrow>
     (\<exists>a b p v. is_lower a \<and> is_lower b \<and> p \<noteq> [] \<and> v \<noteq> [] \<and> list_all is_digit p \<and> list_all is_digit v \<and>
       s \<in> {[a, b] @ p @ ''-'' @ v, [a, b] @ p @ ''-'' @ v @ [newline]})) \<and>
   access_blob (''cm'' @ show_nat n @ ''-'' @ show_nat m) beamline = Inr (blob_text n m beamline)"
  (is "(?l \<longleftrightarrow> ?r) \<and> _")
proof (intro conjI iffI)
  assume ?l
  then obtain p v where "match_instrument_session s = Some (p, v)"
    by (auto simp: access_blob_def split: option.splits)
  from match_instrument_session_shape [OF this] show ?r by blast
next
  assume ?r
  then obtain a b p v where c: "is_lower a" "is_lower b" "p \<noteq> []" "v \<noteq> []" "list_all is_digit p" "list_all is_digit v"
    and s: "s = [a, b] @ p @ ''-'' @ v \<or> s = [a, b] @ p @ ''-'' @ v @ [newline]" by blast
  have "takeWhile is_digit (p @ ''-'' @ x) = p \<and> dropWhile is_digit (p @ ''-'' @ x) = ''-'' @ x" for x
    by (rule takeWhile_digits [OF c(5)]) simp
  moreover have "takeWhile is_digit (v @ [newline]) = v \<and> dropWhile is_digit (v @ [newline]) = [newline]"
    by (rule takeWhile_digits [OF c(6)]) simp
  ultimately have "match_instrument_session s = Some (p, v)"
    using s c match_instrument_session_parts [OF c] by (auto simp: match_instrument_session_def Let_def simp del: takeWhile_eq_all_conv dropWhile_eq_Nil_conv)
  then show ?l by (simp add: access_blob_def)
next
  have "list_all is_digit (show_nat k)" for k by (rule show_nat_digits)
  then have "match_instrument_session (''cm'' @ show_nat n @ ''-'' @ show_nat m) = Some (show_nat n, show_nat m)"
    using match_instrument_session_parts [of "CHR ''c''" "CHR ''m''" "show_nat n" "show_nat m"]
    by (simp add: is_lower_def)
  then show "access_blob (''cm'' @ show_nat n @ ''-'' @ show_nat m) beamline = Inr (blob_text n m beamline)"
    by (simp add: access_blob_def parse_show_nat)
qed

subsection \<open>The path provider (utils/path_provider.py)\<close>

text \<open>
  \<open>StartDocumentPathProvider\<close> keeps the start documents of the open runs, the innermost last.
\<close>

type_synonym path_provider = "pydict list"

definition run_start :: "string \<Rightarrow> pydict \<Rightarrow> path_provider \<Rightarrow> path_provider" where
  "run_start name start_document docs = (if name = ''start'' then docs @ [start_document] else docs)"

definition run_stop :: "string \<Rightarrow> pydict \<Rightarrow> path_provider \<Rightarrow> unit result \<times> path_provider" where
  "run_stop name stop_document docs =
     (if name \<noteq> ''stop'' then (Inr (), docs)
      else if docs = [] then (Inl (IndexError ''list index out of range''), docs)
      else
        (case map_of (last docs) ''uid'' of
           None \<Rightarrow> (Inl (KeyError ''uid''), docs)
         | Some uid \<Rightarrow>
             if (case map_of stop_document ''run_start'' of None \<Rightarrow> PNone | Some u \<Rightarrow> u) = uid then (Inr (), butlast docs)
             else (Inl (BlueskyRunStructureError ''Close run called, but not for the inner most run. This is not supported. If you need to do this speak to core DAQ.''), docs)))"

text \<open>
  Calling the provider: the directory and the file name. \<open>format_map\<close> is Python's method of
  the template.
\<close>

definition path_info :: "(pyval \<Rightarrow> pydict \<Rightarrow> string result) \<Rightarrow> string option \<Rightarrow> path_provider \<Rightarrow> (pyval \<times> string) result" where
  "path_info format_map device_name docs =
     (if docs = [] then Inl (BlueskyRunStructureError ''Start document not found. This call must be made inside a run.'')
      else
        (case map_of (last docs) ''detector_file_template'' of
           None \<Rightarrow> Inl (ValueError ''detector_file_template must be set in metadata'')
         | Some template \<Rightarrow>
             if \<not> truthy template then Inl (ValueError ''detector_file_template must be set in metadata'')
             else bind_r (format_map template
                    (dict_set ''device_name'' (case device_name of None \<Rightarrow> PNone | Some n \<Rightarrow> PStr n) (last docs)))
                  (\<lambda>sub_path. Inr (case map_of (last docs) ''data_session_directory'' of
                                     None \<Rightarrow> PStr ''/tmp'' | Some d \<Rightarrow> d, sub_path))))"

text \<open>A sequence of runs opened and closed in the nesting of brackets.\<close>

datatype run_event = Opened pydict | Closed pyval

fun nested :: "run_event list \<Rightarrow> pydict list \<Rightarrow> pydict list option" where
  "nested [] docs = Some docs"
| "nested (Opened d # evs) docs = nested evs (d # docs)"
| "nested (Closed uid # evs) [] = None"
| "nested (Closed uid # evs) (d # docs) = (if map_of d ''uid'' = Some uid then nested evs docs else None)"

fun on_run_event :: "run_event \<Rightarrow> path_provider \<Rightarrow> unit result \<times> path_provider" where
  "on_run_event (Opened d) docs = (Inr (), run_start ''start'' d docs)"
| "on_run_event (Closed uid) docs = run_stop ''stop'' [(''run_start'', uid)] docs"

fun on_run_events :: "run_event list \<Rightarrow> path_provider \<Rightarrow> unit result \<times> path_provider" where
  "on_run_events [] docs = (Inr (), docs)"
| "on_run_events (ev # evs) docs =
     (case on_run_event ev docs of
        (Inl e, docs') \<Rightarrow> (Inl e, docs')
      | (Inr _, docs') \<Rightarrow> on_run_events evs docs')"

lemma on_run_events_nested:
  "(\<exists>docs'. on_run_events evs docs = (Inr (), docs') \<and> nested evs (rev docs) = Some (rev docs')) \<or>
   (\<exists>e docs'. on_run_events evs docs = (Inl e, docs') \<and> nested evs (rev docs) = None)"
proof (induction evs arbitrary: docs)
  case (Cons ev evs)
  show ?case
  proof (cases ev)
    case (Opened d)
    then show ?thesis using Cons.IH [of "docs @ [d]"] by (simp add: run_start_def)
  next
    case (Closed uid)
    show ?thesis
    proof (cases docs rule: rev_cases)
      case Nil
      then show ?thesis using Closed by (simp add: run_stop_def)
    next
      case (snoc ds d)
      then show ?thesis using Closed Cons.IH [of ds] by (cases "map_of d ''uid''") (auto simp: run_stop_def)
    qed
  qed
qed simp

text \<open>
  The path provider follows runs exactly as long as they are nested like brackets: it
  raises if and only if a run is closed that is not the innermost open one, and otherwise the open
  runs it keeps are those of the bracket structure. The paths come from the innermost.
\<close>

theorem path_provider_follows_nesting:
  "((\<exists>docs'. on_run_events evs docs = (Inr (), docs')) \<longleftrightarrow> nested evs (rev docs) \<noteq> None) \<and>
   (nested evs (rev docs) = Some open_runs \<longrightarrow> on_run_events evs docs = (Inr (), rev open_runs)) \<and>
   path_info fmt dev (run_start ''start'' d docs) = path_info fmt dev [d]"
proof (intro conjI impI)
  show "(\<exists>docs'. on_run_events evs docs = (Inr (), docs')) \<longleftrightarrow> nested evs (rev docs) \<noteq> None"
    using on_run_events_nested [of evs docs] by auto
  show "on_run_events evs docs = (Inr (), rev open_runs)" if "nested evs (rev docs) = Some open_runs"
    using on_run_events_nested [of evs docs] that by auto
  show "path_info fmt dev (run_start ''start'' d docs) = path_info fmt dev [d]"
    by (simp add: path_info_def run_start_def cong: option.case_cong if_cong)
qed

theorem path_provider_follows_nesting_witness:
  "on_run_events [Opened [(''uid'', PInt 1)], Opened [(''uid'', PInt 2)], Closed (PInt 2)] [] =
     (Inr (), [[(''uid'', PInt 1)]])"
  using path_provider_follows_nesting [of "[Opened [(''uid'', PInt 1)], Opened [(''uid'', PInt 2)], Closed (PInt 2)]"
      "[]" "[[(''uid'', PInt 1)]]" "\<lambda>t d. Inr []" None "[]"]
  by simp

subsection \<open>Permissions, deprecation, exceptions of threads\<close>

text \<open>The mode and the group of a file's status.\<close>

definition s_isgid :: nat where "s_isgid = 1024"

definition is_sgid_set :: "nat \<Rightarrow> bool" where
  "is_sgid_set st_mode \<longleftrightarrow> st_mode AND s_isgid \<noteq> 0"

lemma is_sgid_set_iff: "is_sgid_set m \<longleftrightarrow> bit m 10"
proof -
  have "s_isgid = push_bit 10 1" by (simp add: s_isgid_def push_bit_eq_mult)
  then show ?thesis
    unfolding is_sgid_set_def using bit_iff_and_push_bit_not_eq_0 [of m 10] by metis
qed

text \<open>
  A deprecated function keeps whether it was called; only the first call warns.
\<close>

definition deprecated_call :: "string \<Rightarrow> string \<Rightarrow> bool \<Rightarrow> string list \<times> bool" where
  "deprecated_call name alternative called =
     (if called then ([], True)
      else ([''Function '' @ name @ '' is deprecated - use '' @ alternative], True))"

text \<open>\<open>handle_all_exceptions\<close>: an exception goes to the callback and the wrapper returns nothing.\<close>

definition handle_all_exceptions :: "(exn \<Rightarrow> 's \<Rightarrow> 's) \<Rightarrow> ('s \<Rightarrow> 'a result \<times> 's) \<Rightarrow> 's \<Rightarrow> 'a option \<times> 's" where
  "handle_all_exceptions callback func s =
     (case func s of (Inr v, s') \<Rightarrow> (Some v, s') | (Inl e, s') \<Rightarrow> (None, callback e s'))"

end
