(* ===== verification/Numtracker.thy ===== *)
theory Numtracker
  imports Support
begin

section \<open>The numtracker client (utils/numtracker.py) and the scan numbers of the RunEngine\<close>

text \<open>
  The client with the headers of the request in hand, the answers of the server to the mutation that
  creates a scan, and \<open>_update_scan_num\<close> of the context, which the RunEngine calls with its metadata
  for every new run. The request with its JSON decoding, pydantic's validation and the \<open>str\<close> of a value
  are parameters.
\<close>

record numtracker_client =
  nc_url :: string
  nc_headers :: "(string \<times> string) list"

definition new_numtracker_client :: "string \<Rightarrow> numtracker_client" where
  "new_numtracker_client url = \<lparr>nc_url = url, nc_headers = []\<rparr>"

definition set_headers :: "(string \<times> string) list \<Rightarrow> numtracker_client \<Rightarrow> numtracker_client" where
  "set_headers headers nt = nt\<lparr>nc_headers := headers\<rparr>"

text \<open>A validated response: \<open>ScanPaths\<close> with its \<open>DirectoryPath\<close>.\<close>

record directory_path =
  dp_instrument :: string
  dp_instrument_session :: string
  dp_path :: string

record scan_paths =
  sp_scan_file :: string
  sp_scan_number :: int
  sp_directory :: directory_path

subsection \<open>The errors of a response\<close>

fun pyval_type :: "pyval \<Rightarrow> string" where
  "pyval_type PNone = ''NoneType''"
| "pyval_type (PBool _) = ''bool''"
| "pyval_type (PInt _) = ''int''"
| "pyval_type (PFloat _) = ''float''"
| "pyval_type (PStr _) = ''str''"
| "pyval_type (PList _) = ''list''"
| "pyval_type (PDict _) = ''dict''"

text \<open>\<open>v.get(key)\<close>, which only a dictionary has.\<close>

fun get_key :: "string \<Rightarrow> pyval \<Rightarrow> pyval option result" where
  "get_key key (PDict d) = Inr (map_of d key)"
| "get_key key v = Inl (AttributeError (py_repr (pyval_type v) @ '' object has no attribute '' @ py_repr ''get''))"

definition error_code :: "pyval \<Rightarrow> pyval option result" where
  "error_code err =
     bind_r (get_key ''extensions'' err)
       (\<lambda>extensions. get_key ''code'' (case extensions of None \<Rightarrow> PDict [] | Some ext \<Rightarrow> ext))"

text \<open>The loop over the errors: the first known code decides; without one it falls through.\<close>

fun check_errors :: "string \<Rightarrow> string \<Rightarrow> pyval list \<Rightarrow> unit result" where
  "check_errors instr session [] = Inr ()"
| "check_errors instr session (err # errs) =
     bind_r (error_code err)
       (\<lambda>code.
          if code = Some (PStr ''AUTH_FAILED'')
          then Inl (RuntimeError (''Not authorised to create a scan number for '' @ instr @ '' and '' @ session))
          else if code = Some (PStr ''AUTH_MISSING'')
          then Inl (RuntimeError ''Numtracker authentication missing'')
          else if code = Some (PStr ''AUTH_SERVER_ERROR'')
          then Inl (RuntimeError ''Numtracker server authentication error'')
          else check_errors instr session errs)"

text \<open>What \<open>for error in json["errors"]\<close> goes through, for any value of JSON.\<close>

fun py_iterate :: "pyval \<Rightarrow> pyval list result" where
  "py_iterate (PList xs) = Inr xs"
| "py_iterate (PStr s) = Inr (map (\<lambda>c. PStr [c]) s)"
| "py_iterate (PDict d) = Inr (map (PStr \<circ> fst) d)"
| "py_iterate v = Inl (TypeError (py_repr (pyval_type v) @ '' object is not iterable''))"

definition create_scan ::
  "(string \<Rightarrow> (string \<times> string) list \<Rightarrow> string \<Rightarrow> string \<Rightarrow> pydict result) \<Rightarrow> (pyval \<Rightarrow> scan_paths result) \<Rightarrow>
   (pyval \<Rightarrow> string) \<Rightarrow> numtracker_client \<Rightarrow> string \<Rightarrow> string \<Rightarrow> scan_paths result" where
  "create_scan post validate show_val nt session instr =
     bind_r (post (nc_url nt) (nc_headers nt) session instr)
       (\<lambda>json.
          bind_r (case map_of json ''errors'' of
                    None \<Rightarrow> Inr ()
                  | Some errs \<Rightarrow>
                      if errs = PNone then Inr ()
                      else bind_r (bind_r (py_iterate errs) (check_errors instr session))
                             (\<lambda>_. Inl (RuntimeError (''Numtracker error: '' @ show_val errs))))
            (\<lambda>_. case map_of json ''data'' of None \<Rightarrow> Inl (KeyError ''data'') | Some d \<Rightarrow> validate d))"

text \<open>A response with errors never gives a scan.\<close>

lemma create_scan_ok:
  assumes "create_scan post validate show_val nt session instr = Inr scan"
  shows "\<exists>json d. post (nc_url nt) (nc_headers nt) session instr = Inr json \<and>
    map_of json ''errors'' \<in> {None, Some PNone} \<and> map_of json ''data'' = Some d \<and> validate d = Inr scan"
proof -
  from assms obtain json where j: "post (nc_url nt) (nc_headers nt) session instr = Inr json"
    by (cases "post (nc_url nt) (nc_headers nt) session instr") (simp_all add: create_scan_def)
  have "map_of json ''errors'' \<in> {None, Some PNone}"
  proof (rule ccontr)
    assume "map_of json ''errors'' \<notin> {None, Some PNone}"
    then obtain errs where "map_of json ''errors'' = Some errs" "errs \<noteq> PNone" by auto
    with assms j show False by (cases "bind_r (py_iterate errs) (check_errors instr session)") (simp_all add: create_scan_def)
  qed
  with assms j show ?thesis by (auto simp: create_scan_def split: option.splits)
qed

subsection \<open>Scan numbers for the RunEngine (core/context.py)\<close>

text \<open>
  \<open>_update_scan_num\<close> of a context with numtracker, on the metadata \<open>md\<close> the RunEngine passes; \<open>template\<close>
  is \<open>nt_conf.detector_file_template\<close>. The f-strings of the request show the two entries by \<open>str\<close>.
\<close>

definition update_scan_num ::
  "(string \<Rightarrow> (string \<times> string) list \<Rightarrow> string \<Rightarrow> string \<Rightarrow> pydict result) \<Rightarrow> (pyval \<Rightarrow> scan_paths result) \<Rightarrow>
   (pyval \<Rightarrow> string) \<Rightarrow> numtracker_client \<Rightarrow> string \<Rightarrow> pydict \<Rightarrow> int result \<times> pydict" where
  "update_scan_num post validate show_val nt template md =
     (case map_of md ''instrument_session'' of
        None \<Rightarrow> (Inl (KeyError ''instrument_session''), md)
      | Some session \<Rightarrow>
          (case map_of md ''instrument'' of
             None \<Rightarrow> (Inl (KeyError ''instrument''), md)
           | Some instr \<Rightarrow>
               (case create_scan post validate show_val nt (show_val session) (show_val instr) of
                  Inl e \<Rightarrow> (Inl e, md)
                | Inr scan \<Rightarrow>
                    (Inr (sp_scan_number scan),
                     dict_set ''scan_file'' (PStr (sp_scan_file scan))
                       (dict_set ''detector_file_template'' (PStr template)
                         (dict_set ''data_session_directory'' (PStr (dp_path (sp_directory scan))) md))))))"

text \<open>
  Claim C21. A scan number comes only from an error-free answer of numtracker to a request with the
  headers of the last \<open>set_headers\<close>, for the instrument session and instrument of the metadata. Then
  the detectors of the run write where numtracker said: inside a run whose start document carries the
  updated metadata, the path provider gives the directory of the scan and the file name made from the
  configured template, whatever runs enclose it; the other metadata is unchanged. When anything
  fails, the metadata is as it was.
\<close>

theorem scan_files_follow_numtracker:
  assumes "update_scan_num post validate show_val (set_headers headers nt) template md = (res, md')"
  shows "case res of
     Inl e \<Rightarrow> md' = md
   | Inr n \<Rightarrow>
       (\<exists>session instr json d scan.
          map_of md ''instrument_session'' = Some session \<and> map_of md ''instrument'' = Some instr \<and>
          post (nc_url nt) headers (show_val session) (show_val instr) = Inr json \<and>
          map_of json ''errors'' \<in> {None, Some PNone} \<and> map_of json ''data'' = Some d \<and>
          validate d = Inr scan \<and> n = sp_scan_number scan \<and>
          map_of md' ''scan_file'' = Some (PStr (sp_scan_file scan)) \<and>
          (\<forall>doc docs fmt dev.
             template \<noteq> [] \<and> map_of doc ''detector_file_template'' = map_of md' ''detector_file_template'' \<and>
             map_of doc ''data_session_directory'' = map_of md' ''data_session_directory'' \<longrightarrow>
             path_info fmt dev (run_start ''start'' doc docs) =
               bind_r (fmt (PStr template) (dict_set ''device_name'' (case dev of None \<Rightarrow> PNone | Some dn \<Rightarrow> PStr dn) doc))
                 (\<lambda>file. Inr (PStr (dp_path (sp_directory scan)), file)))) \<and>
       (\<forall>k. k \<notin> {''scan_file'', ''detector_file_template'', ''data_session_directory''} \<longrightarrow> map_of md' k = map_of md k)"
proof (cases res)
  case (Inl e)
  with assms show ?thesis by (auto simp: update_scan_num_def split: option.splits sum.splits)
next
  case (Inr n)
  with assms obtain session instr scan where m: "map_of md ''instrument_session'' = Some session"
      "map_of md ''instrument'' = Some instr"
    and c: "create_scan post validate show_val (set_headers headers nt) (show_val session) (show_val instr) = Inr scan"
    and r: "n = sp_scan_number scan" "md' = dict_set ''scan_file'' (PStr (sp_scan_file scan))
       (dict_set ''detector_file_template'' (PStr template)
         (dict_set ''data_session_directory'' (PStr (dp_path (sp_directory scan))) md))"
    by (auto simp: update_scan_num_def split: option.splits sum.splits)
  from create_scan_ok [OF c] obtain json d where j: "post (nc_url nt) headers (show_val session) (show_val instr) = Inr json"
    "map_of json ''errors'' \<in> {None, Some PNone}" "map_of json ''data'' = Some d" "validate d = Inr scan"
    by (auto simp: set_headers_def)
  have "path_info fmt dev (run_start ''start'' doc docs) =
      bind_r (fmt (PStr template) (dict_set ''device_name'' (case dev of None \<Rightarrow> PNone | Some dn \<Rightarrow> PStr dn) doc))
        (\<lambda>file. Inr (PStr (dp_path (sp_directory scan)), file))"
    if "template \<noteq> [] \<and> map_of doc ''detector_file_template'' = map_of md' ''detector_file_template'' \<and>
      map_of doc ''data_session_directory'' = map_of md' ''data_session_directory''" for doc docs fmt dev
    using that by (simp add: r path_info_def run_start_def)
  then show ?thesis unfolding Inr using m j r by auto
qed

definition scan_answer :: pydict where
  "scan_answer = [(''data'', PDict [(''scan'', PInt 7)])]"

theorem scan_files_follow_numtracker_witness:
  "fst (update_scan_num (\<lambda>u h s i. if h = [(''authorization'', ''Bearer t'')] then Inr scan_answer else Inr [(''errors'', PList [])])
     (\<lambda>d. Inr \<lparr>sp_scan_file = ''p45-7'', sp_scan_number = 7, sp_directory =
        \<lparr>dp_instrument = ''p45'', dp_instrument_session = ''cm1-1'', dp_path = ''/data''\<rparr>\<rparr>)
     (\<lambda>v. ''x'') (set_headers [(''authorization'', ''Bearer t'')] (new_numtracker_client ''http://nt'')) ''{device_name}''
     [(''instrument'', PStr ''p45''), (''instrument_session'', PStr ''cm1-1'')]) = Inr 7"
proof -
  let ?post = "\<lambda>(u :: string) h (s :: string) (i :: string).
    if h = [(''authorization'', ''Bearer t'')] then Inr scan_answer else Inr [(''errors'', PList [])]"
  let ?scan = "\<lparr>sp_scan_file = ''p45-7'', sp_scan_number = 7, sp_directory =
        \<lparr>dp_instrument = ''p45'', dp_instrument_session = ''cm1-1'', dp_path = ''/data''\<rparr>\<rparr>"
  let ?md = "[(''instrument'', PStr ''p45''), (''instrument_session'', PStr ''cm1-1'')]"
  obtain res md' where u: "update_scan_num ?post (\<lambda>d. Inr ?scan) (\<lambda>v. ''x'')
      (set_headers [(''authorization'', ''Bearer t'')] (new_numtracker_client ''http://nt'')) ''{device_name}'' ?md = (res, md')"
    by (rule prod.exhaust)
  note this [unfolded update_scan_num_def create_scan_def set_headers_def new_numtracker_client_def scan_answer_def, simplified]
  with scan_files_follow_numtracker [OF u] u show ?thesis by (auto split: sum.splits)
qed

end
