(* ===== verification/PlanContext.thy ===== *)
theory PlanContext
  imports TypeSpecs Config Numtracker
begin

section \<open>The Bluesky context (BlueskyContext in core/context.py, utils/modules.py)\<close>

text \<open>
  The registries of plans, plan functions and devices, how modules and device managers fill them,
  the references through which plan parameters reach devices, and the checks made when a context is
  built from a configuration. The RunEngine is third-party code: of it the context only holds the
  metadata dictionary. Device managers, module imports and pydantic models are parameters.
\<close>

subsection \<open>Modules and plan functions\<close>

record func =
  f_name :: string
  f_module :: string
  f_doc :: "string option"
  f_hints_ok :: bool              \<comment> \<open>\<open>get_type_hints\<close> does not raise \<open>TypeError\<close> or \<open>NameError\<close>\<close>
  f_return :: "pyty option"       \<comment> \<open>the return annotation\<close>
  f_params :: "param list"

datatype mod_obj = FuncObj func | OtherModObj

record module =
  mod_name :: string
  mod_export :: "string list option"
  mod_all :: "string list option"
  mod_globals :: "(string \<times> mod_obj) list"

text \<open>
  \<open>load_module_all\<close> is a generator: the list holds what each step yields, or the
  \<open>AttributeError\<close> of a listed name the module does not define.
\<close>

definition named_subset :: "module \<Rightarrow> string list \<Rightarrow> mod_obj result list" where
  "named_subset m names =
     map (\<lambda>n. case map_of (mod_globals m) n of
                Some obj \<Rightarrow> Inr obj
              | None \<Rightarrow> Inl (AttributeError (''module '' @ quote_char # mod_name m @ [quote_char] @
                          '' has no attribute '' @ quote_char # n @ [quote_char]))) names"

definition load_module_all :: "module \<Rightarrow> mod_obj result list" where
  "load_module_all m =
     (case mod_export m of
        Some names \<Rightarrow> named_subset m names
      | None \<Rightarrow>
          (case mod_all m of
             Some names \<Rightarrow> named_subset m names
           | None \<Rightarrow>
               map (\<lambda>(n, v). Inr v) (filter (\<lambda>(n, v). \<not> starts_with ''_'' n) (mod_globals m))))"

definition is_function_sourced_from_module :: "func \<Rightarrow> module \<Rightarrow> bool" where
  "is_function_sourced_from_module f m \<longleftrightarrow> f_module f = mod_name m"

text \<open>
  \<open>is_bluesky_plan_generator\<close>: the return annotation is a generator of \<open>Msg\<close>. An unsubscripted
  \<open>typing.Generator\<close> has the origin but no arguments, so indexing them raises.
\<close>

definition is_bluesky_plan_generator :: "func \<Rightarrow> bool result" where
  "is_bluesky_plan_generator f =
     (if \<not> f_hints_ok f then Inr False
      else case f_return f of
          Some (TGen c args) \<Rightarrow>
            if cls_full c = ''collections.abc.Generator'' then
              (case args of
                 [] \<Rightarrow> Inl (IndexError ''tuple index out of range'')
               | TClass a # _ \<Rightarrow> Inr (cls_full a = ''bluesky.utils.Msg'')
               | _ \<Rightarrow> Inr False)
            else Inr False
        | _ \<Rightarrow> Inr False)"

subsection \<open>The context\<close>

record plan_model =
  pm_name :: string
  pm_fields :: "(string \<times> field_spec) list"

record plan =
  plan_name :: string
  plan_description :: "string option"
  plan_model :: plan_model

record ctx =
  ctx_plans :: "(string \<times> plan) list"
  ctx_devices :: "(string \<times> pyobj) list"
  ctx_plan_functions :: "(string \<times> func) list"
  ctx_run_engine_md :: pydict
  ctx_tiled_conf :: "tiled_config option"
  ctx_numtracker :: "numtracker_client option"
  ctx_path_provider :: bool           \<comment> \<open>whether a path provider is installed\<close>

definition new_ctx :: ctx where
  "new_ctx = \<lparr>ctx_plans = [], ctx_devices = [], ctx_plan_functions = [], ctx_run_engine_md = [],
     ctx_tiled_conf = None, ctx_numtracker = None, ctx_path_provider = False\<rparr>"

definition find_device_list :: "string list \<Rightarrow> ctx \<Rightarrow> pyobj result" where
  "find_device_list addr c = find_component (DictObj (ctx_devices c)) addr"

definition find_device :: "string \<Rightarrow> ctx \<Rightarrow> pyobj result" where
  "find_device addr c = find_device_list (split_on CHR ''.'' addr) c"

definition register_plan :: "func \<Rightarrow> ctx \<Rightarrow> func result \<times> ctx" where
  "register_plan f c =
     (case is_bluesky_plan_generator f of
        Inl e \<Rightarrow> (Inl e, c)
      | Inr False \<Rightarrow> (Inl (TypeError (f_name f @ '' is not a valid plan generator function'')), c)
      | Inr True \<Rightarrow>
          (case type_spec_for_function (f_name f) (f_params f) of
             Inl e \<Rightarrow> (Inl e, c)
           | Inr spec \<Rightarrow>
               (let model = \<lparr>pm_name = f_name f, pm_fields = spec\<rparr>;
                    p = \<lparr>plan_name = f_name f, plan_description = f_doc f, plan_model = model\<rparr>
                in (Inr f, c\<lparr>ctx_plans := dict_set (f_name f) p (ctx_plans c),
                              ctx_plan_functions := dict_set (f_name f) f (ctx_plan_functions c)\<rparr>))))"

fun has_name :: "pyobj \<Rightarrow> string option" where
  "has_name (InstObj i _) = dv_name i"
| "has_name _ = None"

definition register_device :: "pyobj \<Rightarrow> string option \<Rightarrow> ctx \<Rightarrow> unit result \<times> ctx" where
  "register_device device name c =
     (if \<not> is_bluesky_compatible_device device
      then (Inl (TypeError ''not a Bluesky compatible device''), c)
      else
        (case (name, has_name device) of
           (None, None) \<Rightarrow> (Inl (KeyError ''Must supply a name for this device''), c)
         | (None, Some n) \<Rightarrow> (Inr (), c\<lparr>ctx_devices := dict_set n device (ctx_devices c)\<rparr>)
         | (Some n, _) \<Rightarrow> (Inr (), c\<lparr>ctx_devices := dict_set n device (ctx_devices c)\<rparr>)))"

definition unregister_all_devices :: "ctx \<Rightarrow> ctx" where
  "unregister_all_devices c = c\<lparr>ctx_devices := []\<rparr>"

text \<open>The loop of \<open>with_plan_module\<close>. Plans registered before an exception stay registered.\<close>

fun plan_module_loop :: "module \<Rightarrow> mod_obj result list \<Rightarrow> ctx \<Rightarrow> unit result \<times> ctx" where
  "plan_module_loop m [] c = (Inr (), c)"
| "plan_module_loop m (Inl e # objs) c = (Inl e, c)"
| "plan_module_loop m (Inr OtherModObj # objs) c = plan_module_loop m objs c"
| "plan_module_loop m (Inr (FuncObj f) # objs) c =
     (case is_bluesky_plan_generator f of
        Inl e \<Rightarrow> (Inl e, c)
      | Inr is_plan \<Rightarrow>
          if is_plan \<and> (mod_all m \<noteq> None \<or> is_function_sourced_from_module f m)
          then (case register_plan f c of
                  (Inl e, c') \<Rightarrow> (Inl e, c')
                | (Inr _, c') \<Rightarrow> plan_module_loop m objs c')
          else plan_module_loop m objs c)"

definition with_plan_module :: "module \<Rightarrow> ctx \<Rightarrow> unit result \<times> ctx" where
  "with_plan_module m c = plan_module_loop m (load_module_all m) c"

text \<open>
  What a device manager returns: its devices and the exceptions of the devices it could not build
  or connect. The result of \<open>with_device_manager\<close> holds the devices and all errors.
\<close>

record connect_result =
  cr_devices :: "(string \<times> pyobj) list"
  cr_build_errors :: "(string \<times> exn) list"
  cr_connection_errors :: "(string \<times> exn) list"

fun register_devices :: "pyobj list \<Rightarrow> ctx \<Rightarrow> unit result \<times> ctx" where
  "register_devices [] c = (Inr (), c)"
| "register_devices (d # ds) c =
     (case register_device d None c of
        (Inl e, c') \<Rightarrow> (Inl e, c')
      | (Inr _, c') \<Rightarrow> register_devices ds c')"

definition with_device_manager :: "(bool \<Rightarrow> bool \<Rightarrow> connect_result result) \<Rightarrow> bool \<Rightarrow> ctx \<Rightarrow>
    ((string \<times> pyobj) list \<times> (string \<times> exn) list) result \<times> ctx" where
  "with_device_manager build_and_connect mock c =
     (case build_and_connect mock (ctx_path_provider c) of
        Inl e \<Rightarrow> (Inl e, c)
      | Inr r \<Rightarrow>
          (case register_devices (dict_values (cr_devices r)) c of
             (Inl e, c') \<Rightarrow> (Inl e, c')
           | (Inr _, c') \<Rightarrow>
               (Inr (cr_devices r, dict_update (dict_update [] (cr_build_errors r)) (cr_connection_errors r)), c')))"

subsection \<open>Building a context from a configuration\<close>

text \<open>
  \<open>world\<close> answers the imports: a module by its name, and the device manager stored under a name of
  a module (\<open>None\<close> when the object found there is not a device manager).
\<close>

record import_env =
  import_module :: "string \<Rightarrow> module result"
  import_manager :: "string \<Rightarrow> string \<Rightarrow> (bool \<Rightarrow> bool \<Rightarrow> connect_result result) option result"

fun load_sources :: "import_env \<Rightarrow> source list \<Rightarrow> ctx \<Rightarrow> unit result \<times> ctx" where
  "load_sources w [] c = (Inr (), c)"
| "load_sources w (src # srcs) c =
     (case import_module w (source_module src) of
        Inl e \<Rightarrow> (Inl e, c)
      | Inr m \<Rightarrow>
          (case (case src of
                   PlanSource _ \<Rightarrow> with_plan_module m c
                 | DeviceManagerSource mname mock name \<Rightarrow>
                     (case import_manager w mname name of
                        Inl e \<Rightarrow> (Inl e, c)
                      | Inr None \<Rightarrow> (Inl (ValueError (name @ '' in module '' @ mname @ '' is not a device manager'')), c)
                      | Inr (Some mgr) \<Rightarrow>
                          (case with_device_manager mgr mock c of
                             (Inl e, c') \<Rightarrow> (Inl e, c')
                           | (Inr _, c') \<Rightarrow> (Inr (), c')))) of
             (Inl e, c') \<Rightarrow> (Inl e, c')
           | (Inr _, c') \<Rightarrow> load_sources w srcs c'))"

definition with_config :: "import_env \<Rightarrow> env_config \<Rightarrow> ctx \<Rightarrow> unit result \<times> ctx" where
  "with_config w config c =
     load_sources w (env_sources config)
       (case env_metadata config of
          None \<Rightarrow> c
        | Some md \<Rightarrow>
            c\<lparr>ctx_run_engine_md :=
                dict_set ''instrument'' (PStr (md_instrument md)) (ctx_run_engine_md c)\<rparr>)"

text \<open>
  \<open>__post_init__\<close>. With a service account the token address is taken from the OIDC configuration;
  \<open>token_endpoint\<close> reads it (an HTTP request).
\<close>

definition configure_tiled :: "(oidc_config \<Rightarrow> string result) \<Rightarrow> app_config \<Rightarrow> ctx \<Rightarrow> unit result \<times> ctx" where
  "configure_tiled token_endpoint cfg c =
     (let tiled_conf = cfg_tiled cfg in
      if \<not> tiled_enabled tiled_conf then (Inr (), c)
      else if env_metadata (cfg_env cfg) = None
      then (Inl (InvalidConfigError ''Tiled has been configured but `instrument` metadata is not set - this field is required to make authorization decisions.''), c)
      else
        (case tiled_authentication tiled_conf of
           TiledServiceAccount sa \<Rightarrow>
             (case cfg_oidc cfg of
                None \<Rightarrow> (Inl (InvalidConfigError ''Tiled has been configured but oidc configuration is missing this field is required to make authorization decisions.''), c)
              | Some oidc \<Rightarrow>
                  (case token_endpoint oidc of
                     Inl e \<Rightarrow> (Inl e, c)
                   | Inr u \<Rightarrow>
                       (Inr (), c\<lparr>ctx_tiled_conf :=
                          Some (tiled_conf\<lparr>tiled_authentication := TiledServiceAccount (sa\<lparr>sa_token_url := u\<rparr>)\<rparr>)\<rparr>)))
         | _ \<Rightarrow> (Inr (), c\<lparr>ctx_tiled_conf := Some tiled_conf\<rparr>)))"

definition post_init :: "import_env \<Rightarrow> (oidc_config \<Rightarrow> string result) \<Rightarrow> app_config \<Rightarrow> unit result \<times> ctx" where
  "post_init w token_endpoint cfg =
     (case cfg_numtracker cfg of
        Some nt \<Rightarrow>
          if env_metadata (cfg_env cfg) = None
          then (Inl (InvalidConfigError ''Numtracker url has been configured, but there is no instrument or instrument_session in the environment metadata''), new_ctx)
          else
            (case with_config w (cfg_env cfg) (new_ctx\<lparr>ctx_numtracker := Some (new_numtracker_client (nt_url nt)), ctx_path_provider := True\<rparr>) of
               (Inl e, c) \<Rightarrow> (Inl e, c)
             | (Inr _, c) \<Rightarrow> configure_tiled token_endpoint cfg c)
      | None \<Rightarrow>
          (case with_config w (cfg_env cfg) new_ctx of
             (Inl e, c) \<Rightarrow> (Inl e, c)
           | (Inr _, c) \<Rightarrow> configure_tiled token_endpoint cfg c))"

subsection \<open>References and composites\<close>

text \<open>The validator of a \<open>Reference\<close> type: a device name to the registered device.\<close>

fun ref_origin :: "pyty \<Rightarrow> cls option \<times> pyty list option" where
  "ref_origin (TClass c) = (Some c, Some [])"
| "ref_origin (TGen c args) = (Some c, Some args)"
| "ref_origin _ = (None, None)"

definition reference_valid :: "pyty \<Rightarrow> string \<Rightarrow> ctx \<Rightarrow> pyobj result" where
  "reference_valid target value c =
     bind_r (find_device value c)
       (\<lambda>val. case (val, ref_origin target) of
          (InstObj i attrs, (Some t, args)) \<Rightarrow>
            bind_r (is_compatible i t args)
              (\<lambda>ok. if ok then Inr (InstObj i attrs)
                 else Inl (ValueError (''Device '' @ value @ '' ('' @ qualified_name (TClass (dv_class i)) @
                        '') is not of type '' @ qualified_generic_name target)))
        | _ \<Rightarrow> Inl (ValueError (''Device '' @ value @ '' cannot be found'')))"

text \<open>The fields a composite is built from (\<open>_composite_factory\<close>).\<close>

definition inject_composite :: "cls \<Rightarrow> ctx \<Rightarrow> (string \<times> pyobj) list result" where
  "inject_composite c0 c =
     mapM_r (\<lambda>n. bind_r (find_device n c) (\<lambda>d. Inr (n, d))) (cls_fields c0)"


subsection \<open>The registries agree\<close>

definition ctx_ok :: "ctx \<Rightarrow> bool" where
  "ctx_ok c \<longleftrightarrow>
     dict_ok (ctx_plans c) \<and> dict_ok (ctx_devices c) \<and>
     map fst (ctx_plans c) = map fst (ctx_plan_functions c) \<and>
     list_all (\<lambda>(n, p). plan_name p = n \<and> pm_name (plan_model p) = n) (ctx_plans c) \<and>
     list_all (\<lambda>(n, f). f_name f = n \<and> is_bluesky_plan_generator f = Inr True) (ctx_plan_functions c) \<and>
     list_all (\<lambda>(n, d). is_bluesky_compatible_device d) (ctx_devices c)"

lemma list_all_dict_set:
  "list_all P d \<Longrightarrow> P (k, v) \<Longrightarrow> list_all P (dict_set k v d)"
  by (induction d) auto

lemma new_ctx_ok [simp]: "ctx_ok new_ctx"
  by (simp add: ctx_ok_def new_ctx_def)

lemma register_plan_ok: "ctx_ok c \<Longrightarrow> ctx_ok (snd (register_plan f c))"
  by (auto simp: register_plan_def ctx_ok_def Let_def dict_keys_set list_all_dict_set
      split: sum.splits bool.splits)

lemma register_device_ok: "ctx_ok c \<Longrightarrow> ctx_ok (snd (register_device d n c))"
  by (auto simp: register_device_def ctx_ok_def list_all_dict_set split: option.splits)

lemma plan_module_loop_ok: "ctx_ok c \<Longrightarrow> ctx_ok (snd (plan_module_loop m objs c))"
proof (induction m objs c rule: plan_module_loop.induct)
  case (4 m f objs c)
  have "ctx_ok (snd (register_plan f c))" using "4.prems" by (rule register_plan_ok)
  with "4" show ?case by (auto split: sum.splits prod.splits)
qed auto

lemma register_devices_ok: "ctx_ok c \<Longrightarrow> ctx_ok (snd (register_devices ds c))"
proof (induction ds arbitrary: c)
  case (Cons d ds)
  have "ctx_ok (snd (register_device d None c))" using Cons.prems by (rule register_device_ok)
  with Cons show ?case by (auto split: sum.splits prod.splits)
qed simp

lemma with_device_manager_ok: "ctx_ok c \<Longrightarrow> ctx_ok (snd (with_device_manager b mock c))"
  by (auto simp: with_device_manager_def split: sum.splits prod.splits
      dest: register_devices_ok [of c] intro: register_devices_ok)
    (metis register_devices_ok snd_conv)+

lemma load_sources_ok: "ctx_ok c \<Longrightarrow> ctx_ok (snd (load_sources w srcs c))"
proof (induction srcs arbitrary: c)
  case (Cons src srcs)
  have a: "ctx_ok (snd (with_plan_module m c))" for m
    using Cons.prems by (simp add: with_plan_module_def plan_module_loop_ok)
  have b: "ctx_ok (snd (with_device_manager mgr mock c))" for mgr mock
    using Cons.prems by (rule with_device_manager_ok)
  show ?case
    using Cons.prems Cons.IH a b
    by (auto split: sum.splits prod.splits source.splits option.splits) (metis snd_conv)+
qed simp

lemma with_config_ok: "ctx_ok c \<Longrightarrow> ctx_ok (snd (with_config w env c))"
  unfolding with_config_def by (rule load_sources_ok) (auto simp: ctx_ok_def split: option.splits)

lemma configure_tiled_ok: "ctx_ok c \<Longrightarrow> ctx_ok (snd (configure_tiled te cfg c))"
  by (auto simp: configure_tiled_def ctx_ok_def Let_def split: tiled_auth.splits option.splits sum.splits)

lemma load_sources_then_tiled_ok: "ctx_ok c \<Longrightarrow>
    ctx_ok (snd (case with_config w env c of
               (Inl e, c') \<Rightarrow> (Inl e, c') | (Inr _, c') \<Rightarrow> configure_tiled te cfg c'))"
  using with_config_ok [of c w env] configure_tiled_ok
  by (auto split: sum.splits prod.splits)

text \<open>
  Claim C12. However building the context from a configuration ends (with an exception or without),
  its registries agree: the plans and the plan functions have the same names in the same order, each
  plan, its model and its function carry the name they are stored under, every function is a plan
  generator and every device is compatible with Bluesky.
\<close>

theorem post_init_registries_agree: "ctx_ok (snd (post_init w te cfg))"
proof -
  have "ctx_ok (new_ctx\<lparr>ctx_numtracker := n, ctx_path_provider := b\<rparr>)" for n b
    by (simp add: ctx_ok_def new_ctx_def)
  then show ?thesis
    by (auto simp: post_init_def load_sources_then_tiled_ok split: option.splits simp del: with_config_def)
qed

subsection \<open>What a plan module contributes\<close>

definition module_plans :: "module \<Rightarrow> mod_obj result list \<Rightarrow> func list" where
  "module_plans m objs =
     concat (map (\<lambda>ob. case ob of
         Inr (FuncObj f) \<Rightarrow>
           (if is_bluesky_plan_generator f = Inr True \<and>
               (mod_all m \<noteq> None \<or> is_function_sourced_from_module f m) then [f] else [])
       | _ \<Rightarrow> []) objs)"

lemma module_plans_simps [simp]:
  "module_plans m [] = []"
  "module_plans m (Inl e # objs) = module_plans m objs"
  "module_plans m (Inr OtherModObj # objs) = module_plans m objs"
  "module_plans m (Inr (FuncObj f) # objs) =
     (if is_bluesky_plan_generator f = Inr True \<and>
         (mod_all m \<noteq> None \<or> is_function_sourced_from_module f m) then [f] else []) @ module_plans m objs"
  by (simp_all add: module_plans_def)

lemma register_plan_functions:
  "register_plan f c = (Inr g, c') \<Longrightarrow>
     ctx_plan_functions c' = dict_set (f_name f) f (ctx_plan_functions c) \<and> ctx_devices c' = ctx_devices c"
  by (auto simp: register_plan_def Let_def split: sum.splits bool.splits)

lemma plan_module_loop_functions:
  "plan_module_loop m objs c = (Inr (), c') \<Longrightarrow>
     ctx_plan_functions c' =
       dict_update (ctx_plan_functions c) (map (\<lambda>f. (f_name f, f)) (module_plans m objs)) \<and>
     ctx_devices c' = ctx_devices c"
proof (induction m objs c rule: plan_module_loop.induct)
  case (4 m f objs c)
  then show ?case
    by (auto simp: dict_update_def split: sum.splits prod.splits if_splits dest!: register_plan_functions)
qed (auto simp: dict_update_def)

text \<open>
  A plan module that loads without an exception adds, under their names, the plan
  generators among its exported objects that it defines itself (all the exported ones, when it has
  an \<open>__all__\<close>). The last function of a name wins, plans of earlier modules stay unless a
  name repeats, and devices do not change.
\<close>

theorem with_plan_module_registers:
  assumes "ctx_ok c" and "with_plan_module m c = (Inr (), c')"
  shows "map_of (ctx_plan_functions c') =
           map_of (ctx_plan_functions c) ++
           map_of (rev (map (\<lambda>f. (f_name f, f)) (module_plans m (load_module_all m)))) \<and>
         ctx_devices c' = ctx_devices c"
proof -
  have "dict_ok (ctx_plan_functions c)"
    using assms(1) by (auto simp: ctx_ok_def)
  with assms(2) show ?thesis
    by (auto simp: with_plan_module_def dict_update_lookup dest!: plan_module_loop_functions)
qed

definition msg_gen :: pyty where
  "msg_gen = TGen \<lparr>cls_module = ''collections.abc'', cls_qualname = ''Generator'', cls_supers = [],
                  cls_conforms = [], cls_composite = False, cls_fields = []\<rparr>
     [TClass \<lparr>cls_module = ''bluesky.utils'', cls_qualname = ''Msg'', cls_supers = [],
                  cls_conforms = [], cls_composite = False, cls_fields = []\<rparr>]"

definition plan_func :: "string \<Rightarrow> string \<Rightarrow> func" where
  "plan_func n m = \<lparr>f_name = n, f_module = m, f_doc = None, f_hints_ok = True,
     f_return = Some msg_gen, f_params = []\<rparr>"

definition plans_module :: module where
  "plans_module = \<lparr>mod_name = ''my.plans'', mod_export = None, mod_all = None,
     mod_globals = [(''scan'', FuncObj (plan_func ''scan'' ''my.plans'')), (''np'', OtherModObj),
       (''count'', FuncObj (plan_func ''count'' ''bluesky.plans'')),
       (''_aux'', FuncObj (plan_func ''_aux'' ''my.plans''))]\<rparr>"

lemma plan_func_is_plan [simp]: "is_bluesky_plan_generator (plan_func n m) = Inr True"
  by (simp add: is_bluesky_plan_generator_def plan_func_def msg_gen_def cls_full_def)

theorem with_plan_module_registers_witness:
  "\<exists>c'. with_plan_module plans_module new_ctx = (Inr (), c') \<and>
     map_of (ctx_plan_functions c') = [''scan'' \<mapsto> plan_func ''scan'' ''my.plans'']"
proof -
  have l: "load_module_all plans_module =
      [Inr (FuncObj (plan_func ''scan'' ''my.plans'')), Inr OtherModObj,
       Inr (FuncObj (plan_func ''count'' ''bluesky.plans''))]"
    by (simp add: load_module_all_def plans_module_def starts_with_def)
  have r: "\<exists>c'. register_plan (plan_func ''scan'' ''my.plans'') new_ctx = (Inr (plan_func ''scan'' ''my.plans''), c')"
    by (simp add: register_plan_def type_spec_for_function_def Let_def) (simp add: plan_func_def)
  then obtain c' where c': "register_plan (plan_func ''scan'' ''my.plans'') new_ctx = (Inr (plan_func ''scan'' ''my.plans''), c')"
    by blast
  have w: "with_plan_module plans_module new_ctx = (Inr (), c')"
    unfolding with_plan_module_def l
    by (simp add: c' plans_module_def is_function_sourced_from_module_def) (simp add: plan_func_def)
  have "module_plans plans_module (load_module_all plans_module) = [plan_func ''scan'' ''my.plans'']"
    unfolding l by (simp add: plans_module_def is_function_sourced_from_module_def) (simp add: plan_func_def)
  with with_plan_module_registers [OF new_ctx_ok w] w show ?thesis
    by (simp add: new_ctx_def) (simp add: plan_func_def)
qed

subsection \<open>Devices and references\<close>

text \<open>The device registry behind \<open>register_device\<close> is a store with the laws of a dictionary.\<close>

definition put_device :: "string \<Rightarrow> pyobj \<Rightarrow> ctx \<Rightarrow> ctx" where
  "put_device n d c = c\<lparr>ctx_devices := dict_set n d (ctx_devices c)\<rparr>"

definition look_device :: "ctx \<Rightarrow> string \<Rightarrow> pyobj option" where
  "look_device c = map_of (ctx_devices c)"

interpretation devices: keyed_store "\<lambda>c. dict_ok (ctx_devices c)" look_device put_device
  by unfold_locales (auto simp: put_device_def look_device_def)

lemma register_device_puts:
  "register_device d n c = (Inr (), c') \<Longrightarrow> is_bluesky_compatible_device d \<and>
     c' = put_device (case n of Some x \<Rightarrow> x | None \<Rightarrow> the (has_name d)) d c"
  by (auto simp: register_device_def put_device_def split: option.splits if_splits)

lemma find_device_plain:
  "CHR ''.'' \<notin> set n \<Longrightarrow> find_device n c =
     (case look_device c n of
        None \<Rightarrow> Inr NoneObj
      | Some d \<Rightarrow> if is_bluesky_compatible_device d \<or> d = NoneObj then Inr d
                  else find_device n c)"
  by (auto simp: find_device_def find_device_list_def look_device_def split_on_no_sep get_component_def
      split: option.splits)

text \<open>
  A device registered under a name without dots is what the name finds, replacing a
  device of the same name, and every other plain name finds what it found before.
\<close>

theorem register_device_then_find:
  assumes "dict_ok (ctx_devices c)" and "register_device d (Some n) c = (Inr (), c')"
    and "CHR ''.'' \<notin> set n" and "CHR ''.'' \<notin> set k"
  shows "find_device n c' = Inr d \<and> (k \<noteq> n \<longrightarrow> find_device k c' = find_device k c)"
proof -
  from register_device_puts [OF assms(2)]
  have d: "is_bluesky_compatible_device d" and c': "c' = put_device n d c" by simp_all
  have "find_device n c' = Inr d"
    using d by (simp add: find_device_plain [OF assms(3)] c' devices.look_put_same [OF assms(1)])
  moreover have "find_device k c' = find_device k c" if "k \<noteq> n"
    using assms(4) devices.look_put_other [OF assms(1) that, of d]
    by (simp add: find_device_def find_device_list_def split_on_no_sep get_component_def
        look_device_def c')
  ultimately show ?thesis by blast
qed

theorem register_device_then_find_witness:
  "\<exists>c'. register_device (sim_motor ''m'' []) (Some ''stage'') new_ctx = (Inr (), c') \<and>
     find_device ''stage'' c' = Inr (sim_motor ''m'' []) \<and> find_device ''m'' c' = Inr NoneObj"
proof -
  let ?c = "put_device ''stage'' (sim_motor ''m'' []) new_ctx"
  have r: "register_device (sim_motor ''m'' []) (Some ''stage'') new_ctx = (Inr (), ?c)"
    by (simp add: register_device_def put_device_def)
  have n: "find_device ''m'' new_ctx = Inr NoneObj"
    by (simp add: find_device_plain look_device_def new_ctx_def)
  have "dict_ok (ctx_devices new_ctx)" by (simp add: new_ctx_def)
  from register_device_then_find [OF this r, of "''m''"] r n show ?thesis by auto
qed

text \<open>
  A parameter that refers to a device by name validates exactly when the name leads to a
  registered device (through attributes of devices when it has dots) of a compatible type, and the
  value the plan receives is that device.
\<close>

theorem reference_valid_iff:
  "reference_valid target value c = Inr d \<longleftrightarrow>
     (\<exists>i attrs t args. d = InstObj i attrs \<and> ref_origin target = (Some t, args) \<and>
        at_path (DictObj (ctx_devices c)) (split_on CHR ''.'' value) d \<and>
        is_bluesky_compatible_device d \<and> is_compatible i t args = Inr True)"
proof -
  have f: "find_device value c = Inr (InstObj i attrs) \<longleftrightarrow>
      at_path (DictObj (ctx_devices c)) (split_on CHR ''.'' value) (InstObj i attrs) \<and>
      is_bluesky_compatible_device (InstObj i attrs)" for i attrs
    unfolding find_device_def find_device_list_def
    using find_component_sound [of _ _ "InstObj i attrs"] find_component_complete [of _ _ "InstObj i attrs"]
    by blast
  show ?thesis
  proof (cases "\<exists>i attrs. find_device value c = Inr (InstObj i attrs)")
    case True
    then obtain i attrs where fd: "find_device value c = Inr (InstObj i attrs)" by blast
    then have p: "at_path (DictObj (ctx_devices c)) (split_on CHR ''.'' value) (InstObj i attrs)"
        "is_bluesky_compatible_device (InstObj i attrs)" by (simp_all add: f)
    have v: "reference_valid target value c = Inr d \<longleftrightarrow>
        d = InstObj i attrs \<and> (\<exists>t args. ref_origin target = (Some t, args) \<and> is_compatible i t args = Inr True)"
    proof -
      obtain ot args where ro: "ref_origin target = (ot, args)" by (cases "ref_origin target")
      show ?thesis
      proof (cases ot)
        case None
        with ro show ?thesis by (simp add: reference_valid_def fd)
      next
        case (Some t)
        with ro show ?thesis
          by (cases "is_compatible i t args") (auto simp: reference_valid_def fd)
      qed
    qed
    show ?thesis
    proof
      assume "reference_valid target value c = Inr d"
      with v p show "\<exists>i attrs t args. d = InstObj i attrs \<and> ref_origin target = (Some t, args) \<and>
        at_path (DictObj (ctx_devices c)) (split_on CHR ''.'' value) d \<and>
        is_bluesky_compatible_device d \<and> is_compatible i t args = Inr True" by blast
    next
      assume "\<exists>i attrs t args. d = InstObj i attrs \<and> ref_origin target = (Some t, args) \<and>
        at_path (DictObj (ctx_devices c)) (split_on CHR ''.'' value) d \<and>
        is_bluesky_compatible_device d \<and> is_compatible i t args = Inr True"
      then obtain i' attrs' t args where d: "d = InstObj i' attrs'"
        "ref_origin target = (Some t, args)" "is_compatible i' t args = Inr True"
        "at_path (DictObj (ctx_devices c)) (split_on CHR ''.'' value) d" by blast
      from at_path_deterministic [OF p(1) d(4)] d(1) have "i' = i" "d = InstObj i attrs" by simp_all
      with d show "reference_valid target value c = Inr d" unfolding v by blast
    qed
  next
    case False
    then have "reference_valid target value c \<noteq> Inr d"
      unfolding reference_valid_def
      by (cases "find_device value c") (auto split: pyobj.splits)
    with False show ?thesis by (auto simp: f)
  qed
qed

end
