(* ===== verification/WorkerEvents.thy ===== *)
theory WorkerEvents
  imports PyStrings PlanContext
begin

section \<open>States, tasks and events of the worker (worker/event.py, worker/task.py)\<close>

text \<open>
  The state of the worker as an enumeration, the outcome of a task, the events the worker
  publishes, and the task that runs a plan. The pydantic validation of plan parameters, the
  serialisation of a plan's result and the RunEngine are third-party code and so parameters.
\<close>

subsection \<open>Worker states\<close>

datatype worker_state =
  IDLE | RUNNING | PAUSING | PAUSED | HALTING | STOPPING | ABORTING | SUSPENDING | PANICKED | UNKNOWN

fun state_value :: "worker_state \<Rightarrow> string" where
  "state_value IDLE = ''IDLE''"
| "state_value RUNNING = ''RUNNING''"
| "state_value PAUSING = ''PAUSING''"
| "state_value PAUSED = ''PAUSED''"
| "state_value HALTING = ''HALTING''"
| "state_value STOPPING = ''STOPPING''"
| "state_value ABORTING = ''ABORTING''"
| "state_value SUSPENDING = ''SUSPENDING''"
| "state_value PANICKED = ''PANICKED''"
| "state_value UNKNOWN = ''UNKNOWN''"

definition all_worker_states :: "worker_state list" where
  "all_worker_states =
     [IDLE, RUNNING, PAUSING, PAUSED, HALTING, STOPPING, ABORTING, SUSPENDING, PANICKED, UNKNOWN]"

text \<open>\<open>WorkerState(s)\<close> looks the member up by its value.\<close>

definition worker_state_of :: "string \<Rightarrow> worker_state result" where
  "worker_state_of s =
     (case find (\<lambda>st. state_value st = s) all_worker_states of
        Some st \<Rightarrow> Inr st
      | None \<Rightarrow> Inl (ValueError (py_repr s @ '' is not a valid WorkerState'')))"

text \<open>The RunEngine gives its state as a member of its own enumeration or as text.\<close>

datatype raw_state = StatesMember string | RawText string

fun from_bluesky_state :: "raw_state \<Rightarrow> worker_state result" where
  "from_bluesky_state (StatesMember v) = worker_state_of (upper v)"
| "from_bluesky_state (RawText s) = worker_state_of (upper s)"

fun raw_text :: "raw_state \<Rightarrow> string" where
  "raw_text (StatesMember v) = v"
| "raw_text (RawText s) = s"

lemma worker_state_of_value [simp]: "worker_state_of (state_value st) = Inr st"
  by (cases st) (simp_all add: worker_state_of_def all_worker_states_def)

lemma worker_state_of_iff: "worker_state_of s = Inr st \<longleftrightarrow> s = state_value st"
proof
  assume "worker_state_of s = Inr st"
  then show "s = state_value st"
    by (auto simp: worker_state_of_def find_Some_iff split: option.splits)
qed simp

lemma from_bluesky_state_iff: "from_bluesky_state r = Inr st \<longleftrightarrow> upper (raw_text r) = state_value st"
  by (cases r) (simp_all add: worker_state_of_iff)

lemma upper_lower_char: "65 \<le> (of_char c :: nat) \<Longrightarrow> of_char c \<le> (90 :: nat) \<Longrightarrow> upper_char (lower_char c) = c"
  by (simp add: upper_char_def lower_char_def Let_def of_char_of_nat)

lemma upper_lower_value [simp]: "upper (lower (state_value st)) = state_value st"
  by (cases st) (simp_all add: upper_def lower_def upper_lower_char)

text \<open>
  A RunEngine state converts to a worker state exactly when its text, in upper case, is
  that state's value; every other text raises a \<open>ValueError\<close>; and each worker state is the
  conversion of its own value in lower case, as the RunEngine spells it.
\<close>

theorem from_bluesky_state_correct:
  "(from_bluesky_state r = Inr st \<longleftrightarrow> upper (raw_text r) = state_value st) \<and>
   ((\<exists>m. from_bluesky_state r = Inl (ValueError m)) \<longleftrightarrow> upper (raw_text r) \<notin> range state_value) \<and>
   from_bluesky_state (StatesMember (lower (state_value st))) = Inr st"
proof (intro conjI)
  have "(\<exists>m. worker_state_of s = Inl (ValueError m)) \<longleftrightarrow> s \<notin> range state_value" for s
  proof (cases "worker_state_of s")
    case (Inr st')
    then show ?thesis by (auto simp: worker_state_of_iff)
  next
    case (Inl e)
    then have "s \<noteq> state_value st'" for st' by auto
    with Inl show ?thesis by (auto simp: worker_state_of_def split: option.splits)
  qed
  then show "(\<exists>m. from_bluesky_state r = Inl (ValueError m)) \<longleftrightarrow> upper (raw_text r) \<notin> range state_value"
    by (cases r) simp_all
  show "from_bluesky_state (StatesMember (lower (state_value st))) = Inr st"
    by simp
qed (rule from_bluesky_state_iff)

datatype task_status_enum = TS_PENDING | TS_COMPLETE | TS_ERROR | TS_RUNNING

subsection \<open>Outcomes\<close>

text \<open>
  A Python object as \<open>TaskResult.from_result\<close> sees it: the name of its class and what
  \<open>TypeAdapter(type(obj)).dump_python(obj, mode="json")\<close> gives or raises.
\<close>

record plan_obj =
  po_type :: string
  po_dump :: "pyval result"

datatype outcome = TaskResult pyval string | TaskError string string

definition not_serialisable :: "exn \<Rightarrow> bool" where
  "not_serialisable e \<longleftrightarrow>
     exn_class e \<in> {''PydanticSchemaGenerationError'', ''PydanticSerializationError''}"

definition from_result :: "plan_obj \<Rightarrow> outcome result" where
  "from_result r =
     (case po_dump r of
        Inr value \<Rightarrow> Inr (TaskResult value (po_type r))
      | Inl e \<Rightarrow> if not_serialisable e then Inr (TaskResult PNone (po_type r)) else Inl e)"

definition from_exception :: "exn \<Rightarrow> outcome" where
  "from_exception err = TaskError (exn_class err) (exn_str err)"

subsection \<open>Events\<close>

record status_view =
  sv_display_name :: string
  sv_current :: "rat option"
  sv_initial :: "rat option"
  sv_target :: "rat option"
  sv_unit :: string
  sv_precision :: "int option"
  sv_done :: bool
  sv_percentage :: "rat option"
  sv_time_elapsed :: "rat option"
  sv_time_remaining :: "rat option"

definition default_status_view :: status_view where
  "default_status_view = \<lparr>sv_display_name = ''Unknown'', sv_current = None, sv_initial = None,
     sv_target = None, sv_unit = ''units'', sv_precision = None, sv_done = False,
     sv_percentage = None, sv_time_elapsed = None, sv_time_remaining = None\<rparr>"

record progress_event =
  pe_task_id :: string
  pe_statuses :: "(string \<times> status_view) list"

record task_status =
  ts_task_id :: string
  ts_result :: "outcome option"
  ts_task_complete :: bool
  ts_task_failed :: bool

record worker_event =
  we_state :: worker_state
  we_task_status :: "task_status option"
  we_errors :: "string list"
  we_warnings :: "string list"

record data_event =
  de_name :: string
  de_doc :: pydict
  de_task_id :: string

definition we_is_error :: "worker_event \<Rightarrow> bool" where
  "we_is_error e \<longleftrightarrow>
     (case we_task_status e of Some ts \<Rightarrow> ts_task_failed ts | None \<Rightarrow> False) \<or> we_errors e \<noteq> []"

definition we_is_complete :: "worker_event \<Rightarrow> bool" where
  "we_is_complete e \<longleftrightarrow> (case we_task_status e of Some ts \<Rightarrow> ts_task_complete ts | None \<Rightarrow> False)"

definition we_task_id :: "worker_event \<Rightarrow> string option" where
  "we_task_id e = map_option ts_task_id (we_task_status e)"

subsection \<open>Tasks\<close>

record task =
  task_name :: string
  task_params :: pydict
  task_metadata :: pydict

text \<open>
  \<open>validate\<close> is pydantic: it checks the given parameters against the plan's model in a context
  (the model's references look devices up there) and returns the fields with their values.
\<close>

datatype arg = ArgValue pyval | ArgDevice pyobj

type_synonym prepared = "(string \<times> arg) list"

type_synonym validator = "ctx \<Rightarrow> plan_model \<Rightarrow> pydict \<Rightarrow> prepared result"

definition lookup_params :: "validator \<Rightarrow> ctx \<Rightarrow> task \<Rightarrow> prepared result" where
  "lookup_params validate c t =
     (case map_of (ctx_plans c) (task_name t) of
        None \<Rightarrow> Inl (KeyError (task_name t))
      | Some p \<Rightarrow> validate c (plan_model p) (task_params t))"

text \<open>The fields of the model instance, collected again into a dictionary by name.\<close>

definition prepare_params :: "validator \<Rightarrow> ctx \<Rightarrow> task \<Rightarrow> prepared result" where
  "prepare_params validate c t =
     bind_r (lookup_params validate c t) (\<lambda>m. Inr (map (\<lambda>(f, v). (f, v)) m))"

text \<open>
  \<open>do_task\<close> up to the call of the RunEngine: the plan function and its arguments, with the
  metadata of the task merged into the RunEngine's. What the RunEngine then returns is turned into
  the task's result by \<open>do_task_result\<close>.
\<close>

definition do_task :: "validator \<Rightarrow> task \<Rightarrow> ctx \<Rightarrow> (func \<times> prepared) result \<times> ctx" where
  "do_task validate t c =
     (case map_of (ctx_plan_functions c) (task_name t) of
        None \<Rightarrow> (Inl (KeyError (task_name t)), c)
      | Some f \<Rightarrow>
          (case prepare_params validate c t of
             Inl e \<Rightarrow> (Inl e, c)
           | Inr args \<Rightarrow>
               (Inr (f, args), c\<lparr>ctx_run_engine_md := dict_update (ctx_run_engine_md c) (task_metadata t)\<rparr>)))"

datatype re_return = RunUids "string list" | RunResult plan_obj

definition none_obj :: plan_obj where
  "none_obj = \<lparr>po_type = ''NoneType'', po_dump = Inr PNone\<rparr>"

fun do_task_result :: "re_return \<Rightarrow> plan_obj" where
  "do_task_result (RunUids _) = none_obj"
| "do_task_result (RunResult r) = r"

lemma do_task_frame:
  "snd (do_task validate t c) = c\<lparr>ctx_run_engine_md := ctx_run_engine_md (snd (do_task validate t c))\<rparr>"
  by (simp add: do_task_def split: option.splits sum.splits)

text \<open>In a context whose registries agree, only the parameters decide whether a known plan starts.\<close>

lemma do_task_iff_prepared:
  assumes "ctx_ok c"
  shows "(\<exists>r. fst (do_task validate t c) = Inr r) \<longleftrightarrow> (\<exists>a. prepare_params validate c t = Inr a)"
proof -
  have "map_of (ctx_plan_functions c) n = None \<longleftrightarrow> map_of (ctx_plans c) n = None" for n
    using assms unfolding ctx_ok_def map_of_eq_None_iff set_map [symmetric] by simp
  then have n: "map_of (ctx_plan_functions c) (task_name t) = None \<Longrightarrow> map_of (ctx_plans c) (task_name t) = None"
    by simp
  show ?thesis
  proof (cases "map_of (ctx_plan_functions c) (task_name t)")
    case None
    with n show ?thesis by (simp add: do_task_def prepare_params_def lookup_params_def)
  next
    case (Some f)
    then show ?thesis by (cases "prepare_params validate c t") (simp_all add: do_task_def)
  qed
qed

end
