(* ===== verification/Channels.thy ===== *)
theory Channels
  imports Events WorkerEvents
begin

section \<open>The worker's event streams and their subscribers (service/interface.py, worker/task_worker.py)\<close>

text \<open>
  The three publishers of the worker with the callbacks the program subscribes to them: the one
  \<open>_submit_trackable_task\<close> waits on, the one that forwards events to STOMP, the one that pipes
  events to another process and the one that removes a task's Tiled writer. All of them act on the
  \<open>hub\<close>: the publishers, the document subscriptions of the RunEngine, the threading events
  (\<open>h_flags\<close>), the open pipes and what was sent. Calling a callback never reaches the rest of the
  worker.
\<close>

datatype event = WEvent worker_event | PEvent progress_event | DEvent data_event

datatype sub_channel = RunEngineCh | WorkerEventsCh

text \<open>
  A callback with what its closure holds: \<open>MarkTaskAsStarted task_id flag\<close>,
  \<open>ForwardMessage destination\<close>, \<open>PipeHandler pipe\<close> and
  \<open>RemoveWhenFinished task_id subscribers\<close>, whose list of subscribers is shared with the function
  that made it and so is an index into \<open>h_sub_lists\<close>.
\<close>

datatype callback =
    MarkTaskAsStarted string nat
  | ForwardMessage string
  | PipeHandler nat
  | RemoveWhenFinished "string option" nat

record hub =
  h_worker_events :: "callback publisher"
  h_progress_events :: "callback publisher"
  h_data_events :: "callback publisher"
  h_re_subs :: "nat list"                          \<comment> \<open>tokens of the RunEngine's subscriptions\<close>
  h_re_next :: nat
  h_flags :: "bool list"                           \<comment> \<open>the \<open>Event\<close> objects, set or not\<close>
  h_sub_lists :: "(sub_channel \<times> nat) list list"
  h_stomp_client :: bool
  h_stomp_error :: "exn option"                    \<comment> \<open>what a send to the broker raises, if anything\<close>
  h_stomp :: "(string \<times> event \<times> string option) list"
  h_broken_pipes :: "nat list"
  h_piped :: "(nat \<times> event) list"

definition new_hub :: hub where
  "new_hub = \<lparr>h_worker_events = new_publisher, h_progress_events = new_publisher,
     h_data_events = new_publisher, h_re_subs = [], h_re_next = 0, h_flags = [], h_sub_lists = [],
     h_stomp_client = False, h_stomp_error = None, h_stomp = [], h_broken_pipes = [], h_piped = []\<rparr>"

text \<open>The RunEngine's own subscriptions: \<open>subscribe\<close> returns a new token, \<open>unsubscribe\<close> drops it.\<close>

definition re_subscribe :: "hub \<Rightarrow> nat \<times> hub" where
  "re_subscribe h = (h_re_next h, h\<lparr>h_re_subs := h_re_subs h @ [h_re_next h], h_re_next := Suc (h_re_next h)\<rparr>)"

definition re_unsubscribe :: "nat \<Rightarrow> hub \<Rightarrow> hub" where
  "re_unsubscribe t h = h\<lparr>h_re_subs := filter (\<lambda>x. x \<noteq> t) (h_re_subs h)\<rparr>"

definition hub_subscribe_worker :: "callback \<Rightarrow> hub \<Rightarrow> nat \<times> hub" where
  "hub_subscribe_worker cb h =
     (let (t, p) = subscribe cb (h_worker_events h) in (t, h\<lparr>h_worker_events := p\<rparr>))"

definition hub_unsubscribe_worker :: "nat \<Rightarrow> hub \<Rightarrow> unit result \<times> hub" where
  "hub_unsubscribe_worker t h =
     (let (r, p) = unsubscribe t (h_worker_events h) in (r, h\<lparr>h_worker_events := p\<rparr>))"

fun channel_unsubscribe :: "sub_channel \<Rightarrow> nat \<Rightarrow> hub \<Rightarrow> unit result \<times> hub" where
  "channel_unsubscribe RunEngineCh t h = (Inr (), re_unsubscribe t h)"
| "channel_unsubscribe WorkerEventsCh t h = hub_unsubscribe_worker t h"

fun unsubscribe_list :: "(sub_channel \<times> nat) list \<Rightarrow> hub \<Rightarrow> unit result \<times> hub" where
  "unsubscribe_list [] h = (Inr (), h)"
| "unsubscribe_list ((ch, t) # subs) h =
     (case channel_unsubscribe ch t h of
        (Inl e, h') \<Rightarrow> (Inl e, h')
      | (Inr _, h') \<Rightarrow> unsubscribe_list subs h')"

definition no_task_status :: "event \<Rightarrow> exn" where
  "no_task_status ev = AttributeError (''object has no attribute '' @ py_repr ''task_status'')"

definition mark_task_as_started :: "string \<Rightarrow> nat \<Rightarrow> event \<Rightarrow> hub \<Rightarrow> unit result \<times> hub" where
  "mark_task_as_started tid flag ev h =
     (case ev of
        WEvent e \<Rightarrow>
          (case we_task_status e of
             Some ts \<Rightarrow>
               (Inr (), if ts_task_id ts = tid then h\<lparr>h_flags := (h_flags h)[flag := True]\<rparr> else h)
           | None \<Rightarrow> (Inr (), h))
      | _ \<Rightarrow> (Inl (no_task_status ev), h))"

definition forward_message :: "string \<Rightarrow> event \<Rightarrow> string option \<Rightarrow> hub \<Rightarrow> unit result \<times> hub" where
  "forward_message dest ev cid h =
     (if h_stomp_client h then
        (case h_stomp_error h of
           Some e \<Rightarrow> (Inl e, h)
         | None \<Rightarrow> (Inr (), h\<lparr>h_stomp := h_stomp h @ [(dest, ev, cid)]\<rparr>))
      else (Inr (), h))"

text \<open>A broken pipe is logged and otherwise ignored.\<close>

definition pipe_handler :: "nat \<Rightarrow> event \<Rightarrow> hub \<Rightarrow> unit result \<times> hub" where
  "pipe_handler pipe ev h =
     (if pipe \<in> set (h_broken_pipes h) then (Inr (), h)
      else (Inr (), h\<lparr>h_piped := h_piped h @ [(pipe, ev)]\<rparr>))"

definition remove_callback_when_task_finished :: "string option \<Rightarrow> nat \<Rightarrow> event \<Rightarrow> hub \<Rightarrow> unit result \<times> hub" where
  "remove_callback_when_task_finished tid subs ev h =
     (case ev of
        WEvent e \<Rightarrow>
          (case we_task_status e of
             Some ts \<Rightarrow>
               if Some (ts_task_id ts) = tid \<and> ts_task_complete ts
               then unsubscribe_list (h_sub_lists h ! subs) h
               else (Inr (), h)
           | None \<Rightarrow> (Inr (), h))
      | _ \<Rightarrow> (Inl (no_task_status ev), h))"

fun call_callback :: "callback \<Rightarrow> event \<Rightarrow> string option \<Rightarrow> hub \<Rightarrow> unit result \<times> hub" where
  "call_callback (MarkTaskAsStarted tid flag) ev cid h = mark_task_as_started tid flag ev h"
| "call_callback (ForwardMessage dest) ev cid h = forward_message dest ev cid h"
| "call_callback (PipeHandler pipe) ev cid h = pipe_handler pipe ev h"
| "call_callback (RemoveWhenFinished tid subs) ev cid h = remove_callback_when_task_finished tid subs ev h"

text \<open>Publishing on each of the streams; \<open>event_str\<close> is pydantic's \<open>str\<close> of an event.\<close>

definition publish_worker :: "(event \<Rightarrow> string) \<Rightarrow> worker_event \<Rightarrow> string option \<Rightarrow> hub \<Rightarrow> unit result \<times> hub" where
  "publish_worker event_str e cid h = publish event_str call_callback (h_worker_events h) (WEvent e) cid h"

definition publish_progress :: "(event \<Rightarrow> string) \<Rightarrow> progress_event \<Rightarrow> string option \<Rightarrow> hub \<Rightarrow> unit result \<times> hub" where
  "publish_progress event_str e cid h = publish event_str call_callback (h_progress_events h) (PEvent e) cid h"

definition publish_data :: "(event \<Rightarrow> string) \<Rightarrow> data_event \<Rightarrow> string option \<Rightarrow> hub \<Rightarrow> unit result \<times> hub" where
  "publish_data event_str e cid h = publish event_str call_callback (h_data_events h) (DEvent e) cid h"

subsection \<open>What publishing keeps\<close>

text \<open>
  A relation between the hub before and after that holds when every callback keeps it: the
  publishers stay well-formed, flags are only ever set, and what was sent stays sent.
\<close>

definition hub_ok :: "hub \<Rightarrow> bool" where
  "hub_ok h \<longleftrightarrow> publisher_ok (h_worker_events h) \<and> publisher_ok (h_progress_events h) \<and>
     publisher_ok (h_data_events h)"

definition flags_le :: "bool list \<Rightarrow> bool list \<Rightarrow> bool" where
  "flags_le xs ys \<longleftrightarrow> length xs = length ys \<and> (\<forall>i < length xs. xs ! i \<longrightarrow> ys ! i)"

lemma flags_le_refl [simp]: "flags_le xs xs" by (simp add: flags_le_def)

lemma flags_le_trans: "flags_le xs ys \<Longrightarrow> flags_le ys zs \<Longrightarrow> flags_le xs zs"
  by (simp add: flags_le_def)

lemma flags_le_set [simp]: "flags_le xs (xs[i := True])"
proof -
  have "xs[i := True] ! j" if "xs ! j" "j < length xs" for j
    using that by (cases "j = i") simp_all
  then show ?thesis by (simp add: flags_le_def)
qed

text \<open>A predicate kept by every callback is kept by a delivery.\<close>

lemma deliver_keeps:
  assumes "\<And>cb h. P h \<Longrightarrow> P (snd (call cb ev cid h))" and "P h"
  shows "P (snd (deliver call cbs ev cid h))"
proof -
  have "P (fold (\<lambda>cb h. snd (call cb ev cid h)) cbs h)"
    using assms(2) by (induction cbs arbitrary: h) (auto intro: assms(1))
  then show ?thesis by (simp add: deliver_state)
qed

lemma publish_delivers:
  "snd (publish str_of call p ev cid h) = snd (deliver call (dict_values (subscriptions p)) ev cid h)"
  by (simp add: publish_def case_prod_beta)

lemma publish_keeps:
  assumes "\<And>cb h. P h \<Longrightarrow> P (snd (call cb ev cid h))" and "P h"
  shows "P (snd (publish str_of call p ev cid h))"
  unfolding publish_delivers using assms by (rule deliver_keeps)

lemma hub_unsubscribe_worker_ok: "hub_ok h \<Longrightarrow> hub_ok (snd (hub_unsubscribe_worker t h))"
  by (simp add: hub_ok_def hub_unsubscribe_worker_def Let_def case_prod_beta unsubscribe_ok)

lemma hub_subscribe_worker_ok: "hub_ok h \<Longrightarrow> hub_ok (snd (hub_subscribe_worker cb h))"
  by (simp add: hub_ok_def hub_subscribe_worker_def Let_def case_prod_beta subscribe_ok)

lemma channel_unsubscribe_ok: "hub_ok h \<Longrightarrow> hub_ok (snd (channel_unsubscribe ch t h))"
  by (cases ch) (simp_all add: hub_unsubscribe_worker_ok re_unsubscribe_def, simp add: hub_ok_def)

lemma unsubscribe_list_keeps:
  assumes "\<And>ch t h. P h \<Longrightarrow> P (snd (channel_unsubscribe ch t h))"
  shows "P h \<Longrightarrow> P (snd (unsubscribe_list subs h))"
proof (induction subs h rule: unsubscribe_list.induct)
  case (2 ch t subs h)
  have "P (snd (channel_unsubscribe ch t h))" using "2.prems" by (rule assms)
  with "2.IH" show ?case
    by (cases "channel_unsubscribe ch t h"; cases "fst (channel_unsubscribe ch t h)") auto
qed simp

text \<open>Induction over what a callback can do to the hub.\<close>

lemma call_callback_keeps:
  assumes "P h"
    and "\<And>ch t h. P h \<Longrightarrow> P (snd (channel_unsubscribe ch t h))"
    and "\<And>tid flag ts e. cb = MarkTaskAsStarted tid flag \<Longrightarrow> ev = WEvent e \<Longrightarrow> we_task_status e = Some ts \<Longrightarrow>
        ts_task_id ts = tid \<Longrightarrow> P (h\<lparr>h_flags := (h_flags h)[flag := True]\<rparr>)"
    and "\<And>x. P (h\<lparr>h_stomp := h_stomp h @ [x]\<rparr>)"
    and "\<And>x. P (h\<lparr>h_piped := h_piped h @ [x]\<rparr>)"
  shows "P (snd (call_callback cb ev cid h))"
proof (cases cb)
  case (MarkTaskAsStarted tid flag)
  with assms(1) assms(3) [OF MarkTaskAsStarted] show ?thesis
    by (cases ev) (auto simp: mark_task_as_started_def split: option.splits)
next
  case (ForwardMessage dest)
  with assms(1,4) show ?thesis
    by (simp add: forward_message_def split: option.splits)
next
  case (PipeHandler p)
  with assms(1,5) show ?thesis by (simp add: pipe_handler_def)
next
  case (RemoveWhenFinished tid subs)
  with assms(1) unsubscribe_list_keeps [of P, OF assms(2) assms(1)] show ?thesis
    by (cases ev) (auto simp: remove_callback_when_task_finished_def split: option.splits)
qed

lemma call_callback_ok: "hub_ok h \<Longrightarrow> hub_ok (snd (call_callback cb ev cid h))"
  by (rule call_callback_keeps [where P = hub_ok]) (simp_all add: channel_unsubscribe_ok, simp_all add: hub_ok_def)

lemma channel_unsubscribe_frame:
  "h_flags (snd (channel_unsubscribe ch t h)) = h_flags h"
  "h_stomp (snd (channel_unsubscribe ch t h)) = h_stomp h"
  "h_piped (snd (channel_unsubscribe ch t h)) = h_piped h"
  "h_progress_events (snd (channel_unsubscribe ch t h)) = h_progress_events h"
  "h_data_events (snd (channel_unsubscribe ch t h)) = h_data_events h"
  by (cases ch; simp add: re_unsubscribe_def hub_unsubscribe_worker_def Let_def case_prod_beta)+

lemma call_callback_flags: "flags_le (h_flags h) (h_flags (snd (call_callback cb ev cid h)))"
  by (rule call_callback_keeps [where P = "\<lambda>h'. flags_le (h_flags h) (h_flags h')"])
    (simp_all add: channel_unsubscribe_frame)

lemma publish_hub_ok: "hub_ok h \<Longrightarrow> hub_ok (snd (publish str_of call_callback p ev cid h))"
  by (rule publish_keeps) (simp_all add: call_callback_ok)

lemma publish_flags: "flags_le (h_flags h) (h_flags (snd (publish str_of call_callback p ev cid h)))"
  by (rule publish_keeps [where P = "\<lambda>h'. flags_le (h_flags h) (h_flags h')"])
    (auto intro: flags_le_trans call_callback_flags)

text \<open>Which flags a delivery sets.\<close>

lemma call_callback_flag_length: "length (h_flags (snd (call_callback cb ev cid h))) = length (h_flags h)"
  using call_callback_flags [of h cb ev cid] by (simp add: flags_le_def)

lemma call_callback_flag_cause:
  "h_flags (snd (call_callback cb ev cid h)) ! i \<Longrightarrow> \<not> h_flags h ! i \<Longrightarrow>
     \<exists>tid e. cb = MarkTaskAsStarted tid i \<and> ev = WEvent e \<and> we_task_id e = Some tid"
  by (rule contrapos_pp [where Q = "h_flags (snd (call_callback cb ev cid h)) ! i"], assumption,
      rule call_callback_keeps [where P = "\<lambda>h. \<not> h_flags h ! i"])
    (auto simp: channel_unsubscribe_frame we_task_id_def nth_list_update_neq)

lemma call_callback_sets_flag:
  "we_task_id e = Some tid \<Longrightarrow> i < length (h_flags h) \<Longrightarrow>
     h_flags (snd (call_callback (MarkTaskAsStarted tid i) (WEvent e) cid h)) ! i"
  by (auto simp: mark_task_as_started_def we_task_id_def split: option.splits)

lemma deliver_flag_cause:
  "h_flags (snd (deliver call_callback cbs ev cid h)) ! i \<Longrightarrow> \<not> h_flags h ! i \<Longrightarrow>
     \<exists>tid e. MarkTaskAsStarted tid i \<in> set cbs \<and> ev = WEvent e \<and> we_task_id e = Some tid"
  unfolding deliver_state
proof (induction cbs arbitrary: h)
  case (Cons cb cbs)
  let ?h = "snd (call_callback cb ev cid h)"
  show ?case
  proof (cases "h_flags ?h ! i")
    case True
    from call_callback_flag_cause [OF True Cons.prems(2)] show ?thesis by auto
  next
    case False
    with Cons.IH [of ?h] Cons.prems(1) show ?thesis by auto
  qed
qed simp

lemma deliver_flags_le: "flags_le (h_flags h) (h_flags (snd (deliver call_callback cbs ev cid h)))"
  by (rule deliver_keeps [where P = "\<lambda>h'. flags_le (h_flags h) (h_flags h')"])
    (auto intro: flags_le_trans call_callback_flags)

lemma deliver_sets_flag:
  "MarkTaskAsStarted tid i \<in> set cbs \<Longrightarrow> we_task_id e = Some tid \<Longrightarrow> i < length (h_flags h) \<Longrightarrow>
     h_flags (snd (deliver call_callback cbs (WEvent e) cid h)) ! i"
proof (induction cbs arbitrary: h)
  case (Cons cb cbs)
  let ?h = "snd (call_callback cb (WEvent e) cid h)"
  have d: "snd (deliver call_callback (cb # cbs) (WEvent e) cid h) = snd (deliver call_callback cbs (WEvent e) cid ?h)"
    by (simp only: deliver_state fold.simps comp_def)
  show ?case
  proof (cases "cb = MarkTaskAsStarted tid i")
    case True
    with Cons.prems have "h_flags ?h ! i" by (simp add: call_callback_sets_flag del: call_callback.simps)
    then show ?thesis unfolding d
      using deliver_flags_le [of ?h cbs "WEvent e" cid] Cons.prems(3)
      by (simp add: flags_le_def call_callback_flag_length)
  next
    case False
    with Cons.prems have "MarkTaskAsStarted tid i \<in> set cbs" by simp
    then show ?thesis unfolding d using Cons.IH [of ?h] Cons.prems
      by (simp add: call_callback_flag_length)
  qed
qed simp

lemma publish_worker_flag_cause:
  "h_flags (snd (publish_worker f e cid h)) ! i \<Longrightarrow> \<not> h_flags h ! i \<Longrightarrow>
     \<exists>tid. MarkTaskAsStarted tid i \<in> snd ` set (subscriptions (h_worker_events h)) \<and> we_task_id e = Some tid"
  unfolding publish_worker_def publish_delivers by (drule deliver_flag_cause) auto

lemma publish_worker_sets_flag:
  "(t, MarkTaskAsStarted tid i) \<in> set (subscriptions (h_worker_events h)) \<Longrightarrow> we_task_id e = Some tid \<Longrightarrow>
     i < length (h_flags h) \<Longrightarrow> h_flags (snd (publish_worker f e cid h)) ! i"
  unfolding publish_worker_def publish_delivers
  by (rule deliver_sets_flag) (force simp: image_iff)+

end
