(* ===== verification/TaskWorker.thy ===== *)
theory TaskWorker
  imports Channels
begin

section \<open>The task worker (worker/task_worker.py)\<close>

text \<open>
  \<open>TaskWorker\<close> keeps the submitted tasks, hands them one at a time to a worker thread over a queue
  of size one, and reports what the RunEngine does. Several of its fields refer to the same
  \<open>TrackableTask\<close> objects (the pending and completed dictionaries, the queue and \<open>_current\<close>), and
  the worker thread updates the object, so the tasks live in a store and the fields hold references
  to it (indices of \<open>w_store\<close>).

  A method that blocks is split where it waits: \<open>submit_trackable_put\<close> and
  \<open>submit_trackable_wait\<close>; \<open>stop_put\<close> and \<open>wait_until_stopped\<close>; and one turn of \<open>_cycle\<close> into
  \<open>cycle_get\<close>, \<open>process_task\<close> (up to the call of the RunEngine), \<open>process_task_end\<close> (when it has
  returned) and \<open>cycle_finish\<close>. In between, the RunEngine calls \<open>_on_state_change\<close>,
  \<open>_on_document\<close> and \<open>_waiting_hook\<close>.
\<close>

subsection \<open>State\<close>

record trackable_task =
  tt_task_id :: string
  tt_task :: task
  tt_request_id :: "string option"
  tt_is_complete :: bool
  tt_is_pending :: bool
  tt_errors :: "string list"
  tt_outcome :: "outcome option"

datatype message = TaskMsg nat | KillSignal

text \<open>What the worker asks of the RunEngine.\<close>

datatype re_call = ReStop | ReAbort string | ReResume | RePause bool | ReRun func prepared

text \<open>Third-party code: the validation of parameters and the text of an event.\<close>

record lib =
  lib_validate :: validator
  lib_event_str :: "event \<Rightarrow> string"

record worker =
  w_ctx :: ctx
  w_store :: "trackable_task list"
  w_pending :: "(string \<times> nat) list"
  w_completed :: "(string \<times> nat) list"
  w_state :: worker_state
  w_errors :: "string list"
  w_warnings :: "string list"
  w_channel :: "message option"
  w_current :: "nat option"
  w_status_snapshot :: "(string \<times> status_view) list"
  w_completed_statuses :: "string list"
  w_hub :: hub
  w_started :: bool
  w_stopping :: bool
  w_stopped :: bool
  w_otel_context :: bool               \<comment> \<open>whether a tracing context is cached\<close>
  w_broadcast_statuses :: bool
  w_state_hook :: bool                 \<comment> \<open>the hooks the worker installs in the RunEngine\<close>
  w_waiting_hook :: bool
  w_doc_sub :: "nat option"
  w_watched :: "string list"           \<comment> \<open>statuses that were given the callbacks of the worker\<close>
  w_re_calls :: "re_call list"

definition new_worker :: "ctx \<Rightarrow> bool \<Rightarrow> hub \<Rightarrow> raw_state \<Rightarrow> worker result" where
  "new_worker c broadcast_statuses h re_state =
     bind_r (from_bluesky_state re_state) (\<lambda>st. Inr
       \<lparr>w_ctx = c, w_store = [], w_pending = [], w_completed = [], w_state = st,
        w_errors = [], w_warnings = [], w_channel = None, w_current = None,
        w_status_snapshot = [], w_completed_statuses = [],
        w_hub = h\<lparr>h_worker_events := new_publisher, h_progress_events := new_publisher,
                  h_data_events := new_publisher\<rparr>,
        w_started = False, w_stopping = False, w_stopped = True, w_otel_context = False,
        w_broadcast_statuses = broadcast_statuses, w_state_hook = False, w_waiting_hook = False,
        w_doc_sub = None, w_watched = [], w_re_calls = []\<rparr>)"

abbreviation task_at :: "worker \<Rightarrow> nat \<Rightarrow> trackable_task" where
  "task_at w r \<equiv> w_store w ! r"

definition update_task :: "nat \<Rightarrow> (trackable_task \<Rightarrow> trackable_task) \<Rightarrow> worker \<Rightarrow> worker" where
  "update_task r f w = w\<lparr>w_store := (w_store w)[r := f (task_at w r)]\<rparr>"

definition set_result :: "plan_obj \<Rightarrow> trackable_task \<Rightarrow> trackable_task result" where
  "set_result v t = bind_r (from_result v) (\<lambda>out. Inr (t\<lparr>tt_outcome := Some out\<rparr>))"

definition set_exception :: "exn \<Rightarrow> trackable_task \<Rightarrow> trackable_task" where
  "set_exception err t = t\<lparr>tt_outcome := Some (from_exception err)\<rparr>"

subsection \<open>The registry of tasks\<close>

definition clear_task :: "string \<Rightarrow> worker \<Rightarrow> string result \<times> worker" where
  "clear_task task_id w =
     (case map_of (w_pending w) task_id of
        Some r \<Rightarrow> (Inr (tt_task_id (task_at w r)), w\<lparr>w_pending := dict_del task_id (w_pending w)\<rparr>)
      | None \<Rightarrow>
          (case map_of (w_completed w) task_id of
             Some r \<Rightarrow> (Inr (tt_task_id (task_at w r)), w\<lparr>w_completed := dict_del task_id (w_completed w)\<rparr>)
           | None \<Rightarrow> (Inl (KeyError task_id), w)))"

definition get_task_by_id :: "string \<Rightarrow> worker \<Rightarrow> trackable_task result" where
  "get_task_by_id task_id w =
     (case map_of (w_pending w) task_id of
        Some r \<Rightarrow> Inr (task_at w r)
      | None \<Rightarrow>
          (case map_of (w_completed w) task_id of
             Some r \<Rightarrow> Inr (task_at w r)
           | None \<Rightarrow> Inl (KeyError task_id)))"

fun get_tasks :: "task_status_enum option \<Rightarrow> worker \<Rightarrow> trackable_task list" where
  "get_tasks (Some TS_RUNNING) w =
     filter (\<lambda>t. \<not> tt_is_pending t \<and> \<not> tt_is_complete t) (map (task_at w) (dict_values (w_pending w)))"
| "get_tasks (Some TS_PENDING) w =
     filter tt_is_pending (map (task_at w) (dict_values (w_pending w)))"
| "get_tasks (Some TS_COMPLETE) w = map (task_at w) (dict_values (w_completed w))"
| "get_tasks None w =
     map (task_at w) (dict_values (w_pending w)) @ map (task_at w) (dict_values (w_completed w))"
| "get_tasks (Some TS_ERROR) w = []"

definition get_active_task :: "worker \<Rightarrow> trackable_task option" where
  "get_active_task w = map_option (task_at w) (w_current w)"

text \<open>
  \<open>uuid\<close> is the fresh task id, \<open>baggage\<close> the correlation id of the request, which is kept when it
  is a string.
\<close>

definition request_id_of :: "pyval \<Rightarrow> string option" where
  "request_id_of baggage = (case baggage of PStr s \<Rightarrow> Some s | _ \<Rightarrow> None)"

definition trackable :: "string \<Rightarrow> string option \<Rightarrow> task \<Rightarrow> trackable_task" where
  "trackable uuid request_id t =
     \<lparr>tt_task_id = uuid,
      tt_task = t\<lparr>task_metadata := dict_set ''blueapi_task_id'' (PStr uuid) (task_metadata t)\<rparr>,
      tt_request_id = request_id, tt_is_complete = False, tt_is_pending = True, tt_errors = [], tt_outcome = None\<rparr>"

definition track_task :: "string \<Rightarrow> string option \<times> task \<Rightarrow> worker \<Rightarrow> worker" where
  "track_task uuid = (\<lambda>(request_id, t) w.
     w\<lparr>w_store := w_store w @ [trackable uuid request_id t],
       w_pending := dict_set uuid (length (w_store w)) (w_pending w)\<rparr>)"

definition submit_task :: "lib \<Rightarrow> string \<Rightarrow> pyval \<Rightarrow> task \<Rightarrow> worker \<Rightarrow> string result \<times> worker" where
  "submit_task L uuid baggage t w =
     (case prepare_params (lib_validate L) (w_ctx w) t of
        Inl e \<Rightarrow> (Inl e, w)
      | Inr _ \<Rightarrow> (Inr uuid, track_task uuid (request_id_of baggage, t) w))"

subsection \<open>Beginning a task\<close>

text \<open>
  \<open>submit_trackable_put\<close> returns the \<open>Event\<close> the caller now waits for and the token of its
  subscription.
\<close>

definition submit_trackable_put :: "nat \<Rightarrow> worker \<Rightarrow> (nat \<times> nat) result \<times> worker" where
  "submit_trackable_put r w =
     (if w_state w \<noteq> IDLE then
        (Inl (WorkerBusyError (''Worker is in state '' @ state_value (w_state w))), w)
      else if tt_is_complete (task_at w r) then (Inl (ValueError ''Task has already been run''), w)
      else
        (let h = w_hub w;
             flag = length (h_flags h);
             (sub, h') = hub_subscribe_worker (MarkTaskAsStarted (tt_task_id (task_at w r)) flag)
                           (h\<lparr>h_flags := h_flags h @ [False]\<rparr>);
             w' = w\<lparr>w_hub := h', w_otel_context := True\<rparr>
         in if w_channel w \<noteq> None then
              (case hub_unsubscribe_worker sub h' of
                 (Inl e, h'') \<Rightarrow> (Inl e, w'\<lparr>w_hub := h''\<rparr>)
               | (Inr _, h'') \<Rightarrow>
                   (Inl (WorkerBusyError ''Cannot submit task while another is running''), w'\<lparr>w_hub := h''\<rparr>))
            else (Inr (flag, sub), w'\<lparr>w_channel := Some (TaskMsg r)\<rparr>)))"

definition submit_trackable_wait :: "nat \<Rightarrow> nat \<Rightarrow> worker \<Rightarrow> unit result \<times> worker" where
  "submit_trackable_wait flag sub w =
     (case hub_unsubscribe_worker sub (w_hub w) of
        (Inl e, h) \<Rightarrow> (Inl e, w\<lparr>w_hub := h\<rparr>)
      | (Inr _, h) \<Rightarrow>
          (if h_flags (w_hub w) ! flag then Inr () else Inl (TimeoutError ''Failed to start plan within timeout''),
           w\<lparr>w_hub := h\<rparr>))"

definition begin_task :: "string \<Rightarrow> worker \<Rightarrow> (nat \<times> nat) result \<times> worker" where
  "begin_task task_id w =
     (case map_of (w_pending w) task_id of
        None \<Rightarrow> (Inl (KeyError (''No pending task with ID '' @ task_id)), w)
      | Some r \<Rightarrow> submit_trackable_put r w)"

subsection \<open>Commands to the RunEngine\<close>

text \<open>\<open>reply\<close> is how the RunEngine answers: it may raise (a \<open>TransitionError\<close>, say).\<close>

definition re_request :: "re_call \<Rightarrow> unit result \<Rightarrow> 'a \<Rightarrow> worker \<Rightarrow> 'a result \<times> worker" where
  "re_request call reply v w =
     (bind_r reply (\<lambda>_. Inr v), w\<lparr>w_re_calls := w_re_calls w @ [call]\<rparr>)"

definition cancel_active_task :: "bool \<Rightarrow> string option \<Rightarrow> unit result \<Rightarrow> worker \<Rightarrow> string result \<times> worker" where
  "cancel_active_task failure reason reply w =
     (case w_current w of
        None \<Rightarrow> (Inl (TransitionError ''Attempted to cancel while no active Task''), w)
      | Some r \<Rightarrow>
          re_request (if failure then ReAbort (or_str reason ''Task failed for unknown reason'') else ReStop)
            reply (tt_task_id (task_at w r)) w)"

definition pause :: "bool \<Rightarrow> unit result \<Rightarrow> worker \<Rightarrow> unit result \<times> worker" where
  "pause defer_pause reply w = re_request (RePause defer_pause) reply () w"

definition resume :: "unit result \<Rightarrow> worker \<Rightarrow> unit result \<times> worker" where
  "resume reply w = re_request ReResume reply () w"

subsection \<open>Reporting\<close>

definition report_error :: "exn \<Rightarrow> worker \<Rightarrow> worker" where
  "report_error err w =
     (let w' = (case w_current w of
                  None \<Rightarrow> w
                | Some r \<Rightarrow> update_task r (\<lambda>t. t\<lparr>tt_errors := tt_errors t @ [exn_str err]\<rparr>) w)
      in w'\<lparr>w_errors := w_errors w' @ [exn_str err]\<rparr>)"

definition current_status :: "worker \<Rightarrow> task_status option" where
  "current_status w =
     map_option (\<lambda>r. \<lparr>ts_task_id = tt_task_id (task_at w r), ts_result = tt_outcome (task_at w r),
                       ts_task_complete = tt_is_complete (task_at w r),
                       ts_task_failed = (tt_errors (task_at w r) \<noteq> [])\<rparr>) (w_current w)"

definition status_event :: "worker \<Rightarrow> worker_event" where
  "status_event w = \<lparr>we_state = w_state w, we_task_status = current_status w,
     we_errors = w_errors w, we_warnings = w_warnings w\<rparr>"

definition report_status :: "lib \<Rightarrow> worker \<Rightarrow> unit result \<times> worker" where
  "report_status L w =
     (let correlation_id = map_option (\<lambda>r. tt_task_id (task_at w r)) (w_current w);
          (res, h) = publish_worker (lib_event_str L) (status_event w) correlation_id (w_hub w)
      in (res, w\<lparr>w_hub := h\<rparr>))"

text \<open>An absent or empty old state counts as unknown; it is only logged.\<close>

definition on_state_change :: "lib \<Rightarrow> raw_state \<Rightarrow> raw_state option \<Rightarrow> worker \<Rightarrow> unit result \<times> worker" where
  "on_state_change L raw_new raw_old w =
     (case from_bluesky_state raw_new of
        Inl e \<Rightarrow> (Inl e, w)
      | Inr new_state \<Rightarrow>
          (case (case raw_old of
                   None \<Rightarrow> Inr UNKNOWN
                 | Some r \<Rightarrow> if raw_text r = [] then Inr UNKNOWN else from_bluesky_state r) of
             Inl e \<Rightarrow> (Inl e, w)
           | Inr old_state \<Rightarrow> report_status L (w\<lparr>w_state := new_state\<rparr>)))"

definition on_document :: "lib \<Rightarrow> string \<Rightarrow> pydict \<Rightarrow> worker \<Rightarrow> unit result \<times> worker" where
  "on_document L name doc w =
     (case w_current w of
        None \<Rightarrow> (Inl (KeyError ''Trying to emit a document despite the fact that the RunEngine is idle''), w)
      | Some r \<Rightarrow>
          if w_otel_context w then
            (let (res, h) = publish_data (lib_event_str L)
                   \<lparr>de_name = name, de_doc = doc, de_task_id = tt_task_id (task_at w r)\<rparr>
                   (tt_request_id (task_at w r)) (w_hub w)
             in (res, w\<lparr>w_hub := h\<rparr>))
          else
            (Inl (ValueError ''There is no context set for tracing despite the fact that a task is running, something has gone wrong...''), w))"

subsection \<open>Progress\<close>

record status_update =
  su_name :: "string option"
  su_current :: "rat option"
  su_initial :: "rat option"
  su_target :: "rat option"
  su_unit :: "string option"
  su_precision :: "int option"
  su_fraction :: "rat option"
  su_time_elapsed :: "rat option"
  su_time_remaining :: "rat option"

definition no_update :: status_update where
  "no_update = \<lparr>su_name = None, su_current = None, su_initial = None, su_target = None,
     su_unit = None, su_precision = None, su_fraction = None, su_time_elapsed = None, su_time_remaining = None\<rparr>"

definition view_of :: "bool \<Rightarrow> status_update \<Rightarrow> status_view" where
  "view_of done_now u =
     \<lparr>sv_display_name = or_str (su_name u) ''UNKNOWN'', sv_current = su_current u,
      sv_initial = su_initial u, sv_target = su_target u, sv_unit = or_str (su_unit u) ''units'',
      sv_precision = su_precision u, sv_done = done_now,
      sv_percentage = (if done_now then Some 1 else map_option (\<lambda>f. 1 - f) (su_fraction u)),
      sv_time_elapsed = su_time_elapsed u, sv_time_remaining = su_time_remaining u\<rparr>"

definition publish_status_snapshot :: "lib \<Rightarrow> worker \<Rightarrow> unit result \<times> worker" where
  "publish_status_snapshot L w =
     (case w_current w of
        None \<Rightarrow> (Inl (ValueError ''Got a status update without an active task!''), w)
      | Some r \<Rightarrow>
          (let tid = tt_task_id (task_at w r);
               (res, h) = publish_progress (lib_event_str L)
                 \<lparr>pe_task_id = tid, pe_statuses = w_status_snapshot w\<rparr> (Some tid) (w_hub w)
           in (res, w\<lparr>w_hub := h\<rparr>)))"

definition on_status_event :: "lib \<Rightarrow> bool \<Rightarrow> string \<Rightarrow> status_update \<Rightarrow> worker \<Rightarrow> unit result \<times> worker" where
  "on_status_event L done_now status_uuid u w =
     (if status_uuid \<notin> set (w_completed_statuses w)
      then publish_status_snapshot L
             (w\<lparr>w_status_snapshot := dict_set status_uuid (view_of done_now u) (w_status_snapshot w)\<rparr>)
      else (Inr (), w))"

definition on_complete :: "lib \<Rightarrow> bool \<Rightarrow> string \<Rightarrow> worker \<Rightarrow> unit result \<times> worker" where
  "on_complete L done_now status_uuid w =
     (case on_status_event L done_now status_uuid no_update w of
        (Inl e, w') \<Rightarrow> (Inl e, w')
      | (Inr _, w') \<Rightarrow>
          (case map_of (w_status_snapshot w') status_uuid of
             None \<Rightarrow> (Inl (KeyError status_uuid), w')
           | Some _ \<Rightarrow>
               (Inr (), w'\<lparr>w_status_snapshot := dict_del status_uuid (w_status_snapshot w'),
                           w_completed_statuses := List.insert status_uuid (w_completed_statuses w')\<rparr>)))"

text \<open>A status, as the worker sees it: whether it can be watched and whether it is done.\<close>

record re_status =
  rs_watchable :: bool
  rs_done :: bool

definition monitor_status :: "string \<Rightarrow> re_status \<Rightarrow> worker \<Rightarrow> worker" where
  "monitor_status status_uuid st w =
     (if rs_watchable st \<and> \<not> rs_done st
      then w\<lparr>w_status_snapshot := dict_set status_uuid default_status_view (w_status_snapshot w),
             w_watched := w_watched w @ [status_uuid]\<rparr>
      else w)"

fun waiting_hook :: "(string \<times> re_status) list option \<Rightarrow> worker \<Rightarrow> worker" where
  "waiting_hook None w = w"
| "waiting_hook (Some statuses) w = fold (\<lambda>(u, st). monitor_status u st) statuses w"

subsection \<open>Starting and stopping\<close>

definition start_stop_timeout :: string where
  "start_stop_timeout = ''30.0''"

definition wait_until_started :: "worker \<Rightarrow> unit result" where
  "wait_until_started w =
     (if w_started w then Inr ()
      else Inl (TimeoutError (''Worker did not start within '' @ start_stop_timeout @ '' seconds'')))"

definition wait_until_stopped :: "worker \<Rightarrow> unit result" where
  "wait_until_stopped w =
     (if w_stopped w then Inr ()
      else Inl (TimeoutError (''Worker did not stop within '' @ start_stop_timeout @ '' seconds'')))"

text \<open>\<open>start\<close> up to the launch of the thread; the thread runs \<open>run_enter\<close>, turns of \<open>_cycle\<close> and
  \<open>run_exit\<close>.\<close>

definition start_worker :: "worker \<Rightarrow> unit result" where
  "start_worker w =
     (if w_started w then Inl (WorkerAlreadyStartedError ''Worker is already running'')
      else wait_until_stopped w)"

text \<open>\<open>stop\<close> up to its wait: \<open>None\<close> when the put into the full queue blocks.\<close>

definition stop_put :: "worker \<Rightarrow> worker option" where
  "stop_put w =
     (if w_started w then
        (case w_channel w of None \<Rightarrow> Some (w\<lparr>w_channel := Some KillSignal\<rparr>) | Some _ \<Rightarrow> None)
      else Some w)"

definition run_enter :: "worker \<Rightarrow> worker" where
  "run_enter w =
     (let (subs, h) = re_subscribe (w_hub w)
      in w\<lparr>w_state_hook := True, w_doc_sub := Some subs, w_hub := h,
           w_waiting_hook := w_waiting_hook w \<or> w_broadcast_statuses w,
           w_stopped := False, w_started := True\<rparr>)"

definition run_exit :: "worker \<Rightarrow> worker" where
  "run_exit w =
     w\<lparr>w_started := False, w_stopping := False, w_stopped := True,
       w_hub := (case w_doc_sub w of Some subs \<Rightarrow> re_unsubscribe subs (w_hub w) | None \<Rightarrow> w_hub w),
       w_doc_sub := None\<rparr>"

subsection \<open>One turn of the worker's loop\<close>

definition cycle_get :: "worker \<Rightarrow> (message \<times> worker) option" where
  "cycle_get w = map_option (\<lambda>m. (m, w\<lparr>w_channel := None\<rparr>)) (w_channel w)"

definition task_failed :: "nat \<Rightarrow> exn \<Rightarrow> worker \<Rightarrow> worker" where
  "task_failed r e w = report_error e (update_task r (set_exception e) w)"

text \<open>
  \<open>process_task\<close> up to the call of the RunEngine: whether the RunEngine is called, and the worker
  then. With no tracing context the task runs outside a span, otherwise the same way.
\<close>

definition process_task :: "lib \<Rightarrow> nat \<Rightarrow> worker \<Rightarrow> bool \<times> worker" where
  "process_task L r w =
     (let w1 = update_task r (\<lambda>t. t\<lparr>tt_is_pending := False\<rparr>) (w\<lparr>w_current := Some r\<rparr>);
          (res, c) = do_task (lib_validate L) (tt_task (task_at w1 r)) (w_ctx w1);
          w2 = w1\<lparr>w_ctx := c\<rparr>
      in case res of
           Inl e \<Rightarrow> (False, task_failed r e w2)
         | Inr (f, args) \<Rightarrow> (True, w2\<lparr>w_re_calls := w_re_calls w2 @ [ReRun f args]\<rparr>))"

definition process_task_end :: "re_return result \<Rightarrow> nat \<Rightarrow> worker \<Rightarrow> worker" where
  "process_task_end ret r w =
     (case bind_r ret (\<lambda>v. set_result (do_task_result v) (task_at w r)) of
        Inl e \<Rightarrow> task_failed r e w
      | Inr t \<Rightarrow> update_task r (\<lambda>_. t) w)"

definition cycle_kill :: "worker \<Rightarrow> worker" where
  "cycle_kill w = w\<lparr>w_stopping := True\<rparr>"

text \<open>The rest of the turn, from the \<open>finally\<close> clause on.\<close>

definition cycle_move :: "worker \<Rightarrow> unit result \<times> worker" where
  "cycle_move w =
     (case w_current w of
        None \<Rightarrow> (Inr (), w)
      | Some r \<Rightarrow>
          (let w' = update_task r (\<lambda>t. t\<lparr>tt_is_complete := True\<rparr>) w;
               tid = tt_task_id (task_at w r)
           in if map_of (w_pending w') tid = None then (Inl (KeyError tid), w')
              else (Inr (), w'\<lparr>w_pending := dict_del tid (w_pending w'),
                               w_completed := dict_set tid r (w_completed w')\<rparr>)))"

definition cycle_finish :: "lib \<Rightarrow> worker \<Rightarrow> unit result \<times> worker" where
  "cycle_finish L w =
     (case cycle_move (w\<lparr>w_otel_context := False\<rparr>) of
        (Inl e, w1) \<Rightarrow> (Inl e, w1)
      | (Inr _, w1) \<Rightarrow>
          (case report_status L w1 of
             (Inl e, w2) \<Rightarrow> (Inl e, w2)
           | (Inr _, w2) \<Rightarrow> (Inr (), w2\<lparr>w_errors := [], w_warnings := [], w_completed_statuses := []\<rparr>)))"

definition cycle_end :: "lib \<Rightarrow> worker \<Rightarrow> worker" where
  "cycle_end L w =
     (case cycle_finish L w of
        (Inl e, w') \<Rightarrow> report_error e w'
      | (Inr _, w') \<Rightarrow> w')"

end
