(* ===== verification/WorkerInv.thy ===== *)
theory WorkerInv
  imports TaskWorker
begin

section \<open>Invariants and properties of the task worker\<close>

text \<open>
  The invariant every operation of the worker keeps, the functional behaviour of the registry of
  tasks and of beginning a task, and what one turn of the worker's loop does to its task.
\<close>

subsection \<open>Updating one task\<close>

lemma update_task_sel [simp]:
  "w_ctx (update_task r f w) = w_ctx w" "w_pending (update_task r f w) = w_pending w"
  "w_completed (update_task r f w) = w_completed w" "w_state (update_task r f w) = w_state w"
  "w_errors (update_task r f w) = w_errors w" "w_warnings (update_task r f w) = w_warnings w"
  "w_channel (update_task r f w) = w_channel w" "w_current (update_task r f w) = w_current w"
  "w_hub (update_task r f w) = w_hub w" "w_started (update_task r f w) = w_started w"
  "w_stopping (update_task r f w) = w_stopping w" "w_stopped (update_task r f w) = w_stopped w"
  "w_otel_context (update_task r f w) = w_otel_context w"
  "w_status_snapshot (update_task r f w) = w_status_snapshot w"
  "w_completed_statuses (update_task r f w) = w_completed_statuses w"
  "w_re_calls (update_task r f w) = w_re_calls w"
  "w_store (update_task r f w) = (w_store w)[r := f (task_at w r)]"
  by (simp_all add: update_task_def)

subsection \<open>The invariant\<close>

text \<open>A task that was never started has no outcome, no errors and is not complete.\<close>

definition task_wf :: "trackable_task \<Rightarrow> bool" where
  "task_wf t \<longleftrightarrow> (tt_is_pending t \<longrightarrow> \<not> tt_is_complete t \<and> tt_outcome t = None \<and> tt_errors t = [])"

definition pending_entry :: "trackable_task list \<Rightarrow> string \<times> nat \<Rightarrow> bool" where
  "pending_entry ts e \<longleftrightarrow> snd e < length ts \<and> tt_task_id (ts ! snd e) = fst e \<and> \<not> tt_is_complete (ts ! snd e)"

definition completed_entry :: "trackable_task list \<Rightarrow> string \<times> nat \<Rightarrow> bool" where
  "completed_entry ts e \<longleftrightarrow> snd e < length ts \<and> tt_task_id (ts ! snd e) = fst e \<and>
     tt_is_complete (ts ! snd e) \<and> \<not> tt_is_pending (ts ! snd e) \<and> tt_outcome (ts ! snd e) \<noteq> None"

definition running :: "trackable_task \<Rightarrow> bool" where
  "running t \<longleftrightarrow> \<not> tt_is_pending t \<and> \<not> tt_is_complete t"

text \<open>The channel and the current task hold references into the store; only the current task runs.\<close>

definition is_current :: "nat \<Rightarrow> nat option \<Rightarrow> bool" where
  "is_current r c \<longleftrightarrow> c = Some r"

definition refs_ok :: "worker \<Rightarrow> bool" where
  "refs_ok w \<longleftrightarrow>
     (\<forall>r. w_channel w = Some (TaskMsg r) \<longrightarrow> r < length (w_store w)) \<and>
     (\<forall>r. w_current w = Some r \<longrightarrow> r < length (w_store w) \<and> \<not> tt_is_pending (task_at w r)) \<and>
     (\<forall>r < length (w_store w). running (task_at w r) \<longrightarrow> is_current r (w_current w))"

definition worker_ok :: "worker \<Rightarrow> bool" where
  "worker_ok w \<longleftrightarrow>
     distinct (map tt_task_id (w_store w)) \<and> list_all task_wf (w_store w) \<and>
     dict_ok (w_pending w) \<and> dict_ok (w_completed w) \<and>
     list_all (pending_entry (w_store w)) (w_pending w) \<and>
     list_all (completed_entry (w_store w)) (w_completed w) \<and>
     refs_ok w \<and> hub_ok (w_hub w)"

lemma list_all_mono_on: "list_all P xs \<Longrightarrow> (\<And>x. x \<in> set xs \<Longrightarrow> P x \<Longrightarrow> Q x) \<Longrightarrow> list_all Q xs"
  by (simp add: list_all_iff)

lemma list_all_dict_del: "list_all P d \<Longrightarrow> list_all P (dict_del k d)"
  by (auto simp: list_all_iff dict_del_eq_filter)

lemma worker_okD:
  assumes "worker_ok w"
  shows "distinct (map tt_task_id (w_store w))" "list_all task_wf (w_store w)"
    "dict_ok (w_pending w)" "dict_ok (w_completed w)"
    "list_all (pending_entry (w_store w)) (w_pending w)"
    "list_all (completed_entry (w_store w)) (w_completed w)" "refs_ok w" "hub_ok (w_hub w)"
  using assms by (simp_all add: worker_ok_def)

lemma pendingD:
  "worker_ok w \<Longrightarrow> map_of (w_pending w) k = Some r \<Longrightarrow>
     r < length (w_store w) \<and> tt_task_id (task_at w r) = k \<and> \<not> tt_is_complete (task_at w r)"
  by (drule map_of_SomeD) (auto simp: worker_ok_def list_all_iff pending_entry_def)

lemma completedD:
  "worker_ok w \<Longrightarrow> map_of (w_completed w) k = Some r \<Longrightarrow>
     r < length (w_store w) \<and> tt_task_id (task_at w r) = k \<and> tt_is_complete (task_at w r) \<and>
     \<not> tt_is_pending (task_at w r) \<and> tt_outcome (task_at w r) \<noteq> None"
  by (drule map_of_SomeD) (auto simp: worker_ok_def list_all_iff completed_entry_def)

lemma currentD:
  "worker_ok w \<Longrightarrow> w_current w = Some r \<Longrightarrow> r < length (w_store w) \<and> \<not> tt_is_pending (task_at w r)"
  by (auto simp: worker_ok_def refs_ok_def)

lemma same_task:
  "worker_ok w \<Longrightarrow> i < length (w_store w) \<Longrightarrow> j < length (w_store w) \<Longrightarrow>
     tt_task_id (task_at w i) = tt_task_id (task_at w j) \<Longrightarrow> i = j"
  by (auto simp: worker_ok_def distinct_conv_nth)

lemma pending_not_completed:
  "worker_ok w \<Longrightarrow> map_of (w_pending w) k = Some r \<Longrightarrow> map_of (w_completed w) k = None"
proof (rule ccontr)
  assume a: "worker_ok w" "map_of (w_pending w) k = Some r" "map_of (w_completed w) k \<noteq> None"
  then obtain r' where r': "map_of (w_completed w) k = Some r'" by blast
  have "r' = r"
    using pendingD [OF a(1,2)] completedD [OF a(1) r'] by (intro same_task [OF a(1)]) auto
  with pendingD [OF a(1,2)] completedD [OF a(1) r'] show False by simp
qed

lemma new_worker_ok:
  assumes "hub_ok h" "new_worker c b h st = Inr w"
  shows "worker_ok w"
proof -
  have "w_store w = [] \<and> w_pending w = [] \<and> w_completed w = [] \<and> w_channel w = None \<and>
      w_current w = None \<and> hub_ok (w_hub w)"
    using assms by (cases "from_bluesky_state st") (auto simp: new_worker_def hub_ok_def)
  then show ?thesis by (simp add: worker_ok_def refs_ok_def)
qed

subsection \<open>Every operation keeps it\<close>

text \<open>Only the fields of the invariant matter.\<close>

lemma worker_ok_cong:
  "worker_ok w \<Longrightarrow> w_store w' = w_store w \<Longrightarrow> w_pending w' = w_pending w \<Longrightarrow>
     w_completed w' = w_completed w \<Longrightarrow> w_channel w' = w_channel w \<Longrightarrow> w_current w' = w_current w \<Longrightarrow>
     hub_ok (w_hub w') \<Longrightarrow> worker_ok w'"
  by (simp add: worker_ok_def refs_ok_def)

text \<open>
  An update of a task that was started, keeping its id and flags and never taking its outcome away.
\<close>

definition keeps_task :: "(trackable_task \<Rightarrow> trackable_task) \<Rightarrow> bool" where
  "keeps_task f \<longleftrightarrow> (\<forall>t. tt_task_id (f t) = tt_task_id t \<and> tt_is_pending (f t) = tt_is_pending t \<and>
     tt_is_complete (f t) = tt_is_complete t \<and> (tt_outcome t \<noteq> None \<longrightarrow> tt_outcome (f t) \<noteq> None))"

lemma keeps_set_exception [simp]: "keeps_task (set_exception e)"
  by (simp add: keeps_task_def set_exception_def)

lemma keeps_errors [simp]: "keeps_task (\<lambda>t. t\<lparr>tt_errors := tt_errors t @ [m]\<rparr>)"
  by (simp add: keeps_task_def)

lemma map_id_update:
  "r < length ts \<Longrightarrow> g (f (ts ! r)) = g (ts ! r) \<Longrightarrow> map g (ts[r := f (ts ! r)]) = map g ts"
  by (metis list_update_id map_update nth_map)

lemma nth_update_keeps:
  assumes "r < length ts" "i < length ts" "keeps_task f"
  shows "tt_task_id (ts[r := f (ts ! r)] ! i) = tt_task_id (ts ! i)"
    "tt_is_pending (ts[r := f (ts ! r)] ! i) = tt_is_pending (ts ! i)"
    "tt_is_complete (ts[r := f (ts ! r)] ! i) = tt_is_complete (ts ! i)"
    "tt_outcome (ts ! i) \<noteq> None \<Longrightarrow> tt_outcome (ts[r := f (ts ! r)] ! i) \<noteq> None"
  using assms by (cases "i = r"; simp add: keeps_task_def)+

lemma worker_ok_update:
  assumes "worker_ok w" "r < length (w_store w)" "\<not> tt_is_pending (task_at w r)" "keeps_task f"
  shows "worker_ok (update_task r f w)"
proof -
  note ok = worker_okD [OF assms(1)]
  note k = nth_update_keeps [OF assms(2) _ assms(4)]
  have ids: "map tt_task_id ((w_store w)[r := f (task_at w r)]) = map tt_task_id (w_store w)"
    using assms(4) by (intro map_id_update [OF assms(2)]) (simp add: keeps_task_def)
  have "task_wf (f (task_at w r))"
    using assms(3,4) by (simp add: task_wf_def keeps_task_def)
  then have wf: "list_all task_wf ((w_store w)[r := f (task_at w r)])"
    using ok(2) set_update_subset_insert [of "w_store w" r "f (task_at w r)"] by (auto simp: list_all_iff)
  have p: "list_all (pending_entry ((w_store w)[r := f (task_at w r)])) (w_pending w)"
    using ok(5) by (rule list_all_mono_on) (simp add: pending_entry_def k)
  have c: "list_all (completed_entry ((w_store w)[r := f (task_at w r)])) (w_completed w)"
    using ok(6) by (rule list_all_mono_on) (simp add: completed_entry_def k)
  have "running ((w_store w)[r := f (task_at w r)] ! i) = running (task_at w i)"
    if "i < length (w_store w)" for i
    by (simp only: running_def k [OF that])
  then have "refs_ok (update_task r f w)"
    using ok(7) k(2) unfolding refs_ok_def by simp
  with ok ids wf p c show ?thesis by (simp add: worker_ok_def)
qed

lemma report_error_ok: "worker_ok w \<Longrightarrow> worker_ok (report_error e w)"
proof -
  assume w: "worker_ok w"
  let ?f = "\<lambda>t. t\<lparr>tt_errors := tt_errors t @ [exn_str e]\<rparr>"
  have "worker_ok (case w_current w of None \<Rightarrow> w | Some r \<Rightarrow> update_task r ?f w)"
    using w currentD [OF w] by (auto intro: worker_ok_update split: option.splits)
  from worker_ok_cong [OF this] worker_okD(8) [OF this] show ?thesis
    by (simp add: report_error_def Let_def)
qed

lemma task_failed_ok:
  "worker_ok w \<Longrightarrow> r < length (w_store w) \<Longrightarrow> \<not> tt_is_pending (task_at w r) \<Longrightarrow> worker_ok (task_failed r e w)"
  by (simp add: task_failed_def report_error_ok worker_ok_update)

lemma report_status_frame:
  "snd (report_status L w) = w\<lparr>w_hub := w_hub (snd (report_status L w))\<rparr>"
  by (simp add: report_status_def case_prod_beta Let_def)

lemma report_status_hub: "hub_ok (w_hub w) \<Longrightarrow> hub_ok (w_hub (snd (report_status L w)))"
  by (simp add: report_status_def case_prod_beta Let_def publish_worker_def publish_hub_ok)

lemma worker_ok_hub: "worker_ok w \<Longrightarrow> hub_ok h \<Longrightarrow> worker_ok (w\<lparr>w_hub := h\<rparr>)"
  by (rule worker_ok_cong) simp_all

lemma report_status_ok: "worker_ok w \<Longrightarrow> worker_ok (snd (report_status L w))"
  by (subst report_status_frame) (simp add: worker_ok_hub report_status_hub worker_okD)

lemma on_state_change_ok: "worker_ok w \<Longrightarrow> worker_ok (snd (on_state_change L new old w))"
proof -
  assume w: "worker_ok w"
  have "worker_ok (snd (report_status L (w\<lparr>w_state := s\<rparr>)))" for s
    by (rule report_status_ok, rule worker_ok_cong [OF w]) (simp_all add: worker_okD [OF w])
  with w show ?thesis by (auto simp: on_state_change_def split: sum.splits)
qed

lemma on_document_ok: "worker_ok w \<Longrightarrow> worker_ok (snd (on_document L n d w))"
  by (auto simp: on_document_def case_prod_beta Let_def publish_data_def worker_okD
      intro!: worker_ok_hub publish_hub_ok split: option.splits)

lemma publish_status_snapshot_ok: "worker_ok w \<Longrightarrow> worker_ok (snd (publish_status_snapshot L w))"
  by (auto simp: publish_status_snapshot_def case_prod_beta Let_def publish_progress_def worker_okD
      intro!: worker_ok_hub publish_hub_ok split: option.splits)

lemma worker_ok_progress:
  "worker_ok (w\<lparr>w_status_snapshot := s\<rparr>) = worker_ok w"
  "worker_ok (w\<lparr>w_completed_statuses := cs\<rparr>) = worker_ok w"
  "worker_ok (w\<lparr>w_watched := ws\<rparr>) = worker_ok w"
  "worker_ok (w\<lparr>w_re_calls := rc\<rparr>) = worker_ok w"
  "worker_ok (w\<lparr>w_otel_context := b\<rparr>) = worker_ok w"
  "worker_ok (w\<lparr>w_ctx := c\<rparr>) = worker_ok w"
  "worker_ok (w\<lparr>w_errors := es\<rparr>) = worker_ok w"
  "worker_ok (w\<lparr>w_warnings := es\<rparr>) = worker_ok w"
  "worker_ok (w\<lparr>w_started := b\<rparr>) = worker_ok w"
  "worker_ok (w\<lparr>w_stopping := b\<rparr>) = worker_ok w"
  "worker_ok (w\<lparr>w_stopped := b\<rparr>) = worker_ok w"
  "worker_ok (w\<lparr>w_state_hook := b\<rparr>) = worker_ok w"
  "worker_ok (w\<lparr>w_waiting_hook := b\<rparr>) = worker_ok w"
  "worker_ok (w\<lparr>w_doc_sub := ds\<rparr>) = worker_ok w"
  by (simp_all add: worker_ok_def refs_ok_def)

lemma on_status_event_ok: "worker_ok w \<Longrightarrow> worker_ok (snd (on_status_event L d u up w))"
  by (simp add: on_status_event_def publish_status_snapshot_ok worker_ok_progress)

lemma on_complete_ok: "worker_ok w \<Longrightarrow> worker_ok (snd (on_complete L d u w))"
  using on_status_event_ok [of w L d u no_update]
  by (auto simp: on_complete_def worker_ok_progress split: prod.splits sum.splits option.splits)

lemma monitor_status_ok: "worker_ok w \<Longrightarrow> worker_ok (monitor_status u st w)"
  by (simp add: monitor_status_def worker_ok_progress)

lemma waiting_hook_ok: "worker_ok w \<Longrightarrow> worker_ok (waiting_hook sts w)"
proof (cases sts)
  case (Some l)
  assume "worker_ok w"
  then have "worker_ok (fold (\<lambda>(u, st). monitor_status u st) l w)"
    by (induction l arbitrary: w) (auto intro: monitor_status_ok)
  with Some show ?thesis by simp
qed simp

text \<open>The registry.\<close>

lemma nth_append_old: "i < length xs \<Longrightarrow> (xs @ ys) ! i = xs ! i"
  by (simp add: nth_append)

lemma track_task_ok:
  assumes w: "worker_ok w" and fresh: "uuid \<notin> tt_task_id ` set (w_store w)"
  shows "worker_ok (track_task uuid rt w)"
proof -
  note ok = worker_okD [OF w]
  define tt where "tt = trackable uuid (fst rt) (snd rt)"
  let ?ts = "w_store w @ [tt]"
  have tt: "tt_task_id tt = uuid" "\<not> tt_is_complete tt" "tt_is_pending tt" "task_wf tt"
    by (simp_all add: tt_def trackable_def task_wf_def)
  have w': "track_task uuid rt w =
      w\<lparr>w_store := ?ts, w_pending := dict_set uuid (length (w_store w)) (w_pending w)\<rparr>"
    by (simp add: track_task_def tt_def case_prod_beta)
  have p: "list_all (pending_entry ?ts) (dict_set uuid (length (w_store w)) (w_pending w))"
  proof (rule list_all_dict_set)
    show "list_all (pending_entry ?ts) (w_pending w)"
      using ok(5) by (rule list_all_mono_on) (simp add: pending_entry_def nth_append_old)
    show "pending_entry ?ts (uuid, length (w_store w))" by (simp add: pending_entry_def tt)
  qed
  have c: "list_all (completed_entry ?ts) (w_completed w)"
    using ok(6) by (rule list_all_mono_on) (simp add: completed_entry_def nth_append_old)
  have "refs_ok (w\<lparr>w_store := ?ts, w_pending := dict_set uuid (length (w_store w)) (w_pending w)\<rparr>)"
    using ok(7) tt by (auto simp: refs_ok_def nth_append_old less_Suc_eq running_def)
  with ok p c tt fresh show ?thesis
    unfolding w' by (simp add: worker_ok_def)
qed

lemma submit_task_ok:
  "worker_ok w \<Longrightarrow> uuid \<notin> tt_task_id ` set (w_store w) \<Longrightarrow> worker_ok (snd (submit_task L uuid b t w))"
  by (auto simp: submit_task_def track_task_ok split: sum.splits)

lemma clear_task_ok: "worker_ok w \<Longrightarrow> worker_ok (snd (clear_task tid w))"
  by (auto simp: clear_task_def worker_ok_def refs_ok_def list_all_dict_del dict_del_eq_filter
      distinct_map_filter list_all_iff split: option.splits)

lemma hub_ok_flags [simp]: "hub_ok (h\<lparr>h_flags := fs\<rparr>) = hub_ok h"
  by (simp add: hub_ok_def)

lemma worker_ok_channel:
  "worker_ok w \<Longrightarrow> (\<And>r. m = Some (TaskMsg r) \<Longrightarrow> r < length (w_store w)) \<Longrightarrow> worker_ok (w\<lparr>w_channel := m\<rparr>)"
  by (simp add: worker_ok_def refs_ok_def)

lemma submit_trackable_put_ok:
  assumes "worker_ok w" "r < length (w_store w)"
  shows "worker_ok (snd (submit_trackable_put r w))"
proof -
  define flag where "flag = length (h_flags (w_hub w))"
  obtain sub h where h: "hub_subscribe_worker (MarkTaskAsStarted (tt_task_id (task_at w r)) flag)
      ((w_hub w)\<lparr>h_flags := h_flags (w_hub w) @ [False]\<rparr>) = (sub, h)" by fastforce
  have "hub_ok h"
    using hub_subscribe_worker_ok [of "(w_hub w)\<lparr>h_flags := h_flags (w_hub w) @ [False]\<rparr>"] h
    by (metis assms(1) hub_ok_flags snd_conv worker_okD(8))
  then have ok: "worker_ok (w\<lparr>w_hub := h, w_otel_context := True\<rparr>)"
    using assms(1) by (simp add: worker_ok_progress worker_ok_hub)
  have "hub_ok (snd (hub_unsubscribe_worker sub h))"
    using \<open>hub_ok h\<close> by (rule hub_unsubscribe_worker_ok)
  with assms(1) have ok': "worker_ok (w\<lparr>w_otel_context := True, w_hub := snd (hub_unsubscribe_worker sub h)\<rparr>)"
    by (simp add: worker_ok_progress worker_ok_hub)
  have "worker_ok (w\<lparr>w_hub := h, w_otel_context := True, w_channel := Some (TaskMsg r)\<rparr>)"
    using worker_ok_channel [OF ok, of "Some (TaskMsg r)"] assms(2) by simp
  with assms(1) ok' h show ?thesis
    by (auto simp: submit_trackable_put_def Let_def flag_def [symmetric] split: sum.splits prod.splits)
qed

lemma begin_task_ok: "worker_ok w \<Longrightarrow> worker_ok (snd (begin_task tid w))"
  by (auto simp: begin_task_def dest: pendingD intro: submit_trackable_put_ok split: option.splits)

lemma submit_trackable_wait_ok: "worker_ok w \<Longrightarrow> worker_ok (snd (submit_trackable_wait flag sub w))"
  using hub_unsubscribe_worker_ok [of "w_hub w" sub]
  by (auto simp: submit_trackable_wait_def worker_okD intro: worker_ok_hub split: prod.splits sum.splits)

lemma re_request_ok: "worker_ok w \<Longrightarrow> worker_ok (snd (re_request call reply v w))"
  by (simp add: re_request_def worker_ok_progress)

lemma cancel_active_task_ok: "worker_ok w \<Longrightarrow> worker_ok (snd (cancel_active_task f r reply w))"
  by (auto simp: cancel_active_task_def intro: re_request_ok split: option.splits)

lemma stop_put_ok: "worker_ok w \<Longrightarrow> stop_put w = Some w' \<Longrightarrow> worker_ok w'"
  by (auto simp: stop_put_def intro: worker_ok_channel split: if_splits option.splits)

lemma run_enter_ok: "worker_ok w \<Longrightarrow> worker_ok (run_enter w)"
  using worker_okD(8) [of w]
  by (auto simp: run_enter_def re_subscribe_def worker_ok_progress hub_ok_def intro!: worker_ok_hub)

lemma run_exit_ok: "worker_ok w \<Longrightarrow> worker_ok (run_exit w)"
  using worker_okD(8) [of w]
  by (auto simp: run_exit_def re_unsubscribe_def worker_ok_progress hub_ok_def intro!: worker_ok_hub
      split: option.splits)

text \<open>The worker's loop.\<close>

lemma cycle_get_ok: "worker_ok w \<Longrightarrow> cycle_get w = Some (m, w') \<Longrightarrow>
    worker_ok w' \<and> (\<forall>r. m = TaskMsg r \<longrightarrow> r < length (w_store w'))"
  using worker_okD(7) [of w]
  by (auto simp: cycle_get_def refs_ok_def intro: worker_ok_channel)

text \<open>When a turn takes its task, the task of the turn before is complete.\<close>

definition current_done :: "worker \<Rightarrow> bool" where
  "current_done w \<longleftrightarrow> (\<forall>r. w_current w = Some r \<longrightarrow>
     tt_is_complete (task_at w r) \<and> tt_outcome (task_at w r) \<noteq> None)"

definition current_has_outcome :: "worker \<Rightarrow> bool" where
  "current_has_outcome w \<longleftrightarrow> (\<forall>r. w_current w = Some r \<longrightarrow> tt_outcome (task_at w r) \<noteq> None)"

lemma take_task_ok:
  assumes w: "worker_ok w" "current_done w" and r: "r < length (w_store w)"
  shows "worker_ok (update_task r (\<lambda>t. t\<lparr>tt_is_pending := False\<rparr>) (w\<lparr>w_current := Some r\<rparr>))"
proof -
  note ok = worker_okD [OF w(1)]
  let ?f = "\<lambda>t. t\<lparr>tt_is_pending := False\<rparr>"
  let ?ts = "(w_store w)[r := ?f (task_at w r)]"
  have at: "?ts ! i = (if i = r then ?f (task_at w r) else task_at w i)" if "i < length (w_store w)" for i
    using that by simp
  have ids: "map tt_task_id ?ts = map tt_task_id (w_store w)" by (rule map_id_update [OF r]) simp
  have "task_wf (?f (task_at w r))" by (simp add: task_wf_def)
  then have wf: "list_all task_wf ?ts"
    using ok(2) set_update_subset_insert [of "w_store w" r "?f (task_at w r)"] by (auto simp: list_all_iff)
  have p: "list_all (pending_entry ?ts) (w_pending w)"
    using ok(5) by (rule list_all_mono_on) (auto simp: pending_entry_def at)
  have c: "list_all (completed_entry ?ts) (w_completed w)"
    using ok(6) by (rule list_all_mono_on) (auto simp: completed_entry_def at)
  have nr: "\<not> running (task_at w i)" if "i < length (w_store w)" for i
  proof
    assume "running (task_at w i)"
    with ok(7) that have "is_current i (w_current w)" by (simp add: refs_ok_def)
    then have "w_current w = Some i" by (simp only: is_current_def)
    with w(2) \<open>running (task_at w i)\<close> show False by (simp add: current_done_def running_def)
  qed
  have "i = r" if "i < length (w_store w)" "running (?ts ! i)" for i
    using that nr [OF that(1)] at [OF that(1)] by (auto split: if_splits)
  then have "is_current i (Some r)" if "i < length (w_store w)" "running (?ts ! i)" for i
    using that by (metis is_current_def)
  then have "refs_ok (update_task r ?f (w\<lparr>w_current := Some r\<rparr>))"
    using ok(7) r by (simp add: refs_ok_def)
  with ok ids wf p c show ?thesis by (simp add: worker_ok_def)
qed

lemma report_error_sel [simp]:
  "w_current (report_error e w) = w_current w" "w_pending (report_error e w) = w_pending w"
  "w_completed (report_error e w) = w_completed w" "w_hub (report_error e w) = w_hub w"
  "w_channel (report_error e w) = w_channel w" "w_state (report_error e w) = w_state w"
  "w_otel_context (report_error e w) = w_otel_context w" "w_ctx (report_error e w) = w_ctx w"
  "w_re_calls (report_error e w) = w_re_calls w" "w_started (report_error e w) = w_started w"
  "w_stopping (report_error e w) = w_stopping w"
  "length (w_store (report_error e w)) = length (w_store w)"
  by (simp_all add: report_error_def Let_def split: option.splits)

lemma report_error_task:
  "i < length (w_store w) \<Longrightarrow> task_at (report_error e w) i =
     (if w_current w = Some i then (task_at w i)\<lparr>tt_errors := tt_errors (task_at w i) @ [exn_str e]\<rparr> else task_at w i)"
  by (auto simp: report_error_def Let_def split: option.splits)

lemma task_failed_sel [simp]:
  "w_current (task_failed r e w) = w_current w" "w_pending (task_failed r e w) = w_pending w"
  "w_completed (task_failed r e w) = w_completed w" "w_hub (task_failed r e w) = w_hub w"
  "w_channel (task_failed r e w) = w_channel w" "w_state (task_failed r e w) = w_state w"
  "w_otel_context (task_failed r e w) = w_otel_context w" "w_re_calls (task_failed r e w) = w_re_calls w"
  "w_started (task_failed r e w) = w_started w" "w_stopping (task_failed r e w) = w_stopping w"
  "length (w_store (task_failed r e w)) = length (w_store w)"
  by (simp_all add: task_failed_def)

lemma task_failed_task:
  "r < length (w_store w) \<Longrightarrow> w_current w = Some r \<Longrightarrow> task_at (task_failed r e w) r =
     (task_at w r)\<lparr>tt_outcome := Some (from_exception e), tt_errors := tt_errors (task_at w r) @ [exn_str e]\<rparr>"
  by (simp add: task_failed_def report_error_task set_exception_def)

text \<open>Taking a task and running it.\<close>

lemma process_task_sel:
  "w_current (snd (process_task L r w)) = Some r"
  "w_pending (snd (process_task L r w)) = w_pending w"
  "w_completed (snd (process_task L r w)) = w_completed w"
  "w_hub (snd (process_task L r w)) = w_hub w"
  "w_channel (snd (process_task L r w)) = w_channel w"
  "w_state (snd (process_task L r w)) = w_state w"
  "w_otel_context (snd (process_task L r w)) = w_otel_context w"
  "length (w_store (snd (process_task L r w))) = length (w_store w)"
  by (simp_all add: process_task_def Let_def case_prod_beta split: sum.splits)

text \<open>What the turn made of its task before the RunEngine is called.\<close>

lemma process_task_failed:
  assumes "r < length (w_store w)" "process_task L r w = (False, w')"
  shows "\<exists>e. fst (do_task (lib_validate L) (tt_task (task_at w r)) (w_ctx w)) = Inl e \<and>
    task_at w' r = (task_at w r)\<lparr>tt_is_pending := False, tt_outcome := Some (from_exception e),
                       tt_errors := tt_errors (task_at w r) @ [exn_str e]\<rparr>"
proof -
  let ?w1 = "update_task r (\<lambda>t. t\<lparr>tt_is_pending := False\<rparr>) (w\<lparr>w_current := Some r\<rparr>)"
  have t: "tt_task (task_at ?w1 r) = tt_task (task_at w r)" using assms(1) by simp
  obtain res c where d: "do_task (lib_validate L) (tt_task (task_at w r)) (w_ctx w) = (res, c)" by fastforce
  show ?thesis
  proof (cases res)
    case (Inr fa)
    with assms(2) d show ?thesis by (simp add: process_task_def Let_def t case_prod_beta assms(1))
  next
    case (Inl e)
    with assms d have "w' = task_failed r e (?w1\<lparr>w_ctx := c\<rparr>)"
      by (simp add: process_task_def Let_def t)
    with assms(1) d Inl show ?thesis by (simp add: task_failed_task)
  qed
qed

lemma process_task_ok:
  assumes w: "worker_ok w" "current_done w" and r: "r < length (w_store w)"
  shows "worker_ok (snd (process_task L r w))"
proof -
  let ?w1 = "update_task r (\<lambda>t. t\<lparr>tt_is_pending := False\<rparr>) (w\<lparr>w_current := Some r\<rparr>)"
  have ok: "worker_ok (?w1\<lparr>w_ctx := c\<rparr>)" for c
    using take_task_ok [OF w r] by (simp add: worker_ok_progress)
  have f: "worker_ok (task_failed r e (?w1\<lparr>w_ctx := c\<rparr>))" for e c
    by (rule task_failed_ok [OF ok]) (simp_all add: r)
  obtain res c where d: "do_task (lib_validate L) (tt_task (task_at ?w1 r)) (w_ctx ?w1) = (res, c)" by fastforce
  show ?thesis
    unfolding process_task_def Let_def d
    using ok f by (auto simp: worker_ok_progress split: sum.splits)
qed

lemma keeps_const:
  "set_result v t = Inr t' \<Longrightarrow> tt_task_id t' = tt_task_id t \<and> tt_is_pending t' = tt_is_pending t \<and>
     tt_is_complete t' = tt_is_complete t \<and> tt_errors t' = tt_errors t \<and> tt_outcome t' \<noteq> None \<and>
     t' = t\<lparr>tt_outcome := tt_outcome t'\<rparr>"
  by (cases "from_result v") (auto simp: set_result_def)

lemma update_task_eq: "f (task_at w r) = g (task_at w r) \<Longrightarrow> update_task r f w = update_task r g w"
  by (simp add: update_task_def)

lemma process_task_end_ok:
  assumes w: "worker_ok w" "w_current w = Some r"
  shows "worker_ok (process_task_end ret r w) \<and> w_current (process_task_end ret r w) = Some r \<and>
    tt_outcome (task_at (process_task_end ret r w) r) \<noteq> None"
proof -
  from currentD [OF w] have r: "r < length (w_store w)" "\<not> tt_is_pending (task_at w r)" by simp_all
  show ?thesis
  proof (cases "bind_r ret (\<lambda>v. set_result (do_task_result v) (task_at w r))")
    case (Inl e)
    with task_failed_ok [OF w(1) r] w(2) show ?thesis
      by (simp add: process_task_end_def task_failed_task r)
  next
    case (Inr t')
    then obtain v where "set_result v (task_at w r) = Inr t'" by (cases ret) auto
    from keeps_const [OF this] obtain out where t': "t' = (task_at w r)\<lparr>tt_outcome := Some out\<rparr>" by (metis not_Some_eq)
    have u: "update_task r (\<lambda>_. t') w = update_task r (\<lambda>t. t\<lparr>tt_outcome := Some out\<rparr>) w"
      by (rule update_task_eq) (simp add: t')
    have "worker_ok (update_task r (\<lambda>t. t\<lparr>tt_outcome := Some out\<rparr>) w)"
      by (rule worker_ok_update [OF w(1) r]) (simp add: keeps_task_def)
    moreover have "process_task_end ret r w = update_task r (\<lambda>t. t\<lparr>tt_outcome := Some out\<rparr>) w"
      by (simp only: process_task_end_def Inr sum.case u)
    ultimately show ?thesis using w(2) r by simp
  qed
qed

lemma process_task_end_sel:
  "w_pending (process_task_end ret r w) = w_pending w"
  "w_completed (process_task_end ret r w) = w_completed w"
  "w_hub (process_task_end ret r w) = w_hub w"
  "w_channel (process_task_end ret r w) = w_channel w"
  "w_state (process_task_end ret r w) = w_state w"
  "length (w_store (process_task_end ret r w)) = length (w_store w)"
  by (simp_all add: process_task_end_def split: sum.splits)

subsection \<open>The end of a turn\<close>

lemma complete_task_ok:
  assumes w: "worker_ok w" and r: "w_current w = Some r" and o: "tt_outcome (task_at w r) \<noteq> None"
  defines "w' \<equiv> update_task r (\<lambda>t. t\<lparr>tt_is_complete := True\<rparr>) w"
  shows "map_of (w_pending w) (tt_task_id (task_at w r)) = None \<Longrightarrow> worker_ok w'"
    and "worker_ok (w'\<lparr>w_pending := dict_del (tt_task_id (task_at w r)) (w_pending w'),
                        w_completed := dict_set (tt_task_id (task_at w r)) r (w_completed w')\<rparr>)"
proof -
  note ok = worker_okD [OF w]
  from currentD [OF w r] have rl: "r < length (w_store w)" "\<not> tt_is_pending (task_at w r)" by simp_all
  let ?f = "\<lambda>t. t\<lparr>tt_is_complete := True\<rparr>"
  let ?ts = "(w_store w)[r := ?f (task_at w r)]"
  let ?k = "tt_task_id (task_at w r)"
  have at: "?ts ! i = (if i = r then ?f (task_at w r) else task_at w i)" if "i < length (w_store w)" for i
    using that by simp
  have ids: "map tt_task_id ?ts = map tt_task_id (w_store w)" by (rule map_id_update [OF rl(1)]) simp
  have "task_wf (?f (task_at w r))" using rl(2) by (simp add: task_wf_def)
  then have wf: "list_all task_wf ?ts"
    using ok(2) set_update_subset_insert [of "w_store w" r "?f (task_at w r)"] by (auto simp: list_all_iff)
  have c: "list_all (completed_entry ?ts) (w_completed w)"
    using ok(6) by (rule list_all_mono_on) (auto simp: completed_entry_def at)
  have run: "running (?ts ! i) \<Longrightarrow> running (task_at w i)" if "i < length (w_store w)" for i
    using at [OF that] by (auto simp: running_def split: if_splits)
  have refs: "refs_ok w'"
    unfolding refs_ok_def
  proof (intro conjI allI impI)
    fix i assume i: "i < length (w_store w')" "running (task_at w' i)"
    then have "running (task_at w i)" using run [of i] by (simp add: w'_def)
    with ok(7) i(1) show "is_current i (w_current w')" by (simp add: refs_ok_def w'_def)
  next
    fix i assume "w_channel w' = Some (TaskMsg i)"
    then show "i < length (w_store w')" using ok(7) by (simp add: refs_ok_def w'_def)
  next
    fix i assume "w_current w' = Some i"
    then have "i = r" using r by (simp add: w'_def)
    then show "i < length (w_store w')" "\<not> tt_is_pending (task_at w' i)" using rl by (simp_all add: w'_def)
  qed
  have p: "list_all (pending_entry ?ts) (filter (\<lambda>q. fst q \<noteq> ?k) (w_pending w))"
    using ok(5) by (auto simp: list_all_iff pending_entry_def at)
  have c': "completed_entry ?ts (?k, r)"
    using rl o at [OF rl(1)] by (simp add: completed_entry_def)
  show "worker_ok w'" if "map_of (w_pending w) ?k = None"
  proof -
    from that have "filter (\<lambda>q. fst q \<noteq> ?k) (w_pending w) = w_pending w"
      by (force simp: filter_id_conv map_of_eq_None_iff)
    with ok ids wf c refs p show ?thesis by (simp add: worker_ok_def w'_def)
  qed
  have "refs_ok (w'\<lparr>w_pending := d, w_completed := d'\<rparr>)" for d d'
    using refs by (simp add: refs_ok_def)
  with ok ids wf c c' p
  show "worker_ok (w'\<lparr>w_pending := dict_del ?k (w_pending w'), w_completed := dict_set ?k r (w_completed w')\<rparr>)"
    by (simp add: worker_ok_def w'_def list_all_dict_set dict_del_eq_filter distinct_map_filter)
qed

lemma cycle_move_ok: "worker_ok w \<Longrightarrow> current_has_outcome w \<Longrightarrow> worker_ok (snd (cycle_move w))"
  using complete_task_ok [of w]
  by (auto simp: cycle_move_def current_has_outcome_def Let_def split: option.splits)

lemma cycle_end_ok: "worker_ok w \<Longrightarrow> current_has_outcome w \<Longrightarrow> worker_ok (cycle_end L w)"
proof -
  assume a: "worker_ok w" "current_has_outcome w"
  let ?m = "cycle_move (w\<lparr>w_otel_context := False\<rparr>)"
  have m: "worker_ok (snd ?m)"
    using a by (intro cycle_move_ok) (simp_all add: worker_ok_progress current_has_outcome_def)
  have r: "worker_ok (snd (report_status L (snd ?m)))" by (rule report_status_ok [OF m])
  have "worker_ok (snd (cycle_finish L w))"
    using m r by (cases ?m; cases "fst ?m"; cases "report_status L (snd ?m)";
        cases "fst (report_status L (snd ?m))") (auto simp: cycle_finish_def worker_ok_progress)
  then show ?thesis
    by (auto simp: cycle_end_def report_error_ok split: prod.splits sum.splits)
qed

text \<open>After the end of a turn its task is complete, so the next turn may take another.\<close>

lemma cycle_move_done: "worker_ok w \<Longrightarrow> current_has_outcome w \<Longrightarrow> current_done (snd (cycle_move w))"
  by (auto simp: cycle_move_def current_has_outcome_def current_done_def Let_def currentD split: option.splits)

lemma current_done_report_error: "worker_ok w \<Longrightarrow> current_done (report_error e w) = current_done w"
  by (auto simp: current_done_def report_error_task currentD)

lemma current_done_cong:
  "current_done (w\<lparr>w_hub := h\<rparr>) = current_done w"
  "current_done (w\<lparr>w_errors := es, w_warnings := ws, w_completed_statuses := cs\<rparr>) = current_done w"
  "current_done (w\<lparr>w_otel_context := b\<rparr>) = current_done w"
  by (simp_all add: current_done_def)

lemma cycle_end_done: "worker_ok w \<Longrightarrow> current_has_outcome w \<Longrightarrow> current_done (cycle_end L w)"
proof -
  assume a: "worker_ok w" "current_has_outcome w"
  let ?m = "cycle_move (w\<lparr>w_otel_context := False\<rparr>)"
  have ok: "worker_ok (w\<lparr>w_otel_context := False\<rparr>)" "current_has_outcome (w\<lparr>w_otel_context := False\<rparr>)"
    using a by (simp_all add: worker_ok_progress current_has_outcome_def)
  have m: "worker_ok (snd ?m)" "current_done (snd ?m)"
    using cycle_move_ok [OF ok] cycle_move_done [OF ok] by simp_all
  have r: "worker_ok (snd (report_status L (snd ?m)))" "current_done (snd (report_status L (snd ?m)))"
    using report_status_ok [OF m(1)] m(2) by (simp_all, subst report_status_frame, simp add: current_done_cong)
  have "worker_ok (snd (cycle_finish L w)) \<and> current_done (snd (cycle_finish L w))"
    using m r by (cases ?m; cases "fst ?m"; cases "report_status L (snd ?m)";
        cases "fst (report_status L (snd ?m))") (auto simp: cycle_finish_def worker_ok_progress current_done_cong)
  then show ?thesis
    by (auto simp: cycle_end_def current_done_report_error split: prod.splits sum.splits)
qed

end
