(* ===== verification/WorkerProps.thy ===== *)
theory WorkerProps
  imports WorkerInv "HOL-Library.Multiset"
begin

section \<open>The worker as a registry of tasks\<close>

text \<open>
  What clients of the worker rely on: the laws of a registry of tasks (the locale
  \<open>task_registry\<close>, interpreted on the worker), the listing of tasks by status, the outcome of
  \<open>begin_task\<close> on every branch, and what the end of a turn does with its task.
\<close>

subsection \<open>Registries\<close>

text \<open>
  \<open>known\<close> are the ids given out so far: an id that was removed is not given out again.
\<close>

locale task_registry =
  fixes ok :: "'s \<Rightarrow> bool"
    and look :: "'s \<Rightarrow> 'k \<Rightarrow> 't option"
    and known :: "'s \<Rightarrow> 'k set"
    and entry :: "'k \<Rightarrow> 'a \<Rightarrow> 't"
    and add :: "'k \<Rightarrow> 'a \<Rightarrow> 's \<Rightarrow> 's"
    and remove :: "'k \<Rightarrow> 's \<Rightarrow> 's"
  assumes look_add: "ok s \<Longrightarrow> k \<notin> known s \<Longrightarrow> look (add k a s) = (look s)(k \<mapsto> entry k a)"
    and look_remove: "ok s \<Longrightarrow> look (remove k s) = (look s)(k := None)"
    and look_known: "ok s \<Longrightarrow> look s k \<noteq> None \<Longrightarrow> k \<in> known s"
    and known_add: "known (add k a s) = insert k (known s)"
    and known_remove: "known (remove k s) = known s"
    and ok_add: "ok s \<Longrightarrow> k \<notin> known s \<Longrightarrow> ok (add k a s)"
    and ok_remove: "ok s \<Longrightarrow> ok (remove k s)"
begin

lemma add_remove: "ok s \<Longrightarrow> k \<notin> known s \<Longrightarrow> look (remove k (add k a s)) = look s"
  using look_known [of s k] by (cases "look s k") (auto simp: look_remove ok_add look_add fun_eq_iff)

lemma remove_other: "ok s \<Longrightarrow> k' \<noteq> k \<Longrightarrow> look (remove k s) k' = look s k'"
  by (simp add: look_remove)

lemma remove_commute: "ok s \<Longrightarrow> look (remove k (remove k' s)) = look (remove k' (remove k s))"
  by (simp add: look_remove ok_remove fun_upd_twist fun_eq_iff)

lemma add_all:
  "ok s \<Longrightarrow> distinct (map fst kas) \<Longrightarrow> fst ` set kas \<inter> known s = {} \<Longrightarrow>
     ok (fold (\<lambda>(k, a). add k a) kas s) \<and>
     look (fold (\<lambda>(k, a). add k a) kas s) = look s ++ map_of (map (\<lambda>(k, a). (k, entry k a)) (rev kas))"
proof (induction kas arbitrary: s)
  case (Cons ka kas)
  obtain k a where ka: "ka = (k, a)" by (cases ka)
  from Cons.prems have k: "k \<notin> known s" "k \<notin> fst ` set kas" "ok s" by (auto simp: ka)
  have "ok (add k a s)" using k by (simp add: ok_add)
  moreover have "fst ` set kas \<inter> known (add k a s) = {}" using Cons.prems k by (auto simp: known_add)
  ultimately have IH: "ok (fold (\<lambda>(k, a). add k a) kas (add k a s)) \<and>
      look (fold (\<lambda>(k, a). add k a) kas (add k a s)) =
        look (add k a s) ++ map_of (map (\<lambda>(k, a). (k, entry k a)) (rev kas))"
    using Cons.IH Cons.prems(2) by simp
  have "look (add k a s) = look s ++ map_of [(k, entry k a)]" using k by (simp add: look_add)
  moreover have "map_of (map (\<lambda>(k, a). (k, entry k a)) (rev (ka # kas))) =
      map_of [(k, entry k a)] ++ map_of (map (\<lambda>(k, a). (k, entry k a)) (rev kas))"
    by (simp only: ka rev.simps map_append map_of_append list.map prod.case)
  ultimately show ?case using IH
    by (simp only: ka fold.simps comp_def prod.case map_add_assoc)
qed simp

end

definition look_task :: "worker \<Rightarrow> string \<Rightarrow> trackable_task option" where
  "look_task w k = (case get_task_by_id k w of Inr t \<Rightarrow> Some t | Inl _ \<Rightarrow> None)"

definition known_ids :: "worker \<Rightarrow> string set" where
  "known_ids w = tt_task_id ` set (w_store w)"

definition remove_task :: "string \<Rightarrow> worker \<Rightarrow> worker" where
  "remove_task k w = snd (clear_task k w)"

lemma look_task_cases:
  "look_task w k = (case map_of (w_pending w) k of
     Some r \<Rightarrow> Some (task_at w r)
   | None \<Rightarrow> map_option (task_at w) (map_of (w_completed w) k))"
  by (simp add: look_task_def get_task_by_id_def split: option.splits)

lemma look_task_id: "worker_ok w \<Longrightarrow> look_task w k = Some t \<Longrightarrow> tt_task_id t = k \<and> t \<in> set (w_store w)"
  by (auto simp: look_task_cases dest: pendingD completedD split: option.splits)

lemma known_not_pending: "worker_ok w \<Longrightarrow> k \<notin> known_ids w \<Longrightarrow> map_of (w_pending w) k = None"
  by (cases "map_of (w_pending w) k") (auto simp: known_ids_def dest: pendingD)

lemma known_not_completed: "worker_ok w \<Longrightarrow> k \<notin> known_ids w \<Longrightarrow> map_of (w_completed w) k = None"
  by (cases "map_of (w_completed w) k") (auto simp: known_ids_def dest: completedD)

lemma look_track_task:
  assumes w: "worker_ok w" and k: "k \<notin> known_ids w"
  shows "look_task (track_task k rt w) = (look_task w)(k \<mapsto> trackable k (fst rt) (snd rt))"
proof
  fix j
  have p: "map_of (w_pending w) j = Some r \<Longrightarrow> (w_store w @ xs) ! r = task_at w r" for r xs
    using pendingD [OF w] by (simp add: nth_append_old)
  have c: "map_of (w_completed w) j = Some r \<Longrightarrow> (w_store w @ xs) ! r = task_at w r" for r xs
    using completedD [OF w] by (simp add: nth_append_old)
  show "look_task (track_task k rt w) j = ((look_task w)(k \<mapsto> trackable k (fst rt) (snd rt))) j"
    using worker_okD(3) [OF w] known_not_completed [OF w k]
    by (cases "map_of (w_completed w) j")
      (auto simp: look_task_cases track_task_def case_prod_beta p c split: option.splits)
qed

lemma look_remove_task: "worker_ok w \<Longrightarrow> look_task (remove_task k w) = (look_task w)(k := None)"
  using pending_not_completed [of w k] worker_okD(3,4) [of w]
  by (auto simp: look_task_cases remove_task_def clear_task_def fun_eq_iff split: option.splits)

interpretation registry: task_registry worker_ok look_task known_ids
  "\<lambda>k rt. trackable k (fst rt) (snd rt)" track_task remove_task
proof unfold_locales
  fix w k
  assume "worker_ok w" "look_task w k \<noteq> None"
  then show "k \<in> known_ids w" using look_task_id [of w k] by (force simp: known_ids_def)
next
  fix w k assume "worker_ok w"
  then show "worker_ok (remove_task k w)" by (simp add: remove_task_def clear_task_ok)
next
  fix w k rt assume "worker_ok w" "k \<notin> known_ids w"
  then show "worker_ok (track_task k rt w)" by (simp add: known_ids_def track_task_ok)
qed (simp_all add: look_track_task look_remove_task, simp_all add: known_ids_def track_task_def
      trackable_def remove_task_def clear_task_def case_prod_beta split: option.splits)

text \<open>
  Claim C8. Submitting a task raises exactly when its parameters do not validate, and then changes
  nothing. Otherwise the fresh id finds the new pending task (carrying its id in its metadata),
  every other id finds what it found, and clearing the id again restores the registry.
\<close>

theorem submit_task_registers:
  assumes "worker_ok w" and "uuid \<notin> known_ids w"
  shows "case submit_task L uuid baggage t w of
      (Inl e, w') \<Rightarrow> prepare_params (lib_validate L) (w_ctx w) t = Inl e \<and> w' = w
    | (Inr k, w') \<Rightarrow> (\<exists>a. prepare_params (lib_validate L) (w_ctx w) t = Inr a) \<and> k = uuid \<and>
        look_task w' = (look_task w)(uuid \<mapsto> trackable uuid (request_id_of baggage) t) \<and>
        map_of (task_metadata (tt_task (trackable uuid (request_id_of baggage) t))) ''blueapi_task_id'' =
          Some (PStr uuid) \<and>
        look_task (snd (clear_task uuid w')) = look_task w"
  using registry.look_add [OF assms, of "(request_id_of baggage, t)"]
    registry.add_remove [OF assms, of "(request_id_of baggage, t)"]
  by (cases "prepare_params (lib_validate L) (w_ctx w) t")
    (simp_all add: submit_task_def remove_task_def, simp add: trackable_def)

text \<open>A small worker to run examples on: a context with one plan, whose parameters are accepted.\<close>

definition demo_lib :: lib where
  "demo_lib = \<lparr>lib_validate = \<lambda>c m ps. Inr [], lib_event_str = \<lambda>ev. ''event''\<rparr>"

definition demo_ctx :: ctx where
  "demo_ctx = new_ctx\<lparr>
     ctx_plans := [(''count'', \<lparr>plan_name = ''count'', plan_description = None,
                     plan_model = \<lparr>pm_name = ''count'', pm_fields = []\<rparr>\<rparr>)],
     ctx_plan_functions := [(''count'', plan_func ''count'' ''my.plans'')]\<rparr>"

definition demo_task :: task where
  "demo_task = \<lparr>task_name = ''count'', task_params = [], task_metadata = []\<rparr>"

definition idle_worker :: "hub \<Rightarrow> worker" where
  "idle_worker h = (case new_worker demo_ctx True h (StatesMember ''idle'') of Inr w \<Rightarrow> run_enter w)"

lemma idle_state [simp]: "worker_state_of (upper ''idle'') = Inr IDLE"
  by (simp add: worker_state_of_iff) code_simp

lemma idle_worker_ok: "hub_ok h \<Longrightarrow> worker_ok (idle_worker h)"
proof -
  assume h: "hub_ok h"
  obtain w where w: "new_worker demo_ctx True h (StatesMember ''idle'') = Inr w"
    by (simp add: new_worker_def)
  from run_enter_ok [OF new_worker_ok [OF h w]] show ?thesis by (simp add: idle_worker_def w)
qed

lemma new_hub_ok [simp]: "hub_ok new_hub"
  by (simp add: hub_ok_def new_hub_def)

lemma idle_worker_sel [simp]:
  "w_store (idle_worker h) = []" "w_pending (idle_worker h) = []" "w_completed (idle_worker h) = []"
  "w_ctx (idle_worker h) = demo_ctx" "w_state (idle_worker h) = IDLE" "w_channel (idle_worker h) = None"
  "w_current (idle_worker h) = None" "w_errors (idle_worker h) = []" "w_started (idle_worker h)"
  by (simp_all add: idle_worker_def new_worker_def run_enter_def re_subscribe_def)

lemma demo_prepared [simp]: "prepare_params (lib_validate demo_lib) demo_ctx demo_task = Inr []"
  by (simp add: prepare_params_def lookup_params_def demo_lib_def demo_ctx_def demo_task_def)

theorem submit_task_registers_witness:
  "\<exists>w'. submit_task demo_lib ''t1'' (PStr ''req-7'') demo_task (idle_worker new_hub) = (Inr ''t1'', w') \<and>
     look_task w' ''t1'' = Some (trackable ''t1'' (Some ''req-7'') demo_task) \<and>
     look_task (snd (clear_task ''t1'' w')) ''t1'' = None"
proof -
  have k: "''t1'' \<notin> known_ids (idle_worker new_hub)" by (simp add: known_ids_def)
  have n: "look_task (idle_worker new_hub) ''t1'' = None" by (simp add: look_task_cases)
  have s: "submit_task demo_lib ''t1'' (PStr ''req-7'') demo_task (idle_worker new_hub) =
      (Inr ''t1'', snd (submit_task demo_lib ''t1'' (PStr ''req-7'') demo_task (idle_worker new_hub)))"
    by (simp add: submit_task_def)
  have "request_id_of (PStr ''req-7'') = Some ''req-7''" by (simp add: request_id_of_def)
  moreover obtain w' where "submit_task demo_lib ''t1'' (PStr ''req-7'') demo_task (idle_worker new_hub) = (Inr ''t1'', w')"
    using s by metis
  ultimately show ?thesis
    using submit_task_registers [OF idle_worker_ok [OF new_hub_ok] k, where L = demo_lib and
        baggage = "PStr ''req-7''" and t = demo_task] n
    by simp
qed

subsection \<open>Listing tasks\<close>

definition pending_tasks :: "worker \<Rightarrow> trackable_task list" where
  "pending_tasks w = map (task_at w) (dict_values (w_pending w))"

definition completed_tasks :: "worker \<Rightarrow> trackable_task list" where
  "completed_tasks w = map (task_at w) (dict_values (w_completed w))"

lemma pending_ids: "worker_ok w \<Longrightarrow> map tt_task_id (pending_tasks w) = map fst (w_pending w)"
  by (auto simp: pending_tasks_def worker_ok_def list_all_iff pending_entry_def)

lemma completed_ids: "worker_ok w \<Longrightarrow> map tt_task_id (completed_tasks w) = map fst (w_completed w)"
  by (auto simp: completed_tasks_def worker_ok_def list_all_iff completed_entry_def)

lemma pending_incomplete: "worker_ok w \<Longrightarrow> t \<in> set (pending_tasks w) \<Longrightarrow> \<not> tt_is_complete t"
  by (auto simp: pending_tasks_def worker_ok_def list_all_iff pending_entry_def)

lemma ids_disjoint: "worker_ok w \<Longrightarrow> fst ` set (w_pending w) \<inter> fst ` set (w_completed w) = {}"
proof (rule ccontr)
  assume w: "worker_ok w" and "fst ` set (w_pending w) \<inter> fst ` set (w_completed w) \<noteq> {}"
  then obtain k where k: "k \<in> fst ` set (w_pending w)" "k \<in> fst ` set (w_completed w)" by blast
  from k(1) obtain r where "map_of (w_pending w) k = Some r"
    by (metis map_of_eq_None_iff not_Some_eq)
  from pending_not_completed [OF w this] k(2) show False by (simp add: map_of_eq_None_iff)
qed

lemma running_is_current:
  "worker_ok w \<Longrightarrow> t \<in> set (pending_tasks w) \<Longrightarrow> \<not> tt_is_pending t \<Longrightarrow> get_active_task w = Some t"
proof -
  assume w: "worker_ok w" and t: "t \<in> set (pending_tasks w)" "\<not> tt_is_pending t"
  then obtain r where r: "r < length (w_store w)" "t = task_at w r"
    using worker_okD(5) [OF w] by (auto simp: pending_tasks_def list_all_iff pending_entry_def)
  have "running (task_at w r)" using t r pending_incomplete [OF w t(1)] by (simp add: running_def)
  then have "is_current r (w_current w)" using worker_okD(7) [OF w] r by (simp add: refs_ok_def)
  then show ?thesis by (simp add: is_current_def get_active_task_def r)
qed

lemma filter_at_most_one: "distinct xs \<Longrightarrow> (\<And>x. x \<in> set xs \<Longrightarrow> P x \<Longrightarrow> x = a) \<Longrightarrow> filter P xs = [] \<or> filter P xs = [a]"
proof (induction xs)
  case (Cons x xs)
  show ?case
  proof (cases "P x")
    case True
    with Cons.prems have "x = a" by simp
    moreover have "\<not> P y" if "y \<in> set xs" for y
    proof
      assume "P y"
      then have "y = a" using Cons.prems(2) that by simp
      with \<open>x = a\<close> that Cons.prems(1) show False by simp
    qed
    ultimately show ?thesis using True by simp
  next
    case False
    with Cons show ?thesis by simp
  qed
qed simp

lemma distinct_pending_tasks: "worker_ok w \<Longrightarrow> distinct (pending_tasks w)"
  using worker_okD(3) [of w] pending_ids [of w] by (metis distinct_map)

text \<open>
  The listings by status split the listing of all tasks: every task the worker knows is
  listed once, under exactly one of PENDING, RUNNING and COMPLETE, and at most one task is RUNNING,
  the active one.
\<close>

theorem get_tasks_partition:
  assumes "worker_ok w"
  shows "mset (get_tasks None w) = mset (get_tasks (Some TS_PENDING) w) +
           mset (get_tasks (Some TS_RUNNING) w) + mset (get_tasks (Some TS_COMPLETE) w) \<and>
         distinct (map tt_task_id (get_tasks None w)) \<and>
         (get_tasks (Some TS_RUNNING) w = [] \<or>
          (\<exists>t. get_tasks (Some TS_RUNNING) w = [t] \<and> get_active_task w = Some t))"
proof (intro conjI)
  have all: "get_tasks None w = pending_tasks w @ completed_tasks w"
    by (simp add: pending_tasks_def completed_tasks_def)
  have run: "get_tasks (Some TS_RUNNING) w = filter (\<lambda>t. \<not> tt_is_pending t) (pending_tasks w)"
    using pending_incomplete [OF assms]
    unfolding get_tasks.simps pending_tasks_def [symmetric] by (auto intro!: filter_cong)
  show "mset (get_tasks None w) = mset (get_tasks (Some TS_PENDING) w) +
      mset (get_tasks (Some TS_RUNNING) w) + mset (get_tasks (Some TS_COMPLETE) w)"
    unfolding all run
    by (simp add: pending_tasks_def completed_tasks_def mset_filter multiset_partition [symmetric])
  show "distinct (map tt_task_id (get_tasks None w))"
    unfolding all map_append pending_ids [OF assms] completed_ids [OF assms]
    using worker_okD(3,4) [OF assms] ids_disjoint [OF assms] by auto
  show "get_tasks (Some TS_RUNNING) w = [] \<or>
      (\<exists>t. get_tasks (Some TS_RUNNING) w = [t] \<and> get_active_task w = Some t)"
  proof (cases "get_active_task w")
    case None
    then have "filter (\<lambda>t. \<not> tt_is_pending t) (pending_tasks w) = []"
      using running_is_current [OF assms] by (auto simp: filter_empty_conv)
    then show ?thesis unfolding run by simp
  next
    case (Some a)
    have "x = a" if "x \<in> set (pending_tasks w)" "\<not> tt_is_pending x" for x
      using running_is_current [OF assms that] Some by simp
    from filter_at_most_one [OF distinct_pending_tasks [OF assms], of "\<lambda>t. \<not> tt_is_pending t" a] this
    show ?thesis using Some unfolding run by blast
  qed
qed

definition two_tasks :: worker where
  "two_tasks = snd (process_task demo_lib 0
     (track_task ''t2'' (None, demo_task) (track_task ''t1'' (None, demo_task) (idle_worker new_hub))))"

lemma two_tasks_ok: "worker_ok two_tasks"
proof -
  have "worker_ok (track_task ''t1'' (None, demo_task) (idle_worker new_hub))"
    by (rule track_task_ok [OF idle_worker_ok]) simp_all
  then have "worker_ok (track_task ''t2'' (None, demo_task) (track_task ''t1'' (None, demo_task) (idle_worker new_hub)))"
    by (rule track_task_ok) (simp add: track_task_def trackable_def)
  then show ?thesis unfolding two_tasks_def
    by (rule process_task_ok) (simp_all add: current_done_def track_task_def)
qed

theorem get_tasks_partition_witness:
  "mset (get_tasks None two_tasks) = mset (get_tasks (Some TS_PENDING) two_tasks) +
     mset (get_tasks (Some TS_RUNNING) two_tasks) + mset (get_tasks (Some TS_COMPLETE) two_tasks)"
  using get_tasks_partition [OF two_tasks_ok] by blast

subsection \<open>Beginning a task\<close>

lemma hub_subscribe_unsubscribe:
  assumes "hub_ok h" "hub_subscribe_worker cb h = (t, h')"
  shows "\<exists>h''. hub_unsubscribe_worker t h' = (Inr (), h'') \<and>
    subscriptions (h_worker_events h'') = subscriptions (h_worker_events h) \<and>
    h'' = h\<lparr>h_worker_events := h_worker_events h''\<rparr>"
proof -
  have p: "publisher_ok (h_worker_events h)" using assms(1) by (simp add: hub_ok_def)
  from assms(2) have t: "t = fst (subscribe cb (h_worker_events h))"
    and h': "h' = h\<lparr>h_worker_events := snd (subscribe cb (h_worker_events h))\<rparr>"
    by (simp_all add: hub_subscribe_worker_def Let_def case_prod_beta del: subscribe_token)
  show ?thesis
    using pub.stream_sub_unsub [OF p, of cb] unfolding t h'
    by (simp add: hub_unsubscribe_worker_def Let_def case_prod_beta del: subscribe_token)
qed

text \<open>The ways \<open>begin_task\<close> can go.\<close>

lemma begin_task_cases:
  assumes "worker_ok w"
  obtains (unknown) "map_of (w_pending w) k = None"
      "begin_task k w = (Inl (KeyError (''No pending task with ID '' @ k)), w)"
  | (busy) "map_of (w_pending w) k \<noteq> None" "w_state w \<noteq> IDLE"
      "begin_task k w = (Inl (WorkerBusyError (''Worker is in state '' @ state_value (w_state w))), w)"
  | (full) h where "map_of (w_pending w) k \<noteq> None" "w_channel w \<noteq> None"
      "begin_task k w = (Inl (WorkerBusyError ''Cannot submit task while another is running''),
         w\<lparr>w_otel_context := True, w_hub := h\<rparr>)"
      "subscriptions (h_worker_events h) = subscriptions (h_worker_events (w_hub w))"
      "h_flags h = h_flags (w_hub w) @ [False]"
  | (put) r sub h where "map_of (w_pending w) k = Some r" "w_state w = IDLE" "w_channel w = None"
      "begin_task k w = (Inr (length (h_flags (w_hub w)), sub),
         w\<lparr>w_hub := h, w_otel_context := True, w_channel := Some (TaskMsg r)\<rparr>)"
      "subscriptions (h_worker_events h) =
         subscriptions (h_worker_events (w_hub w)) @ [(sub, MarkTaskAsStarted k (length (h_flags (w_hub w))))]"
      "h_flags h = h_flags (w_hub w) @ [False]"
proof (cases "map_of (w_pending w) k")
  case None
  then show ?thesis by (intro unknown) (simp_all add: begin_task_def)
next
  case (Some r)
  from pendingD [OF assms Some] have r: "\<not> tt_is_complete (task_at w r)" "tt_task_id (task_at w r) = k" by simp_all
  define flag where "flag = length (h_flags (w_hub w))"
  define h where "h = (w_hub w)\<lparr>h_flags := h_flags (w_hub w) @ [False]\<rparr>"
  obtain sub h' where s: "hub_subscribe_worker (MarkTaskAsStarted k flag) h = (sub, h')" by fastforce
  have hok: "hub_ok h" using worker_okD(8) [OF assms] by (simp add: h_def)
  obtain h'' where u: "hub_unsubscribe_worker sub h' = (Inr (), h'')"
    "subscriptions (h_worker_events h'') = subscriptions (h_worker_events h)"
    "h'' = h\<lparr>h_worker_events := h_worker_events h''\<rparr>"
    using hub_subscribe_unsubscribe [OF hok s] by blast
  have b: "begin_task k w =
      (if w_state w \<noteq> IDLE then (Inl (WorkerBusyError (''Worker is in state '' @ state_value (w_state w))), w)
       else if w_channel w \<noteq> None
       then (Inl (WorkerBusyError ''Cannot submit task while another is running''),
             w\<lparr>w_otel_context := True, w_hub := h''\<rparr>)
       else (Inr (flag, sub), w\<lparr>w_hub := h', w_otel_context := True, w_channel := Some (TaskMsg r)\<rparr>))"
    using r s u(1) by (simp add: begin_task_def Some submit_trackable_put_def Let_def flag_def [symmetric] h_def [symmetric])
  have pok: "publisher_ok (h_worker_events h)" using hok by (simp add: hub_ok_def)
  have m: "subscriptions (h_worker_events h') = subscriptions (h_worker_events h) @ [(sub, MarkTaskAsStarted k flag)]"
    "h_flags h' = h_flags h"
    using s subscribe_active [OF pok, of "MarkTaskAsStarted k flag"]
    by (auto simp: hub_subscribe_worker_def Let_def case_prod_beta)
  have f: "h_flags h'' = h_flags h" by (subst u(3)) simp
  consider "w_state w \<noteq> IDLE" | "w_state w = IDLE" "w_channel w \<noteq> None" | "w_state w = IDLE" "w_channel w = None"
    by blast
  then show ?thesis
  proof cases
    case 1
    with b Some show ?thesis by (intro busy) simp_all
  next
    case 2
    with b Some u(2) f show ?thesis by (intro full) (simp_all add: h_def)
  next
    case 3
    with b Some m show ?thesis by (intro put) (simp_all add: h_def flag_def)
  qed
qed

lemma get_tasks_hub: "get_tasks st (w\<lparr>w_otel_context := b, w_hub := h\<rparr>) = get_tasks st w"
  by (cases "(st, w)" rule: get_tasks.cases) simp_all

text \<open>
  Claim C2. \<open>begin_task\<close> hands a task to the worker thread exactly when its id is pending, the
  worker is idle and the queue is empty; its subscriber for the start of this task is then active.
  Otherwise it raises (\<open>KeyError\<close> for an id that is not pending, \<open>WorkerBusyError\<close> for a busy
  worker) and leaves the queue, the listings and the subscriptions as they were.
\<close>

theorem begin_task_outcome:
  assumes "worker_ok w"
  shows "case begin_task k w of
      (Inr (flag, sub), w') \<Rightarrow>
        (\<exists>r. map_of (w_pending w) k = Some r \<and> w_channel w' = Some (TaskMsg r)) \<and>
        w_state w = IDLE \<and> w_channel w = None \<and>
        map_of (subscriptions (h_worker_events (w_hub w'))) sub = Some (MarkTaskAsStarted k flag) \<and>
        \<not> h_flags (w_hub w') ! flag
    | (Inl e, w') \<Rightarrow>
        (map_of (w_pending w) k = None \<and> e = KeyError (''No pending task with ID '' @ k) \<or>
         (w_state w \<noteq> IDLE \<or> w_channel w \<noteq> None) \<and> exn_class e = ''WorkerBusyError'') \<and>
        w_channel w' = w_channel w \<and> get_tasks st w' = get_tasks st w \<and>
        subscriptions (h_worker_events (w_hub w')) = subscriptions (h_worker_events (w_hub w))"
proof (cases rule: begin_task_cases [OF assms, of k, case_names unknown busy full put])
  case (put r sub h)
  then have "publisher_ok (h_worker_events h)"
    using begin_task_ok [OF assms, of k] by (simp add: worker_ok_def hub_ok_def)
  then have "dict_ok (subscriptions (h_worker_events h))" by (simp add: publisher_ok_def)
  moreover have "(sub, MarkTaskAsStarted k (length (h_flags (w_hub w)))) \<in> set (subscriptions (h_worker_events h))"
    by (simp add: put(5))
  ultimately have "map_of (subscriptions (h_worker_events h)) sub =
      Some (MarkTaskAsStarted k (length (h_flags (w_hub w))))"
    by (rule map_of_is_SomeI)
  with put show ?thesis by simp
qed (simp_all add: get_tasks_hub)

definition one_task :: worker where
  "one_task = track_task ''t1'' (None, demo_task) (idle_worker new_hub)"

lemma one_task_ok [simp]: "worker_ok one_task"
  unfolding one_task_def by (rule track_task_ok [OF idle_worker_ok]) simp_all

lemma one_task_sel [simp]:
  "w_pending one_task = [(''t1'', 0)]" "w_state one_task = IDLE" "w_channel one_task = None"
  "w_store one_task = [trackable ''t1'' None demo_task]" "w_ctx one_task = demo_ctx"
  "w_completed one_task = []" "w_current one_task = None"
  by (simp_all add: one_task_def track_task_def)

theorem begin_task_outcome_witness:
  "\<exists>flag sub w'. begin_task ''t1'' one_task = (Inr (flag, sub), w') \<and> w_channel w' = Some (TaskMsg 0)"
proof (cases "begin_task ''t1'' one_task")
  case (Pair res w')
  with begin_task_outcome [OF one_task_ok, of "''t1''" None] show ?thesis
    by (cases res) auto
qed

subsection \<open>The end of a turn\<close>

lemma cycle_move_pending:
  assumes "worker_ok w" "w_current w = Some r" "map_of (w_pending w) k = Some r"
  shows "cycle_move w = (Inr (),
    (update_task r (\<lambda>t. t\<lparr>tt_is_complete := True\<rparr>) w)\<lparr>w_pending := dict_del k (w_pending w),
       w_completed := dict_set k r (w_completed w)\<rparr>)"
  using assms pendingD [OF assms(1,3)] by (simp add: cycle_move_def Let_def)

text \<open>After the task was moved, the turn changes neither the registry nor the flags of a task.\<close>

definition same_but_errors :: "trackable_task \<Rightarrow> trackable_task \<Rightarrow> bool" where
  "same_but_errors t t' \<longleftrightarrow> (\<exists>es. t' = t\<lparr>tt_errors := tt_errors t @ es\<rparr>)"

lemma same_but_errors_refl [simp]: "same_but_errors t t"
  unfolding same_but_errors_def by (rule exI [of _ "[]"]) simp

lemma same_but_errors_sel:
  "same_but_errors t t' \<Longrightarrow> tt_task_id t' = tt_task_id t \<and> tt_is_complete t' = tt_is_complete t \<and>
     tt_is_pending t' = tt_is_pending t \<and> tt_outcome t' = tt_outcome t \<and> set (tt_errors t) \<subseteq> set (tt_errors t')"
  by (auto simp: same_but_errors_def)

lemma report_error_same:
  "i < length (w_store w) \<Longrightarrow> same_but_errors (task_at w i) (task_at (report_error e w) i)"
  by (cases "w_current w = Some i") (auto simp: report_error_task same_but_errors_def intro: exI [of _ "[]"])

lemma report_status_sel [simp]:
  "w_store (snd (report_status L w)) = w_store w" "w_pending (snd (report_status L w)) = w_pending w"
  "w_completed (snd (report_status L w)) = w_completed w" "w_current (snd (report_status L w)) = w_current w"
  "w_errors (snd (report_status L w)) = w_errors w" "w_channel (snd (report_status L w)) = w_channel w"
  "w_hub (snd (report_status L w)) = snd (publish_worker (lib_event_str L) (status_event w)
      (map_option (\<lambda>r. tt_task_id (task_at w r)) (w_current w)) (w_hub w))"
  by (simp_all add: report_status_def Let_def case_prod_beta)

lemma cycle_end_after_move:
  fixes L w
  assumes "cycle_move (w\<lparr>w_otel_context := False\<rparr>) = (Inr (), w1)"
  defines "w' \<equiv> cycle_end L w"
  shows "w_pending w' = w_pending w1" "w_completed w' = w_completed w1" "w_current w' = w_current w1"
    "length (w_store w') = length (w_store w1)" "w_hub w' = w_hub (snd (report_status L w1))"
    "i < length (w_store w1) \<Longrightarrow> same_but_errors (task_at w1 i) (task_at w' i)"
    "i < length (w_store w1) \<Longrightarrow> w_current w1 \<noteq> Some i \<Longrightarrow> task_at w' i = task_at w1 i"
    "fst (report_status L w1) = Inr () \<Longrightarrow> w_errors w' = []"
proof -
  obtain res w2 where r: "report_status L w1 = (res, w2)" by fastforce
  have w2: "w2 = snd (report_status L w1)" by (simp add: r)
  have c: "w' = (case res of Inl e \<Rightarrow> report_error e w2
      | Inr _ \<Rightarrow> w2\<lparr>w_errors := [], w_warnings := [], w_completed_statuses := []\<rparr>)"
    by (cases res) (simp_all add: w'_def cycle_end_def cycle_finish_def assms(1) r)
  show "w_pending w' = w_pending w1" "w_completed w' = w_completed w1" "w_current w' = w_current w1"
    "length (w_store w') = length (w_store w1)" "w_hub w' = w_hub (snd (report_status L w1))"
    unfolding c w2 by (cases res; simp)+
  show "same_but_errors (task_at w1 i) (task_at w' i)" if "i < length (w_store w1)"
    unfolding c using that report_error_same [of i w2] by (cases res) (simp_all add: w2)
  show "task_at w' i = task_at w1 i" if "i < length (w_store w1)" "w_current w1 \<noteq> Some i"
    unfolding c using that by (cases res) (simp_all add: w2 report_error_task)
  show "w_errors w' = []" if "fst (report_status L w1) = Inr ()"
    unfolding c using that by (simp add: r)
qed

lemma turn_moves:
  assumes "worker_ok w" "w_current w = Some r" "map_of (w_pending w) k = Some r"
  shows "w_pending (cycle_end L w) = dict_del k (w_pending w)"
    "w_completed (cycle_end L w) = dict_set k r (w_completed w)"
    "w_current (cycle_end L w) = Some r"
proof -
  have w: "worker_ok (w\<lparr>w_otel_context := False\<rparr>)" using assms(1) by (simp add: worker_ok_progress)
  have m: "cycle_move (w\<lparr>w_otel_context := False\<rparr>) = (Inr (),
      (update_task r (\<lambda>t. t\<lparr>tt_is_complete := True\<rparr>) (w\<lparr>w_otel_context := False\<rparr>))
        \<lparr>w_pending := dict_del k (w_pending w), w_completed := dict_set k r (w_completed w)\<rparr>)"
    using cycle_move_pending [OF w, of r k] assms(2,3) by simp
  from cycle_end_after_move(1-3) [OF m, where L = L] assms(2)
  show "w_pending (cycle_end L w) = dict_del k (w_pending w)"
    "w_completed (cycle_end L w) = dict_set k r (w_completed w)"
    "w_current (cycle_end L w) = Some r" by simp_all
qed

lemma turn_completes_pending:
  fixes L p
  assumes "worker_ok p" "w_current p = Some r" "map_of (w_pending p) k = Some r"
  defines "w' \<equiv> cycle_end L p"
  shows "map_of (w_pending w') k = None" "look_task w' k = Some (task_at w' r)"
    "same_but_errors ((task_at p r)\<lparr>tt_is_complete := True\<rparr>) (task_at w' r)"
    "\<exists>ev. w_hub w' = snd (publish_worker (lib_event_str L) ev (Some k) (w_hub p)) \<and>
       we_task_status ev = Some \<lparr>ts_task_id = k, ts_result = tt_outcome (task_at p r), ts_task_complete = True,
         ts_task_failed = (tt_errors (task_at p r) \<noteq> [])\<rparr>"
    "j \<noteq> k \<Longrightarrow> map_of (w_pending w') j = map_of (w_pending p) j"
    "j \<noteq> k \<Longrightarrow> map_of (w_completed w') j = map_of (w_completed p) j"
    "i < length (w_store p) \<Longrightarrow> i \<noteq> r \<Longrightarrow> task_at w' i = task_at p i"
proof -
  from pendingD [OF assms(1,3)] have r: "r < length (w_store p)" "tt_task_id (task_at p r) = k" by simp_all
  define w1 where "w1 = (update_task r (\<lambda>t. t\<lparr>tt_is_complete := True\<rparr>) (p\<lparr>w_otel_context := False\<rparr>))
    \<lparr>w_pending := dict_del k (w_pending p), w_completed := dict_set k r (w_completed p)\<rparr>"
  have m: "cycle_move (p\<lparr>w_otel_context := False\<rparr>) = (Inr (), w1)"
    using cycle_move_pending [of "p\<lparr>w_otel_context := False\<rparr>" r k] assms(1-3)
    by (simp add: w1_def worker_ok_progress)
  note e = cycle_end_after_move [OF m, where L = L, folded w'_def]
  have at: "task_at w1 r = (task_at p r)\<lparr>tt_is_complete := True\<rparr>" "length (w_store w1) = length (w_store p)"
    "w_current w1 = Some r" "w_hub w1 = w_hub p"
    using r(1) assms(2) by (simp_all add: w1_def)
  have d: "dict_ok (w_pending p)" "dict_ok (w_completed p)" using worker_okD [OF assms(1)] by simp_all
  show pk: "map_of (w_pending w') k = None" unfolding e(1) w1_def using d by simp
  show "look_task w' k = Some (task_at w' r)" unfolding look_task_cases pk e(2) w1_def using d by simp
  show "same_but_errors ((task_at p r)\<lparr>tt_is_complete := True\<rparr>) (task_at w' r)"
    using e(6) [of r] r(1) by (simp add: at)
  show "\<exists>ev. w_hub w' = snd (publish_worker (lib_event_str L) ev (Some k) (w_hub p)) \<and>
       we_task_status ev = Some \<lparr>ts_task_id = k, ts_result = tt_outcome (task_at p r), ts_task_complete = True,
         ts_task_failed = (tt_errors (task_at p r) \<noteq> [])\<rparr>"
    unfolding e(5) report_status_sel
    by (rule exI [of _ "status_event w1"]) (simp add: at r(2) status_event_def current_status_def)
  show "map_of (w_pending w') j = map_of (w_pending p) j" "map_of (w_completed w') j = map_of (w_completed p) j"
    if "j \<noteq> k"
    unfolding e(1,2) w1_def using d that by simp_all
  show "task_at w' i = task_at p i" if "i < length (w_store p)" "i \<noteq> r"
    using e(7) [of i] that by (simp add: at(2,3)) (simp add: w1_def)
qed

text \<open>What the RunEngine's answer makes of the task.\<close>

definition plan_outcome :: "re_return result \<Rightarrow> outcome result" where
  "plan_outcome ret = bind_r ret (\<lambda>v. from_result (do_task_result v))"

lemma process_task_end_task:
  assumes "r < length (w_store w)" "w_current w = Some r"
  shows "task_at (process_task_end ret r w) r =
    (case plan_outcome ret of
       Inr out \<Rightarrow> (task_at w r)\<lparr>tt_outcome := Some out\<rparr>
     | Inl e \<Rightarrow> (task_at w r)\<lparr>tt_outcome := Some (from_exception e), tt_errors := tt_errors (task_at w r) @ [exn_str e]\<rparr>)"
proof (cases ret)
  case (Inl e)
  with assms show ?thesis by (simp add: process_task_end_def plan_outcome_def task_failed_task)
next
  case (Inr v)
  with assms show ?thesis
    by (cases "from_result (do_task_result v)")
      (simp_all add: process_task_end_def plan_outcome_def task_failed_task set_result_def)
qed

lemma process_task_end_other:
  "i < length (w_store w) \<Longrightarrow> i \<noteq> r \<Longrightarrow> w_current w = Some r \<Longrightarrow> task_at (process_task_end ret r w) i = task_at w i"
  by (auto simp: process_task_end_def task_failed_def report_error_task split: sum.splits)

lemma look_task_eqI:
  assumes "worker_ok w" "map_of (w_pending w') j = map_of (w_pending w) j"
    "map_of (w_completed w') j = map_of (w_completed w) j"
    "\<And>i. i < length (w_store w) \<Longrightarrow> tt_task_id (task_at w i) = j \<Longrightarrow> task_at w' i = task_at w i"
  shows "look_task w' j = look_task w j"
  using assms(2-4) pendingD [OF assms(1), of j] completedD [OF assms(1), of j]
  by (cases "map_of (w_completed w) j") (auto simp: look_task_cases split: option.splits)

text \<open>
  Claim C3. When the RunEngine has returned or raised, the rest of the turn moves the running task
  from the pending to the completed tasks, complete and with the outcome of the plan (the result, or
  the class and message of the exception, which is also among its errors), and publishes an event on
  the worker stream, correlated with the task's id, that says so. Other tasks do not change.
\<close>

theorem turn_completes_task:
  fixes L ret r w
  assumes "worker_ok w" and "w_current w = Some r" and "map_of (w_pending w) k = Some r"
  defines "w' \<equiv> cycle_end L (process_task_end ret r w)"
  shows "(\<exists>t ev. map_of (w_pending w') k = None \<and> look_task w' k = Some t \<and> tt_is_complete t \<and>
      tt_outcome t = Some (case plan_outcome ret of Inr out \<Rightarrow> out | Inl e \<Rightarrow> from_exception e) \<and>
      w_hub w' = snd (publish_worker (lib_event_str L) ev (Some k) (w_hub w)) \<and>
      we_task_id ev = Some k \<and> we_is_complete ev \<and>
      (case plan_outcome ret of Inr _ \<Rightarrow> True | Inl e \<Rightarrow> we_is_error ev \<and> exn_str e \<in> set (tt_errors t))) \<and>
    (\<forall>j. j \<noteq> k \<longrightarrow> look_task w' j = look_task w j)"
proof -
  let ?p = "process_task_end ret r w"
  from pendingD [OF assms(1,3)] have rl: "r < length (w_store w)" "tt_task_id (task_at w r) = k" by simp_all
  from process_task_end_ok [OF assms(1,2)] have p: "worker_ok ?p" "w_current ?p = Some r" by simp_all
  have pk: "map_of (w_pending ?p) k = Some r" using assms(3) by (simp add: process_task_end_sel)
  note e = turn_completes_pending [OF p pk, where L = L, folded w'_def]
  note pt = process_task_end_task [OF rl(1) assms(2), of ret]
  have oc: "tt_outcome (task_at ?p r) = Some (case plan_outcome ret of Inr out \<Rightarrow> out | Inl e \<Rightarrow> from_exception e)"
    unfolding pt by (cases "plan_outcome ret") simp_all
  obtain ev where hub: "w_hub w' = snd (publish_worker (lib_event_str L) ev (Some k) (w_hub w))"
    and st: "we_task_status ev = Some \<lparr>ts_task_id = k, ts_result = tt_outcome (task_at ?p r),
      ts_task_complete = True, ts_task_failed = (tt_errors (task_at ?p r) \<noteq> [])\<rparr>"
    using e(4) by (auto simp: process_task_end_sel)
  have fail: "case plan_outcome ret of Inr _ \<Rightarrow> True
      | Inl e \<Rightarrow> we_is_error ev \<and> exn_str e \<in> set (tt_errors (task_at w' r))"
  proof (cases "plan_outcome ret")
    case (Inl x)
    then have "exn_str x \<in> set (tt_errors (task_at ?p r))" unfolding pt by simp
    with same_but_errors_sel [OF e(3)] st Inl show ?thesis by (auto simp: we_is_error_def)
  qed simp
  have others: "look_task w' j = look_task w j" if j: "j \<noteq> k" for j
  proof (rule look_task_eqI [OF assms(1)])
    fix i assume i: "i < length (w_store w)" "tt_task_id (task_at w i) = j"
    with rl j have "i \<noteq> r" by auto
    with i e(7) process_task_end_other [OF i(1) _ assms(2)] show "task_at w' i = task_at w i"
      by (simp add: process_task_end_sel)
  qed (simp_all add: e(5,6) [OF j] process_task_end_sel)
  have "we_task_id ev = Some k \<and> we_is_complete ev" by (simp add: we_task_id_def we_is_complete_def st)
  with e(1,2) hub fail others same_but_errors_sel [OF e(3)] oc show ?thesis by auto
qed

lemma two_tasks_sel [simp]:
  "w_current two_tasks = Some 0" "map_of (w_pending two_tasks) ''t1'' = Some 0"
  by (simp_all add: two_tasks_def process_task_sel track_task_def)

theorem turn_completes_task_witness:
  "\<exists>t. look_task (cycle_end demo_lib (process_task_end (Inl (ValueError ''boom'')) 0 two_tasks)) ''t1'' = Some t \<and>
     tt_is_complete t \<and> tt_outcome t = Some (TaskError ''ValueError'' ''boom'')"
  using turn_completes_task [OF two_tasks_ok, of 0 "''t1''" demo_lib "Inl (ValueError ''boom'')"]
  by (auto simp: plan_outcome_def from_exception_def)

subsection \<open>Turns whose task is no longer pending\<close>

text \<open>
  The end of a turn removes \<open>_current\<close> from the pending tasks without asking whether it is there:
  it may have been cleared while it ran, and \<open>_current\<close> is still the task of an earlier turn when
  a kill signal arrives.
\<close>

lemma cycle_end_not_pending:
  assumes "worker_ok w" "w_current w = Some r" "map_of (w_pending w) (tt_task_id (task_at w r)) = None"
  shows "cycle_end L w = report_error (KeyError (tt_task_id (task_at w r)))
    (update_task r (\<lambda>t. t\<lparr>tt_is_complete := True\<rparr>) (w\<lparr>w_otel_context := False\<rparr>))"
  using assms by (simp add: cycle_end_def cycle_finish_def cycle_move_def Let_def)

text \<open>
  Claim C11. A running task that is cleared before its turn ends is lost: the registry no longer
  knows it, its end is not published, and the \<open>KeyError\<close> of its removal stays in the errors of the
  worker, which the next event of another task will report.
\<close>

theorem cleared_running_task_is_lost:
  fixes L ret r w
  assumes "worker_ok w" and "w_current w = Some r" and "map_of (w_pending w) k = Some r"
  defines "w' \<equiv> cycle_end L (process_task_end ret r (snd (clear_task k w)))"
  shows "fst (clear_task k w) = Inr k \<and> look_task w' k = None \<and> w_hub w' = w_hub w \<and>
    py_repr k \<in> set (w_errors w') \<and> py_repr k \<in> set (we_errors (status_event w'))"
proof -
  let ?c = "snd (clear_task k w)"
  from pendingD [OF assms(1,3)] have rl: "r < length (w_store w)" "tt_task_id (task_at w r) = k" by simp_all
  have c: "worker_ok ?c" "w_current ?c = Some r" "w_store ?c = w_store w" "w_hub ?c = w_hub w"
    "map_of (w_pending ?c) k = None" "map_of (w_completed ?c) k = None"
    using clear_task_ok [OF assms(1), of k] assms(2,3) worker_okD(3) [OF assms(1)] pending_not_completed [OF assms(1,3)]
    by (simp_all add: clear_task_def del: map_of_eq_Some_iff)
  let ?p = "process_task_end ret r ?c"
  from process_task_end_ok [OF c(1,2)] have p: "worker_ok ?p" "w_current ?p = Some r" by simp_all
  have id: "tt_task_id (task_at ?p r) = k"
    using process_task_end_task [of r ?c ret] rl c by (cases "plan_outcome ret") simp_all
  have e: "w' = report_error (KeyError k)
      (update_task r (\<lambda>t. t\<lparr>tt_is_complete := True\<rparr>) (?p\<lparr>w_otel_context := False\<rparr>))"
    unfolding w'_def using cycle_end_not_pending [OF p, of L] by (simp add: id process_task_end_sel c)
  have "w_pending w' = w_pending ?c" "w_completed w' = w_completed ?c" "w_hub w' = w_hub ?c"
    unfolding e by (simp_all add: process_task_end_sel)
  moreover have "py_repr k \<in> set (w_errors w')" unfolding e by (simp add: report_error_def Let_def)
  ultimately show ?thesis using c rl assms(3)
    by (simp add: look_task_cases clear_task_def status_event_def)
qed

theorem cleared_running_task_is_lost_witness:
  "look_task (cycle_end demo_lib (process_task_end (Inr (RunUids [])) 0 (snd (clear_task ''t1'' two_tasks)))) ''t1'' = None"
  using cleared_running_task_is_lost [OF two_tasks_ok, of 0 "''t1''" demo_lib "Inr (RunUids [])"] by simp

text \<open>
  Stopping the worker after a task has completed makes the worker report the \<open>KeyError\<close> of
  removing that task a second time: the completed task gains the error, though its outcome stays.
\<close>

theorem kill_after_completed_task:
  fixes L w
  assumes "worker_ok w" and "current_done w" and "w_current w = Some r"
    and "look_task w k = Some t" and "tt_task_id (task_at w r) = k"
  defines "w' \<equiv> cycle_end L (cycle_kill w)"
  shows "w_stopping w' \<and> look_task w' k = Some (t\<lparr>tt_errors := tt_errors t @ [py_repr k]\<rparr>) \<and> w_hub w' = w_hub w"
proof -
  from currentD [OF assms(1,3)] have rl: "r < length (w_store w)" by simp
  from assms(2,3) have dn: "tt_is_complete (task_at w r)" by (simp add: current_done_def)
  have np: "map_of (w_pending w) k = None"
  proof (cases "map_of (w_pending w) k")
    case (Some i)
    from pendingD [OF assms(1) Some] have "i = r" "\<not> tt_is_complete (task_at w i)"
      using rl assms(5) by (auto intro: same_task [OF assms(1)])
    with dn show ?thesis by simp
  qed simp
  with assms(4) obtain i where i: "map_of (w_completed w) k = Some i" by (auto simp: look_task_cases)
  from completedD [OF assms(1) i] have ir: "i = r" using rl assms(5) by (auto intro: same_task [OF assms(1)])
  with assms(4) np i have t: "t = task_at w r" by (simp add: look_task_cases)
  let ?k = "cycle_kill w"
  have "worker_ok ?k" "w_current ?k = Some r" using assms(1,3) by (simp_all add: cycle_kill_def worker_ok_progress)
  from cycle_end_not_pending [OF this, of L]
  have e: "w' = report_error (KeyError k)
      (update_task r (\<lambda>t. t\<lparr>tt_is_complete := True\<rparr>) (?k\<lparr>w_otel_context := False\<rparr>))"
    unfolding w'_def using np assms(5) by (simp add: cycle_kill_def)
  have "task_at w' r = t\<lparr>tt_errors := tt_errors t @ [py_repr k], tt_is_complete := True\<rparr>"
    unfolding e using rl assms(3) by (subst report_error_task) (simp_all add: cycle_kill_def t)
  also have "\<dots> = t\<lparr>tt_errors := tt_errors t @ [py_repr k]\<rparr>" using dn t by (cases t) simp
  finally have tr: "task_at w' r = t\<lparr>tt_errors := tt_errors t @ [py_repr k]\<rparr>" .
  have "w_pending w' = w_pending w" "w_completed w' = w_completed w" "w_hub w' = w_hub w" "w_stopping w'"
    unfolding e by (simp_all add: cycle_kill_def)
  with np i ir tr show ?thesis by (simp add: look_task_cases)
qed

definition finished_task :: worker where
  "finished_task = cycle_end demo_lib (process_task_end (Inr (RunUids [])) 0 two_tasks)"

theorem kill_after_completed_task_witness:
  "\<exists>t. look_task (cycle_end demo_lib (cycle_kill finished_task)) ''t1'' = Some t \<and> py_repr ''t1'' \<in> set (tt_errors t)"
proof -
  let ?p = "process_task_end (Inr (RunUids [])) 0 two_tasks"
  from process_task_end_ok [OF two_tasks_ok, of 0 "Inr (RunUids [])"]
  have p: "worker_ok ?p" "current_has_outcome ?p" "w_current ?p = Some 0"
    by (simp_all add: current_has_outcome_def)
  have f: "worker_ok finished_task" "current_done finished_task"
    unfolding finished_task_def using p by (simp_all add: cycle_end_ok cycle_end_done)
  have m: "w_current finished_task = Some 0" "map_of (w_pending finished_task) ''t1'' = None"
    "map_of (w_completed finished_task) ''t1'' = Some 0"
    unfolding finished_task_def using turn_moves [OF p(1,3), of "''t1''" demo_lib] worker_okD(3,4) [OF p(1)]
    by (simp_all add: process_task_end_sel)
  from completedD [OF f(1) m(3)] have id: "tt_task_id (task_at finished_task 0) = ''t1''" by simp
  have l: "look_task finished_task ''t1'' = Some (task_at finished_task 0)" by (simp add: look_task_cases m)
  from kill_after_completed_task [OF f m(1) l id, of demo_lib] show ?thesis by auto
qed

subsection \<open>Progress\<close>

lemma publish_status_snapshot_sel [simp]:
  "w_status_snapshot (snd (publish_status_snapshot L w)) = w_status_snapshot w"
  "w_completed_statuses (snd (publish_status_snapshot L w)) = w_completed_statuses w"
  by (simp_all add: publish_status_snapshot_def Let_def case_prod_beta split: option.splits)

lemma on_status_event_completed: "u \<in> set (w_completed_statuses w) \<Longrightarrow> on_status_event L d u up w = (Inr (), w)"
  by (simp add: on_status_event_def)

lemma on_status_event_keeps_out:
  assumes "u \<in> set (w_completed_statuses w)" "map_of (w_status_snapshot w) u = None"
  shows "u \<in> set (w_completed_statuses (snd (on_status_event L d v up w))) \<and>
    map_of (w_status_snapshot (snd (on_status_event L d v up w))) u = None"
  using assms by (cases "v = u") (auto simp: on_status_event_def map_of_eq_None_iff dict_set_keys_mem)

text \<open>
  Once a status has completed, later updates of it in the same turn are ignored: whatever
  updates of any status follow, it does not return to the snapshot that progress events carry.
\<close>

theorem completed_status_stays_out:
  assumes "dict_ok (w_status_snapshot w)" and "on_complete L d u w = (Inr (), w1)"
    and "w2 = fold (\<lambda>(v, dn, up) w. snd (on_status_event L dn v up w)) evs w1"
  shows "map_of (w_status_snapshot w2) u = None \<and> on_status_event L d' u up' w2 = (Inr (), w2)"
proof -
  have ds: "dict_ok (w_status_snapshot (snd (on_status_event L d u no_update w)))"
    using assms(1) by (simp add: on_status_event_def)
  have "u \<in> set (w_completed_statuses w1) \<and> map_of (w_status_snapshot w1) u = None"
    using assms(2) ds by (auto simp: on_complete_def split: prod.splits sum.splits option.splits)
  then have "u \<in> set (w_completed_statuses w2) \<and> map_of (w_status_snapshot w2) u = None"
    unfolding assms(3)
  proof (induction evs arbitrary: w1)
    case (Cons e evs)
    obtain v dn up where "e = (v, dn, up)" by (cases e)
    with Cons.IH [OF on_status_event_keeps_out] Cons.prems show ?case by simp
  qed simp
  then show ?thesis by (simp add: on_status_event_completed)
qed

definition watching :: worker where
  "watching = monitor_status ''s1'' \<lparr>rs_watchable = True, rs_done = False\<rparr> two_tasks"

lemma two_tasks_progress:
  "subscriptions (h_progress_events (w_hub two_tasks)) = []" "w_status_snapshot two_tasks = []"
  "w_completed_statuses two_tasks = []"
  by (simp_all add: two_tasks_def process_task_sel track_task_def idle_worker_def new_worker_def run_enter_def
      re_subscribe_def new_publisher_def process_task_def Let_def case_prod_beta task_failed_def
      report_error_def update_task_def split: sum.splits)

theorem completed_status_stays_out_witness:
  "map_of (w_status_snapshot (snd (on_status_event demo_lib False ''s1'' no_update
     (snd (on_complete demo_lib True ''s1'' watching))))) ''s1'' = None"
proof -
  have d: "dict_ok (w_status_snapshot watching)"
    by (simp add: watching_def monitor_status_def two_tasks_progress)
  have "on_complete demo_lib True ''s1'' watching = (Inr (), snd (on_complete demo_lib True ''s1'' watching))"
    by (simp add: on_complete_def on_status_event_def publish_status_snapshot_def publish_progress_def publish_def
        watching_def monitor_status_def two_tasks_progress Let_def)
  from completed_status_stays_out [OF d this refl, where evs = "[(''s1'', False, no_update)]"]
  show ?thesis by simp
qed

end
