(* ===== verification/WorkerSteps.thy ===== *)
theory WorkerSteps
  imports WorkerProps
begin

section \<open>The worker and its threads\<close>

text \<open>
  The threads that use a worker take turns: callers of its methods, the worker thread that runs
  \<open>_cycle\<close>, the RunEngine that calls the hooks while a plan executes, and the threads in which
  statuses report progress. A step is one of the phases \<open>TaskWorker\<close> splits the methods into. The
  reachable states keep an invariant, a successful \<open>begin_task\<close> means the task was started, and the
  registry refines an abstract life cycle of tasks. Two races of the code are shown as reachable
  states.
\<close>

subsection \<open>Steps\<close>

text \<open>
  Where the worker thread is: not running, waiting for the next task, executing the plan of a task,
  or past the execution (also when the plan could not be started, or after a kill signal).
\<close>

datatype phase = Off | Awaiting | Executing nat | Ending

text \<open>\<open>s_waiters\<close> are the calls of \<open>begin_task\<close> that wait: task id, \<open>Event\<close> and subscription.\<close>

record sys =
  s_worker :: worker
  s_phase :: phase
  s_waiters :: "(string \<times> nat \<times> nat) list"

fun marks_start :: "callback \<Rightarrow> bool" where
  "marks_start (MarkTaskAsStarted _ _) = True"
| "marks_start _ = False"

inductive step :: "lib \<Rightarrow> sys \<Rightarrow> sys \<Rightarrow> bool" for L :: lib where
  Submit: "uuid \<notin> known_ids (s_worker s) \<Longrightarrow>
    step L s (s\<lparr>s_worker := snd (submit_task L uuid baggage t (s_worker s))\<rparr>)"
| Clear: "step L s (s\<lparr>s_worker := snd (clear_task k (s_worker s))\<rparr>)"
| Cancel: "step L s (s\<lparr>s_worker := snd (cancel_active_task failure reason reply (s_worker s))\<rparr>)"
| Pause: "step L s (s\<lparr>s_worker := snd (pause d reply (s_worker s))\<rparr>)"
| Resume: "step L s (s\<lparr>s_worker := snd (resume reply (s_worker s))\<rparr>)"
| Attach: "\<not> marks_start cb \<Longrightarrow>
    step L s (s\<lparr>s_worker := (s_worker s)\<lparr>w_hub := snd (hub_subscribe_worker cb (w_hub (s_worker s)))\<rparr>\<rparr>)"
| BeginFails: "begin_task k (s_worker s) = (Inl e, w') \<Longrightarrow> step L s (s\<lparr>s_worker := w'\<rparr>)"
| BeginPut: "begin_task k (s_worker s) = (Inr (flag, sub), w') \<Longrightarrow>
    step L s (s\<lparr>s_worker := w', s_waiters := s_waiters s @ [(k, flag, sub)]\<rparr>)"
| BeginReturns: "(k, flag, sub) \<in> set (s_waiters s) \<Longrightarrow>
    step L s (s\<lparr>s_worker := snd (submit_trackable_wait flag sub (s_worker s)),
               s_waiters := filter (\<lambda>x. x \<noteq> (k, flag, sub)) (s_waiters s)\<rparr>)"
| Start: "s_phase s = Off \<Longrightarrow> start_worker (s_worker s) = Inr () \<Longrightarrow>
    step L s (s\<lparr>s_worker := run_enter (s_worker s), s_phase := Awaiting\<rparr>)"
| Stop: "stop_put (s_worker s) = Some w' \<Longrightarrow> step L s (s\<lparr>s_worker := w'\<rparr>)"
| TakeTask: "s_phase s = Awaiting \<Longrightarrow> cycle_get (s_worker s) = Some (TaskMsg r, w1) \<Longrightarrow>
    process_task L r w1 = (runs, w2) \<Longrightarrow>
    step L s (s\<lparr>s_worker := w2, s_phase := (if runs then Executing r else Ending)\<rparr>)"
| TakeKill: "s_phase s = Awaiting \<Longrightarrow> cycle_get (s_worker s) = Some (KillSignal, w1) \<Longrightarrow>
    step L s (s\<lparr>s_worker := cycle_kill w1, s_phase := Ending\<rparr>)"
| EngineState: "s_phase s = Executing r \<Longrightarrow>
    step L s (s\<lparr>s_worker := snd (on_state_change L new old (s_worker s))\<rparr>)"
| EngineDocument: "s_phase s = Executing r \<Longrightarrow>
    step L s (s\<lparr>s_worker := snd (on_document L name doc (s_worker s))\<rparr>)"
| EngineWaits: "s_phase s = Executing r \<Longrightarrow>
    step L s (s\<lparr>s_worker := waiting_hook statuses (s_worker s)\<rparr>)"
| StatusEvent: "u \<in> set (w_watched (s_worker s)) \<Longrightarrow>
    step L s (s\<lparr>s_worker := snd (on_status_event L d u up (s_worker s))\<rparr>)"
| StatusComplete: "u \<in> set (w_watched (s_worker s)) \<Longrightarrow>
    step L s (s\<lparr>s_worker := snd (on_complete L d u (s_worker s))\<rparr>)"
| PlanEnds: "s_phase s = Executing r \<Longrightarrow>
    step L s (s\<lparr>s_worker := process_task_end ret r (s_worker s), s_phase := Ending\<rparr>)"
| TurnEnds: "s_phase s = Ending \<Longrightarrow> w' = cycle_end L (s_worker s) \<Longrightarrow>
    step L s (if w_stopping w' then s\<lparr>s_worker := run_exit w', s_phase := Off\<rparr>
              else s\<lparr>s_worker := w', s_phase := Awaiting\<rparr>)"

inductive_cases stepE: "step L s s'"

inductive reachable :: "lib \<Rightarrow> sys \<Rightarrow> bool" for L :: lib where
  init: "new_worker c b new_hub st = Inr w \<Longrightarrow>
    reachable L \<lparr>s_worker = w, s_phase = Off, s_waiters = []\<rparr>"
| again: "reachable L s \<Longrightarrow> step L s s' \<Longrightarrow> reachable L s'"

subsection \<open>What every operation leaves alone\<close>

text \<open>A task keeps its id, is never pending again and never incomplete again.\<close>

definition task_le :: "trackable_task \<Rightarrow> trackable_task \<Rightarrow> bool" where
  "task_le t t' \<longleftrightarrow> tt_task_id t' = tt_task_id t \<and> (tt_is_pending t' \<longrightarrow> tt_is_pending t) \<and>
     (tt_is_complete t \<longrightarrow> tt_is_complete t') \<and> (tt_outcome t \<noteq> None \<longrightarrow> tt_outcome t' \<noteq> None)"

definition store_le :: "trackable_task list \<Rightarrow> trackable_task list \<Rightarrow> bool" where
  "store_le ts ts' \<longleftrightarrow> length ts \<le> length ts' \<and> (\<forall>i < length ts. task_le (ts ! i) (ts' ! i))"

lemma task_le_refl [simp]: "task_le t t" by (simp add: task_le_def)

lemma store_le_refl [simp]: "store_le ts ts" by (simp add: store_le_def)

lemma task_le_trans: "task_le a b \<Longrightarrow> task_le b c \<Longrightarrow> task_le a c" by (simp add: task_le_def)

lemma store_le_trans: "store_le a b \<Longrightarrow> store_le b c \<Longrightarrow> store_le a c"
  by (auto simp: store_le_def intro: task_le_trans)

lemma store_le_append [simp]: "store_le ts (ts @ xs)"
  by (simp add: store_le_def nth_append)

lemma store_le_update: "task_le (ts ! r) x \<Longrightarrow> store_le ts (ts[r := x])"
proof -
  assume le: "task_le (ts ! r) x"
  have "task_le (ts ! i) (ts[r := x] ! i)" if "i < length ts" for i
    using le that by (cases "i = r") simp_all
  then show ?thesis by (simp add: store_le_def)
qed

lemma report_error_le: "store_le (w_store w) (w_store (report_error e w))"
  by (auto simp: report_error_def Let_def task_le_def intro: store_le_update split: option.splits)

lemma update_then_error_le:
  "(\<And>t. task_le t (f t)) \<Longrightarrow> store_le (w_store w) (w_store (report_error e (update_task r f w)))"
  by (rule store_le_trans [OF _ report_error_le]) (simp add: store_le_update)

lemma task_failed_le: "store_le (w_store w) (w_store (task_failed r e w))"
  unfolding task_failed_def by (rule update_then_error_le) (simp add: task_le_def set_exception_def)

lemma process_task_le: "store_le (w_store w) (w_store (snd (process_task L r w)))"
proof -
  let ?w1 = "update_task r (\<lambda>t. t\<lparr>tt_is_pending := False\<rparr>) (w\<lparr>w_current := Some r\<rparr>)"
  have a: "store_le (w_store w) (w_store ?w1)" by (simp add: store_le_update task_le_def)
  have "store_le (w_store ?w1) (w_store (task_failed r e (?w1\<lparr>w_ctx := c\<rparr>)))" for e c
    using task_failed_le [of "?w1\<lparr>w_ctx := c\<rparr>" r e] by simp
  with a show ?thesis
    by (auto simp: process_task_def Let_def case_prod_beta intro: store_le_trans split: sum.splits)
qed

lemma process_task_end_le: "store_le (w_store w) (w_store (process_task_end ret r w))"
proof (cases "bind_r ret (\<lambda>v. set_result (do_task_result v) (task_at w r))")
  case (Inl e)
  then show ?thesis using task_failed_le [of w r e] by (simp add: process_task_end_def)
next
  case (Inr t)
  then obtain v where "set_result v (task_at w r) = Inr t" by (cases ret) auto
  from keeps_const [OF this] have "task_le (task_at w r) t" by (auto simp: task_le_def)
  moreover have "process_task_end ret r w = update_task r (\<lambda>_. t) w"
    by (simp only: process_task_end_def Inr sum.case)
  ultimately show ?thesis by (simp add: store_le_update)
qed

lemma cycle_move_le: "store_le (w_store w) (w_store (snd (cycle_move w)))"
  by (auto simp: cycle_move_def Let_def task_le_def intro: store_le_update split: option.splits)

lemma cycle_finish_le: "store_le (w_store w) (w_store (snd (cycle_finish L w)))"
  using cycle_move_le [of "w\<lparr>w_otel_context := False\<rparr>"]
  by (auto simp: cycle_finish_def report_status_def Let_def split: prod.splits sum.splits)

lemma cycle_end_le: "store_le (w_store w) (w_store (cycle_end L w))"
  using cycle_finish_le [of w L] report_error_le
  by (auto simp: cycle_end_def intro: store_le_trans split: prod.splits sum.splits)

lemma begin_task_frame:
  "w_store (snd (begin_task k w)) = w_store w \<and> w_current (snd (begin_task k w)) = w_current w \<and>
   w_pending (snd (begin_task k w)) = w_pending w \<and> w_completed (snd (begin_task k w)) = w_completed w"
  by (simp add: begin_task_def submit_trackable_put_def Let_def split: option.splits prod.splits sum.splits)

lemma wait_frame:
  "snd (submit_trackable_wait flag sub w) = w\<lparr>w_hub := snd (hub_unsubscribe_worker sub (w_hub w))\<rparr>"
  by (simp add: submit_trackable_wait_def split: prod.splits sum.splits)

text \<open>The hooks change only the hub, the state and what is known of statuses.\<close>

definition registry_same :: "worker \<Rightarrow> worker \<Rightarrow> bool" where
  "registry_same w w' \<longleftrightarrow> w_store w' = w_store w \<and> w_pending w' = w_pending w \<and>
     w_completed w' = w_completed w \<and> w_current w' = w_current w"

lemma hooks_registry:
  "registry_same w (snd (on_state_change L new old w))"
  "registry_same w (snd (on_document L name doc w))"
  "registry_same w (snd (on_status_event L d u up w))"
  "registry_same w (snd (on_complete L d u w))"
  "registry_same w (monitor_status u st w)"
  by (auto simp: registry_same_def on_state_change_def on_document_def on_complete_def on_status_event_def
      publish_status_snapshot_def monitor_status_def report_status_def Let_def
      split: sum.splits option.splits prod.splits if_splits)

lemma waiting_hook_registry: "registry_same w (waiting_hook sts w) \<and> w_hub (waiting_hook sts w) = w_hub w"
proof (cases sts)
  case (Some l)
  have "registry_same w (fold (\<lambda>(u, st). monitor_status u st) l w) \<and>
      w_hub (fold (\<lambda>(u, st). monitor_status u st) l w) = w_hub w"
  proof (induction l arbitrary: w)
    case (Cons x l)
    obtain u st where "x = (u, st)" by (cases x)
    then show ?case using Cons.IH [of "monitor_status u st w"]
      by (simp add: registry_same_def monitor_status_def)
  qed (simp add: registry_same_def)
  with Some show ?thesis by simp
qed (simp add: registry_same_def)

subsection \<open>Waiting callers\<close>

definition started :: "string \<Rightarrow> trackable_task list \<Rightarrow> bool" where
  "started k ts \<longleftrightarrow> (\<exists>t \<in> set ts. tt_task_id t = k \<and> \<not> tt_is_pending t)"

lemma started_mono: "started k ts \<Longrightarrow> store_le ts ts' \<Longrightarrow> started k ts'"
proof -
  assume a: "started k ts" "store_le ts ts'"
  then obtain i where "i < length ts" "tt_task_id (ts ! i) = k" "\<not> tt_is_pending (ts ! i)"
    by (auto simp: started_def in_set_conv_nth)
  with a(2) have "ts' ! i \<in> set ts'" "tt_task_id (ts' ! i) = k" "\<not> tt_is_pending (ts' ! i)"
    by (auto simp: store_le_def task_le_def)
  then show ?thesis by (auto simp: started_def)
qed

text \<open>
  Each subscription that waits for a start belongs to a waiting caller, and a set \<open>Event\<close> means that
  the caller's task was started.
\<close>

definition waiters_ok :: "(string \<times> nat \<times> nat) list \<Rightarrow> worker \<Rightarrow> bool" where
  "waiters_ok ws w \<longleftrightarrow>
     (\<forall>t k i. (t, MarkTaskAsStarted k i) \<in> set (subscriptions (h_worker_events (w_hub w))) \<longrightarrow> (k, i, t) \<in> set ws) \<and>
     (\<forall>k i t k' t'. (k, i, t) \<in> set ws \<longrightarrow> (k', i, t') \<in> set ws \<longrightarrow> k' = k \<and> t' = t) \<and>
     (\<forall>k i t. (k, i, t) \<in> set ws \<longrightarrow> i < length (h_flags (w_hub w)) \<and>
        (h_flags (w_hub w) ! i \<longrightarrow> started k (w_store w)))"

text \<open>What publishing an event about the task \<open>c\<close> does to the hub.\<close>

definition hub_after :: "string option \<Rightarrow> hub \<Rightarrow> hub \<Rightarrow> bool" where
  "hub_after c h h' \<longleftrightarrow>
     set (subscriptions (h_worker_events h')) \<subseteq> set (subscriptions (h_worker_events h)) \<and>
     length (h_flags h') = length (h_flags h) \<and>
     (\<forall>i. h_flags h' ! i \<longrightarrow> h_flags h ! i \<or>
        (\<exists>k t. c = Some k \<and> (t, MarkTaskAsStarted k i) \<in> set (subscriptions (h_worker_events h))))"

lemma hub_after_refl [simp]: "hub_after c h h" by (simp add: hub_after_def)

lemma channel_unsubscribe_subs:
  "set (subscriptions (h_worker_events (snd (channel_unsubscribe ch t h)))) \<subseteq> set (subscriptions (h_worker_events h))"
  by (cases ch) (auto simp: re_unsubscribe_def hub_unsubscribe_worker_def unsubscribe_def Let_def dict_del_eq_filter
      split: option.splits)

definition subs_within :: "(nat \<times> callback) set \<Rightarrow> hub \<Rightarrow> bool" where
  "subs_within S h \<longleftrightarrow> set (subscriptions (h_worker_events h)) \<subseteq> S"

lemma call_callback_subs: "subs_within S h \<Longrightarrow> subs_within S (snd (call_callback cb ev cid h))"
proof (rule call_callback_keeps [where P = "subs_within S"])
  fix ch t h assume "subs_within S h"
  then show "subs_within S (snd (channel_unsubscribe ch t h))"
    using channel_unsubscribe_subs [of ch t h] unfolding subs_within_def by blast
qed (simp_all add: subs_within_def)

lemma publish_subs:
  "set (subscriptions (h_worker_events (snd (publish f call_callback p ev cid h)))) \<subseteq> set (subscriptions (h_worker_events h))"
  using publish_keeps [where P = "subs_within (set (subscriptions (h_worker_events h)))" and call = call_callback
      and h = h and str_of = f and p = p and ev = ev and cid = cid, OF call_callback_subs]
  by (simp add: subs_within_def)

lemma publish_flag_length: "length (h_flags (snd (publish f call_callback p ev cid h))) = length (h_flags h)"
  using publish_flags [of h f p ev cid] by (simp add: flags_le_def)

lemma publish_worker_after: "hub_after (we_task_id e) h (snd (publish_worker f e cid h))"
  unfolding hub_after_def
proof (intro conjI allI impI)
  fix i assume a: "h_flags (snd (publish_worker f e cid h)) ! i"
  show "h_flags h ! i \<or> (\<exists>k t. we_task_id e = Some k \<and>
      (t, MarkTaskAsStarted k i) \<in> set (subscriptions (h_worker_events h)))"
    using publish_worker_flag_cause [OF a] by (cases "h_flags h ! i") force+
qed (simp_all add: publish_worker_def publish_subs publish_flag_length)

lemma publish_other_after:
  "\<nexists>e. ev = WEvent e \<Longrightarrow> hub_after None h (snd (publish f call_callback p ev cid h))"
  unfolding hub_after_def
proof (intro conjI allI impI)
  fix i assume ev: "\<nexists>e. ev = WEvent e" and "h_flags (snd (publish f call_callback p ev cid h)) ! i"
  then have "h_flags h ! i"
    using deliver_flag_cause [of "dict_values (subscriptions p)" ev cid h i]
    by (auto simp: publish_delivers)
  then show "h_flags h ! i \<or> (\<exists>k t. None = Some k \<and>
      (t, MarkTaskAsStarted k i) \<in> set (subscriptions (h_worker_events h)))" by simp
qed (simp_all add: publish_subs publish_flag_length)

definition current_id :: "worker \<Rightarrow> string option" where
  "current_id w = map_option (\<lambda>r. tt_task_id (task_at w r)) (w_current w)"

lemma status_event_id: "we_task_id (status_event w) = current_id w"
  by (simp add: status_event_def we_task_id_def current_status_def current_id_def option.map_comp comp_def)

lemma hub_after_None: "hub_after None h h' \<Longrightarrow> hub_after c h h'"
  by (auto simp: hub_after_def)

lemma report_status_after: "hub_after (current_id w) (w_hub w) (w_hub (snd (report_status L w)))"
  using publish_worker_after [of "status_event w" "w_hub w" "lib_event_str L"]
  by (simp add: status_event_id)

lemma hooks_after:
  "hub_after (current_id w) (w_hub w) (w_hub (snd (on_state_change L new old w)))"
  "hub_after None (w_hub w) (w_hub (snd (on_document L name doc w)))"
  "hub_after None (w_hub w) (w_hub (snd (on_status_event L d u up w)))"
proof -
  have "current_id (w\<lparr>w_state := st\<rparr>) = current_id w" for st by (simp add: current_id_def)
  then show "hub_after (current_id w) (w_hub w) (w_hub (snd (on_state_change L new old w)))"
    using report_status_after [of "w\<lparr>w_state := st\<rparr>" L for st]
    by (auto simp: on_state_change_def split: sum.splits simp del: report_status_sel)
  show "hub_after None (w_hub w) (w_hub (snd (on_document L name doc w)))"
    by (auto simp: on_document_def Let_def case_prod_beta publish_data_def publish_other_after split: option.splits)
  show "hub_after None (w_hub w) (w_hub (snd (on_status_event L d u up w)))"
    by (auto simp: on_status_event_def publish_status_snapshot_def Let_def case_prod_beta publish_progress_def
        publish_other_after split: option.splits)
qed

lemma on_complete_after: "hub_after None (w_hub w) (w_hub (snd (on_complete L d u w)))"
  using hooks_after(3) [of w L d u no_update]
  by (auto simp: on_complete_def split: prod.splits sum.splits option.splits)

lemma cycle_move_sel:
  "w_hub (snd (cycle_move w)) = w_hub w" "w_current (snd (cycle_move w)) = w_current w"
  "current_id (snd (cycle_move w)) = current_id w"
proof -
  have "tt_task_id ((w_store w)[r := (task_at w r)\<lparr>tt_is_complete := True\<rparr>] ! r) = tt_task_id (task_at w r)" for r
    by (cases "r < length (w_store w)") (simp_all add: list_update_beyond)
  then show "w_hub (snd (cycle_move w)) = w_hub w" "w_current (snd (cycle_move w)) = w_current w"
    "current_id (snd (cycle_move w)) = current_id w"
    by (simp_all add: cycle_move_def current_id_def Let_def split: option.splits)
qed

lemma cycle_end_after: "hub_after (current_id w) (w_hub w) (w_hub (cycle_end L w))"
proof -
  obtain res w1 where m: "cycle_move (w\<lparr>w_otel_context := False\<rparr>) = (res, w1)" by fastforce
  have w1: "w_hub w1 = w_hub w" "current_id w1 = current_id w"
    using cycle_move_sel [of "w\<lparr>w_otel_context := False\<rparr>"] by (simp_all add: m) (simp add: current_id_def)
  obtain res' w2 where r: "report_status L w1 = (res', w2)" by fastforce
  have w2: "hub_after (current_id w) (w_hub w) (w_hub w2)"
    using report_status_after [of w1 L] w1 by (simp add: r)
  show ?thesis
    by (cases res; cases res') (simp_all add: cycle_end_def cycle_finish_def m r w1 w2)
qed

lemma waiters_ok_after:
  assumes "waiters_ok ws w" "hub_after c (w_hub w) (w_hub w')" "store_le (w_store w) (w_store w')"
    "\<And>k. c = Some k \<Longrightarrow> started k (w_store w')"
  shows "waiters_ok ws w'"
  unfolding waiters_ok_def
proof (intro conjI allI impI)
  fix t k i assume "(t, MarkTaskAsStarted k i) \<in> set (subscriptions (h_worker_events (w_hub w')))"
  then show "(k, i, t) \<in> set ws" using assms(1,2) by (auto simp: waiters_ok_def hub_after_def)
next
  fix k i t k' t' assume "(k, i, t) \<in> set ws" "(k', i, t') \<in> set ws"
  then show "k' = k" "t' = t" using assms(1) unfolding waiters_ok_def by blast+
next
  fix k i t assume m: "(k, i, t) \<in> set ws"
  with assms(1) have "i < length (h_flags (w_hub w))" unfolding waiters_ok_def by blast
  with assms(2) show "i < length (h_flags (w_hub w'))" by (simp add: hub_after_def)
  assume "h_flags (w_hub w') ! i"
  with assms(2) consider "h_flags (w_hub w) ! i"
    | k' t' where "c = Some k'" "(t', MarkTaskAsStarted k' i) \<in> set (subscriptions (h_worker_events (w_hub w)))"
    by (auto simp: hub_after_def)
  then show "started k (w_store w')"
  proof cases
    case 1
    with m assms(1) have "started k (w_store w)" unfolding waiters_ok_def by blast
    then show ?thesis using assms(3) by (rule started_mono)
  next
    case 2
    from 2(2) assms(1) have "(k', i, t') \<in> set ws" by (auto simp: waiters_ok_def)
    with m assms(1) have "k' = k" unfolding waiters_ok_def by blast
    with 2(1) assms(4) show ?thesis by simp
  qed
qed

lemma current_started: "worker_ok w \<Longrightarrow> current_id w = Some k \<Longrightarrow> started k (w_store w)"
  by (auto simp: current_id_def started_def dest!: currentD)

subsection \<open>The invariant of the system\<close>

fun phase_ok :: "phase \<Rightarrow> worker \<Rightarrow> bool" where
  "phase_ok Off w = current_done w"
| "phase_ok Awaiting w = current_done w"
| "phase_ok (Executing r) w = (w_current w = Some r)"
| "phase_ok Ending w = current_has_outcome w"

definition sys_ok :: "sys \<Rightarrow> bool" where
  "sys_ok s \<longleftrightarrow> worker_ok (s_worker s) \<and> phase_ok (s_phase s) (s_worker s) \<and>
     waiters_ok (s_waiters s) (s_worker s)"

lemma phase_ok_mono:
  assumes "worker_ok w" "phase_ok ph w" "w_current w' = w_current w" "store_le (w_store w) (w_store w')"
  shows "phase_ok ph w'"
proof -
  have "task_le (task_at w r) (task_at w' r)" if "w_current w = Some r" for r
    using currentD [OF assms(1) that] assms(4) by (simp add: store_le_def)
  with assms(2,3) show ?thesis
    by (cases ph) (auto simp: current_done_def current_has_outcome_def task_le_def)
qed

text \<open>A step that only touches the store and the hub as its operation does.\<close>

lemma sys_ok_after:
  assumes "sys_ok s" "worker_ok w'" "w_current w' = w_current (s_worker s)"
    "store_le (w_store (s_worker s)) (w_store w')" "hub_after c (w_hub (s_worker s)) (w_hub w')"
    "c = None \<or> c = current_id (s_worker s)"
  shows "sys_ok (s\<lparr>s_worker := w'\<rparr>)"
proof -
  have "started k (w_store w')" if "c = Some k" for k
    using assms(1,4,6) that current_started [of "s_worker s" k]
    by (auto simp: sys_ok_def intro: started_mono)
  with assms show ?thesis
    using phase_ok_mono [OF _ _ assms(3,4)] waiters_ok_after [OF _ assms(5,4)] by (auto simp: sys_ok_def)
qed

lemma sys_ok_same_hub:
  "sys_ok s \<Longrightarrow> worker_ok w' \<Longrightarrow> w_current w' = w_current (s_worker s) \<Longrightarrow>
     store_le (w_store (s_worker s)) (w_store w') \<Longrightarrow> w_hub w' = w_hub (s_worker s) \<Longrightarrow>
     sys_ok (s\<lparr>s_worker := w'\<rparr>)"
  by (rule sys_ok_after [where c = None]) simp_all

lemma sys_ok_hook:
  assumes "sys_ok s" "worker_ok w'" "registry_same (s_worker s) w'" "hub_after c (w_hub (s_worker s)) (w_hub w')"
    "c = None \<or> c = current_id (s_worker s)"
  shows "sys_ok (s\<lparr>s_worker := w'\<rparr>)"
  using assms by (intro sys_ok_after [where c = c]) (simp_all add: registry_same_def)

lemma waiters_attach:
  assumes "worker_ok w" "waiters_ok ws w" "\<not> marks_start cb"
  shows "waiters_ok ws (w\<lparr>w_hub := snd (hub_subscribe_worker cb (w_hub w))\<rparr>)"
proof -
  have p: "publisher_ok (h_worker_events (w_hub w))" using worker_okD(8) [OF assms(1)] by (simp add: hub_ok_def)
  have "subscriptions (h_worker_events (snd (hub_subscribe_worker cb (w_hub w)))) =
      subscriptions (h_worker_events (w_hub w)) @ [(fst (subscribe cb (h_worker_events (w_hub w))), cb)]"
    "h_flags (snd (hub_subscribe_worker cb (w_hub w))) = h_flags (w_hub w)"
    using subscribe_active [OF p, of cb] by (simp_all add: hub_subscribe_worker_def Let_def case_prod_beta)
  moreover have "cb \<noteq> MarkTaskAsStarted k i" for k i using assms(3) by auto
  ultimately show ?thesis using assms(2) by (simp add: waiters_ok_def) blast
qed

lemma nth_snoc_false: "i < length xs \<Longrightarrow> (xs @ [False]) ! i = xs ! i"
  by (simp add: nth_append)

lemma waiters_more_flags:
  "waiters_ok ws w \<Longrightarrow> w_store w' = w_store w \<Longrightarrow> h_flags (w_hub w') = h_flags (w_hub w) @ [False] \<Longrightarrow>
     subscriptions (h_worker_events (w_hub w')) = subscriptions (h_worker_events (w_hub w)) \<Longrightarrow> waiters_ok ws w'"
  unfolding waiters_ok_def by (simp add: less_Suc_eq) (metis nth_snoc_false)

lemma waiters_begin:
  assumes "waiters_ok ws w" "w_store w' = w_store w" "h_flags (w_hub w') = h_flags (w_hub w) @ [False]"
    "subscriptions (h_worker_events (w_hub w')) =
       subscriptions (h_worker_events (w_hub w)) @ [(sub, MarkTaskAsStarted k (length (h_flags (w_hub w))))]"
  shows "waiters_ok (ws @ [(k, length (h_flags (w_hub w)), sub)]) w'"
proof -
  let ?n = "length (h_flags (w_hub w))"
  have old: "i < ?n" if "(k', i, t) \<in> set ws" for k' i t
    using assms(1) that unfolding waiters_ok_def by blast
  have u: "k'' = k' \<and> t' = t" if "(k', i, t) \<in> set ws" "(k'', i, t') \<in> set ws" for k' k'' i t t'
    using assms(1) that unfolding waiters_ok_def by blast
  have s: "started k' (w_store w)" if "(k', i, t) \<in> set ws" "h_flags (w_hub w) ! i" for k' i t
    using assms(1) that unfolding waiters_ok_def by blast
  show ?thesis
    unfolding waiters_ok_def
  proof (intro conjI allI impI)
    fix t k' i assume "(t, MarkTaskAsStarted k' i) \<in> set (subscriptions (h_worker_events (w_hub w')))"
    then show "(k', i, t) \<in> set (ws @ [(k, ?n, sub)])"
      using assms(1) unfolding assms(4) waiters_ok_def by auto
  next
    fix k' i t k'' t' assume "(k', i, t) \<in> set (ws @ [(k, ?n, sub)])" "(k'', i, t') \<in> set (ws @ [(k, ?n, sub)])"
    then have a: "(k', i, t) \<in> set ws \<or> (k', i, t) = (k, ?n, sub)" "(k'', i, t') \<in> set ws \<or> (k'', i, t') = (k, ?n, sub)"
      by auto
    have "k'' = k' \<and> t' = t"
    proof (cases "i = ?n")
      case True
      with a old show ?thesis by blast
    next
      case False
      with a u show ?thesis by blast
    qed
    then show "k'' = k'" "t' = t" by simp_all
  next
    fix k' i t assume "(k', i, t) \<in> set (ws @ [(k, ?n, sub)])"
    then have m: "(k', i, t) \<in> set ws \<or> i = ?n" by auto
    then show "i < length (h_flags (w_hub w'))" using old by (auto simp: assms(3) intro: less_SucI)
    assume "h_flags (w_hub w') ! i"
    with m show "started k' (w_store w')" using s old by (auto simp: assms(2,3) nth_snoc_false)
  qed
qed

lemma waiters_return:
  assumes "worker_ok w" "waiters_ok ws w"
  shows "waiters_ok (filter (\<lambda>x. x \<noteq> (k, flag, sub)) ws)
    (w\<lparr>w_hub := snd (hub_unsubscribe_worker sub (w_hub w))\<rparr>)"
proof -
  let ?h = "snd (hub_unsubscribe_worker sub (w_hub w))"
  have p: "publisher_ok (h_worker_events (w_hub w))" using worker_okD(8) [OF assms(1)] by (simp add: hub_ok_def)
  have sb: "set (subscriptions (h_worker_events ?h)) \<subseteq> {q \<in> set (subscriptions (h_worker_events (w_hub w))). fst q \<noteq> sub}"
    using pub.unsub_known [OF p, of sub] pub.unsub_unknown [OF p, of sub]
    by (cases "sub \<in> fst ` set (subscriptions (h_worker_events (w_hub w)))")
      (auto simp: hub_unsubscribe_worker_def Let_def case_prod_beta intro: rev_image_eqI)
  have f: "h_flags ?h = h_flags (w_hub w)"
    by (simp add: hub_unsubscribe_worker_def Let_def case_prod_beta)
  show ?thesis
    unfolding waiters_ok_def
  proof (intro conjI allI impI)
    fix t k' i assume "(t, MarkTaskAsStarted k' i) \<in> set (subscriptions (h_worker_events (w_hub (w\<lparr>w_hub := ?h\<rparr>))))"
    with sb have "(t, MarkTaskAsStarted k' i) \<in> set (subscriptions (h_worker_events (w_hub w)))" "t \<noteq> sub" by auto
    with assms(2) show "(k', i, t) \<in> set (filter (\<lambda>x. x \<noteq> (k, flag, sub)) ws)"
      by (auto simp: waiters_ok_def)
  next
    fix k' i t k'' t' assume "(k', i, t) \<in> set (filter (\<lambda>x. x \<noteq> (k, flag, sub)) ws)"
      "(k'', i, t') \<in> set (filter (\<lambda>x. x \<noteq> (k, flag, sub)) ws)"
    then have "(k', i, t) \<in> set ws" "(k'', i, t') \<in> set ws" by simp_all
    with assms(2) show "k'' = k'" "t' = t" unfolding waiters_ok_def by blast+
  next
    fix k' i t assume "(k', i, t) \<in> set (filter (\<lambda>x. x \<noteq> (k, flag, sub)) ws)"
    then have m: "(k', i, t) \<in> set ws" by simp
    with assms(2) show "i < length (h_flags (w_hub (w\<lparr>w_hub := ?h\<rparr>)))"
      unfolding waiters_ok_def by (simp add: f) blast
    assume "h_flags (w_hub (w\<lparr>w_hub := ?h\<rparr>)) ! i"
    then have "h_flags (w_hub w) ! i" by (simp add: f)
    with m assms(2) have "started k' (w_store w)" unfolding waiters_ok_def by blast
    then show "started k' (w_store (w\<lparr>w_hub := ?h\<rparr>))" by simp
  qed
qed

lemma sys_ok_begin:
  assumes "sys_ok s" "begin_task k (s_worker s) = (res, w')"
  shows "case res of Inl _ \<Rightarrow> sys_ok (s\<lparr>s_worker := w'\<rparr>)
    | Inr (flag, sub) \<Rightarrow> sys_ok (s\<lparr>s_worker := w', s_waiters := s_waiters s @ [(k, flag, sub)]\<rparr>)"
proof -
  let ?w = "s_worker s"
  have w: "worker_ok ?w" "phase_ok (s_phase s) ?w" "waiters_ok (s_waiters s) ?w"
    using assms(1) by (simp_all add: sys_ok_def)
  have w': "worker_ok w'" using begin_task_ok [OF w(1), of k] by (simp add: assms(2))
  have fr: "w_store w' = w_store ?w" "w_current w' = w_current ?w" using begin_task_frame [of k ?w] by (simp_all add: assms(2))
  have ph: "phase_ok (s_phase s) w'" by (rule phase_ok_mono [OF w(1,2)]) (simp_all add: fr)
  show ?thesis
  proof (cases rule: begin_task_cases [OF w(1), of k, case_names unknown busy full put])
    case (full h)
    with assms(2) have "waiters_ok (s_waiters s) w'"
      using waiters_more_flags [OF w(3) fr(1)] by auto
    with full assms(2) w' ph show ?thesis by (auto simp: sys_ok_def)
  next
    case (put r sub h)
    with assms(2) have "w' = ?w\<lparr>w_hub := h, w_otel_context := True, w_channel := Some (TaskMsg r)\<rparr>" by simp
    with put have "waiters_ok (s_waiters s @ [(k, length (h_flags (w_hub ?w)), sub)]) w'"
      by (intro waiters_begin [OF w(3) fr(1)]) simp_all
    with put assms(2) w' ph show ?thesis by (auto simp: sys_ok_def)
  qed (use assms w in \<open>auto simp: sys_ok_def\<close>)
qed

lemma sys_ok_take:
  assumes "sys_ok s" "s_phase s = Awaiting" "cycle_get (s_worker s) = Some (TaskMsg r, w1)"
    "process_task L r w1 = (runs, w2)"
  shows "sys_ok (s\<lparr>s_worker := w2, s_phase := (if runs then Executing r else Ending)\<rparr>)"
proof -
  let ?w = "s_worker s"
  have w: "worker_ok ?w" "current_done ?w" "waiters_ok (s_waiters s) ?w"
    using assms(1,2) by (simp_all add: sys_ok_def)
  from cycle_get_ok [OF w(1) assms(3)] have w1: "worker_ok w1" and r: "r < length (w_store w1)" by simp_all
  have g: "w_store w1 = w_store ?w" "w_current w1 = w_current ?w" "w_hub w1 = w_hub ?w"
    using assms(3) by (auto simp: cycle_get_def)
  have d: "current_done w1" using w(2) by (simp add: current_done_def g)
  have w2: "worker_ok w2" "w_current w2 = Some r" "w_hub w2 = w_hub ?w"
    using process_task_ok [OF w1 d r, of L] process_task_sel(1,4) [of L r w1] by (simp_all add: assms(4) g)
  have "store_le (w_store ?w) (w_store w2)"
    using process_task_le [of w1 L r] by (simp add: assms(4) g)
  then have wt: "waiters_ok (s_waiters s) w2"
    using waiters_ok_after [OF w(3), of None w2] by (simp add: w2)
  have ph: "phase_ok (if runs then Executing r else Ending) w2"
  proof (cases runs)
    case False
    from process_task_failed [OF r, of L w2] assms(4) False show ?thesis
      by (auto simp: current_has_outcome_def w2)
  qed (simp add: w2)
  from w2 wt ph show ?thesis by (simp add: sys_ok_def)
qed

lemma sys_ok_kill:
  assumes "sys_ok s" "s_phase s = Awaiting" "cycle_get (s_worker s) = Some (KillSignal, w1)"
  shows "sys_ok (s\<lparr>s_worker := cycle_kill w1, s_phase := Ending\<rparr>)"
proof -
  have w: "worker_ok (s_worker s)" "current_done (s_worker s)" "waiters_ok (s_waiters s) (s_worker s)"
    using assms(1,2) by (simp_all add: sys_ok_def)
  have k: "cycle_kill w1 = (s_worker s)\<lparr>w_channel := None, w_stopping := True\<rparr>"
    using assms(3) by (auto simp: cycle_get_def cycle_kill_def)
  have "worker_ok (cycle_kill w1)"
    using cycle_get_ok [OF w(1) assms(3)] by (simp add: cycle_kill_def worker_ok_progress)
  moreover have "waiters_ok (s_waiters s) (cycle_kill w1)"
    by (rule waiters_ok_after [OF w(3), where c = None]) (simp_all add: k)
  moreover have "current_has_outcome (cycle_kill w1)"
    using w(2) by (simp add: k current_done_def current_has_outcome_def)
  ultimately show ?thesis by (simp add: sys_ok_def)
qed

lemma sys_ok_turn_ends:
  assumes "sys_ok s" "s_phase s = Ending" "w' = cycle_end L (s_worker s)"
  shows "sys_ok (if w_stopping w' then s\<lparr>s_worker := run_exit w', s_phase := Off\<rparr>
                 else s\<lparr>s_worker := w', s_phase := Awaiting\<rparr>)"
proof -
  let ?w = "s_worker s"
  have w: "worker_ok ?w" "current_has_outcome ?w" "waiters_ok (s_waiters s) ?w"
    using assms(1,2) by (simp_all add: sys_ok_def)
  have w': "worker_ok w'" "current_done w'"
    using cycle_end_ok [OF w(1,2)] cycle_end_done [OF w(1,2)] by (simp_all add: assms(3))
  have wt: "waiters_ok (s_waiters s) w'"
    using waiters_ok_after [OF w(3) cycle_end_after cycle_end_le] current_started [OF w(1)] started_mono cycle_end_le
    unfolding assms(3) by blast
  have x: "w_hub (run_exit w') = w_hub w' \<or> (\<exists>t. w_hub (run_exit w') = re_unsubscribe t (w_hub w'))"
    "w_store (run_exit w') = w_store w'" "w_current (run_exit w') = w_current w'"
    by (auto simp: run_exit_def split: option.splits)
  have "waiters_ok (s_waiters s) (run_exit w')"
  proof (rule waiters_ok_after [OF wt])
    show "hub_after None (w_hub w') (w_hub (run_exit w'))"
      using x(1) by (auto simp: hub_after_def re_unsubscribe_def)
  qed (simp_all add: x)
  moreover have "current_done (run_exit w')" using w'(2) x by (simp add: current_done_def)
  ultimately show ?thesis using w' wt run_exit_ok [OF w'(1)] by (simp add: sys_ok_def)
qed

lemma sys_ok_step: "step L s s' \<Longrightarrow> sys_ok s \<Longrightarrow> sys_ok s'"
proof (induction rule: step.induct)
  case (Submit uuid s baggage t)
  then have "worker_ok (snd (submit_task L uuid baggage t (s_worker s)))"
    by (intro submit_task_ok) (simp_all add: sys_ok_def known_ids_def)
  with Submit show ?case
    by (intro sys_ok_same_hub) (auto simp: submit_task_def track_task_def case_prod_beta split: sum.splits)
next
  case (Clear s k)
  then have "worker_ok (snd (clear_task k (s_worker s)))" by (simp add: sys_ok_def clear_task_ok)
  with Clear show ?case by (intro sys_ok_same_hub) (auto simp: clear_task_def split: option.splits)
next
  case (Cancel s failure reason reply)
  then have "worker_ok (snd (cancel_active_task failure reason reply (s_worker s)))"
    by (simp add: sys_ok_def cancel_active_task_ok)
  with Cancel show ?case
    by (intro sys_ok_same_hub) (auto simp: cancel_active_task_def re_request_def split: option.splits)
next
  case (Pause s d reply)
  then show ?case
    by (intro sys_ok_same_hub) (simp_all add: pause_def re_request_def sys_ok_def worker_ok_progress)
next
  case (Resume s reply)
  then show ?case
    by (intro sys_ok_same_hub) (simp_all add: resume_def re_request_def sys_ok_def worker_ok_progress)
next
  case (Attach cb s)
  have "worker_ok ((s_worker s)\<lparr>w_hub := snd (hub_subscribe_worker cb (w_hub (s_worker s)))\<rparr>)"
    using Attach by (intro worker_ok_hub hub_subscribe_worker_ok) (simp_all add: sys_ok_def worker_okD)
  moreover have "phase_ok (s_phase s) ((s_worker s)\<lparr>w_hub := snd (hub_subscribe_worker cb (w_hub (s_worker s)))\<rparr>)"
    by (rule phase_ok_mono [of "s_worker s"]) (use Attach in \<open>simp_all add: sys_ok_def\<close>)
  ultimately show ?case using Attach waiters_attach by (simp add: sys_ok_def)
next
  case (BeginFails k s e w')
  then show ?case using sys_ok_begin [of s k "Inl e" w'] by simp
next
  case (BeginPut k s flag sub w')
  then show ?case using sys_ok_begin [of s k "Inr (flag, sub)" w'] by simp
next
  case (BeginReturns k flag sub s)
  let ?w' = "snd (submit_trackable_wait flag sub (s_worker s))"
  have "phase_ok (s_phase s) ?w'"
    by (rule phase_ok_mono [of "s_worker s"]) (use BeginReturns in \<open>simp_all add: sys_ok_def wait_frame\<close>)
  then show ?case
    using BeginReturns waiters_return [of "s_worker s" "s_waiters s" k flag sub] submit_trackable_wait_ok
    by (simp add: sys_ok_def) (simp add: wait_frame)
next
  case (Start s)
  have "waiters_ok (s_waiters s) (run_enter (s_worker s)) \<and> current_done (run_enter (s_worker s))"
    using Start by (simp add: sys_ok_def run_enter_def re_subscribe_def waiters_ok_def current_done_def)
  then show ?case using Start run_enter_ok by (simp add: sys_ok_def)
next
  case (Stop s w')
  then have "worker_ok w'" by (auto simp: sys_ok_def intro: stop_put_ok)
  with Stop show ?case by (intro sys_ok_same_hub) (auto simp: stop_put_def split: if_splits option.splits)
next
  case (TakeTask s r w1 runs w2)
  then show ?case by (intro sys_ok_take)
next
  case (TakeKill s w1)
  then show ?case by (intro sys_ok_kill)
next
  case (EngineState s r new old)
  then show ?case
    by (intro sys_ok_hook [where c = "current_id (s_worker s)"])
      (simp_all add: hooks_registry hooks_after on_state_change_ok sys_ok_def)
next
  case (EngineDocument s r name doc)
  then show ?case
    by (intro sys_ok_hook [where c = None]) (simp_all add: hooks_registry hooks_after on_document_ok sys_ok_def)
next
  case (EngineWaits s r statuses)
  then show ?case
    by (intro sys_ok_hook [where c = None]) (simp_all add: waiting_hook_registry waiting_hook_ok sys_ok_def)
next
  case (StatusEvent u s d up)
  then show ?case
    by (intro sys_ok_hook [where c = None]) (simp_all add: hooks_registry hooks_after on_status_event_ok sys_ok_def)
next
  case (StatusComplete u s d)
  then show ?case
    by (intro sys_ok_hook [where c = None]) (simp_all add: hooks_registry on_complete_after on_complete_ok sys_ok_def)
next
  case (PlanEnds s r ret)
  then have w: "worker_ok (s_worker s)" "w_current (s_worker s) = Some r" "waiters_ok (s_waiters s) (s_worker s)"
    by (simp_all add: sys_ok_def)
  from process_task_end_ok [OF w(1,2), of ret] waiters_ok_after [OF w(3), of None "process_task_end ret r (s_worker s)"]
  show ?case by (simp add: sys_ok_def current_has_outcome_def process_task_end_le process_task_end_sel)
next
  case (TurnEnds s w')
  then show ?case by (intro sys_ok_turn_ends)
qed

lemma reachable_ok: "reachable L s \<Longrightarrow> sys_ok s"
proof (induction rule: reachable.induct)
  case (init c b st w)
  have "worker_ok w" by (rule new_worker_ok [OF new_hub_ok init])
  moreover have "w_current w = None" "subscriptions (h_worker_events (w_hub w)) = []"
    using init by (cases "from_bluesky_state st"; auto simp: new_worker_def new_publisher_def)+
  ultimately show ?case by (simp add: sys_ok_def current_done_def waiters_ok_def)
next
  case (again s s')
  then show ?case by (blast intro: sys_ok_step)
qed



subsection \<open>The life cycle of tasks\<close>

text \<open>
  The contract of the registry: a task is submitted, started when no other is active, finished,
  and may be cleared at any time. \<open>life_step\<close> says nothing of threads, stores or queues.
\<close>

datatype life = Waiting | Active | Finished

inductive life_step :: "(string \<Rightarrow> life option) \<Rightarrow> (string \<Rightarrow> life option) \<Rightarrow> bool" where
  submitted: "m k = None \<Longrightarrow> life_step m (m(k \<mapsto> Waiting))"
| activated: "m k = Some Waiting \<Longrightarrow> Some Active \<notin> range m \<Longrightarrow> life_step m (m(k \<mapsto> Active))"
| finished: "m k = Some Active \<Longrightarrow> life_step m (m(k \<mapsto> Finished))"
| cleared: "life_step m (m(k := None))"
| unchanged: "life_step m m"

definition life_of :: "trackable_task \<Rightarrow> life" where
  "life_of t = (if tt_is_complete t then Finished else if tt_is_pending t then Waiting else Active)"

definition life_map :: "worker \<Rightarrow> string \<Rightarrow> life option" where
  "life_map w k = map_option life_of (look_task w k)"

lemma life_map_same:
  assumes "worker_ok w" "w_pending w' = w_pending w" "w_completed w' = w_completed w"
    "\<And>i. i < length (w_store w) \<Longrightarrow> life_of (task_at w' i) = life_of (task_at w i)"
  shows "life_map w' = life_map w"
proof
  fix k
  show "life_map w' k = life_map w k"
    using assms pendingD [OF assms(1), of k] completedD [OF assms(1), of k]
    by (cases "map_of (w_completed w) k") (auto simp: life_map_def look_task_cases split: option.splits)
qed

lemma life_of_flags:
  "tt_is_complete t' = tt_is_complete t \<Longrightarrow> tt_is_pending t' = tt_is_pending t \<Longrightarrow> life_of t' = life_of t"
  by (simp add: life_of_def)

lemma registry_same_life: "worker_ok w \<Longrightarrow> registry_same w w' \<Longrightarrow> life_map w' = life_map w"
  by (rule life_map_same) (simp_all add: registry_same_def)

lemma report_error_flags:
  "tt_is_complete (task_at (report_error e w) i) = tt_is_complete (task_at w i)"
  "tt_is_pending (task_at (report_error e w) i) = tt_is_pending (task_at w i)"
proof -
  have u: "tt_is_complete ((w_store w)[r := (task_at w r)\<lparr>tt_errors := es\<rparr>] ! i) = tt_is_complete (task_at w i)"
    "tt_is_pending ((w_store w)[r := (task_at w r)\<lparr>tt_errors := es\<rparr>] ! i) = tt_is_pending (task_at w i)" for r es
    by (cases "i = r"; cases "r < length (w_store w)"; simp add: list_update_beyond)+
  show "tt_is_complete (task_at (report_error e w) i) = tt_is_complete (task_at w i)"
    "tt_is_pending (task_at (report_error e w) i) = tt_is_pending (task_at w i)"
    by (simp_all add: report_error_def Let_def u split: option.splits)
qed

lemma task_failed_flags:
  "r < length (w_store w) \<Longrightarrow> tt_is_complete (task_at (task_failed r e w) i) = tt_is_complete (task_at w i)"
  "r < length (w_store w) \<Longrightarrow> tt_is_pending (task_at (task_failed r e w) i) = tt_is_pending (task_at w i)"
  by (cases "i = r"; simp add: task_failed_def report_error_flags set_exception_def)+

lemma process_task_flags:
  assumes "r < length (w_store w)"
  shows "tt_is_complete (task_at (snd (process_task L r w)) i) = tt_is_complete (task_at w i)"
    "tt_is_pending (task_at (snd (process_task L r w)) i) = (i \<noteq> r \<and> tt_is_pending (task_at w i))"
proof -
  let ?w1 = "update_task r (\<lambda>t. t\<lparr>tt_is_pending := False\<rparr>) (w\<lparr>w_current := Some r\<rparr>)"
  have w1: "tt_is_complete (task_at ?w1 i) = tt_is_complete (task_at w i)"
    "tt_is_pending (task_at ?w1 i) = (i \<noteq> r \<and> tt_is_pending (task_at w i))"
    using assms by (cases "i = r"; simp)+
  have f: "tt_is_complete (task_at (task_failed r e (?w1\<lparr>w_ctx := c\<rparr>)) i) = tt_is_complete (task_at ?w1 i)"
    "tt_is_pending (task_at (task_failed r e (?w1\<lparr>w_ctx := c\<rparr>)) i) = tt_is_pending (task_at ?w1 i)" for e c
    using assms by (subst task_failed_flags; simp)+
  obtain res c where d: "do_task (lib_validate L) (tt_task (task_at ?w1 r)) (w_ctx ?w1) = (res, c)" by fastforce
  show "tt_is_complete (task_at (snd (process_task L r w)) i) = tt_is_complete (task_at w i)"
    "tt_is_pending (task_at (snd (process_task L r w)) i) = (i \<noteq> r \<and> tt_is_pending (task_at w i))"
    unfolding process_task_def Let_def d
    by (cases res; simp only: prod.case sum.case snd_conv split_beta f w1; simp add: w1 [simplified])+
qed

lemma life_map_pointwise:
  assumes "w_pending w' = w_pending w" "w_completed w' = w_completed w"
    "\<And>j i. map_of (w_pending w) j = Some i \<Longrightarrow> life_of (task_at w' i) = life_of (task_at w i)"
    "\<And>j i. map_of (w_completed w) j = Some i \<Longrightarrow> life_of (task_at w' i) = life_of (task_at w i)"
  shows "life_map w' = life_map w"
proof
  fix k
  show "life_map w' k = life_map w k"
    using assms(1,2) assms(3,4) [of k]
    by (cases "map_of (w_completed w) k") (auto simp: life_map_def look_task_cases split: option.splits)
qed

lemma no_active:
  assumes "worker_ok w" "current_done w"
  shows "i < length (w_store w) \<Longrightarrow> \<not> running (task_at w i)" and "Some Active \<notin> range (life_map w)"
proof -
  have r: "\<not> running (task_at w i)" if "i < length (w_store w)" for i
  proof
    assume run: "running (task_at w i)"
    with assms(1) that have "is_current i (w_current w)" by (simp add: worker_ok_def refs_ok_def)
    then have "w_current w = Some i" by (simp only: is_current_def)
    with assms(2) run show False by (simp add: current_done_def running_def)
  qed
  then show "i < length (w_store w) \<Longrightarrow> \<not> running (task_at w i)" by simp
  show "Some Active \<notin> range (life_map w)"
  proof
    assume "Some Active \<in> range (life_map w)"
    then obtain k t where t: "look_task w k = Some t" "life_of t = Active"
      by (auto simp: life_map_def eq_commute [of "Some Active"])
    with look_task_id [OF assms(1) t(1)] r show False
      by (auto simp: in_set_conv_nth life_of_def running_def split: if_splits)
  qed
qed

lemma life_map_at:
  "map_of (w_pending w) k = Some r \<Longrightarrow> life_map w k = Some (life_of (task_at w r))"
  "map_of (w_pending w) k = None \<Longrightarrow> map_of (w_completed w) k = Some r \<Longrightarrow> life_map w k = Some (life_of (task_at w r))"
  by (simp_all add: life_map_def look_task_cases)

lemma life_take:
  assumes w: "worker_ok w" "current_done w" and r: "r < length (w_store w)"
  shows "life_step (life_map w) (life_map (snd (process_task L r w)))"
proof -
  let ?w' = "snd (process_task L r w)" and ?k = "tt_task_id (task_at w r)"
  have d: "w_pending ?w' = w_pending w" "w_completed ?w' = w_completed w" by (simp_all add: process_task_sel)
  note fl = process_task_flags [OF r, of L]
  have other: "life_of (task_at ?w' i) = life_of (task_at w i)" if "i \<noteq> r" for i
    using that by (simp add: life_of_def fl)
  have done_same: "life_of (task_at ?w' i) = life_of (task_at w i)" if "tt_is_complete (task_at w i)" for i
    using that by (simp add: life_of_def fl)
  show ?thesis
  proof (cases "map_of (w_pending w) ?k")
    case None
    have "life_map ?w' = life_map w"
    proof (rule life_map_pointwise [OF d])
      fix j i assume p: "map_of (w_pending w) j = Some i"
      with pendingD [OF w(1) p] None have "i \<noteq> r" by auto
      then show "life_of (task_at ?w' i) = life_of (task_at w i)" by (rule other)
    qed (use completedD [OF w(1)] done_same in blast)
    then show ?thesis by (simp add: unchanged)
  next
    case (Some i)
    have i: "i = r" using pendingD [OF w(1) Some] r by (intro same_task [OF w(1)]) auto
    have inc: "\<not> tt_is_complete (task_at w r)" using pendingD [OF w(1) Some] i by simp
    with no_active(1) [OF w r] have p: "tt_is_pending (task_at w r)" by (simp add: running_def)
    have wait: "life_map w ?k = Some Waiting"
      using life_map_at(1) [OF Some] inc p i by (simp add: life_of_def)
    have "life_map ?w' = (life_map w)(?k \<mapsto> Active)"
    proof
      fix j
      show "life_map ?w' j = ((life_map w)(?k \<mapsto> Active)) j"
      proof (cases "j = ?k")
        case True
        have "map_of (w_pending ?w') ?k = Some r" using Some i d by simp
        from life_map_at(1) [OF this] True show ?thesis by (simp add: life_of_def fl inc)
      next
        case False
        have "a \<noteq> r" if "map_of (w_pending w) j = Some a \<or> map_of (w_completed w) j = Some a" for a
          using that pendingD [OF w(1), of j a] completedD [OF w(1), of j a] False by blast
        then show ?thesis using False other d
          by (cases "map_of (w_completed w) j") (auto simp: life_map_def look_task_cases split: option.splits)
      qed
    qed
    with activated [where m = "life_map w", OF wait no_active(2) [OF w]] show ?thesis by simp
  qed
qed

lemma cycle_end_idle:
  assumes "w_current w = None"
  shows "w_pending (cycle_end L w) = w_pending w \<and> w_completed (cycle_end L w) = w_completed w \<and>
    w_store (cycle_end L w) = w_store w"
  using assms
  by (auto simp: cycle_end_def cycle_finish_def cycle_move_def report_status_def report_error_def Let_def
      split: sum.splits prod.splits)

lemma life_end:
  assumes w: "worker_ok w"
  shows "life_step (life_map w) (life_map (cycle_end L w))"
proof (cases "w_current w")
  case None
  from cycle_end_idle [OF None, of L] have "life_map (cycle_end L w) = life_map w"
    by (intro life_map_same [OF w]) simp_all
  then show ?thesis by (simp add: unchanged)
next
  case (Some r)
  let ?k = "tt_task_id (task_at w r)" and ?w' = "cycle_end L w"
  from currentD [OF w Some] have r: "r < length (w_store w)" "\<not> tt_is_pending (task_at w r)" by simp_all
  have upd: "life_of ((w_store w)[r := (task_at w r)\<lparr>tt_is_complete := True\<rparr>] ! i) =
      (if i = r then Finished else life_of (task_at w i))" for i
    using r by (simp add: life_of_def)
  show ?thesis
  proof (cases "map_of (w_pending w) ?k")
    case None
    from cycle_end_not_pending [OF w Some None, of L]
    have e: "?w' = report_error (KeyError ?k) (update_task r (\<lambda>t. t\<lparr>tt_is_complete := True\<rparr>) (w\<lparr>w_otel_context := False\<rparr>))" .
    have at: "life_of (task_at ?w' i) = (if i = r then Finished else life_of (task_at w i))" for i
      unfolding upd [symmetric] by (rule life_of_flags) (simp_all add: e report_error_flags)
    have "life_map ?w' = life_map w"
    proof (rule life_map_pointwise)
      fix j i assume p: "map_of (w_pending w) j = Some i"
      with pendingD [OF w p] None have "i \<noteq> r" by auto
      then show "life_of (task_at ?w' i) = life_of (task_at w i)" by (simp add: at)
    next
      fix j i assume "map_of (w_completed w) j = Some i"
      from completedD [OF w this] show "life_of (task_at ?w' i) = life_of (task_at w i)"
        by (subst at) (simp add: life_of_def)
    qed (simp_all add: e)
    then show ?thesis by (simp add: unchanged)
  next
    case (Some i)
    have i: "i = r" using pendingD [OF w Some] r by (intro same_task [OF w]) auto
    note pk = Some [unfolded i]
    note cur = \<open>w_current w = Some r\<close>
    have w0: "worker_ok (w\<lparr>w_otel_context := False\<rparr>)" using w by (simp add: worker_ok_progress)
    have m: "cycle_move (w\<lparr>w_otel_context := False\<rparr>) = (Inr (),
        (update_task r (\<lambda>t. t\<lparr>tt_is_complete := True\<rparr>) (w\<lparr>w_otel_context := False\<rparr>))
          \<lparr>w_pending := dict_del ?k (w_pending w), w_completed := dict_set ?k r (w_completed w)\<rparr>)"
      using cycle_move_pending [OF w0, of r ?k] cur pk by simp
    have at: "life_of (task_at ?w' j) = (if j = r then Finished else life_of (task_at w j))"
      if "j < length (w_store w)" for j
      unfolding upd [symmetric]
      by (rule life_of_flags; use same_but_errors_sel [OF cycle_end_after_move(6) [OF m, where L = L and i = j]] that in simp)
    have act: "life_map w ?k = Some Active"
      using life_map_at(1) [OF pk] pendingD [OF w pk] r by (simp add: life_of_def)
    note mv = turn_moves [OF w cur pk, of L]
    have "life_map ?w' = (life_map w)(?k \<mapsto> Finished)"
    proof
      fix j
      show "life_map ?w' j = ((life_map w)(?k \<mapsto> Finished)) j"
      proof (cases "j = ?k")
        case True
        have "map_of (w_pending ?w') ?k = None" "map_of (w_completed ?w') ?k = Some r"
          using worker_okD(3,4) [OF w] by (simp_all add: mv)
        from life_map_at(2) [OF this] True r show ?thesis by (simp add: at)
      next
        case False
        have "a < length (w_store w) \<and> a \<noteq> r" if "map_of (w_pending w) j = Some a \<or> map_of (w_completed w) j = Some a" for a
          using that pendingD [OF w, of j a] completedD [OF w, of j a] False by blast
        then show ?thesis using False at worker_okD(3,4) [OF w]
          by (cases "map_of (w_completed w) j") (auto simp: life_map_def look_task_cases mv split: option.splits)
      qed
    qed
    with finished [where m = "life_map w", OF act] show ?thesis by simp
  qed
qed

lemma life_track:
  assumes "worker_ok w" "uuid \<notin> known_ids w"
  shows "life_step (life_map w) (life_map (track_task uuid rt w))"
proof -
  have "look_task w uuid = None"
    using look_task_id [OF assms(1), of uuid] assms(2) by (cases "look_task w uuid") (auto simp: known_ids_def)
  then have n: "life_map w uuid = None" by (simp add: life_map_def)
  have "life_map (track_task uuid rt w) = (life_map w)(uuid \<mapsto> Waiting)"
    using registry.look_add [OF assms, of rt] by (auto simp: life_map_def life_of_def trackable_def fun_eq_iff)
  with submitted [where m = "life_map w", OF n] show ?thesis by simp
qed

lemma life_clear: "worker_ok w \<Longrightarrow> life_step (life_map w) (life_map (snd (clear_task k w)))"
proof -
  assume "worker_ok w"
  then have "life_map (snd (clear_task k w)) = (life_map w)(k := None)"
    using registry.look_remove [of w k] by (auto simp: life_map_def remove_task_def fun_eq_iff)
  then show ?thesis by (simp add: cleared)
qed

lemma life_unchanged: "worker_ok w \<Longrightarrow> registry_same w w' \<Longrightarrow> life_step (life_map w) (life_map w')"
  by (simp add: registry_same_life [of w w'] unchanged)

lemma step_life: "step L s s' \<Longrightarrow> sys_ok s \<Longrightarrow> life_step (life_map (s_worker s)) (life_map (s_worker s'))"
proof (induction rule: step.induct)
  case (Submit uuid s baggage t)
  then show ?case by (auto simp: submit_task_def sys_ok_def unchanged life_track split: sum.splits)
next
  case (Clear s k)
  then show ?case by (simp add: sys_ok_def life_clear)
next
  case (TakeTask s r w1 runs w2)
  then have w: "worker_ok (s_worker s)" "current_done (s_worker s)" by (simp_all add: sys_ok_def)
  have g: "w1 = (s_worker s)\<lparr>w_channel := None\<rparr>" using TakeTask(2) by (auto simp: cycle_get_def)
  from cycle_get_ok [OF w(1) TakeTask(2)] have "worker_ok w1" "r < length (w_store w1)" by simp_all
  moreover have "current_done w1" using w(2) by (simp add: g current_done_def)
  ultimately have "life_step (life_map w1) (life_map w2)"
    using life_take [of w1 r L] TakeTask(3) by simp
  moreover have "life_map w1 = life_map (s_worker s)"
    by (rule life_map_same [OF w(1)]) (simp_all add: g)
  ultimately show ?case by simp
next
  case (TurnEnds s w')
  then have "life_step (life_map (s_worker s)) (life_map w')" by (simp add: sys_ok_def life_end)
  moreover have "life_map (run_exit w') = life_map w'"
    by (rule life_map_pointwise) (simp_all add: run_exit_def)
  ultimately show ?case by simp
next
  case (PlanEnds s r ret)
  then have w: "worker_ok (s_worker s)" "w_current (s_worker s) = Some r" by (simp_all add: sys_ok_def)
  from currentD [OF w] have r: "r < length (w_store (s_worker s))" by simp
  have "life_of (task_at (process_task_end ret r (s_worker s)) i) = life_of (task_at (s_worker s) i)"
    if "i < length (w_store (s_worker s))" for i
    using that process_task_end_task [OF r w(2), of ret] process_task_end_other [OF that _ w(2), of ret]
    by (cases "i = r"; cases "plan_outcome ret") (simp_all add: life_of_def)
  then have "life_map (process_task_end ret r (s_worker s)) = life_map (s_worker s)"
    by (intro life_map_same [OF w(1)]) (simp_all add: process_task_end_sel)
  then show ?case by (simp add: unchanged)
next
  case (BeginFails k s e w')
  then have "registry_same (s_worker s) w'" using begin_task_frame [of k "s_worker s"] by (simp add: registry_same_def)
  with BeginFails show ?case by (simp add: sys_ok_def life_unchanged)
next
  case (BeginPut k s flag sub w')
  then have "registry_same (s_worker s) w'" using begin_task_frame [of k "s_worker s"] by (simp add: registry_same_def)
  with BeginPut show ?case by (simp add: sys_ok_def life_unchanged)
next
  case (Stop s w')
  then have "registry_same (s_worker s) w'" by (auto simp: registry_same_def stop_put_def split: if_splits option.splits)
  with Stop show ?case by (simp add: sys_ok_def life_unchanged)
next
  case (TakeKill s w1)
  then have "registry_same (s_worker s) (cycle_kill w1)" by (auto simp: registry_same_def cycle_get_def cycle_kill_def)
  with TakeKill show ?case by (simp add: sys_ok_def life_unchanged)
next
  case (Cancel s failure reason reply)
  have "registry_same (s_worker s) (snd (cancel_active_task failure reason reply (s_worker s)))"
    by (simp add: registry_same_def cancel_active_task_def re_request_def split: option.splits)
  with Cancel show ?case by (simp add: sys_ok_def life_unchanged)
next
  case (BeginReturns k flag sub s)
  have "registry_same (s_worker s) (snd (submit_trackable_wait flag sub (s_worker s)))"
    by (simp add: registry_same_def wait_frame)
  with BeginReturns show ?case by (simp add: sys_ok_def life_unchanged)
qed (simp_all add: sys_ok_def life_unchanged hooks_registry waiting_hook_registry,
     simp_all add: life_unchanged registry_same_def pause_def resume_def re_request_def run_enter_def
        re_subscribe_def)

text \<open>
  Claim C7. The worker implements the life cycle of tasks: however its threads interleave, each of
  their steps is a step of the life cycle (or changes nothing there), from no tasks on.
\<close>

theorem worker_refines_life_cycle:
  assumes "reachable L s"
  shows "life_step\<^sup>*\<^sup>* Map.empty (life_map (s_worker s)) \<and>
    (\<forall>s'. step L s s' \<longrightarrow> life_step (life_map (s_worker s)) (life_map (s_worker s')))"
proof
  show "life_step\<^sup>*\<^sup>* Map.empty (life_map (s_worker s))"
    using assms
  proof (induction rule: reachable.induct)
    case (init c b st w)
    have "w_pending w = []" "w_completed w = []"
      using init by (cases "from_bluesky_state st"; auto simp: new_worker_def)+
    then have "life_map w = Map.empty" by (simp add: life_map_def look_task_cases fun_eq_iff)
    then show ?case by simp
  next
    case (again s s')
    from step_life [OF again.hyps(2) reachable_ok [OF again.hyps(1)]] again.IH show ?case
      by (rule rtranclp.rtrancl_into_rtrancl [rotated])
  qed
  show "\<forall>s'. step L s s' \<longrightarrow> life_step (life_map (s_worker s)) (life_map (s_worker s'))"
    using step_life reachable_ok [OF assms] by blast
qed

text \<open>
  No step takes a task back: over any step the tasks created so far keep their ids, a task
  that was started does not become pending and a complete one not incomplete, and no outcome is lost.
\<close>

theorem step_never_takes_back:
  assumes "step L s s'"
  shows "store_le (w_store (s_worker s)) (w_store (s_worker s'))"
  using assms
proof (induction rule: step.induct)
  case (TakeTask s r w1 runs w2)
  then show ?case using process_task_le [of w1 L r] by (auto simp: cycle_get_def)
next
  case (TurnEnds s w')
  then show ?case using cycle_end_le [of "s_worker s" L] by (simp add: run_exit_def)
next
  case (BeginFails k s e w')
  then show ?case using begin_task_frame [of k "s_worker s"] by simp
next
  case (BeginPut k s flag sub w')
  then show ?case using begin_task_frame [of k "s_worker s"] by simp
next
  case (Submit uuid s baggage t)
  then show ?case by (simp add: submit_task_def track_task_def case_prod_beta split: sum.splits)
next
  case (EngineState s r new old)
  then show ?case using hooks_registry(1) by (simp add: registry_same_def)
next
  case (EngineDocument s r name doc)
  then show ?case using hooks_registry(2) by (simp add: registry_same_def)
next
  case (EngineWaits s r statuses)
  then show ?case using waiting_hook_registry by (simp add: registry_same_def)
next
  case (StatusEvent u s d up)
  then show ?case using hooks_registry(3) by (simp add: registry_same_def)
next
  case (StatusComplete u s d)
  then show ?case using hooks_registry(4) by (simp add: registry_same_def)
qed (auto simp: clear_task_def cancel_active_task_def pause_def resume_def re_request_def wait_frame
      run_enter_def re_subscribe_def stop_put_def cycle_get_def cycle_kill_def process_task_end_le
      split: option.splits if_splits)

end
