(* ===== verification/WorkerTraces.thy ===== *)
theory WorkerTraces
  imports WorkerSteps
begin

section \<open>Runs of the worker\<close>

text \<open>
  A concrete run: a task is submitted, begun and executed; the RunEngine reports that it is idle
  before its call returns, and in this window the same task is begun a second time. The states of
  the run are evaluated; they are the witnesses of the properties of reachable states and show two
  races.
\<close>

definition at_start :: worker where
  "at_start = (case new_worker demo_ctx True new_hub (StatesMember ''idle'') of Inr w \<Rightarrow> w)"

definition begun :: worker where "begun = snd (begin_task ''t1'' one_task)"

definition executing :: worker where
  "executing = snd (process_task demo_lib 0 (begun\<lparr>w_channel := None\<rparr>))"

definition engine_running :: worker where
  "engine_running = snd (on_state_change demo_lib (StatesMember ''running'') None executing)"

definition begin_returned :: worker where
  "begin_returned = snd (submit_trackable_wait 0 0 engine_running)"

definition engine_idle :: worker where
  "engine_idle = snd (on_state_change demo_lib (StatesMember ''idle'') (Some (StatesMember ''running'')) begin_returned)"

definition begun_again :: worker where "begun_again = snd (begin_task ''t1'' engine_idle)"

definition plan_ended :: worker where "plan_ended = process_task_end (Inr (RunUids [])) 0 begun_again"

definition turn_ended :: worker where "turn_ended = cycle_end demo_lib plan_ended"

definition executing_again :: worker where
  "executing_again = snd (process_task demo_lib 0 (turn_ended\<lparr>w_channel := None\<rparr>))"

subsection \<open>The states are reachable\<close>

lemma reach_one_task: "reachable demo_lib \<lparr>s_worker = one_task, s_phase = Awaiting, s_waiters = []\<rparr>"
proof -
  let ?s0 = "\<lparr>s_worker = at_start, s_phase = Off, s_waiters = []\<rparr>"
  let ?s1 = "\<lparr>s_worker = idle_worker new_hub, s_phase = Awaiting, s_waiters = []\<rparr>"
  have new: "new_worker demo_ctx True new_hub (StatesMember ''idle'') = Inr at_start"
    by (simp add: at_start_def new_worker_def)
  have "reachable demo_lib ?s0" by (rule reachable.init [OF new])
  moreover have "step demo_lib ?s0 ?s1"
  proof -
    have st: "start_worker (s_worker ?s0) = Inr ()"
      by (simp add: at_start_def new_worker_def start_worker_def wait_until_stopped_def)
    show ?thesis using step.Start [of ?s0 demo_lib, OF _ st] by (simp add: idle_worker_def new)
  qed
  ultimately have "reachable demo_lib ?s1" by (rule reachable.again)
  moreover have "step demo_lib ?s1 \<lparr>s_worker = one_task, s_phase = Awaiting, s_waiters = []\<rparr>"
    using step.Submit [of "''t1''" ?s1 demo_lib PNone demo_task]
    by (simp add: known_ids_def submit_task_def request_id_of_def one_task_def)
  ultimately show ?thesis by (rule reachable.again)
qed

lemma reach_begun: "reachable demo_lib \<lparr>s_worker = begun, s_phase = Awaiting, s_waiters = [(''t1'', 0, 0)]\<rparr>"
proof (rule reachable.again [OF reach_one_task])
  have "fst (begin_task ''t1'' one_task) = Inr (0, 0)" by code_simp
  then have b: "begin_task ''t1'' one_task = (Inr (0, 0), begun)" by (simp add: begun_def prod_eq_iff)
  show "step demo_lib \<lparr>s_worker = one_task, s_phase = Awaiting, s_waiters = []\<rparr>
      \<lparr>s_worker = begun, s_phase = Awaiting, s_waiters = [(''t1'', 0, 0)]\<rparr>"
    using step.BeginPut [of "''t1''" "\<lparr>s_worker = one_task, s_phase = Awaiting, s_waiters = []\<rparr>" 0 0 begun demo_lib] b
    by simp
qed

lemma take_task_step:
  assumes "w_channel w = Some (TaskMsg r)" "fst (process_task L r (w\<lparr>w_channel := None\<rparr>))"
  shows "step L \<lparr>s_worker = w, s_phase = Awaiting, s_waiters = ws\<rparr>
    \<lparr>s_worker = snd (process_task L r (w\<lparr>w_channel := None\<rparr>)), s_phase = Executing r, s_waiters = ws\<rparr>"
  using step.TakeTask [of "\<lparr>s_worker = w, s_phase = Awaiting, s_waiters = ws\<rparr>" r "w\<lparr>w_channel := None\<rparr>" L True
      "snd (process_task L r (w\<lparr>w_channel := None\<rparr>))"] assms
  by (simp add: cycle_get_def prod_eq_iff)

lemma reach_executing: "reachable demo_lib \<lparr>s_worker = executing, s_phase = Executing 0, s_waiters = [(''t1'', 0, 0)]\<rparr>"
  unfolding executing_def
  by (rule reachable.again [OF reach_begun take_task_step]) code_simp+

lemma engine_state_step:
  "step L \<lparr>s_worker = w, s_phase = Executing r, s_waiters = ws\<rparr>
     \<lparr>s_worker = snd (on_state_change L new old w), s_phase = Executing r, s_waiters = ws\<rparr>"
  using step.EngineState [of "\<lparr>s_worker = w, s_phase = Executing r, s_waiters = ws\<rparr>" r L new old] by simp

lemma reach_running: "reachable demo_lib \<lparr>s_worker = engine_running, s_phase = Executing 0, s_waiters = [(''t1'', 0, 0)]\<rparr>"
  unfolding engine_running_def by (rule reachable.again [OF reach_executing engine_state_step])

lemma reach_idle: "reachable demo_lib \<lparr>s_worker = engine_idle, s_phase = Executing 0, s_waiters = []\<rparr>"
proof -
  have "step demo_lib \<lparr>s_worker = engine_running, s_phase = Executing 0, s_waiters = [(''t1'', 0, 0)]\<rparr>
      \<lparr>s_worker = begin_returned, s_phase = Executing 0, s_waiters = []\<rparr>"
    using step.BeginReturns [of "''t1''" 0 0
        "\<lparr>s_worker = engine_running, s_phase = Executing 0, s_waiters = [(''t1'', 0, 0)]\<rparr>" demo_lib]
    by (simp add: begin_returned_def)
  from reachable.again [OF reach_running this]
  have "reachable demo_lib \<lparr>s_worker = begin_returned, s_phase = Executing 0, s_waiters = []\<rparr>" .
  then show ?thesis unfolding engine_idle_def by (rule reachable.again) (rule engine_state_step)
qed

lemma reach_again: "reachable demo_lib \<lparr>s_worker = begun_again, s_phase = Executing 0, s_waiters = [(''t1'', 1, 1)]\<rparr>"
proof (rule reachable.again [OF reach_idle])
  have "fst (begin_task ''t1'' engine_idle) = Inr (1, 1)" by code_simp
  then have b: "begin_task ''t1'' engine_idle = (Inr (1, 1), begun_again)" by (simp add: begun_again_def prod_eq_iff)
  show "step demo_lib \<lparr>s_worker = engine_idle, s_phase = Executing 0, s_waiters = []\<rparr>
      \<lparr>s_worker = begun_again, s_phase = Executing 0, s_waiters = [(''t1'', 1, 1)]\<rparr>"
    using step.BeginPut [of "''t1''" "\<lparr>s_worker = engine_idle, s_phase = Executing 0, s_waiters = []\<rparr>" 1 1 begun_again demo_lib] b
    by simp
qed

lemma reach_turn_ended: "reachable demo_lib \<lparr>s_worker = turn_ended, s_phase = Awaiting, s_waiters = [(''t1'', 1, 1)]\<rparr>"
proof -
  have "reachable demo_lib \<lparr>s_worker = plan_ended, s_phase = Ending, s_waiters = [(''t1'', 1, 1)]\<rparr>"
    using reachable.again [OF reach_again step.PlanEnds [where r = 0 and ret = "Inr (RunUids [])"]]
    by (simp add: plan_ended_def)
  moreover have "\<not> w_stopping turn_ended" by code_simp
  ultimately show ?thesis
    using reachable.again [OF _ step.TurnEnds [of "\<lparr>s_worker = plan_ended, s_phase = Ending, s_waiters = [(''t1'', 1, 1)]\<rparr>"
        turn_ended demo_lib]]
    by (simp add: turn_ended_def)
qed

lemma reach_executing_again:
  "reachable demo_lib \<lparr>s_worker = executing_again, s_phase = Executing 0, s_waiters = [(''t1'', 1, 1)]\<rparr>"
  unfolding executing_again_def
  by (rule reachable.again [OF reach_turn_ended take_task_step]) code_simp+

subsection \<open>Witnesses\<close>



theorem worker_refines_life_cycle_witness:
  "life_step\<^sup>*\<^sup>* Map.empty (life_map turn_ended) \<and> life_map turn_ended ''t1'' = Some Finished"
proof -
  have "life_map turn_ended ''t1'' = Some Finished" by code_simp
  with worker_refines_life_cycle [OF reach_turn_ended] show ?thesis by simp
qed

theorem step_never_takes_back_witness:
  "store_le (w_store begun) (w_store executing)"
proof -
  have "step demo_lib \<lparr>s_worker = begun, s_phase = Awaiting, s_waiters = []\<rparr>
      \<lparr>s_worker = executing, s_phase = Executing 0, s_waiters = []\<rparr>"
    unfolding executing_def by (rule take_task_step) code_simp+
  from step_never_takes_back [OF this] show ?thesis by simp
qed

subsection \<open>Two races\<close>

text \<open>
  If the RunEngine reports that it is idle before its call returns, the task it ran can be
  begun again: it is still pending and not complete. The threads can then reach a state in which a
  task that is complete and listed as such executes a second time, and in which the tracing context
  the second call cached has been dropped by the end of the first turn, so that every document of
  this run raises instead of being published.
\<close>

theorem begin_again_before_turn_ends:
  "\<exists>s t. reachable demo_lib s \<and> s_phase s = Executing 0 \<and> get_active_task (s_worker s) = Some t \<and>
     t \<in> set (get_tasks (Some TS_COMPLETE) (s_worker s)) \<and>
     (\<forall>name doc. \<exists>m. fst (on_document demo_lib name doc (s_worker s)) = Inl (ValueError m))"
proof -
  let ?s = "\<lparr>s_worker = executing_again, s_phase = Executing 0, s_waiters = [(''t1'', 1, 1)]\<rparr>"
  have c: "w_current executing_again = Some 0" by code_simp
  have o: "\<not> w_otel_context executing_again" by code_simp
  have d: "w_completed executing_again = [(''t1'', 0)]" by code_simp
  have "\<exists>m. fst (on_document demo_lib name doc executing_again) = Inl (ValueError m)" for name doc
    using c o by (simp add: on_document_def)
  moreover have "get_active_task executing_again = Some (task_at executing_again 0)"
    by (simp add: get_active_task_def c)
  moreover have "task_at executing_again 0 \<in> set (get_tasks (Some TS_COMPLETE) executing_again)"
    by (simp add: d)
  ultimately show ?thesis using reach_executing_again by (intro exI [of _ ?s]) auto
qed

end
