(* ===== verification/Interface.thy ===== *)
theory Interface
  imports WorkerProps Support
begin

section \<open>The service interface (service/interface.py, service/model.py)\<close>

text \<open>
  The functions the REST application calls in the worker process. The module keeps its
  configuration and, cached on first use, the context, the worker and the STOMP client; the state is
  a \<open>service\<close> record. The context is one object that the worker refers to, so once there is a worker
  its copy is the context. Third-party parts (building the environment, connecting to the broker and
  to Tiled, the RunEngine's first state) are the fields of \<open>svc_lib\<close>.
\<close>

record svc_lib =
  sl_lib :: lib
  sl_world :: import_env
  sl_token_endpoint :: "oidc_config \<Rightarrow> string result"
  sl_engine_state :: raw_state
  sl_stomp_connect :: "unit result"
  sl_tiled_connect :: "tiled_config \<Rightarrow> (string \<times> string) list \<Rightarrow> unit result"

record service =
  sv_config :: app_config
  sv_context :: "ctx option"
  sv_worker :: "worker option"
  sv_stomp_client :: "bool option"              \<comment> \<open>cached: whether there is a client\<close>

definition new_service :: "string option \<Rightarrow> service" where
  "new_service api_key = \<lparr>sv_config = default_app_config api_key, sv_context = None, sv_worker = None,
     sv_stomp_client = None\<rparr>"

subsection \<open>The cached singletons\<close>

definition context_of :: "svc_lib \<Rightarrow> service \<Rightarrow> ctx result \<times> service" where
  "context_of S sv =
     (case sv_worker sv of
        Some w \<Rightarrow> (Inr (w_ctx w), sv)
      | None \<Rightarrow>
          (case sv_context sv of
             Some c \<Rightarrow> (Inr c, sv)
           | None \<Rightarrow>
               (case post_init (sl_world S) (sl_token_endpoint S) (sv_config sv) of
                  (Inl e, _) \<Rightarrow> (Inl e, sv)
                | (Inr _, c) \<Rightarrow> (Inr c, sv\<lparr>sv_context := Some c\<rparr>))))"

text \<open>The worker is created and started; its thread enters \<open>run\<close>.\<close>

definition worker_of :: "svc_lib \<Rightarrow> service \<Rightarrow> worker result \<times> service" where
  "worker_of S sv =
     (case sv_worker sv of
        Some w \<Rightarrow> (Inr w, sv)
      | None \<Rightarrow>
          (case context_of S sv of
             (Inl e, sv') \<Rightarrow> (Inl e, sv')
           | (Inr c, sv') \<Rightarrow>
               (case new_worker c (env_broadcast_status_events (cfg_env (sv_config sv'))) new_hub (sl_engine_state S) of
                  Inl e \<Rightarrow> (Inl e, sv')
                | Inr w \<Rightarrow>
                    (case start_worker w of
                       Inl e \<Rightarrow> (Inl e, sv')
                     | Inr _ \<Rightarrow> (Inr (run_enter w), sv'\<lparr>sv_worker := Some (run_enter w)\<rparr>)))))"

definition event_topic :: string where
  "event_topic = ''public.worker.event''"

definition hub_subscribe_progress :: "callback \<Rightarrow> hub \<Rightarrow> nat \<times> hub" where
  "hub_subscribe_progress cb h =
     (let (t, p) = subscribe cb (h_progress_events h) in (t, h\<lparr>h_progress_events := p\<rparr>))"

definition hub_subscribe_data :: "callback \<Rightarrow> hub \<Rightarrow> nat \<times> hub" where
  "hub_subscribe_data cb h =
     (let (t, p) = subscribe cb (h_data_events h) in (t, h\<lparr>h_data_events := p\<rparr>))"

definition hub_unsubscribe_progress :: "nat \<Rightarrow> hub \<Rightarrow> unit result \<times> hub" where
  "hub_unsubscribe_progress t h =
     (let (r, p) = unsubscribe t (h_progress_events h) in (r, h\<lparr>h_progress_events := p\<rparr>))"

definition hub_unsubscribe_data :: "nat \<Rightarrow> hub \<Rightarrow> unit result \<times> hub" where
  "hub_unsubscribe_data t h =
     (let (r, p) = unsubscribe t (h_data_events h) in (r, h\<lparr>h_data_events := p\<rparr>))"

definition publish_event_streams :: "string \<Rightarrow> hub \<Rightarrow> hub" where
  "publish_event_streams dest h =
     snd (hub_subscribe_data (ForwardMessage dest)
       (snd (hub_subscribe_progress (ForwardMessage dest)
         (snd (hub_subscribe_worker (ForwardMessage dest) h)))))"

definition stomp_client_of :: "svc_lib \<Rightarrow> service \<Rightarrow> bool result \<times> service" where
  "stomp_client_of S sv =
     (case sv_stomp_client sv of
        Some b \<Rightarrow> (Inr b, sv)
      | None \<Rightarrow>
          (let cfg = cfg_stomp (sv_config sv) in
           if \<not> stomp_enabled cfg then (Inr False, sv\<lparr>sv_stomp_client := Some False\<rparr>)
           else if url_host (stomp_url cfg) = None then (Inl (AssertionError ''Stomp URL missing host''), sv)
           else if url_port (stomp_url cfg) = None then (Inl (AssertionError ''Stomp URL missing port''), sv)
           else
             (case worker_of S sv of
                (Inl e, sv') \<Rightarrow> (Inl e, sv')
              | (Inr w, sv') \<Rightarrow>
                  (let w1 = w\<lparr>w_hub := publish_event_streams event_topic (w_hub w)\<rparr>;
                       sv1 = sv'\<lparr>sv_worker := Some w1\<rparr>
                   in case sl_stomp_connect S of
                        Inl e \<Rightarrow> (Inl e, sv1)
                      | Inr _ \<Rightarrow>
                          (Inr True, sv1\<lparr>sv_stomp_client := Some True,
                             sv_worker := Some (w1\<lparr>w_hub := (w_hub w1)\<lparr>h_stomp_client := True\<rparr>\<rparr>)\<rparr>)))))"

text \<open>\<open>set_up\<close> (the code's \<open>setup\<close>) and \<open>teardown\<close>; \<open>stopped\<close> is how the wait for the worker thread ends.\<close>

definition set_up :: "svc_lib \<Rightarrow> app_config \<Rightarrow> service \<Rightarrow> unit result \<times> service" where
  "set_up S cfg sv =
     (case worker_of S (sv\<lparr>sv_config := cfg\<rparr>) of
        (Inl e, sv') \<Rightarrow> (Inl e, sv')
      | (Inr _, sv') \<Rightarrow>
          (case stomp_client_of S sv' of
             (Inl e, sv'') \<Rightarrow> (Inl e, sv'')
           | (Inr _, sv'') \<Rightarrow> (Inr (), sv'')))"

definition teardown :: "svc_lib \<Rightarrow> (worker \<Rightarrow> unit result \<times> worker) \<Rightarrow> service \<Rightarrow> unit result \<times> service" where
  "teardown S stopped sv =
     (case worker_of S sv of
        (Inl e, sv') \<Rightarrow> (Inl e, sv')
      | (Inr w, sv') \<Rightarrow>
          (case stopped w of
             (Inl e, w') \<Rightarrow> (Inl e, sv'\<lparr>sv_worker := Some w'\<rparr>)
           | (Inr _, w') \<Rightarrow>
               (case stomp_client_of S (sv'\<lparr>sv_worker := Some w'\<rparr>) of
                  (Inl e, sv'') \<Rightarrow> (Inl e, sv'')
                | (Inr _, sv'') \<Rightarrow>
                    (Inr (), sv''\<lparr>sv_context := None, sv_worker := None, sv_stomp_client := None\<rparr>))))"

text \<open>Every other function works on the worker; it is made if need be.\<close>

definition on_worker :: "svc_lib \<Rightarrow> (worker \<Rightarrow> 'a result \<times> worker) \<Rightarrow> service \<Rightarrow> 'a result \<times> service" where
  "on_worker S f sv =
     (case worker_of S sv of
        (Inl e, sv') \<Rightarrow> (Inl e, sv')
      | (Inr w, sv') \<Rightarrow> (let (r, w') = f w in (r, sv'\<lparr>sv_worker := Some w'\<rparr>)))"

subsection \<open>Plans and devices\<close>

record plan_info =
  pi_name :: string
  pi_description :: "string option"
  pi_schema :: pydict

definition from_plan :: "(plan_model \<Rightarrow> pydict) \<Rightarrow> plan \<Rightarrow> plan_info" where
  "from_plan json_schema p =
     \<lparr>pi_name = plan_name p, pi_description = plan_description p, pi_schema = json_schema (plan_model p)\<rparr>"

record protocol_info =
  pr_name :: string
  pr_types :: "string list"

record device_info =
  di_name :: string
  di_protocols :: "protocol_info list"

definition unknown_name :: string where "unknown_name = ''UNKNOWN''"

text \<open>\<open>__name__\<close>: the last part of a qualified name.\<close>

definition simple_name :: "string \<Rightarrow> string" where
  "simple_name s = last (split_on CHR ''.'' s)"

fun type_name :: "pyty \<Rightarrow> string" where
  "type_name (TClass c) = simple_name (cls_qualname c)"
| "type_name (TGen c _) = simple_name (cls_qualname c)"
| "type_name (TUnion _) = ''Union''"
| "type_name (TPipe _) = ''UnionType''"
| "type_name TNone = ''NoneType''"
| "type_name TAny = ''Any''"
| "type_name (TVar n) = n"

fun base_named :: "string \<Rightarrow> pyty \<Rightarrow> bool" where
  "base_named n (TGen c _) = (cls_full c = n)"
| "base_named n (TClass c) = (cls_full c = n)"
| "base_named n _ = False"

definition bounds_of :: "dev_info \<Rightarrow> string \<Rightarrow> pyty list" where
  "bounds_of v n = (case find (base_named n) (dv_orig_bases v) of None \<Rightarrow> [] | Some b \<Rightarrow> get_args b)"

definition protocol_infos :: "dev_info \<Rightarrow> protocol_info list" where
  "protocol_infos v =
     map (\<lambda>p. \<lparr>pr_name = simple_name p, pr_types = map type_name (bounds_of v p)\<rparr>)
       (filter (\<lambda>p. p \<in> set (dv_insts v)) bluesky_protocols)"

fun from_device :: "pyobj \<Rightarrow> device_info" where
  "from_device (InstObj v _) =
     \<lparr>di_name = (case dv_name v of Some n \<Rightarrow> n | None \<Rightarrow> unknown_name), di_protocols = protocol_infos v\<rparr>"
| "from_device _ = \<lparr>di_name = unknown_name, di_protocols = []\<rparr>"

text \<open>\<open>WorkerTask.of_worker\<close>: the identifier of the active task, if any.\<close>

definition of_worker :: "worker \<Rightarrow> string option" where
  "of_worker w = (case get_active_task w of Some active \<Rightarrow> Some (tt_task_id active) | None \<Rightarrow> None)"

text \<open>The descriptions the service answers with.\<close>

definition get_plans :: "(plan_model \<Rightarrow> pydict) \<Rightarrow> ctx \<Rightarrow> plan_info list" where
  "get_plans json_schema c = map (from_plan json_schema) (dict_values (ctx_plans c))"

definition get_plan :: "(plan_model \<Rightarrow> pydict) \<Rightarrow> string \<Rightarrow> ctx \<Rightarrow> plan_info result" where
  "get_plan json_schema name c =
     (case map_of (ctx_plans c) name of
        None \<Rightarrow> Inl (KeyError name)
      | Some p \<Rightarrow> Inr (from_plan json_schema p))"

definition get_devices :: "ctx \<Rightarrow> device_info list" where
  "get_devices c = map from_device (dict_values (ctx_devices c))"

definition get_device :: "string \<Rightarrow> ctx \<Rightarrow> device_info result" where
  "get_device name c =
     bind_r (find_device name c)
       (\<lambda>device. if device = NoneObj then Inl (KeyError name) else Inr (from_device device))"

subsection \<open>Submitting and beginning tasks\<close>

record task_request =
  tr_name :: string
  tr_params :: pydict
  tr_instrument_session :: string

definition task_metadata_for :: "task_request \<Rightarrow> pydict \<Rightarrow> ctx \<Rightarrow> app_config \<Rightarrow> pydict result" where
  "task_metadata_for rq md c cfg =
     (let md1 = dict_set ''instrument_session'' (PStr (tr_instrument_session rq)) md in
      if ctx_tiled_conf c = None then Inr md1
      else
        (case env_metadata (cfg_env cfg) of
           None \<Rightarrow> Inl (AssertionError [])
         | Some m \<Rightarrow>
             bind_r (access_blob (tr_instrument_session rq) (md_instrument m))
               (\<lambda>blob. Inr (dict_set ''tiled_access_tags'' (PList [PStr blob]) md1))))"

definition interface_submit_task :: "svc_lib \<Rightarrow> string \<Rightarrow> pyval \<Rightarrow> task_request \<Rightarrow> pydict option \<Rightarrow>
    service \<Rightarrow> string result \<times> service" where
  "interface_submit_task S uuid baggage rq metadata sv =
     (case context_of S sv of
        (Inl e, sv') \<Rightarrow> (Inl e, sv')
      | (Inr c, sv') \<Rightarrow>
          (case task_metadata_for rq (case metadata of None \<Rightarrow> [] | Some m \<Rightarrow> m) c (sv_config sv') of
             Inl e \<Rightarrow> (Inl e, sv')
           | Inr md \<Rightarrow>
               on_worker S (submit_task (sl_lib S) uuid baggage
                 \<lparr>task_name = tr_name rq, task_params = tr_params rq, task_metadata = md\<rparr>) sv'))"

text \<open>
  \<open>begin_task\<close> with a Tiled configuration: the writer is subscribed to the RunEngine and a callback
  that removes both subscriptions when the task has finished to the worker events.
\<close>

definition attach_tiled :: "string option \<Rightarrow> hub \<Rightarrow> (sub_channel \<times> nat) list \<times> hub" where
  "attach_tiled task_id h =
     (let (tok, h1) = re_subscribe h;
          idx = length (h_sub_lists h1);
          (cb, h2) = hub_subscribe_worker (RemoveWhenFinished task_id idx)
                       (h1\<lparr>h_sub_lists := h_sub_lists h1 @ [[(RunEngineCh, tok)]]\<rparr>);
          subs = [(RunEngineCh, tok), (WorkerEventsCh, cb)]
      in (subs, h2\<lparr>h_sub_lists := (h_sub_lists h2)[idx := subs]\<rparr>))"

text \<open>The clean-up of a \<open>begin_task\<close> that raised: the exception of the clean-up, if any, wins.\<close>

definition begin_failed :: "(sub_channel \<times> nat) list \<Rightarrow> exn \<Rightarrow> worker \<Rightarrow> 'a result \<times> worker" where
  "begin_failed subs e w =
     (case unsubscribe_list subs (w_hub w) of
        (Inl e', h) \<Rightarrow> (Inl e', w\<lparr>w_hub := h\<rparr>)
      | (Inr _, h) \<Rightarrow> (Inl e, w\<lparr>w_hub := h\<rparr>))"

text \<open>The headers of the request go to the numtracker client, if there is one, before anything else.\<close>

definition set_numtracker_headers :: "(string \<times> string) list \<Rightarrow> worker \<Rightarrow> worker" where
  "set_numtracker_headers headers w =
     w\<lparr>w_ctx := (w_ctx w)\<lparr>ctx_numtracker := map_option (set_headers headers) (ctx_numtracker (w_ctx w))\<rparr>\<rparr>"

text \<open>
  Up to the wait for the start: the \<open>Event\<close> and subscription of the wait (none without a task id)
  and the subscriptions to remove if the wait fails.
\<close>

definition begin_attached :: "svc_lib \<Rightarrow> (string \<times> string) list \<Rightarrow> string option \<Rightarrow> worker \<Rightarrow>
    ((nat \<times> nat) option \<times> (sub_channel \<times> nat) list) result \<times> worker" where
  "begin_attached S headers task_id w =
     (case (case ctx_tiled_conf (w_ctx w) of
              None \<Rightarrow> Inr ([], w)
            | Some tiled \<Rightarrow>
                bind_r (sl_tiled_connect S tiled headers)
                  (\<lambda>_. let (subs, h) = attach_tiled task_id (w_hub w) in Inr (subs, w\<lparr>w_hub := h\<rparr>))) of
        Inl e \<Rightarrow> (Inl e, w)
      | Inr (subs, w1) \<Rightarrow>
          (case task_id of
             None \<Rightarrow> (Inr (None, subs), w1)
           | Some tid \<Rightarrow>
               (case begin_task tid w1 of
                  (Inr wait, w2) \<Rightarrow> (Inr (Some wait, subs), w2)
                | (Inl e, w2) \<Rightarrow> begin_failed subs e w2)))"

definition interface_begin :: "svc_lib \<Rightarrow> (string \<times> string) list \<Rightarrow> string option \<Rightarrow> worker \<Rightarrow>
    ((nat \<times> nat) option \<times> (sub_channel \<times> nat) list) result \<times> worker" where
  "interface_begin S headers task_id w =
     begin_attached S headers task_id (set_numtracker_headers headers w)"

definition interface_begin_end :: "(nat \<times> nat) option \<times> (sub_channel \<times> nat) list \<Rightarrow> worker \<Rightarrow> unit result \<times> worker" where
  "interface_begin_end = (\<lambda>(wait, subs) w.
     case wait of
       None \<Rightarrow> (Inr (), w)
     | Some (flag, sub) \<Rightarrow>
         (case submit_trackable_wait flag sub w of
            (Inr _, w') \<Rightarrow> (Inr (), w')
          | (Inl e, w') \<Rightarrow> begin_failed subs e w'))"

subsection \<open>Piping events to another process\<close>

record sub_handles =
  sh_worker :: nat
  sh_progress :: nat
  sh_data :: nat

definition pipe_events :: "nat \<Rightarrow> worker \<Rightarrow> sub_handles \<times> worker" where
  "pipe_events pipe w =
     (let (wt, h1) = hub_subscribe_worker (PipeHandler pipe) (w_hub w);
          (d, h2) = hub_subscribe_data (PipeHandler pipe) h1;
          (p, h3) = hub_subscribe_progress (PipeHandler pipe) h2
      in (\<lparr>sh_worker = wt, sh_progress = p, sh_data = d\<rparr>, w\<lparr>w_hub := h3\<rparr>))"

definition unpipe_events :: "sub_handles \<Rightarrow> worker \<Rightarrow> unit result \<times> worker" where
  "unpipe_events handles w =
     (case hub_unsubscribe_worker (sh_worker handles) (w_hub w) of
        (Inl e, h1) \<Rightarrow> (Inl e, w\<lparr>w_hub := h1\<rparr>)
      | (Inr _, h1) \<Rightarrow>
          (case hub_unsubscribe_data (sh_data handles) h1 of
             (Inl e, h2) \<Rightarrow> (Inl e, w\<lparr>w_hub := h2\<rparr>)
           | (Inr _, h2) \<Rightarrow>
               (case hub_unsubscribe_progress (sh_progress handles) h2 of
                  (Inl e, h3) \<Rightarrow> (Inl e, w\<lparr>w_hub := h3\<rparr>)
                | (Inr _, h3) \<Rightarrow> (Inr (), w\<lparr>w_hub := h3\<rparr>))))"

end
