(* ===== verification/Runner.thy ===== *)
theory Runner
  imports Interface
begin

section \<open>The dispatcher of calls into the worker process (service/runner.py)\<close>

text \<open>
  \<open>WorkerDispatcher\<close>: the state of the environment as clients see it, the pool with its one
  process, and \<open>start\<close>, \<open>stop\<close>, \<open>reload\<close> and \<open>run\<close>. What lives in the process (the module state of
  the service interface) is of type \<open>'s\<close>; a fresh process has the state the factory gives it. A remote
  call is looked up, run and checked in the process, its exceptions are raised again in the caller.
  Event pipes are connections whose sending end the process writes to. The tracing context that goes
  with a call is not modelled.
\<close>

subsection \<open>Environment states and messages\<close>

record env_state =
  es_environment_id :: string
  es_initialized :: bool
  es_error_message :: "string option"

definition blank_report :: string where
  "blank_report = ''The source message was blank''"

definition safe_message :: "string \<Rightarrow> string option \<Rightarrow> string" where
  "safe_message owner message =
     owner @ '': '' @ (case message of
        None \<Rightarrow> blank_report
      | Some m \<Rightarrow> if m = [] \<or> isspace m then blank_report else m)"

definition safe_exception_message :: "exn \<Rightarrow> string" where
  "safe_exception_message e = safe_message (exn_class e) (Some (exn_str e))"

subsection \<open>Running a function in the process\<close>

text \<open>
  What the name of the function stands for in the module of the process, a call of a function with
  its module, name, arguments (in the closure) and annotated return type, and the pool.
\<close>

datatype ('a, 's) module_entry = Missing | NotCallable | Callable "'s \<Rightarrow> 'a result \<times> 's"

record ('a, 's) rpc =
  rpc_named :: bool                                  \<comment> \<open>has \<open>__name__\<close> and \<open>__module__\<close>\<close>
  rpc_name :: string
  rpc_lookup :: "('a, 's) module_entry result"       \<comment> \<open>\<open>import_module\<close> and the lookup\<close>
  rpc_return_type :: "('a \<Rightarrow> 'a result) option"      \<comment> \<open>the validator of the annotated type\<close>
  rpc_str :: string

record 's pool =
  pool_state :: 's
  pool_closed :: bool

record 's runner =
  ru_config :: app_config
  ru_subprocess :: "'s pool option"
  ru_state :: env_state

definition new_runner :: "app_config \<Rightarrow> string \<Rightarrow> 's runner" where
  "new_runner config fresh_id =
     \<lparr>ru_config = config, ru_subprocess = None,
      ru_state = \<lparr>es_environment_id = fresh_id, es_initialized = False, es_error_message = None\<rparr>\<rparr>"

fun validate_function :: "('a, 's) module_entry \<Rightarrow> string \<Rightarrow> ('s \<Rightarrow> 'a result \<times> 's) result" where
  "validate_function Missing function_name = Inl (RpcError (function_name @ '': No such function in subprocess API''))"
| "validate_function NotCallable function_name = Inl (RpcError (function_name @ '': Object in subprocess is not a function''))"
| "validate_function (Callable f) function_name = Inr f"

definition valid_return :: "'a \<Rightarrow> ('a \<Rightarrow> 'a result) option \<Rightarrow> 'a result" where
  "valid_return value expected_type = (case expected_type of None \<Rightarrow> Inr value | Some check \<Rightarrow> check value)"

definition import_and_run_function :: "('a, 's) rpc \<Rightarrow> 's \<Rightarrow> 'a result \<times> 's" where
  "import_and_run_function c s =
     (case bind_r (rpc_lookup c) (\<lambda>entry. validate_function entry (rpc_name c)) of
        Inl e \<Rightarrow> (Inl e, s)
      | Inr func \<Rightarrow>
          (case func s of
             (Inl e, s') \<Rightarrow> (Inl e, s')
           | (Inr value, s') \<Rightarrow> (valid_return value (rpc_return_type c), s')))"

text \<open>A closed pool refuses new calls.\<close>

definition run_rpc :: "('a, 's) rpc \<Rightarrow> 's runner \<Rightarrow> 'a result \<times> 's runner" where
  "run_rpc c r =
     (case ru_subprocess r of
        None \<Rightarrow> (Inl (InvalidRunnerStateError ''Subprocess runner has not been started''), r)
      | Some p \<Rightarrow>
          if \<not> rpc_named c then (Inl (RpcError (rpc_str c @ '' is anonymous, cannot be run in subprocess'')), r)
          else if pool_closed p then (Inl (ValueError ''Pool not running''), r)
          else
            (let (res, s') = import_and_run_function c (pool_state p)
             in (res, r\<lparr>ru_subprocess := Some (p\<lparr>pool_state := s'\<rparr>)\<rparr>)))"

text \<open>A function of the interface: importable, callable, of the type it is annotated with.\<close>

definition interface_call :: "string \<Rightarrow> ('s \<Rightarrow> 'a result \<times> 's) \<Rightarrow> ('a, 's) rpc" where
  "interface_call name f = \<lparr>rpc_named = True, rpc_name = name, rpc_lookup = Inr (Callable f),
     rpc_return_type = None, rpc_str = name\<rparr>"

subsection \<open>Starting, stopping and reloading\<close>

text \<open>
  \<open>fresh_id\<close> is the new UUID, \<open>factory\<close> makes the process, \<open>set_up_call\<close> and \<open>tear_down_call\<close> are the
  calls of \<open>setup\<close> with the configuration and of \<open>teardown\<close>.
\<close>

definition start_failed :: "string \<Rightarrow> exn \<Rightarrow> 's runner \<Rightarrow> 's runner" where
  "start_failed environment_id e r =
     r\<lparr>ru_state := \<lparr>es_environment_id = environment_id, es_initialized = False,
                    es_error_message = Some (safe_exception_message e)\<rparr>\<rparr>"

definition start_runner :: "string \<Rightarrow> 's pool result \<Rightarrow> (app_config \<Rightarrow> (unit, 's) rpc) \<Rightarrow> 's runner \<Rightarrow> 's runner" where
  "start_runner fresh_id factory set_up_call r =
     (case factory of
        Inl e \<Rightarrow> start_failed fresh_id e r
      | Inr p \<Rightarrow>
          (case run_rpc (set_up_call (ru_config r)) (r\<lparr>ru_subprocess := Some p\<rparr>) of
             (Inl e, r') \<Rightarrow> start_failed fresh_id e r'
           | (Inr _, r') \<Rightarrow>
               r'\<lparr>ru_state := \<lparr>es_environment_id = fresh_id, es_initialized = True, es_error_message = None\<rparr>\<rparr>))"

text \<open>After closing and joining, the pool stays in place, closed.\<close>

definition stop_runner :: "(unit, 's) rpc \<Rightarrow> 's runner \<Rightarrow> 's runner" where
  "stop_runner tear_down_call r =
     (let environment_id = es_environment_id (ru_state r) in
      case run_rpc tear_down_call r of
        (Inl e, r') \<Rightarrow> start_failed environment_id e r'
      | (Inr _, r') \<Rightarrow>
          r'\<lparr>ru_subprocess := map_option (\<lambda>p. p\<lparr>pool_closed := True\<rparr>) (ru_subprocess r'),
             ru_state := \<lparr>es_environment_id = environment_id, es_initialized = False,
                          es_error_message = es_error_message (ru_state r')\<rparr>\<rparr>)"

definition reload_runner :: "string \<Rightarrow> 's pool result \<Rightarrow> (app_config \<Rightarrow> (unit, 's) rpc) \<Rightarrow> (unit, 's) rpc \<Rightarrow>
    's runner \<Rightarrow> 's runner" where
  "reload_runner fresh_id factory set_up_call tear_down_call r =
     start_runner fresh_id factory set_up_call (stop_runner tear_down_call r)"

subsection \<open>Event pipes\<close>

text \<open>
  A connection: what was sent and not yet received and whether the sending ends are closed.
  \<open>next_event\<close> is \<open>EventStream.__anext__\<close>; it waits (\<open>None\<close>) on an open empty connection.
\<close>

record 'e connection =
  conn_queue :: "'e list"
  conn_eof :: bool

definition next_event :: "'e connection \<Rightarrow> ('e option \<times> 'e connection) option" where
  "next_event c =
     (case conn_queue c of
        e # es \<Rightarrow> Some (Some e, c\<lparr>conn_queue := es\<rparr>)
      | [] \<Rightarrow> if conn_eof c then Some (None, c) else None)"

record event_pipe =
  ep_handles :: "(sub_handles \<times> nat) list"

definition event_pipe_enter :: "svc_lib \<Rightarrow> nat \<Rightarrow> event_pipe \<Rightarrow> service runner \<Rightarrow> event_pipe result \<times> service runner" where
  "event_pipe_enter S send p r =
     (case run_rpc (interface_call ''pipe_events'' (on_worker S (\<lambda>w. let (h, w') = pipe_events send w in (Inr h, w')))) r of
        (Inl e, r') \<Rightarrow> (Inl e, r')
      | (Inr handles, r') \<Rightarrow> (Inr (p\<lparr>ep_handles := ep_handles p @ [(handles, send)]\<rparr>), r'))"

definition event_pipe_exit :: "svc_lib \<Rightarrow> event_pipe \<Rightarrow> service runner \<Rightarrow> event_pipe result \<times> service runner" where
  "event_pipe_exit S p r =
     (if ep_handles p = [] then (Inl (IndexError ''pop from empty list''), r)
      else
        (let (handles, conn) = last (ep_handles p);
             p' = p\<lparr>ep_handles := butlast (ep_handles p)\<rparr>
         in case run_rpc (interface_call ''unpipe_events'' (on_worker S (unpipe_events handles))) r of
              (Inl e, r') \<Rightarrow> (Inl e, r')
            | (Inr _, r') \<Rightarrow> (Inr p', r')))"

subsection \<open>Calls\<close>

lemma exn_class_nonempty_or_foreign: "exn_class e = [] \<Longrightarrow> \<exists>m. e = ForeignError [] m"
  by (cases e) auto

lemma safe_message_not_blank: "safe_message owner message \<noteq> [] \<and> \<not> isspace (safe_message owner message)"
  by (auto simp: safe_message_def isspace_def blank_report_def is_space_def Let_def split: option.splits)

text \<open>\<open>setup\<close> and \<open>teardown\<close> never meet an unnamed function; a run changes only the process.\<close>

lemma run_rpc_frame:
  "ru_config (snd (run_rpc c r)) = ru_config r" "ru_state (snd (run_rpc c r)) = ru_state r"
  "ru_subprocess (snd (run_rpc c r)) = None \<longleftrightarrow> ru_subprocess r = None"
  by (simp_all add: run_rpc_def case_prod_beta split: option.splits)

lemma run_interface_call:
  assumes "ru_subprocess r = Some p" and "\<not> pool_closed p"
  shows "run_rpc (interface_call name f) r =
    (fst (f (pool_state p)), r\<lparr>ru_subprocess := Some (p\<lparr>pool_state := snd (f (pool_state p))\<rparr>)\<rparr>)"
  using assms by (simp add: run_rpc_def interface_call_def import_and_run_function_def valid_return_def
      case_prod_beta split: prod.splits sum.splits)

lemma new_runner_config [simp]: "ru_config (new_runner cfg i) = cfg"
  by (simp add: new_runner_def)

text \<open>What clients may rely on: an initialised environment has no error, an error has a text.\<close>

definition env_state_ok :: "env_state \<Rightarrow> bool" where
  "env_state_ok st \<longleftrightarrow>
     (es_initialized st \<longrightarrow> es_error_message st = None) \<and>
     (case es_error_message st of None \<Rightarrow> True | Some m \<Rightarrow> m \<noteq> [] \<and> \<not> isspace m)"

lemma start_failed_ok: "env_state_ok (ru_state (start_failed i e r))"
  using safe_message_not_blank [of "exn_class e" "Some (exn_str e)"]
  by (simp add: env_state_ok_def start_failed_def safe_exception_message_def)

lemma start_runner_ok: "env_state_ok (ru_state (start_runner i factory su r))"
  by (auto simp: start_runner_def start_failed_ok split: sum.splits prod.splits)
    (simp add: env_state_ok_def)

lemma stop_runner_ok: "env_state_ok (ru_state r) \<Longrightarrow> env_state_ok (ru_state (stop_runner td r))"
  using run_rpc_frame(2) [of td r]
  by (auto simp: stop_runner_def Let_def start_failed_ok split: prod.splits sum.splits)
    (simp add: env_state_ok_def)

lemma stop_runner_frame: "ru_config (stop_runner td r) = ru_config r"
  using run_rpc_frame(1) [of td r]
  by (simp add: stop_runner_def start_failed_def Let_def case_prod_beta split: sum.splits)

text \<open>The runner after a reload whose process could be made, in terms of the set-up alone.\<close>

lemma reload_runner_eq:
  assumes "\<not> pool_closed p" and "set_up_fn (ru_config r) (pool_state p) = (res, s')"
  shows "reload_runner i (Inr p) (\<lambda>cfg. interface_call ''setup'' (set_up_fn cfg)) td r =
    \<lparr>ru_config = ru_config r, ru_subprocess = Some (p\<lparr>pool_state := s'\<rparr>),
     ru_state = \<lparr>es_environment_id = i, es_initialized = (res = Inr ()),
       es_error_message = (case res of Inl e \<Rightarrow> Some (safe_exception_message e) | Inr _ \<Rightarrow> None)\<rparr>\<rparr>"
proof -
  obtain sub st where q: "stop_runner td r = \<lparr>ru_config = ru_config r, ru_subprocess = sub, ru_state = st\<rparr>"
    using stop_runner_frame [of td r] by (cases "stop_runner td r") simp
  have "run_rpc (interface_call ''setup'' f) \<lparr>ru_config = c, ru_subprocess = Some p, ru_state = st\<rparr> =
      (fst (f (pool_state p)), \<lparr>ru_config = c, ru_subprocess = Some (p\<lparr>pool_state := snd (f (pool_state p))\<rparr>), ru_state = st\<rparr>)"
    for f :: "'a \<Rightarrow> unit result \<times> 'a" and c
    using assms(1) by (subst run_interface_call [where p = p]) simp_all
  with assms(2) show ?thesis
    by (cases res) (simp_all add: reload_runner_def start_runner_def start_failed_def q)
qed

text \<open>
  Claim C25. Reloading forgets the past: with the same configuration and a process that can be made,
  two runners reload to the same runner, whatever their old processes were and however their
  teardown ended. The new environment has the fresh id and is initialised exactly when the set-up in
  the fresh process succeeds; otherwise it reports the error, never with a blank text.
\<close>

theorem reload_forgets_the_past:
  assumes "ru_config r = ru_config r'" and "factory = Inr p" and "\<not> pool_closed p"
    and "su = (\<lambda>cfg. interface_call ''setup'' (set_up_fn cfg))"
  shows "reload_runner i factory su td r = reload_runner i factory su td r' \<and>
    (let new = reload_runner i factory su td r; (res, s') = set_up_fn (ru_config r) (pool_state p) in
       ru_subprocess new = Some (p\<lparr>pool_state := s'\<rparr>) \<and> env_state_ok (ru_state new) \<and>
       es_environment_id (ru_state new) = i \<and>
       (es_initialized (ru_state new) \<longleftrightarrow> res = Inr ()) \<and>
       es_error_message (ru_state new) =
         (case res of Inl e \<Rightarrow> Some (safe_exception_message e) | Inr _ \<Rightarrow> None))"
proof -
  obtain res s' where f: "set_up_fn (ru_config r) (pool_state p) = (res, s')" by fastforce
  then have f': "set_up_fn (ru_config r') (pool_state p) = (res, s')" using assms(1) by simp
  have "env_state_ok (ru_state (reload_runner i factory su td r))"
    unfolding reload_runner_def by (rule start_runner_ok)
  then show ?thesis
    using reload_runner_eq [where td = td and i = i and set_up_fn = set_up_fn, OF assms(3) f]
      reload_runner_eq [where td = td and i = i and set_up_fn = set_up_fn, OF assms(3) f'] assms
    by (simp add: f f' Let_def)
qed

theorem reload_forgets_the_past_witness:
  "es_error_message (ru_state (reload_runner ''id-2'' (Inr \<lparr>pool_state = (0 :: nat), pool_closed = False\<rparr>)
      (\<lambda>cfg. interface_call ''setup'' (\<lambda>n. (Inl (RuntimeError ''   ''), Suc n)))
      (interface_call ''teardown'' (\<lambda>n. (Inr (), n))) (new_runner (default_app_config None) ''id-1''))) =
   Some ''RuntimeError: The source message was blank''"
proof -
  have "safe_exception_message (RuntimeError ''   '') = ''RuntimeError: The source message was blank''"
    by code_simp
  with reload_forgets_the_past [where r = "new_runner (default_app_config None) ''id-1''" and r' = "new_runner (default_app_config None) ''id-1''"
      and p = "\<lparr>pool_state = (0 :: nat), pool_closed = False\<rparr>" and i = "''id-2''"
      and set_up_fn = "\<lambda>cfg n. (Inl (RuntimeError ''   ''), Suc n)"
      and td = "interface_call ''teardown'' (\<lambda>n. (Inr (), n))", OF _ refl _ refl]
  show ?thesis by (simp add: Let_def)
qed

text \<open>
  Calls reach the process only between a start and the next stop. Before the first start
  and after a stop whose teardown succeeded every call raises and changes nothing; a stop keeps the
  id of the environment.
\<close>

theorem calls_only_while_running:
  "(\<exists>e. run_rpc c (new_runner cfg i) = (Inl e, new_runner cfg i)) \<and>
   es_environment_id (ru_state (stop_runner td r)) = es_environment_id (ru_state r) \<and>
   \<not> es_initialized (ru_state (stop_runner td r)) \<and>
   (case fst (run_rpc td r) of
      Inl e \<Rightarrow> es_error_message (ru_state (stop_runner td r)) = Some (safe_exception_message e)
    | Inr _ \<Rightarrow> \<exists>e. run_rpc c (stop_runner td r) = (Inl e, stop_runner td r))"
proof -
  have "\<exists>e. run_rpc c (stop_runner td r) = (Inl e, stop_runner td r)" if "fst (run_rpc td r) = Inr u" for u
  proof -
    from that obtain p where "ru_subprocess (snd (run_rpc td r)) = Some p"
      using run_rpc_frame(3) [of td r]
      by (cases "ru_subprocess r"; cases "ru_subprocess (snd (run_rpc td r))") (auto simp: run_rpc_def)
    with that show ?thesis
      by (cases "run_rpc td r") (simp add: stop_runner_def run_rpc_def Let_def)
  qed
  then show ?thesis using run_rpc_frame(2) [of td r]
    by (cases "run_rpc td r"; cases "fst (run_rpc td r)")
      (simp_all add: stop_runner_def start_failed_def Let_def, simp_all add: run_rpc_def new_runner_def)
qed

end
