(* ===== verification/Base64.thy ===== *)
theory Base64
  imports PyStrings
begin

section \<open>base64 of the standard library\<close>

text \<open>
  \<open>base64.b64encode\<close> and \<open>base64.b64decode\<close>, with which the token cache is written and read. The
  decoder follows CPython's loop: characters outside the alphabet are skipped, a complete padding
  ends the input, and an incomplete quantum is an error.
\<close>

definition b64_char :: "nat \<Rightarrow> char" where
  "b64_char n = char_of
     (if n < 26 then n + 65 else if n < 52 then n + 71 else if n < 62 then n - 4 else if n = 62 then 43 else 47)"

definition b64_val :: "char \<Rightarrow> nat option" where
  "b64_val c =
     (let n = (of_char c :: nat) in
      if 65 \<le> n \<and> n \<le> 90 then Some (n - 65)
      else if 97 \<le> n \<and> n \<le> 122 then Some (n - 71)
      else if 48 \<le> n \<and> n \<le> 57 then Some (n + 4)
      else if n = 43 then Some 62
      else if n = 47 then Some 63
      else None)"

fun b64encode :: "string \<Rightarrow> string" where
  "b64encode [] = []"
| "b64encode [a] =
     (let x = of_char a in [b64_char (x div 4), b64_char (x mod 4 * 16), CHR ''='', CHR ''=''])"
| "b64encode [a, b] =
     (let x = of_char a; y = of_char b
      in [b64_char (x div 4), b64_char (x mod 4 * 16 + y div 16), b64_char (y mod 16 * 4), CHR ''=''])"
| "b64encode (a # b # c # s) =
     (let x = of_char a; y = of_char b; z = of_char c
      in [b64_char (x div 4), b64_char (x mod 4 * 16 + y div 16), b64_char (y mod 16 * 4 + z div 64),
          b64_char (z mod 64)] @ b64encode s)"

text \<open>\<open>quad_pos\<close>, \<open>leftchar\<close> and \<open>pads\<close> are the variables of the loop.\<close>

fun a2b :: "nat \<Rightarrow> nat \<Rightarrow> nat \<Rightarrow> string \<Rightarrow> string option" where
  "a2b quad_pos leftchar pads [] = (if quad_pos = 0 then Some [] else None)"
| "a2b quad_pos leftchar pads (c # s) =
     (if c = CHR ''='' then
        (if 2 \<le> quad_pos then
           (if 4 \<le> quad_pos + Suc pads then Some [] else a2b quad_pos leftchar (Suc pads) s)
         else a2b quad_pos leftchar pads s)
      else
        (case b64_val c of
           None \<Rightarrow> a2b quad_pos leftchar pads s
         | Some v \<Rightarrow>
             if quad_pos = 0 then a2b 1 v 0 s
             else if quad_pos = 1
               then map_option (Cons (char_of (leftchar * 4 + v div 16))) (a2b 2 (v mod 16) 0 s)
             else if quad_pos = 2
               then map_option (Cons (char_of (leftchar * 16 + v div 4))) (a2b 3 (v mod 4) 0 s)
             else map_option (Cons (char_of (leftchar * 64 + v))) (a2b 0 0 0 s)))"

definition b64decode :: "string \<Rightarrow> string result" where
  "b64decode s = (case a2b 0 0 0 s of
     None \<Rightarrow> Inl (ForeignError ''Error'' ''Incorrect padding'') | Some b \<Rightarrow> Inr b)"

lemma b64_char_val:
  assumes "n < 64"
  shows "b64_val (b64_char n) = Some n \<and> b64_char n \<noteq> CHR ''=''"
proof -
  have v: "b64_val (b64_char n) = Some n" using assms by (auto simp: b64_val_def b64_char_def Let_def)
  have "b64_val (CHR ''='') = None" by (simp add: b64_val_def)
  with v show ?thesis by force
qed

lemma a2b_char:
  assumes "n < 64"
  shows "a2b 0 l p (b64_char n # s) = a2b 1 n 0 s"
    and "a2b 1 l p (b64_char n # s) = map_option (Cons (char_of (l * 4 + n div 16))) (a2b 2 (n mod 16) 0 s)"
    and "a2b 2 l p (b64_char n # s) = map_option (Cons (char_of (l * 16 + n div 4))) (a2b 3 (n mod 4) 0 s)"
    and "a2b 3 l p (b64_char n # s) = map_option (Cons (char_of (l * 64 + n))) (a2b 0 0 0 s)"
  using b64_char_val [OF assms] by simp_all

lemma byte_bound: "(of_char c :: nat) < 256"
  by simp

lemma quot_rem: "m < n \<Longrightarrow> (k * n + m) div n = k \<and> (k * n + m) mod n = m" for m n k :: nat
  by simp

lemma sextets_bound:
  fixes x y z :: nat
  assumes "x < 256" "y < 256" "z < 256"
  shows "x div 4 < 64" "x mod 4 * 16 < 64" "x mod 4 * 16 + y div 16 < 64" "y mod 16 * 4 < 64"
    and "y mod 16 * 4 + z div 64 < 64" "z mod 64 < 64"
  using assms by linarith+

lemma sextets_value:
  fixes x y z :: nat
  assumes "x < 256" "y < 256" "z < 256"
  shows "x div 4 * 4 + (x mod 4 * 16) div 16 = x"
    and "x div 4 * 4 + (x mod 4 * 16 + y div 16) div 16 = x"
    and "(x mod 4 * 16 + y div 16) mod 16 * 16 + (y mod 16 * 4) div 4 = y"
    and "(x mod 4 * 16 + y div 16) mod 16 * 16 + (y mod 16 * 4 + z div 64) div 4 = y"
    and "(y mod 16 * 4 + z div 64) mod 4 * 64 + z mod 64 = z"
proof -
  have y: "y div 16 < 16" and z: "z div 64 < 4" using assms by linarith+
  show "x div 4 * 4 + (x mod 4 * 16) div 16 = x" by simp
  show "x div 4 * 4 + (x mod 4 * 16 + y div 16) div 16 = x"
    by (simp only: quot_rem [OF y, THEN conjunct1]) simp
  show "(x mod 4 * 16 + y div 16) mod 16 * 16 + (y mod 16 * 4) div 4 = y"
    by (simp only: quot_rem [OF y, THEN conjunct2]) simp
  show "(x mod 4 * 16 + y div 16) mod 16 * 16 + (y mod 16 * 4 + z div 64) div 4 = y"
    by (simp only: quot_rem [OF y, THEN conjunct2] quot_rem [OF z, THEN conjunct1]) simp
  show "(y mod 16 * 4 + z div 64) mod 4 * 64 + z mod 64 = z"
    by (simp only: quot_rem [OF z, THEN conjunct2]) simp
qed

lemma a2b_padding: "a2b 2 l 0 [CHR ''='', CHR ''=''] = Some []" "a2b 3 l 0 [CHR ''=''] = Some []"
  by simp_all

text \<open>A quantum of three bytes, and the two incomplete ones.\<close>

lemma a2b_quantum:
  fixes x y z :: nat
  assumes "x < 256" "y < 256" "z < 256"
  shows "a2b 0 0 0 (b64_char (x div 4) # b64_char (x mod 4 * 16 + y div 16) #
      b64_char (y mod 16 * 4 + z div 64) # b64_char (z mod 64) # s) =
    map_option (\<lambda>t. char_of x # char_of y # char_of z # t) (a2b 0 0 0 s)"
  by (simp only: a2b_char sextets_bound [OF assms] sextets_value [OF assms] option.map_comp comp_def)

lemma a2b_quantum_2:
  fixes x y :: nat
  assumes "x < 256" "y < 256"
  shows "a2b 0 0 0 [b64_char (x div 4), b64_char (x mod 4 * 16 + y div 16), b64_char (y mod 16 * 4), CHR ''=''] =
    Some [char_of x, char_of y]"
  using assms(2)
  by (simp only: a2b_char sextets_bound [OF assms assms(2)] sextets_value [OF assms assms(2)]
      a2b_padding option.map)

lemma a2b_quantum_1:
  fixes x :: nat
  assumes "x < 256"
  shows "a2b 0 0 0 [b64_char (x div 4), b64_char (x mod 4 * 16), CHR ''='', CHR ''=''] = Some [char_of x]"
  by (simp only: a2b_char sextets_bound [OF assms assms assms] sextets_value [OF assms assms assms]
      a2b_padding option.map)

lemma a2b_encode: "a2b 0 0 0 (b64encode s) = Some s"
proof (induction s rule: b64encode.induct)
  case (2 a)
  show ?case using a2b_quantum_1 [OF byte_bound [of a]] by (simp only: b64encode.simps Let_def char_of_char)
next
  case (3 a b)
  show ?case using a2b_quantum_2 [OF byte_bound [of a] byte_bound [of b]]
    by (simp only: b64encode.simps Let_def char_of_char)
next
  case (4 a b c s)
  show ?case using a2b_quantum [OF byte_bound [of a] byte_bound [of b] byte_bound [of c]] "4.IH"
    by (simp only: b64encode.simps Let_def char_of_char append.simps option.map)
qed simp

lemma b64_round_trip: "b64decode (b64encode s) = Inr s"
  by (simp add: b64decode_def a2b_encode)

end
