(* ===== verification/TokenCache.thy ===== *)
theory TokenCache
  imports Config Base64
begin

section \<open>The token cache (service/authentication.py: CacheManager, SessionCacheManager)\<close>

text \<open>
  The contract of \<open>CacheManager\<close> is the locale \<open>cache_manager\<close>, with what its client may conclude;
  \<open>SessionCacheManager\<close> implements it on a file. The file system is a record of nodes by absolute
  path and of the paths the process may not write; paths are lists of parts as in \<open>pathlib\<close>.
  pydantic's JSON of a cache is a parameter, base64 is the theory \<open>Base64\<close>.
\<close>

subsection \<open>Paths and files\<close>

type_synonym path = "string list"

datatype node = FileNode string nat | DirNode

record fs =
  fs_nodes :: "(path \<times> node) list"
  fs_denied :: "path list"

record path_env =
  pe_home :: path
  pe_cwd :: path
  pe_xdg_cache_home :: "path option"

definition root :: path where "root = [''/'']"

definition absolute :: "path_env \<Rightarrow> path \<Rightarrow> path" where
  "absolute env p = (if p \<noteq> [] \<and> hd p = ''/'' then p else pe_cwd env @ p)"

text \<open>\<open>os.path.expanduser\<close>, for the user's own home.\<close>

definition expanduser :: "path_env \<Rightarrow> path \<Rightarrow> path" where
  "expanduser env p = (if p \<noteq> [] \<and> hd p = ''~'' then pe_home env @ tl p else p)"

definition parent :: "path \<Rightarrow> path" where
  "parent p = (if p = root then root else butlast p)"

definition node_at :: "fs \<Rightarrow> path \<Rightarrow> node option" where
  "node_at fs p = (if p = root \<or> p = [] then Some DirNode else map_of (fs_nodes fs) p)"

definition put_node :: "path \<Rightarrow> node \<Rightarrow> fs \<Rightarrow> fs" where
  "put_node p n fs = fs\<lparr>fs_nodes := dict_set p n (fs_nodes fs)\<rparr>"

definition make_dir :: "path \<Rightarrow> fs \<Rightarrow> unit result \<times> fs" where
  "make_dir p fs =
     (if p \<in> set (fs_denied fs) then (Inl (PermissionError ''Permission denied''), fs)
      else (Inr (), put_node p DirNode fs))"

text \<open>\<open>Path.mkdir(parents=True, exist_ok=True)\<close> on an absolute path.\<close>

function mkdir_parents :: "path \<Rightarrow> fs \<Rightarrow> unit result \<times> fs" where
  "mkdir_parents p fs =
     (case node_at fs p of
        Some DirNode \<Rightarrow> (Inr (), fs)
      | Some (FileNode _ _) \<Rightarrow> (Inl (ForeignError ''FileExistsError'' ''File exists''), fs)
      | None \<Rightarrow>
          (case node_at fs (parent p) of
             Some DirNode \<Rightarrow> make_dir p fs
           | Some (FileNode _ _) \<Rightarrow> (Inl (ForeignError ''NotADirectoryError'' ''Not a directory''), fs)
           | None \<Rightarrow>
               (case mkdir_parents (parent p) fs of
                  (Inl e, fs') \<Rightarrow> (Inl e, fs')
                | (Inr _, fs') \<Rightarrow> make_dir p fs')))"
  by pat_completeness auto
termination
  by (relation "measure (\<lambda>(p, _). length p)") (auto simp: node_at_def parent_def split: if_splits)

declare mkdir_parents.simps [simp del]

text \<open>\<open>open(p, "xb")\<close> with the write, \<open>open(p, "rb")\<close> with the read, \<open>unlink(missing_ok=True)\<close>, \<open>write_text\<close>.\<close>

definition write_new :: "path \<Rightarrow> string \<Rightarrow> fs \<Rightarrow> unit result \<times> fs" where
  "write_new p content fs =
     (if node_at fs p \<noteq> None then (Inl (ForeignError ''FileExistsError'' ''File exists''), fs)
      else if node_at fs (parent p) = None then (Inl (FileNotFoundError ''No such file or directory''), fs)
      else if node_at fs (parent p) \<noteq> Some DirNode then (Inl (ForeignError ''NotADirectoryError'' ''Not a directory''), fs)
      else if p \<in> set (fs_denied fs) then (Inl (PermissionError ''Permission denied''), fs)
      else (Inr (), put_node p (FileNode content 420) fs))"

definition read_file :: "path \<Rightarrow> fs \<Rightarrow> string result" where
  "read_file p fs =
     (case node_at fs p of
        None \<Rightarrow> Inl (FileNotFoundError ''No such file or directory'')
      | Some DirNode \<Rightarrow> Inl (IsADirectoryError ''Is a directory'')
      | Some (FileNode content _) \<Rightarrow> Inr content)"

definition unlink :: "path \<Rightarrow> fs \<Rightarrow> unit result \<times> fs" where
  "unlink p fs =
     (case node_at fs p of
        None \<Rightarrow> (Inr (), fs)
      | Some DirNode \<Rightarrow> (Inl (IsADirectoryError ''Is a directory''), fs)
      | Some (FileNode _ _) \<Rightarrow>
          if p \<in> set (fs_denied fs) then (Inl (PermissionError ''Permission denied''), fs)
          else (Inr (), fs\<lparr>fs_nodes := dict_del p (fs_nodes fs)\<rparr>))"

definition write_text :: "path \<Rightarrow> string \<Rightarrow> fs \<Rightarrow> unit result \<times> fs" where
  "write_text p content fs =
     (if node_at fs p = Some DirNode then (Inl (IsADirectoryError ''Is a directory''), fs)
      else if node_at fs (parent p) \<noteq> Some DirNode then (Inl (FileNotFoundError ''No such file or directory''), fs)
      else if p \<in> set (fs_denied fs) then (Inl (PermissionError ''Permission denied''), fs)
      else
        (let mode = (case node_at fs p of Some (FileNode _ m) \<Rightarrow> m | _ \<Rightarrow> 420)
         in (Inr (), put_node p (FileNode content mode) fs)))"

definition change_mode :: "path \<Rightarrow> nat \<Rightarrow> fs \<Rightarrow> unit result \<times> fs" where
  "change_mode p mode fs =
     (case node_at fs p of
        None \<Rightarrow> (Inl (FileNotFoundError ''No such file or directory''), fs)
      | Some DirNode \<Rightarrow> (Inr (), fs)
      | Some (FileNode content _) \<Rightarrow> (Inr (), put_node p (FileNode content mode) fs))"

subsection \<open>SessionCacheManager\<close>

record cache =
  ca_oidc_config :: oidc_config
  ca_access_token :: string
  ca_refresh_token :: string
  ca_id_token :: string

definition default_token_cache_path :: "path_env \<Rightarrow> path" where
  "default_token_cache_path env =
     expanduser env (case pe_xdg_cache_home env of None \<Rightarrow> [''~'', ''.cache''] | Some p \<Rightarrow> p) @ [''blueapi_cache'']"

text \<open>\<open>_token_path\<close>, and \<open>_file_path\<close>, its expansion.\<close>

definition token_path :: "path_env \<Rightarrow> path option \<Rightarrow> path" where
  "token_path env given = (case given of Some p \<Rightarrow> p | None \<Rightarrow> default_token_cache_path env)"

definition file_path :: "path_env \<Rightarrow> path \<Rightarrow> path" where
  "file_path env tp = absolute env (expanduser env tp)"

definition create_parent_folder :: "path_env \<Rightarrow> path \<Rightarrow> fs \<Rightarrow> unit result \<times> fs" where
  "create_parent_folder env tp fs = mkdir_parents (absolute env (parent tp)) fs"

definition delete_cache :: "path_env \<Rightarrow> path \<Rightarrow> fs \<Rightarrow> unit result \<times> fs" where
  "delete_cache env tp fs = unlink (file_path env tp) fs"

definition save_cache :: "(cache \<Rightarrow> string) \<Rightarrow> path_env \<Rightarrow> path \<Rightarrow> cache \<Rightarrow> fs \<Rightarrow> unit result \<times> fs" where
  "save_cache to_json env tp c fs =
     (case delete_cache env tp fs of
        (Inl e, fs1) \<Rightarrow> (Inl e, fs1)
      | (Inr _, fs1) \<Rightarrow>
          (case create_parent_folder env tp fs1 of
             (Inl e, fs2) \<Rightarrow> (Inl e, fs2)
           | (Inr _, fs2) \<Rightarrow>
               (case write_new (file_path env tp) (b64encode (to_json c)) fs2 of
                  (Inl e, fs3) \<Rightarrow> (Inl e, fs3)
                | (Inr _, fs3) \<Rightarrow> change_mode (file_path env tp) 384 fs3)))"

definition load_cache :: "(string \<Rightarrow> cache result) \<Rightarrow> path_env \<Rightarrow> path \<Rightarrow> fs \<Rightarrow> cache result \<times> fs" where
  "load_cache from_json env tp fs =
     (case create_parent_folder env tp fs of
        (Inl e, fs1) \<Rightarrow> (Inl e, fs1)
      | (Inr _, fs1) \<Rightarrow>
          (bind_r (read_file (file_path env tp) fs1) (\<lambda>text. bind_r (b64decode text) from_json), fs1))"

definition can_access_cache :: "path_env \<Rightarrow> path \<Rightarrow> fs \<Rightarrow> bool result \<times> fs" where
  "can_access_cache env tp fs =
     (case create_parent_folder env tp fs of
        (Inl (IsADirectoryError _), fs1) \<Rightarrow> (Inr False, fs1)
      | (Inl (PermissionError _), fs1) \<Rightarrow> (Inr False, fs1)
      | (Inl e, fs1) \<Rightarrow> (Inl e, fs1)
      | (Inr _, fs1) \<Rightarrow>
          (case write_text (absolute env tp) [] fs1 of
             (Inl (IsADirectoryError _), fs2) \<Rightarrow> (Inr False, fs2)
           | (Inl (PermissionError _), fs2) \<Rightarrow> (Inr False, fs2)
           | (Inl e, fs2) \<Rightarrow> (Inl e, fs2)
           | (Inr _, fs2) \<Rightarrow> (Inr True, fs2)))"

subsection \<open>The contract of a cache manager\<close>

text \<open>
  \<open>ok\<close> says that the place of the cache can be used, \<open>storable\<close> that a cache survives its encoding.
\<close>

locale cache_manager =
  fixes ok :: "'s \<Rightarrow> bool"
    and storable :: "'c \<Rightarrow> bool"
    and save :: "'c \<Rightarrow> 's \<Rightarrow> unit result \<times> 's"
    and load :: "'s \<Rightarrow> 'c result \<times> 's"
    and delete :: "'s \<Rightarrow> unit result \<times> 's"
  assumes save_ok: "ok s \<Longrightarrow> fst (save c s) = Inr () \<and> ok (snd (save c s))"
    and load_saved: "ok s \<Longrightarrow> storable c \<Longrightarrow> fst (load (snd (save c s))) = Inr c"
    and delete_ok: "ok s \<Longrightarrow> fst (delete s) = Inr () \<and> ok (snd (delete s))"
    and load_deleted: "ok s \<Longrightarrow> \<exists>m. fst (load (snd (delete s))) = Inl (FileNotFoundError m)"
    and load_keeps: "ok s \<Longrightarrow> snd (load s) = s"
begin

lemma save_last_wins: "ok s \<Longrightarrow> storable c' \<Longrightarrow> fst (load (snd (save c' (snd (save c s))))) = Inr c'"
  by (simp add: load_saved save_ok)

lemma saved_until_deleted:
  "ok s \<Longrightarrow> storable c \<Longrightarrow> \<exists>m. fst (load (snd (delete (snd (load (snd (save c s))))))) = Inl (FileNotFoundError m)"
  by (simp add: load_keeps save_ok load_deleted)

end

definition storable :: "(cache \<Rightarrow> string) \<Rightarrow> (string \<Rightarrow> cache result) \<Rightarrow> cache \<Rightarrow> bool" where
  "storable to_json from_json c \<longleftrightarrow> from_json (to_json c) = Inr c"

text \<open>
  The place is usable: the path needs no expansion, its directory exists, it is not a directory
  itself and may be written.
\<close>

definition place_ok :: "path_env \<Rightarrow> path \<Rightarrow> fs \<Rightarrow> bool" where
  "place_ok env tp fs \<longleftrightarrow>
     expanduser env tp = tp \<and> length (absolute env tp) \<ge> 2 \<and> tp \<noteq> [] \<and>
     node_at fs (parent (absolute env tp)) = Some DirNode \<and>
     node_at fs (absolute env tp) \<noteq> Some DirNode \<and> absolute env tp \<notin> set (fs_denied fs)"

lemma node_at_put: "p \<noteq> root \<Longrightarrow> p \<noteq> [] \<Longrightarrow> node_at (put_node p n fs) q = (if q = p then Some n else node_at fs q)"
  by (auto simp: node_at_def put_node_def)

lemma place_parent:
  assumes "place_ok env tp fs"
  shows "absolute env (parent tp) = parent (absolute env tp)"
    and "parent (absolute env tp) \<noteq> absolute env tp"
    and "absolute env tp \<noteq> root" "absolute env tp \<noteq> []"
  using assms
  by (cases tp; auto simp: place_ok_def absolute_def parent_def root_def butlast_append split: if_splits)+

lemma create_parent_place: "place_ok env tp fs \<Longrightarrow> create_parent_folder env tp fs = (Inr (), fs)"
  using place_parent(1) [of env tp fs]
  by (simp add: create_parent_folder_def place_ok_def mkdir_parents.simps [of "parent (absolute env tp)"])

lemma place_file_path: "place_ok env tp fs \<Longrightarrow> file_path env tp = absolute env tp"
  by (simp add: file_path_def place_ok_def)

lemma delete_cache_place:
  assumes "place_ok env tp fs"
  shows "fst (delete_cache env tp fs) = Inr () \<and> place_ok env tp (snd (delete_cache env tp fs)) \<and>
    node_at (snd (delete_cache env tp fs)) (absolute env tp) = None"
  using assms place_parent(2-4) [OF assms] unfolding delete_cache_def place_file_path [OF assms]
  by (auto simp: unlink_def place_ok_def node_at_def split: option.splits node.splits)

lemma save_cache_place:
  assumes "place_ok env tp fs"
  shows "fst (save_cache to_json env tp c fs) = Inr () \<and>
    place_ok env tp (snd (save_cache to_json env tp c fs)) \<and>
    node_at (snd (save_cache to_json env tp c fs)) (absolute env tp) = Some (FileNode (b64encode (to_json c)) 384)"
proof -
  obtain fs1 where d: "delete_cache env tp fs = (Inr (), fs1)" and ok1: "place_ok env tp fs1"
      and n1: "node_at fs1 (absolute env tp) = None"
    using delete_cache_place [OF assms] by (cases "delete_cache env tp fs") auto
  note p = place_parent(2-4) [OF ok1]
  have "write_new (absolute env tp) t fs1 = (Inr (), put_node (absolute env tp) (FileNode t 420) fs1)" for t
    using ok1 n1 by (simp add: write_new_def place_ok_def)
  then have "save_cache to_json env tp c fs =
      (Inr (), put_node (absolute env tp) (FileNode (b64encode (to_json c)) 384)
        (put_node (absolute env tp) (FileNode (b64encode (to_json c)) 420) fs1))"
    using p by (simp add: save_cache_def d create_parent_place [OF ok1] place_file_path [OF assms]
        change_mode_def node_at_put)
  then show ?thesis using ok1 p by (simp add: node_at_put place_ok_def) (simp add: put_node_def)
qed

interpretation session_cache: cache_manager "place_ok env tp" "storable to_json from_json"
  "save_cache to_json env tp" "load_cache from_json env tp" "delete_cache env tp"
  for to_json from_json env tp
proof unfold_locales
  fix s c
  assume ok: "place_ok env tp s"
  note saved = save_cache_place [OF ok, of to_json c]
  show "fst (save_cache to_json env tp c s) = Inr () \<and> place_ok env tp (snd (save_cache to_json env tp c s))"
    using saved by simp
  show "fst (delete_cache env tp s) = Inr () \<and> place_ok env tp (snd (delete_cache env tp s))"
    using delete_cache_place [OF ok] by simp
  have ok': "place_ok env tp (snd (delete_cache env tp s))" using delete_cache_place [OF ok] by simp
  show "\<exists>m. fst (load_cache from_json env tp (snd (delete_cache env tp s))) = Inl (FileNotFoundError m)"
    using delete_cache_place [OF ok]
    by (simp add: load_cache_def create_parent_place [OF ok'] read_file_def place_file_path [OF ok])
  show "snd (load_cache from_json env tp s) = s"
    by (simp add: load_cache_def create_parent_place [OF ok])
  have ok'': "place_ok env tp (snd (save_cache to_json env tp c s))" using saved by simp
  show "fst (load_cache from_json env tp (snd (save_cache to_json env tp c s))) = Inr c"
    if "storable to_json from_json c"
    using saved that
    by (simp add: load_cache_def create_parent_place [OF ok''] read_file_def place_file_path [OF ok]
        b64_round_trip storable_def)
qed

end
