(* ===== verification/Sessions.thy ===== *)
theory Sessions
  imports TokenCache
begin

section \<open>Login sessions and bearer tokens (service/authentication.py)\<close>

text \<open>
  \<open>SessionManager\<close> over the operations of a cache manager, the polling of the device flow, the
  authorization header of clients (\<open>JWTAuth\<close>) and servers (\<open>unchecked_bearer_token\<close>,
  \<open>build_access_token_check\<close>), and \<open>TiledAuth\<close>. The requests to the OIDC provider, the verification
  of tokens (PyJWT) and FastAPI's parsing of the header are parameters.
\<close>

subsection \<open>The session manager\<close>

text \<open>The operations of the cache manager object a session manager holds.\<close>

record 's cache_ops =
  co_can_access :: "'s \<Rightarrow> bool result \<times> 's"
  co_save :: "cache \<Rightarrow> 's \<Rightarrow> unit result \<times> 's"
  co_load :: "'s \<Rightarrow> cache result \<times> 's"
  co_delete :: "'s \<Rightarrow> unit result \<times> 's"

definition session_cache_ops :: "(cache \<Rightarrow> string) \<Rightarrow> (string \<Rightarrow> cache result) \<Rightarrow> path_env \<Rightarrow> path \<Rightarrow> fs cache_ops" where
  "session_cache_ops to_json from_json env tp =
     \<lparr>co_can_access = can_access_cache env tp, co_save = save_cache to_json env tp,
      co_load = load_cache from_json env tp, co_delete = delete_cache env tp\<rparr>"

record response =
  rs_status :: nat
  rs_json :: "pyval result"
  rs_text :: string
  rs_headers :: "(string \<times> string) list"

text \<open>
  The provider and the libraries: verification of a token, the three requests a session manager
  makes, \<open>raise_for_status\<close> of a response.
\<close>

record oidc_lib =
  ol_decode_jwt :: "oidc_config \<Rightarrow> string \<Rightarrow> pydict result"
  ol_refresh :: "oidc_config \<Rightarrow> string \<Rightarrow> response result"
  ol_end_session :: "oidc_config \<Rightarrow> string \<Rightarrow> response result"
  ol_device_authorization :: "oidc_config \<Rightarrow> response result"
  ol_raise_for_status :: "response \<Rightarrow> unit result"

fun is_expired :: "exn \<Rightarrow> bool" where
  "is_expired (ForeignError c _) = (c = ''ExpiredSignatureError'')"
| "is_expired _ = False"

text \<open>\<open>d[k]\<close> on decoded JSON.\<close>

fun json_item :: "pyval \<Rightarrow> string \<Rightarrow> pyval result" where
  "json_item (PDict d) k = (case map_of d k of None \<Rightarrow> Inl (KeyError k) | Some v \<Rightarrow> Inr v)"
| "json_item _ k = Inl (TypeError ''object is not subscriptable with a string'')"

text \<open>pydantic accepts only strings for the tokens of a \<open>Cache\<close>.\<close>

fun as_token :: "pyval \<Rightarrow> string result" where
  "as_token (PStr s) = Inr s"
| "as_token v = Inl (ValidationError ''1 validation error for Cache'' [])"

definition cache_of :: "oidc_config \<Rightarrow> pyval \<Rightarrow> cache result" where
  "cache_of cfg token =
     bind_r (json_item token ''refresh_token'') (\<lambda>r.
     bind_r (json_item token ''id_token'') (\<lambda>i.
     bind_r (json_item token ''access_token'') (\<lambda>a.
     bind_r (as_token a) (\<lambda>a'. bind_r (as_token r) (\<lambda>r'. bind_r (as_token i) (\<lambda>i'.
       Inr \<lparr>ca_oidc_config = cfg, ca_access_token = a', ca_refresh_token = r', ca_id_token = i'\<rparr>))))))"

definition refresh_auth_token :: "oidc_lib \<Rightarrow> 's cache_ops \<Rightarrow> oidc_config \<Rightarrow> string \<Rightarrow> 's \<Rightarrow> string result \<times> 's" where
  "refresh_auth_token P ops cfg refresh_token s =
     (case ol_refresh P cfg refresh_token of
        Inl e \<Rightarrow> (Inl e, s)
      | Inr response \<Rightarrow>
          if rs_status response = 200 then
            (case bind_r (rs_json response) (cache_of cfg) of
               Inl e \<Rightarrow> (Inl e, s)
             | Inr c \<Rightarrow>
                 (case co_save ops c s of
                    (Inl e, s') \<Rightarrow> (Inl e, s')
                  | (Inr _, s') \<Rightarrow> (Inr (ca_access_token c), s')))
          else
            (case co_delete ops s of
               (Inl e, s') \<Rightarrow> (Inl e, s')
             | (Inr _, s') \<Rightarrow> (Inr [], s')))"

text \<open>The two handlers of \<open>get_valid_access_token\<close>; what they raise is not handled again.\<close>

definition on_token_error :: "oidc_lib \<Rightarrow> 's cache_ops \<Rightarrow> oidc_config \<Rightarrow> exn \<Rightarrow> 's \<Rightarrow> string result \<times> 's" where
  "on_token_error P ops cfg e s =
     (if is_expired e then
        (case co_load ops s of
           (Inl e', s') \<Rightarrow> (Inl e', s')
         | (Inr c, s') \<Rightarrow> refresh_auth_token P ops cfg (ca_refresh_token c) s')
      else
        (case co_delete ops s of
           (Inl e', s') \<Rightarrow> (Inl e', s')
         | (Inr _, s') \<Rightarrow> (Inr [], s')))"

definition get_valid_access_token :: "oidc_lib \<Rightarrow> 's cache_ops \<Rightarrow> oidc_config \<Rightarrow> 's \<Rightarrow> string result \<times> 's" where
  "get_valid_access_token P ops cfg s =
     (case co_load ops s of
        (Inl e, s') \<Rightarrow> on_token_error P ops cfg e s'
      | (Inr c, s') \<Rightarrow>
          (case ol_decode_jwt P cfg (ca_access_token c) of
             Inl e \<Rightarrow> on_token_error P ops cfg e s'
           | Inr _ \<Rightarrow> (Inr (ca_access_token c), s')))"

text \<open>\<open>SessionManager.from_cache\<close>: the server configuration the cache holds.\<close>

definition session_from_cache :: "'s cache_ops \<Rightarrow> 's \<Rightarrow> oidc_config result \<times> 's" where
  "session_from_cache ops s =
     (case co_load ops s of (Inl e, s') \<Rightarrow> (Inl e, s') | (Inr c, s') \<Rightarrow> (Inr (ca_oidc_config c), s'))"

text \<open>\<open>logout\<close>: the cache goes first; what the provider answers is only printed.\<close>

definition logout :: "oidc_lib \<Rightarrow> 's cache_ops \<Rightarrow> oidc_config \<Rightarrow> 's \<Rightarrow> string result \<times> 's" where
  "logout P ops cfg s =
     (case co_load ops s of
        (Inl e, s') \<Rightarrow> (Inl e, s')
      | (Inr c, s') \<Rightarrow>
          (case co_delete ops s' of
             (Inl e, s'') \<Rightarrow> (Inl e, s'')
           | (Inr _, s'') \<Rightarrow>
               (case bind_r (ol_end_session P cfg (ca_id_token c)) (ol_raise_for_status P) of
                  Inr _ \<Rightarrow> (Inr ''Logged out'', s'')
                | Inl e \<Rightarrow>
                    (Inr (''An unexpected error occurred while attempting to log out from the server.'' @ exn_str e), s''))))"

text \<open>
  The polling loop over its rounds: the time read by the loop condition and the answer to the
  request of the round. \<open>None\<close>: still polling.
\<close>

fun poll_for_token :: "rat \<Rightarrow> (rat \<times> response result) list \<Rightarrow> pyval result option" where
  "poll_for_token expiry_time [] = None"
| "poll_for_token expiry_time ((now, answer) # rounds) =
     (if now < expiry_time then
        (case answer of
           Inl e \<Rightarrow> Some (Inl e)
         | Inr response \<Rightarrow>
             if rs_status response = 200 then Some (rs_json response)
             else poll_for_token expiry_time rounds)
      else Some (Inl (TimeoutError ''Polling timed out'')))"

text \<open>
  \<open>start_device_flow\<close>; \<open>poll\<close> is \<open>poll_for_token\<close> with the device code, interval and expiry that the
  provider named.
\<close>

definition start_device_flow :: "oidc_lib \<Rightarrow> 's cache_ops \<Rightarrow> oidc_config \<Rightarrow> (pyval \<Rightarrow> pyval result) \<Rightarrow> 's \<Rightarrow> unit result \<times> 's" where
  "start_device_flow P ops cfg poll s =
     (case co_can_access ops s of
        (Inl e, s1) \<Rightarrow> (Inl e, s1)
      | (Inr False, s1) \<Rightarrow> (Inl (AssertionError []), s1)
      | (Inr True, s1) \<Rightarrow>
          (case bind_r (ol_device_authorization P cfg) (\<lambda>response.
                  bind_r (ol_raise_for_status P response) (\<lambda>_.
                  bind_r (rs_json response) (\<lambda>json.
                  bind_r (json_item json ''verification_uri_complete'') (\<lambda>_.
                  bind_r (poll json) (cache_of cfg))))) of
             Inl e \<Rightarrow> (Inl e, s1)
           | Inr c \<Rightarrow> co_save ops c s1))"

subsection \<open>Bearer tokens\<close>

text \<open>\<open>JWTAuth\<close>: the token is fetched when it is made, the header set when there is one.\<close>

definition jwt_auth_token :: "oidc_lib \<Rightarrow> 's cache_ops \<Rightarrow> oidc_config option \<Rightarrow> 's \<Rightarrow> string result \<times> 's" where
  "jwt_auth_token P ops session s =
     (case session of None \<Rightarrow> (Inr [], s) | Some cfg \<Rightarrow> get_valid_access_token P ops cfg s)"

definition jwt_auth :: "string \<Rightarrow> (string \<times> string) list \<Rightarrow> (string \<times> string) list" where
  "jwt_auth token headers =
     (if token \<noteq> [] then dict_set ''Authorization'' (''Bearer '' @ token) headers else headers)"

text \<open>
  \<open>unchecked_bearer_token\<close>; \<open>scheme_param\<close> is FastAPI's \<open>get_authorization_scheme_param\<close> of an
  optional header value.
\<close>

record connection_info =
  ci_headers :: "(string \<times> string) list"
  ci_cookies :: "(string \<times> string) list"

definition unchecked_bearer_token :: "(string option \<Rightarrow> string \<times> string) \<Rightarrow> connection_info \<Rightarrow> string option" where
  "unchecked_bearer_token scheme_param req =
     (let auth_header = map_of (ci_headers req) ''Authorization'';
          auth_cookie = map_of (ci_cookies req) ''Authorization'';
          (scheme, param) = scheme_param (case auth_header of
            Some h \<Rightarrow> if h \<noteq> [] then Some h else auth_cookie | None \<Rightarrow> auth_cookie)
      in if lower scheme \<noteq> ''bearer'' then None else Some (strip is_space param))"

text \<open>The check of \<open>build_access_token_check\<close>: the decoded token is put into the request's state.\<close>

definition validate_bearer_token :: "oidc_lib \<Rightarrow> oidc_config \<Rightarrow> string option \<Rightarrow> pydict result" where
  "validate_bearer_token P cfg token =
     (case token of
        None \<Rightarrow> Inl (HTTPException 401 (DText ''Not authenticated''))
      | Some t \<Rightarrow> if t = [] then Inl (HTTPException 401 (DText ''Not authenticated'')) else ol_decode_jwt P cfg t)"

definition fedid :: "pydict option \<Rightarrow> pyval option" where
  "fedid access_token =
     (case access_token of None \<Rightarrow> None | Some t \<Rightarrow> if t \<noteq> [] then map_of t ''fedid'' else None)"

text \<open>\<open>TiledAuth\<close>: made only with a token address; the token is asked for with every request.\<close>

definition new_tiled_auth :: "service_account \<Rightarrow> service_account result" where
  "new_tiled_auth sa =
     (if sa_token_url sa = [] then Inl (RuntimeError ''Token URL is not set please check oidc config'') else Inr sa)"

definition tiled_access_token :: "(service_account \<Rightarrow> response result) \<Rightarrow> (response \<Rightarrow> unit result) \<Rightarrow>
    service_account \<Rightarrow> pyval option result" where
  "tiled_access_token post raise_for_status sa =
     bind_r (post sa) (\<lambda>response.
     bind_r (raise_for_status response) (\<lambda>_.
     bind_r (rs_json response) (\<lambda>json.
       (case json of PDict d \<Rightarrow> Inr (map_of d ''access_token'')
        | _ \<Rightarrow> Inl (AttributeError ''object has no attribute get'')))))"

end
