(* ===== verification/Authz.thy ===== *)
theory Authz
  imports Sessions Interface
begin

section \<open>Authorization by OPA (service/authorization.py)\<close>

text \<open>
  \<open>OpaClient\<close> asks the policy server about service accounts, submissions and administrators;
  \<open>OpaUserClient\<close> does so for the token of a request. \<open>post\<close> is the request to an endpoint of the
  server with its JSON body, and the decoded answer.
\<close>

type_synonym opa_post = "string \<Rightarrow> pydict \<Rightarrow> pyval result"

record opa_client =
  oc_instrument :: string
  oc_config :: opa_config

definition call_opa :: "opa_post \<Rightarrow> opa_client \<Rightarrow> string \<Rightarrow> pydict \<Rightarrow> pyval result" where
  "call_opa post c endpoint data =
     bind_r (post endpoint
        [(''input'', PDict (dict_update
            [(''beamline'', PStr (oc_instrument c)), (''audience'', PStr (opa_audience (oc_config c)))] data))])
       (\<lambda>answer. json_item answer ''result'')"

definition opa_for_config :: "string option \<Rightarrow> opa_config option \<Rightarrow> opa_client option result" where
  "opa_for_config instr config =
     (case config of
        None \<Rightarrow> Inr None
      | Some cfg \<Rightarrow>
          (case instr of
             None \<Rightarrow> Inl (ValueError ''Instrument name is required for OPA client'')
           | Some i \<Rightarrow>
               if i = [] then Inl (ValueError ''Instrument name is required for OPA client'')
               else Inr (Some \<lparr>oc_instrument = i, oc_config = cfg\<rparr>)))"

definition require_tiled_service_account :: "opa_post \<Rightarrow> opa_client \<Rightarrow> pyval \<Rightarrow> unit result" where
  "require_tiled_service_account post c token =
     bind_r (call_opa post c (opa_tiled_check (oc_config c))
        [(''token'', token), (''beamline'', PStr (oc_instrument c))])
       (\<lambda>allowed. if truthy allowed then Inr ()
          else Inl (ValueError (''Tiled service account is not valid for '' @ quote_char # oc_instrument c @ [quote_char])))"

definition require_submit_task :: "opa_post \<Rightarrow> opa_client \<Rightarrow> string \<Rightarrow> string \<Rightarrow> unit result" where
  "require_submit_task post c instrument_session token =
     (case match_instrument_session instrument_session of
        None \<Rightarrow> Inl (ValueError ''Invalid instrument session'')
      | Some (proposal, visit) \<Rightarrow>
          bind_r (call_opa post c (opa_submit_check (oc_config c))
             [(''token'', PStr token), (''proposal'', PInt (int (parse_nat proposal))),
              (''visit'', PInt (int (parse_nat visit)))])
            (\<lambda>allowed. if truthy allowed then Inr ()
               else Inl (HTTPException 403 (DText ''Not authorized to submit task''))))"

definition is_admin :: "opa_post \<Rightarrow> opa_client \<Rightarrow> string \<Rightarrow> pyval result" where
  "is_admin post c token = call_opa post c (opa_admin_check (oc_config c)) [(''token'', PStr token)]"

record opa_user_client =
  ou_client :: opa_client
  ou_token :: string

definition can_submit_task :: "opa_post \<Rightarrow> opa_user_client \<Rightarrow> task_request \<Rightarrow> unit result" where
  "can_submit_task post u rq = require_submit_task post (ou_client u) (tr_instrument_session rq) (ou_token u)"

definition admin :: "opa_post \<Rightarrow> opa_user_client \<Rightarrow> pyval result" where
  "admin post u = is_admin post (ou_client u) (ou_token u)"

text \<open>
  \<open>validate_tiled_config\<close>: a service account gets the token address of the provider (\<open>token_endpoint\<close>)
  and its own token is checked.
\<close>

definition validate_tiled_config :: "opa_post \<Rightarrow> (oidc_config \<Rightarrow> string result) \<Rightarrow>
    (service_account \<Rightarrow> pyval option result) \<Rightarrow> tiled_auth \<Rightarrow> oidc_config option \<Rightarrow> opa_client option \<Rightarrow>
    unit result \<times> tiled_auth" where
  "validate_tiled_config post token_endpoint get_access_token tiled oidc opa =
     (case tiled of
        TiledServiceAccount sa \<Rightarrow>
          (case (opa, oidc) of
             (Some c, Some cfg) \<Rightarrow>
               (case token_endpoint cfg of
                  Inl e \<Rightarrow> (Inl e, tiled)
                | Inr address \<Rightarrow>
                    (let sa' = sa\<lparr>sa_token_url := address\<rparr> in
                     (bind_r (new_tiled_auth sa') (\<lambda>auth. bind_r (get_access_token auth) (\<lambda>token.
                        require_tiled_service_account post c (case token of None \<Rightarrow> PNone | Some t \<Rightarrow> t))),
                      TiledServiceAccount sa')))
           | _ \<Rightarrow> (Inr (), tiled))
      | _ \<Rightarrow> (Inr (), tiled))"

text \<open>The dependencies \<open>opa\<close> and \<open>submit_permission\<close> of the REST handlers.\<close>

definition opa_dependency :: "opa_client option \<Rightarrow> string option \<Rightarrow> opa_user_client option result" where
  "opa_dependency authz token =
     (case authz of
        None \<Rightarrow> Inr None
      | Some c \<Rightarrow>
          (case token of
             None \<Rightarrow> Inl (HTTPException 401 (DText ''Authentication missing''))
           | Some t \<Rightarrow>
               if t = [] then Inl (HTTPException 401 (DText ''Authentication missing''))
               else Inr (Some \<lparr>ou_client = c, ou_token = t\<rparr>)))"

definition submit_permission :: "opa_post \<Rightarrow> opa_user_client option \<Rightarrow> task_request \<Rightarrow> unit result" where
  "submit_permission post opa rq = (case opa of None \<Rightarrow> Inr () | Some u \<Rightarrow> can_submit_task post u rq)"

text \<open>
  With a policy server, a submission is permitted exactly when the session of the request is
  a well-formed session and the server answers that this token may submit to this proposal and visit
  of this beamline; the numbers it is asked about are those the access tags of the task would hold. A
  missing token is 401, a refusal 403. Without a policy server everything is permitted.
\<close>

theorem submit_permission_decides:
  "(case bind_r (opa_dependency authz token) (\<lambda>u. submit_permission post u rq) of
      Inr _ \<Rightarrow> authz = None \<or>
        (\<exists>c t p v answer. authz = Some c \<and> token = Some t \<and> t \<noteq> [] \<and>
           access_blob (tr_instrument_session rq) (oc_instrument c) = Inr (blob_text p v (oc_instrument c)) \<and>
           post (opa_submit_check (oc_config c)) [(''input'', PDict
             [(''beamline'', PStr (oc_instrument c)), (''audience'', PStr (opa_audience (oc_config c))),
              (''token'', PStr t), (''proposal'', PInt (int p)), (''visit'', PInt (int v))])] = Inr answer \<and>
           (\<exists>r. json_item answer ''result'' = Inr r \<and> truthy r))
    | Inl e \<Rightarrow> \<exists>c. authz = Some c \<and>
        (if token = None \<or> token = Some [] then e = HTTPException 401 (DText ''Authentication missing'')
         else if \<exists>m. access_blob (tr_instrument_session rq) (oc_instrument c) = Inl m
           then e = ValueError ''Invalid instrument session''
         else e = HTTPException 403 (DText ''Not authorized to submit task'') \<or>
           (\<exists>body. post (opa_submit_check (oc_config c)) body = Inl e \<or>
              (\<exists>answer. post (opa_submit_check (oc_config c)) body = Inr answer \<and> json_item answer ''result'' = Inl e))))"
proof -
  have d: "dict_update [(''beamline'', b), (''audience'', a)] [(''token'', t), (''proposal'', p), (''visit'', v)] =
      [(''beamline'', b), (''audience'', a), (''token'', t), (''proposal'', p), (''visit'', v)]" for a b t p v :: pyval
    by (simp add: dict_update_def)
  show ?thesis
  proof (cases authz)
    case None
    then show ?thesis by (simp add: opa_dependency_def submit_permission_def)
  next
    case (Some c)
    show ?thesis
    proof (cases "token = None \<or> token = Some []")
      case True
      with Some show ?thesis by (auto simp: opa_dependency_def)
    next
      case False
      then obtain t where t: "token = Some t" "t \<noteq> []" by auto
      show ?thesis
      proof (cases "match_instrument_session (tr_instrument_session rq)")
        case None
        with Some t show ?thesis
          by (simp add: opa_dependency_def submit_permission_def can_submit_task_def require_submit_task_def access_blob_def)
      next
        case (Some pv)
        obtain p v where "pv = (p, v)" by (cases pv)
        with Some \<open>authz = Some c\<close> t show ?thesis
          by (cases "post (opa_submit_check (oc_config c)) [(''input'', PDict
               [(''beamline'', PStr (oc_instrument c)), (''audience'', PStr (opa_audience (oc_config c))),
                (''token'', PStr t), (''proposal'', PInt (int (parse_nat p))), (''visit'', PInt (int (parse_nat v)))])]")
            (auto simp: opa_dependency_def submit_permission_def can_submit_task_def require_submit_task_def
              access_blob_def call_opa_def d bind_r_Inl split: sum.splits if_splits)
      qed
    qed
  qed
qed

end
