(* ===== verification/Rest.thy ===== *)
theory Rest
  imports Runner Authz
begin

section \<open>The REST application (service/main.py)\<close>

text \<open>
  The handlers of the routes, each from its dependencies to its result; what a handler raises becomes
  a status by \<open>http_status\<close>. A handler works on the dispatcher (\<open>RUNNER\<close>), through which it reaches
  the service interface. FastAPI's routing and body validation, middleware that only logs or traces,
  and the response headers other than \<open>Location\<close> are left out. A blocking handler is split at its wait.
\<close>

type_synonym 'a handler = "service runner \<Rightarrow> 'a result \<times> service runner"

text \<open>
  What the application is made with: the interface's library, the policy server, the verification of
  tokens, and which exceptions are PyJWT's.
\<close>

record app =
  ap_lib :: svc_lib
  ap_opa :: opa_post
  ap_oidc_lib :: oidc_lib
  ap_scheme_param :: "string option \<Rightarrow> string \<times> string"
  ap_is_jwt_error :: "exn \<Rightarrow> bool"

subsection \<open>Statuses\<close>

definition http_status :: "app \<Rightarrow> nat \<Rightarrow> 'a result \<Rightarrow> nat" where
  "http_status A success r =
     (case r of
        Inr _ \<Rightarrow> success
      | Inl (KeyError _) \<Rightarrow> 404
      | Inl (HTTPException code _) \<Rightarrow> code
      | Inl e \<Rightarrow> if ap_is_jwt_error A e then 401 else 500)"

text \<open>The detail in the body of an error response.\<close>

definition error_detail :: "app \<Rightarrow> exn \<Rightarrow> detail option" where
  "error_detail A e =
     (case e of
        KeyError _ \<Rightarrow> Some (DText ''Item not found'')
      | HTTPException code NoDetail \<Rightarrow> Some (DText (if code = 404 then ''Not Found'' else []))
      | HTTPException _ d \<Rightarrow> Some d
      | _ \<Rightarrow> if ap_is_jwt_error A e then Some (DText ''Not authenticated'') else None)"

subsection \<open>Dependencies\<close>

text \<open>\<open>_runner\<close>, and the module state \<open>RUNNER\<close> with its set-up and teardown.\<close>

definition runner_dependency :: "service runner option \<Rightarrow> service runner result" where
  "runner_dependency R = (case R of None \<Rightarrow> Inl (ValueError []) | Some r \<Rightarrow> Inr r)"

definition setup_runner :: "(service runner \<Rightarrow> service runner) \<Rightarrow> service runner \<Rightarrow> service runner option" where
  "setup_runner start r = Some (start r)"

text \<open>The new \<open>RUNNER\<close> and the dispatcher that was stopped, if there was one.\<close>

definition teardown_runner :: "(service runner \<Rightarrow> service runner) \<Rightarrow> service runner option \<Rightarrow>
    service runner option \<times> service runner option" where
  "teardown_runner stop R = (case R of None \<Rightarrow> (None, None) | Some r \<Rightarrow> (None, Some (stop r)))"

text \<open>
  The start of \<open>lifespan\<close>: the runner is started before the policy client is made and the Tiled
  configuration checked.
\<close>

definition lifespan_start :: "(service runner \<Rightarrow> service runner) \<Rightarrow>
    (tiled_auth \<Rightarrow> oidc_config option \<Rightarrow> opa_client option \<Rightarrow> unit result \<times> tiled_auth) \<Rightarrow>
    app_config \<Rightarrow> service runner \<Rightarrow> opa_client option result \<times> service runner option" where
  "lifespan_start start check_tiled cfg r =
     (let R = setup_runner start r in
      (bind_r (opa_for_config (map_option md_instrument (env_metadata (cfg_env cfg))) (cfg_opa cfg))
         (\<lambda>authz. bind_r (fst (check_tiled (tiled_authentication (cfg_tiled cfg)) (cfg_oidc cfg) authz))
            (\<lambda>_. Inr authz)),
       R))"

text \<open>
  Security of the routers: with an OIDC configuration the bearer token of the request must verify; the
  user is the \<open>fedid\<close> claim (\<open>PNone\<close> without one).
\<close>

definition authenticated_user :: "app \<Rightarrow> oidc_config option \<Rightarrow> connection_info \<Rightarrow> pyval result" where
  "authenticated_user A oidc conn =
     (case oidc of
        None \<Rightarrow> Inr PNone
      | Some cfg \<Rightarrow>
          bind_r (validate_bearer_token (ap_oidc_lib A) cfg (unchecked_bearer_token (ap_scheme_param A) conn))
            (\<lambda>claims. Inr (case fedid (Some claims) of None \<Rightarrow> PNone | Some v \<Rightarrow> v)))"

definition opa_of_request :: "app \<Rightarrow> opa_client option \<Rightarrow> connection_info \<Rightarrow> opa_user_client option result" where
  "opa_of_request A authz conn = opa_dependency authz (unchecked_bearer_token (ap_scheme_param A) conn)"

text \<open>A function of the interface run in the process; \<open>query\<close> when it only reads the worker.\<close>

definition call :: "app \<Rightarrow> string \<Rightarrow> (worker \<Rightarrow> 'a result \<times> worker) \<Rightarrow> 'a handler" where
  "call A name f = run_rpc (interface_call name (on_worker (ap_lib A) f))"

definition query :: "app \<Rightarrow> string \<Rightarrow> (worker \<Rightarrow> 'a result) \<Rightarrow> 'a handler" where
  "query A name f = call A name (\<lambda>w. (f w, w))"

text \<open>Sequencing of handlers.\<close>

definition bind_h :: "'a handler \<Rightarrow> ('a \<Rightarrow> 'b handler) \<Rightarrow> 'b handler" where
  "bind_h h k r = (case h r of (Inl e, r') \<Rightarrow> (Inl e, r') | (Inr v, r') \<Rightarrow> k v r')"

definition lift_h :: "'a result \<Rightarrow> 'a handler" where
  "lift_h v r = (v, r)"

definition task_user :: "trackable_task \<Rightarrow> pyval" where
  "task_user t = (case map_of (task_metadata (tt_task t)) ''user'' of None \<Rightarrow> PNone | Some v \<Rightarrow> v)"

text \<open>Whether the user is an administrator; only asked with a policy server.\<close>

definition not_admin :: "app \<Rightarrow> opa_user_client option \<Rightarrow> bool result" where
  "not_admin A opa =
     (case opa of None \<Rightarrow> Inr False | Some u \<Rightarrow> bind_r (admin (ap_opa A) u) (\<lambda>v. Inr (\<not> truthy v)))"

definition access_task_permission :: "app \<Rightarrow> opa_user_client option \<Rightarrow> pyval \<Rightarrow> string \<Rightarrow> unit handler" where
  "access_task_permission A opa user task_id =
     bind_h (query A ''get_task_by_id'' (get_task_by_id task_id)) (\<lambda>t.
     bind_h (lift_h (not_admin A opa)) (\<lambda>restricted.
       lift_h (if restricted \<and> user \<noteq> task_user t then Inl (HTTPException 404 NoDetail) else Inr ())))"

definition start_task_permission :: "app \<Rightarrow> opa_user_client option \<Rightarrow> pyval \<Rightarrow> string option \<Rightarrow> unit handler" where
  "start_task_permission A opa user task_id =
     (case task_id of
        None \<Rightarrow> lift_h (Inl (HTTPException 422 (DText ''No task id provided'')))
      | Some tid \<Rightarrow>
          if tid = [] then lift_h (Inl (HTTPException 422 (DText ''No task id provided'')))
          else access_task_permission A opa user tid)"

subsection \<open>Environment, plans and devices\<close>

definition rest_get_environment :: "env_state handler" where
  "rest_get_environment r = (Inr (ru_state r), r)"

text \<open>The answer, and whether \<open>reload\<close> is left to run in the background.\<close>

definition rest_delete_environment :: "service runner \<Rightarrow> env_state \<times> bool" where
  "rest_delete_environment r =
     (\<lparr>es_environment_id = es_environment_id (ru_state r), es_initialized = False, es_error_message = None\<rparr>,
      es_initialized (ru_state r) \<or> es_error_message (ru_state r) \<noteq> None)"

definition config_call :: "string \<Rightarrow> (app_config \<Rightarrow> 'a) \<Rightarrow> 'a handler" where
  "config_call name f = run_rpc (interface_call name (\<lambda>sv. (Inr (f (sv_config sv)), sv)))"

definition rest_get_oidc_config :: "oidc_config handler" where
  "rest_get_oidc_config =
     bind_h (config_call ''get_oidc_config'' cfg_oidc) (\<lambda>config.
       lift_h (case config of None \<Rightarrow> Inl (HTTPException 204 NoDetail) | Some c \<Rightarrow> Inr c))"

definition context_call :: "app \<Rightarrow> string \<Rightarrow> (ctx \<Rightarrow> 'a result) \<Rightarrow> 'a handler" where
  "context_call A name f = run_rpc (interface_call name (\<lambda>sv.
     case context_of (ap_lib A) sv of
       (Inl e, sv') \<Rightarrow> (Inl e, sv') | (Inr c, sv') \<Rightarrow> (f c, sv')))"

definition rest_get_plans :: "app \<Rightarrow> (plan_model \<Rightarrow> pydict) \<Rightarrow> plan_info list handler" where
  "rest_get_plans A json_schema = context_call A ''get_plans'' (\<lambda>c. Inr (get_plans json_schema c))"

definition rest_get_plan_by_name :: "app \<Rightarrow> (plan_model \<Rightarrow> pydict) \<Rightarrow> string \<Rightarrow> plan_info handler" where
  "rest_get_plan_by_name A json_schema name = context_call A ''get_plan'' (get_plan json_schema name)"

definition rest_get_devices :: "app \<Rightarrow> device_info list handler" where
  "rest_get_devices A = context_call A ''get_devices'' (\<lambda>c. Inr (get_devices c))"

definition rest_get_device_by_name :: "app \<Rightarrow> string \<Rightarrow> device_info handler" where
  "rest_get_device_by_name A name = context_call A ''get_device'' (get_device name)"

subsection \<open>Tasks\<close>

text \<open>The location of each error gets the path of the parameters in the body in front.\<close>

definition in_body_params :: "verror \<Rightarrow> verror" where
  "in_body_params err = err\<lparr>ve_loc := [LStr ''body'', LStr ''params''] @ ve_loc err\<rparr>"

definition rest_submit_task :: "app \<Rightarrow> opa_user_client option \<Rightarrow> pyval \<Rightarrow> string \<Rightarrow> string \<Rightarrow> pyval \<Rightarrow>
    task_request \<Rightarrow> (string \<times> string) handler" where
  "rest_submit_task A opa user request_url uuid baggage rq =
     bind_h (lift_h (submit_permission (ap_opa A) opa rq)) (\<lambda>_ r.
       case run_rpc (interface_call ''submit_task''
              (interface_submit_task (ap_lib A) uuid baggage rq (Some [(''user'', user)]))) r of
         (Inr task_id, r') \<Rightarrow> (Inr (task_id, request_url @ ''/'' @ task_id), r')
       | (Inl (ValidationError _ errs), r') \<Rightarrow> (Inl (HTTPException 422 (DErrors (map in_body_params errs))), r')
       | (Inl e, r') \<Rightarrow> (Inl e, r'))"

definition rest_delete_submitted_task :: "app \<Rightarrow> opa_user_client option \<Rightarrow> pyval \<Rightarrow> string \<Rightarrow> string handler" where
  "rest_delete_submitted_task A opa user task_id =
     bind_h (access_task_permission A opa user task_id) (\<lambda>_. call A ''clear_task'' (clear_task task_id))"

definition rest_get_tasks :: "app \<Rightarrow> opa_user_client option \<Rightarrow> pyval \<Rightarrow> task_status_enum option \<Rightarrow> trackable_task list handler" where
  "rest_get_tasks A opa user status =
     bind_h (query A ''get_tasks'' (\<lambda>w. Inr (get_tasks status w))) (\<lambda>tasks.
     bind_h (lift_h (not_admin A opa)) (\<lambda>restricted.
       lift_h (Inr (if restricted then filter (\<lambda>t. task_user t = user) tasks else tasks))))"

definition rest_get_task :: "app \<Rightarrow> opa_user_client option \<Rightarrow> pyval \<Rightarrow> string \<Rightarrow> trackable_task handler" where
  "rest_get_task A opa user task_id =
     bind_h (access_task_permission A opa user task_id) (\<lambda>_. query A ''get_task_by_id'' (get_task_by_id task_id))"

text \<open>\<open>get_passthrough_headers\<close>: the headers that are sent on.\<close>

definition passthrough_headers :: "string list \<Rightarrow> (string \<times> string) list \<Rightarrow> (string \<times> string) list" where
  "passthrough_headers propagated headers = filter (\<lambda>(k, v). lower k \<in> set propagated) headers"

definition propagated_headers :: "string list" where
  "propagated_headers = [''traceparent'', ''tracestate'', ''authorization'']"

text \<open>\<open>set_active_task\<close> up to the wait for the start, and after it.\<close>

definition rest_set_active_task :: "app \<Rightarrow> opa_user_client option \<Rightarrow> pyval \<Rightarrow> (string \<times> string) list \<Rightarrow> string option \<Rightarrow>
    ((nat \<times> nat) option \<times> (sub_channel \<times> nat) list) handler" where
  "rest_set_active_task A opa user headers task_id =
     bind_h (start_task_permission A opa user task_id) (\<lambda>_.
     bind_h (query A ''get_active_task'' (\<lambda>w. Inr (get_active_task w))) (\<lambda>active.
       case active of
         Some t \<Rightarrow>
           if \<not> tt_is_complete t then lift_h (Inl (HTTPException 409 (DText ''Worker already active'')))
           else call A ''begin_task'' (interface_begin (ap_lib A) (passthrough_headers propagated_headers headers) task_id)
       | None \<Rightarrow> call A ''begin_task'' (interface_begin (ap_lib A) (passthrough_headers propagated_headers headers) task_id)))"

definition rest_set_active_task_end :: "app \<Rightarrow> string option \<Rightarrow> (nat \<times> nat) option \<times> (sub_channel \<times> nat) list \<Rightarrow>
    string option handler" where
  "rest_set_active_task_end A task_id waiting =
     bind_h (call A ''begin_task'' (interface_begin_end waiting)) (\<lambda>_. lift_h (Inr task_id))"

definition rest_get_active_task :: "app \<Rightarrow> string option handler" where
  "rest_get_active_task A =
     bind_h (query A ''get_active_task'' (\<lambda>w. Inr (get_active_task w))) (\<lambda>active. lift_h (Inr (map_option tt_task_id active)))"

subsection \<open>The state of the worker\<close>

definition rest_get_state :: "app \<Rightarrow> worker_state handler" where
  "rest_get_state A = query A ''get_worker_state'' (\<lambda>w. Inr (w_state w))"

definition allowed_transitions :: "(worker_state \<times> worker_state list) list" where
  "allowed_transitions =
     [(RUNNING, [PAUSED, ABORTING, STOPPING]), (PAUSED, [RUNNING, ABORTING, STOPPING])]"

definition allowed :: "worker_state \<Rightarrow> worker_state \<Rightarrow> bool" where
  "allowed current new =
     (case map_of allowed_transitions current of None \<Rightarrow> False | Some ss \<Rightarrow> new \<in> set ss)"

record state_change_request =
  sc_new_state :: worker_state
  sc_defer :: bool
  sc_reason :: "string option"

fun transition_text :: "exn \<Rightarrow> string option" where
  "transition_text (TransitionError m) = Some m"
| "transition_text _ = None"

text \<open>\<open>reply\<close> is how the RunEngine answers to the one request it may get.\<close>

definition request_state :: "app \<Rightarrow> worker_state \<Rightarrow> unit result \<Rightarrow> state_change_request \<Rightarrow> unit handler" where
  "request_state A current reply sc =
     (let new = sc_new_state sc in
      if new = PAUSED then call A ''pause_worker'' (pause (sc_defer sc) reply)
      else if new = RUNNING then call A ''resume_worker'' (resume reply)
      else if new \<in> {ABORTING, STOPPING} then
        (\<lambda>r. case call A ''cancel_active_task'' (cancel_active_task (new = ABORTING) (sc_reason sc) reply) r of
           (Inl e, r') \<Rightarrow>
             (case transition_text e of
                Some m \<Rightarrow> (Inl (HTTPException 400 (DText (''Error while transitioning from '' @ state_value current @
                   '' to '' @ state_value new @ (if m \<noteq> [] then '' - '' @ m else [])))), r')
              | None \<Rightarrow> (Inl e, r'))
         | (Inr _, r') \<Rightarrow> (Inr (), r'))
      else lift_h (Inr ()))"

definition rest_set_state :: "app \<Rightarrow> opa_user_client option \<Rightarrow> pyval \<Rightarrow> unit result \<Rightarrow> state_change_request \<Rightarrow> worker_state handler" where
  "rest_set_state A opa user reply sc =
     bind_h (rest_get_state A) (\<lambda>current.
       if allowed current (sc_new_state sc) then
         bind_h (query A ''get_active_task'' (\<lambda>w. Inr (get_active_task w))) (\<lambda>active.
         bind_h (lift_h (not_admin A opa)) (\<lambda>restricted.
         bind_h (lift_h (case active of
             Some t \<Rightarrow> if restricted \<and> task_user t \<noteq> user
                       then Inl (HTTPException 403 (DText ''Not authorized to set worker state'')) else Inr ()
           | None \<Rightarrow> Inr ())) (\<lambda>_.
         bind_h (request_state A current reply sc) (\<lambda>_. rest_get_state A))))
       else lift_h (Inl (HTTPException 400
         (DText (''Cannot transition from '' @ state_value current @ '' to '' @ state_value (sc_new_state sc))))))"

subsection \<open>Redirections\<close>

text \<open>\<open>urllib.parse.quote_plus\<close>.\<close>

definition url_safe :: "char \<Rightarrow> bool" where
  "url_safe c \<longleftrightarrow> is_digit c \<or> is_lower c \<or> is_lower (lower_char c) \<or> c \<in> set ''_.-~''"

definition upper_hex :: "nat \<Rightarrow> char" where
  "upper_hex n = ''0123456789ABCDEF'' ! n"

definition quote_plus :: "string \<Rightarrow> string" where
  "quote_plus s = concat (map (\<lambda>c.
     if url_safe c then [c] else if c = CHR '' '' then ''+''
     else [CHR 0x25, upper_hex (of_char c div 16), upper_hex (of_char c mod 16)]) s)"

definition rest_logout :: "(oidc_config \<Rightarrow> string result) \<Rightarrow> string handler" where
  "rest_logout end_session_endpoint =
     bind_h (config_call ''get_oidc_config'' cfg_oidc) (\<lambda>config.
       lift_h (case config of
         None \<Rightarrow> Inl (HTTPException 205 NoDetail)
       | Some c \<Rightarrow>
           if oidc_logout_redirect c = [] then Inl (HTTPException 205 NoDetail)
           else bind_r (end_session_endpoint c) (\<lambda>address.
             Inr (rstrip (\<lambda>ch. ch = CHR ''/'') (oidc_logout_redirect c) @ ''?rd='' @ quote_plus address))))"

end
