(* ===== verification/InterfaceProps.thy ===== *)
theory InterfaceProps
  imports Interface
begin

section \<open>What the service interface guarantees\<close>

text \<open>
  Piped events reach the pipe and end with \<open>unpipe_events\<close>; a \<open>begin_task\<close> that raises leaves no
  Tiled writer behind; a submitted task carries the session of its request; a Tiled writer is
  detached when the completion of its task is published.
\<close>

subsection \<open>Callbacks only remove subscriptions\<close>

lemma unsubscribe_subset:
  "set (subscriptions (snd (unsubscribe t p))) \<subseteq> set (subscriptions p)"
  by (auto simp: unsubscribe_def dict_del_eq_filter split: option.splits)

lemma channel_unsubscribe_subset:
  "set (h_re_subs (snd (channel_unsubscribe ch t h))) \<subseteq> set (h_re_subs h)"
  "set (subscriptions (h_worker_events (snd (channel_unsubscribe ch t h)))) \<subseteq>
     set (subscriptions (h_worker_events h))"
  by (cases ch; auto simp: re_unsubscribe_def hub_unsubscribe_worker_def Let_def case_prod_beta
      dest: subsetD [OF unsubscribe_subset])+

definition subs_le :: "hub \<Rightarrow> hub \<Rightarrow> bool" where
  "subs_le h h' \<longleftrightarrow> set (h_re_subs h') \<subseteq> set (h_re_subs h) \<and>
     set (subscriptions (h_worker_events h')) \<subseteq> set (subscriptions (h_worker_events h)) \<and>
     h_sub_lists h' = h_sub_lists h \<and> h_broken_pipes h' = h_broken_pipes h"

lemma subs_le_refl [simp]: "subs_le h h" by (simp add: subs_le_def)

lemma subs_le_trans: "subs_le h h' \<Longrightarrow> subs_le h' h'' \<Longrightarrow> subs_le h h''"
  by (auto simp: subs_le_def)

lemma subs_le_gone:
  assumes "subs_le h h'"
  shows "m \<notin> set (h_re_subs h) \<Longrightarrow> m \<notin> set (h_re_subs h')"
    and "n \<notin> fst ` set (subscriptions (h_worker_events h)) \<Longrightarrow> n \<notin> fst ` set (subscriptions (h_worker_events h'))"
  using assms by (auto simp: subs_le_def)

lemma channel_unsubscribe_le: "subs_le h (snd (channel_unsubscribe ch t h))"
  unfolding subs_le_def using channel_unsubscribe_subset [of ch t h]
  by (cases ch) (simp_all add: re_unsubscribe_def hub_unsubscribe_worker_def Let_def case_prod_beta)

lemma call_callback_le: "subs_le h (snd (call_callback cb ev cid h))"
proof (rule call_callback_keeps [where P = "subs_le h"])
  show "\<And>ch t h'. subs_le h h' \<Longrightarrow> subs_le h (snd (channel_unsubscribe ch t h'))"
    by (rule subs_le_trans [OF _ channel_unsubscribe_le])
qed (simp_all, simp_all add: subs_le_def)

lemma deliver_le: "subs_le h (snd (deliver call_callback cbs ev cid h))"
  by (rule deliver_keeps [where P = "subs_le h"]) (auto intro: subs_le_trans call_callback_le)

subsection \<open>Piping\<close>

lemma pipe_last:
  assumes "subscriptions p = subs @ [(t, PipeHandler pipe)]" and "pipe \<notin> set (h_broken_pipes h)"
  shows "\<exists>sent. h_piped (snd (publish str_of call_callback p ev cid h)) = sent @ [(pipe, ev)]"
proof -
  let ?h = "snd (deliver call_callback (dict_values subs) ev cid h)"
  have "pipe \<notin> set (h_broken_pipes ?h)"
    using deliver_le [of h "dict_values subs" ev cid] assms(2) by (simp add: subs_le_def)
  then show ?thesis
    by (simp add: publish_delivers assms(1) deliver_state pipe_handler_def)
qed

lemma hub_streams:
  "h_worker_events (snd (hub_subscribe_worker cb h)) = snd (subscribe cb (h_worker_events h))"
  "h_progress_events (snd (hub_subscribe_worker cb h)) = h_progress_events h"
  "h_data_events (snd (hub_subscribe_worker cb h)) = h_data_events h"
  "h_worker_events (snd (hub_subscribe_progress cb h)) = h_worker_events h"
  "h_progress_events (snd (hub_subscribe_progress cb h)) = snd (subscribe cb (h_progress_events h))"
  "h_data_events (snd (hub_subscribe_progress cb h)) = h_data_events h"
  "h_worker_events (snd (hub_subscribe_data cb h)) = h_worker_events h"
  "h_progress_events (snd (hub_subscribe_data cb h)) = h_progress_events h"
  "h_data_events (snd (hub_subscribe_data cb h)) = snd (subscribe cb (h_data_events h))"
  "fst (hub_subscribe_worker cb h) = fst (subscribe cb (h_worker_events h))"
  "fst (hub_subscribe_progress cb h) = fst (subscribe cb (h_progress_events h))"
  "fst (hub_subscribe_data cb h) = fst (subscribe cb (h_data_events h))"
  "h_broken_pipes (snd (hub_subscribe_worker cb h)) = h_broken_pipes h"
  "h_broken_pipes (snd (hub_subscribe_progress cb h)) = h_broken_pipes h"
  "h_broken_pipes (snd (hub_subscribe_data cb h)) = h_broken_pipes h"
  by (simp_all add: hub_subscribe_worker_def hub_subscribe_progress_def hub_subscribe_data_def
      Let_def case_prod_beta)

lemma hub_unstreams:
  "h_worker_events (snd (hub_unsubscribe_worker t h)) = snd (unsubscribe t (h_worker_events h))"
  "h_progress_events (snd (hub_unsubscribe_worker t h)) = h_progress_events h"
  "h_data_events (snd (hub_unsubscribe_worker t h)) = h_data_events h"
  "h_worker_events (snd (hub_unsubscribe_progress t h)) = h_worker_events h"
  "h_progress_events (snd (hub_unsubscribe_progress t h)) = snd (unsubscribe t (h_progress_events h))"
  "h_data_events (snd (hub_unsubscribe_progress t h)) = h_data_events h"
  "h_worker_events (snd (hub_unsubscribe_data t h)) = h_worker_events h"
  "h_progress_events (snd (hub_unsubscribe_data t h)) = h_progress_events h"
  "h_data_events (snd (hub_unsubscribe_data t h)) = snd (unsubscribe t (h_data_events h))"
  "fst (hub_unsubscribe_worker t h) = fst (unsubscribe t (h_worker_events h))"
  "fst (hub_unsubscribe_progress t h) = fst (unsubscribe t (h_progress_events h))"
  "fst (hub_unsubscribe_data t h) = fst (unsubscribe t (h_data_events h))"
  by (simp_all add: hub_unsubscribe_worker_def hub_unsubscribe_progress_def hub_unsubscribe_data_def
      Let_def case_prod_beta)

lemma pipe_events_streams:
  "h_worker_events (w_hub (snd (pipe_events pipe w))) = snd (subscribe (PipeHandler pipe) (h_worker_events (w_hub w)))"
  "h_progress_events (w_hub (snd (pipe_events pipe w))) = snd (subscribe (PipeHandler pipe) (h_progress_events (w_hub w)))"
  "h_data_events (w_hub (snd (pipe_events pipe w))) = snd (subscribe (PipeHandler pipe) (h_data_events (w_hub w)))"
  "sh_worker (fst (pipe_events pipe w)) = fst (subscribe (PipeHandler pipe) (h_worker_events (w_hub w)))"
  "sh_progress (fst (pipe_events pipe w)) = fst (subscribe (PipeHandler pipe) (h_progress_events (w_hub w)))"
  "sh_data (fst (pipe_events pipe w)) = fst (subscribe (PipeHandler pipe) (h_data_events (w_hub w)))"
  "h_broken_pipes (w_hub (snd (pipe_events pipe w))) = h_broken_pipes (w_hub w)"
  by (simp_all add: pipe_events_def case_prod_beta Let_def hub_streams del: subscribe_token)

lemma unpipe_events_streams:
  assumes "fst (unsubscribe (sh_worker hs) (h_worker_events (w_hub w))) = Inr ()"
    and "fst (unsubscribe (sh_data hs) (h_data_events (w_hub w))) = Inr ()"
    and "fst (unsubscribe (sh_progress hs) (h_progress_events (w_hub w))) = Inr ()"
  shows "fst (unpipe_events hs w) = Inr ()"
    and "h_worker_events (w_hub (snd (unpipe_events hs w))) = snd (unsubscribe (sh_worker hs) (h_worker_events (w_hub w)))"
    and "h_data_events (w_hub (snd (unpipe_events hs w))) = snd (unsubscribe (sh_data hs) (h_data_events (w_hub w)))"
    and "h_progress_events (w_hub (snd (unpipe_events hs w))) = snd (unsubscribe (sh_progress hs) (h_progress_events (w_hub w)))"
proof -
  obtain h1 where a: "hub_unsubscribe_worker (sh_worker hs) (w_hub w) = (Inr (), h1)"
    using assms(1) by (metis hub_unstreams(10) prod.collapse)
  then have h1: "h_worker_events h1 = snd (unsubscribe (sh_worker hs) (h_worker_events (w_hub w)))"
      "h_data_events h1 = h_data_events (w_hub w)" "h_progress_events h1 = h_progress_events (w_hub w)"
    by (metis hub_unstreams(1,2,3) snd_conv)+
  obtain h2 where b: "hub_unsubscribe_data (sh_data hs) h1 = (Inr (), h2)"
    using assms(2) h1 by (metis hub_unstreams(12) prod.collapse)
  then have h2: "h_worker_events h2 = h_worker_events h1"
      "h_data_events h2 = snd (unsubscribe (sh_data hs) (h_data_events h1))"
      "h_progress_events h2 = h_progress_events h1"
    by (metis hub_unstreams(7,8,9) snd_conv)+
  obtain h3 where c: "hub_unsubscribe_progress (sh_progress hs) h2 = (Inr (), h3)"
    using assms(3) h1 h2 by (metis hub_unstreams(11) prod.collapse)
  then have h3: "h_worker_events h3 = h_worker_events h2" "h_data_events h3 = h_data_events h2"
      "h_progress_events h3 = snd (unsubscribe (sh_progress hs) (h_progress_events h2))"
    by (metis hub_unstreams(4,5,6) snd_conv)+
  show "fst (unpipe_events hs w) = Inr ()"
    and "h_worker_events (w_hub (snd (unpipe_events hs w))) = snd (unsubscribe (sh_worker hs) (h_worker_events (w_hub w)))"
    and "h_data_events (w_hub (snd (unpipe_events hs w))) = snd (unsubscribe (sh_data hs) (h_data_events (w_hub w)))"
    and "h_progress_events (w_hub (snd (unpipe_events hs w))) = snd (unsubscribe (sh_progress hs) (h_progress_events (w_hub w)))"
    by (simp_all add: unpipe_events_def a b c h1 h2 h3)
qed

text \<open>
  Claim C20. Once a pipe is connected, every event of each of the three streams is sent over it as
  the last thing its publication does (unless the pipe is broken), whatever other subscribers do;
  disconnecting it succeeds and leaves the three streams with the subscriptions they had.
\<close>

theorem pipe_events_until_unpiped:
  assumes "hub_ok (w_hub w)" and "pipe \<notin> set (h_broken_pipes (w_hub w))"
  shows "case pipe_events pipe w of (handles, w1) \<Rightarrow>
      (\<exists>sent. h_piped (snd (publish_worker f we cid (w_hub w1))) = sent @ [(pipe, WEvent we)]) \<and>
      (\<exists>sent. h_piped (snd (publish_progress f pe cid (w_hub w1))) = sent @ [(pipe, PEvent pe)]) \<and>
      (\<exists>sent. h_piped (snd (publish_data f de cid (w_hub w1))) = sent @ [(pipe, DEvent de)]) \<and>
      (case unpipe_events handles w1 of (r, w2) \<Rightarrow> r = Inr () \<and>
        subscriptions (h_worker_events (w_hub w2)) = subscriptions (h_worker_events (w_hub w)) \<and>
        subscriptions (h_progress_events (w_hub w2)) = subscriptions (h_progress_events (w_hub w)) \<and>
        subscriptions (h_data_events (w_hub w2)) = subscriptions (h_data_events (w_hub w)))"
proof -
  let ?w1 = "snd (pipe_events pipe w)" and ?hs = "fst (pipe_events pipe w)"
  note s = pipe_events_streams [of pipe w]
  have ok: "publisher_ok (h_worker_events (w_hub w))" "publisher_ok (h_progress_events (w_hub w))"
      "publisher_ok (h_data_events (w_hub w))" using assms(1) by (simp_all add: hub_ok_def)
  note undo = pub.stream_sub_unsub [OF ok(1)] pub.stream_sub_unsub [OF ok(2)] pub.stream_sub_unsub [OF ok(3)]
  have u: "fst (unpipe_events ?hs ?w1) = Inr ()"
      "subscriptions (h_worker_events (w_hub (snd (unpipe_events ?hs ?w1)))) = subscriptions (h_worker_events (w_hub w))"
      "subscriptions (h_progress_events (w_hub (snd (unpipe_events ?hs ?w1)))) = subscriptions (h_progress_events (w_hub w))"
      "subscriptions (h_data_events (w_hub (snd (unpipe_events ?hs ?w1)))) = subscriptions (h_data_events (w_hub w))"
    by (simp_all only: unpipe_events_streams s undo)
  have b: "pipe \<notin> set (h_broken_pipes (w_hub ?w1))" using assms(2) by (simp add: s)
  have "\<exists>sent. h_piped (snd (publish_worker f we cid (w_hub ?w1))) = sent @ [(pipe, WEvent we)]"
    unfolding publish_worker_def s(1) by (rule pipe_last [OF pub.sub_active [OF ok(1)] b])
  moreover have "\<exists>sent. h_piped (snd (publish_progress f pe cid (w_hub ?w1))) = sent @ [(pipe, PEvent pe)]"
    unfolding publish_progress_def s(2) by (rule pipe_last [OF pub.sub_active [OF ok(2)] b])
  moreover have "\<exists>sent. h_piped (snd (publish_data f de cid (w_hub ?w1))) = sent @ [(pipe, DEvent de)]"
    unfolding publish_data_def s(3) by (rule pipe_last [OF pub.sub_active [OF ok(3)] b])
  ultimately show ?thesis using u by (simp add: case_prod_beta)
qed

theorem pipe_events_until_unpiped_witness:
  "\<exists>handles w1 sent. pipe_events 3 (idle_worker new_hub) = (handles, w1) \<and>
     h_piped (snd (publish_worker (\<lambda>_. []) (status_event w1) None (w_hub w1))) = sent @ [(3, WEvent (status_event w1))]"
proof -
  have "hub_ok (w_hub (idle_worker new_hub))"
    using idle_worker_ok [OF new_hub_ok] by (simp add: worker_ok_def)
  moreover have "3 \<notin> set (h_broken_pipes (w_hub (idle_worker new_hub)))" by code_simp
  ultimately have ok: "hub_ok (w_hub (idle_worker new_hub))"
    "3 \<notin> set (h_broken_pipes (w_hub (idle_worker new_hub)))" by simp_all
  from pipe_events_until_unpiped [OF ok, where we = "status_event (snd (pipe_events 3 (idle_worker new_hub)))"]
  show ?thesis by (cases "pipe_events 3 (idle_worker new_hub)") auto
qed

subsection \<open>Beginning a task with a Tiled writer\<close>

definition re_fresh :: "hub \<Rightarrow> bool" where
  "re_fresh h \<longleftrightarrow> list_all (\<lambda>t. t < h_re_next h) (h_re_subs h)"

text \<open>What \<open>attach_tiled\<close> adds, and that removing it restores what was subscribed.\<close>

definition tiled_subs :: "hub \<Rightarrow> (sub_channel \<times> nat) list" where
  "tiled_subs h = [(RunEngineCh, h_re_next h), (WorkerEventsCh, sub_count (h_worker_events h))]"

lemma attach_tiled_adds:
  assumes "hub_ok h"
  shows "fst (attach_tiled tid h) = tiled_subs h"
    and "h_re_subs (snd (attach_tiled tid h)) = h_re_subs h @ [h_re_next h]"
    and "subscriptions (h_worker_events (snd (attach_tiled tid h))) =
      subscriptions (h_worker_events h) @ [(sub_count (h_worker_events h), RemoveWhenFinished tid (length (h_sub_lists h)))]"
    and "h_sub_lists (snd (attach_tiled tid h)) ! length (h_sub_lists h) = tiled_subs h"
    and "length (h_sub_lists h) < length (h_sub_lists (snd (attach_tiled tid h)))"
    and "h_flags (snd (attach_tiled tid h)) = h_flags h"
    and "hub_ok (snd (attach_tiled tid h))"
proof -
  have ok: "publisher_ok (h_worker_events h)" using assms by (simp add: hub_ok_def)
  let ?cb = "RemoveWhenFinished tid (length (h_sub_lists h))"
  have a: "attach_tiled tid h = (tiled_subs h,
      h\<lparr>h_re_subs := h_re_subs h @ [h_re_next h], h_re_next := Suc (h_re_next h),
        h_worker_events := snd (subscribe ?cb (h_worker_events h)),
        h_sub_lists := h_sub_lists h @ [tiled_subs h]\<rparr>)"
    by (simp add: attach_tiled_def re_subscribe_def hub_subscribe_worker_def Let_def case_prod_beta tiled_subs_def)
  show "fst (attach_tiled tid h) = tiled_subs h"
    and "h_re_subs (snd (attach_tiled tid h)) = h_re_subs h @ [h_re_next h]"
    and "subscriptions (h_worker_events (snd (attach_tiled tid h))) =
      subscriptions (h_worker_events h) @ [(sub_count (h_worker_events h), ?cb)]"
    and "h_sub_lists (snd (attach_tiled tid h)) ! length (h_sub_lists h) = tiled_subs h"
    and "length (h_sub_lists h) < length (h_sub_lists (snd (attach_tiled tid h)))"
    and "h_flags (snd (attach_tiled tid h)) = h_flags h"
    and "hub_ok (snd (attach_tiled tid h))"
    using assms subscribe_ok [OF ok] subscribe_active [OF ok, of ?cb] by (simp_all add: a hub_ok_def)
qed

lemma remove_tiled_subs:
  assumes "subscriptions (h_worker_events h') = subs @ [(n, cb)]" and "n \<notin> fst ` set subs"
    and "h_re_subs h' = rs @ [m]" and "m \<notin> set rs"
  shows "\<exists>h''. unsubscribe_list [(RunEngineCh, m), (WorkerEventsCh, n)] h' = (Inr (), h'') \<and>
    subscriptions (h_worker_events h'') = subs \<and> h_re_subs h'' = rs \<and> h_flags h'' = h_flags h'"
proof -
  have rs: "filter (\<lambda>x. x \<noteq> m) rs = rs" using assms(4) by (auto simp: filter_id_conv)
  have sb: "filter (\<lambda>q. fst q \<noteq> n) subs = subs" using assms(2) by (force simp: filter_id_conv)
  have "map_of (subs @ [(n, cb)]) n = Some cb"
    using map_of_None_keys [THEN iffD2, OF assms(2)] by (simp add: map_add_def)
  then show ?thesis
    by (simp add: re_unsubscribe_def hub_unsubscribe_worker_def unsubscribe_def assms(1,3) rs sb dict_del_eq_filter)
qed

lemma begin_failed_restores:
  assumes "hub_ok h" "re_fresh h"
    and "subscriptions (h_worker_events (w_hub w)) = subscriptions (h_worker_events (snd (attach_tiled tid h)))"
    and "h_re_subs (w_hub w) = h_re_subs (snd (attach_tiled tid h))"
  shows "\<exists>h'. begin_failed (tiled_subs h) e w = (Inl e, w\<lparr>w_hub := h'\<rparr>) \<and>
    subscriptions (h_worker_events h') = subscriptions (h_worker_events h) \<and> h_re_subs h' = h_re_subs h"
proof -
  have "publisher_ok (h_worker_events h)" using assms(1) by (simp add: hub_ok_def)
  then have n: "sub_count (h_worker_events h) \<notin> fst ` set (subscriptions (h_worker_events h))" by (rule fresh_token)
  have m: "h_re_next h \<notin> set (h_re_subs h)" using assms(2) by (auto simp: re_fresh_def list_all_iff)
  from remove_tiled_subs [OF trans [OF assms(3) attach_tiled_adds(3) [OF assms(1)]] n
      trans [OF assms(4) attach_tiled_adds(2) [OF assms(1)]] m]
  show ?thesis by (auto simp: begin_failed_def tiled_subs_def)
qed

lemma begin_task_re_subs: "h_re_subs (w_hub (snd (begin_task k w))) = h_re_subs (w_hub w)"
  by (simp add: begin_task_def submit_trackable_put_def hub_subscribe_worker_def hub_unsubscribe_worker_def
      Let_def case_prod_beta split: option.splits sum.splits)

lemma begin_task_sub_lists: "h_sub_lists (w_hub (snd (begin_task k w))) = h_sub_lists (w_hub w)"
  by (simp add: begin_task_def submit_trackable_put_def hub_subscribe_worker_def hub_unsubscribe_worker_def
      Let_def case_prod_beta split: option.splits sum.splits)

lemma begin_failed_raises: "begin_failed subs e w \<noteq> (Inr x, w')"
  by (auto simp: begin_failed_def split: prod.splits sum.splits)

lemma begin_task_failed:
  assumes "worker_ok w" and "begin_task k w = (Inl e, w')"
  shows "subscriptions (h_worker_events (w_hub w')) = subscriptions (h_worker_events (w_hub w)) \<and>
    h_re_subs (w_hub w') = h_re_subs (w_hub w) \<and> w_pending w' = w_pending w \<and> w_channel w' = w_channel w"
  using begin_task_re_subs [of k w] assms(2)
  by (cases rule: begin_task_cases [OF assms(1), of k, case_names unknown busy full put]) auto

lemma set_numtracker_headers_sel [simp]:
  "w_hub (set_numtracker_headers headers w) = w_hub w"
  "w_pending (set_numtracker_headers headers w) = w_pending w"
  "w_channel (set_numtracker_headers headers w) = w_channel w"
  "ctx_tiled_conf (w_ctx (set_numtracker_headers headers w)) = ctx_tiled_conf (w_ctx w)"
  by (simp_all add: set_numtracker_headers_def)

lemma set_numtracker_headers_ok: "worker_ok w \<Longrightarrow> worker_ok (set_numtracker_headers headers w)"
  by (simp add: set_numtracker_headers_def worker_ok_def refs_ok_def)

lemma begin_attached_failed:
  assumes "worker_ok w" and "re_fresh (w_hub w)"
    and "begin_attached S headers (Some tid) w = (Inl e, w')"
  shows "subscriptions (h_worker_events (w_hub w')) = subscriptions (h_worker_events (w_hub w)) \<and>
    h_re_subs (w_hub w') = h_re_subs (w_hub w) \<and> w_pending w' = w_pending w \<and> w_channel w' = w_channel w \<and>
    (w' = w \<or> (\<exists>h. fst (begin_task tid (w\<lparr>w_hub := h\<rparr>)) = Inl e))"
proof (cases "ctx_tiled_conf (w_ctx w)")
  case None
  have "w' = snd (begin_task tid w) \<and> fst (begin_task tid w) = Inl e"
    using assms(3) None by (auto simp: begin_attached_def begin_failed_def split: prod.splits sum.splits)
  then have b: "begin_task tid w = (Inl e, w')" by (cases "begin_task tid w") simp
  then have "fst (begin_task tid (w\<lparr>w_hub := w_hub w\<rparr>)) = Inl e" by simp
  with begin_task_failed [OF assms(1) b] show ?thesis by blast
next
  case (Some tiled)
  let ?h = "snd (attach_tiled (Some tid) (w_hub w))"
  let ?w = "w\<lparr>w_hub := ?h\<rparr>"
  show ?thesis
  proof (cases "sl_tiled_connect S tiled headers")
    case (Inl e')
    with Some assms(3) show ?thesis by (simp add: begin_attached_def)
  next
    case (Inr u)
    have ok: "hub_ok (w_hub w)" using assms(1) by (simp add: worker_ok_def)
    have ok1: "worker_ok ?w" by (rule worker_ok_hub [OF assms(1) attach_tiled_adds(7) [OF ok]])
    obtain res w1 where bt: "begin_task tid ?w = (res, w1)" by (cases "begin_task tid ?w")
    with Some Inr assms(3) attach_tiled_adds(1) [OF ok] obtain e1
      where b: "begin_task tid ?w = (Inl e1, w1)"
        and f: "begin_failed (tiled_subs (w_hub w)) e1 w1 =
          (Inl e :: ((nat \<times> nat) option \<times> (sub_channel \<times> nat) list) result, w')"
      by (cases res) (auto simp: begin_attached_def case_prod_beta)
    note kept = begin_task_failed [OF ok1 b]
    obtain h' where "begin_failed (tiled_subs (w_hub w)) e1 w1 =
          (Inl e1 :: ((nat \<times> nat) option \<times> (sub_channel \<times> nat) list) result, w1\<lparr>w_hub := h'\<rparr>)"
        "subscriptions (h_worker_events h') = subscriptions (h_worker_events (w_hub w))"
        "h_re_subs h' = h_re_subs (w_hub w)"
      using begin_failed_restores [OF ok assms(2), of w1 "Some tid" e1] kept by auto
    with f have w': "w' = w1\<lparr>w_hub := h'\<rparr>" "e1 = e"
      and same: "subscriptions (h_worker_events h') = subscriptions (h_worker_events (w_hub w))"
        "h_re_subs h' = h_re_subs (w_hub w)" by simp_all
    have "fst (begin_task tid ?w) = Inl e" using b w' by simp
    with kept same show ?thesis by (auto simp: w')
  qed
qed


definition tiled_lib :: svc_lib where
  "tiled_lib = \<lparr>sl_lib = demo_lib, sl_world = \<lparr>import_module = (\<lambda>m. Inl (ForeignError ''ModuleNotFoundError'' m)),
       import_manager = (\<lambda>m n. Inl (ForeignError ''ModuleNotFoundError'' m))\<rparr>,
     sl_token_endpoint = (\<lambda>_. Inr ''token''), sl_engine_state = StatesMember ''idle'',
     sl_stomp_connect = Inr (), sl_tiled_connect = (\<lambda>_ _. Inr ())\<rparr>"

definition tiled_worker :: worker where
  "tiled_worker = one_task\<lparr>w_ctx := demo_ctx\<lparr>ctx_tiled_conf := Some
     \<lparr>tiled_enabled = True, tiled_url = ''http://tiled'', tiled_authentication = NoTiledAuth\<rparr>\<rparr>\<rparr>"

lemma tiled_worker_ok: "worker_ok tiled_worker" "re_fresh (w_hub tiled_worker)"
proof -
  show "worker_ok tiled_worker"
    using one_task_ok by (simp add: tiled_worker_def worker_ok_def refs_ok_def del: one_task_ok one_task_sel)
  show "re_fresh (w_hub tiled_worker)" by code_simp
qed


text \<open>The clean-up callback, wherever it stands among the subscribers.\<close>

lemma unsubscribed_gone: "t \<notin> fst ` set (subscriptions (snd (unsubscribe t p)))"
  by (auto simp: unsubscribe_def dict_del_eq_filter map_of_None_keys split: option.splits)

lemma clean_up_removes:
  assumes "h_sub_lists h ! idx = [(RunEngineCh, m), (WorkerEventsCh, n)]"
    and "we_task_status e = Some ts" "ts_task_id ts = tid" "ts_task_complete ts"
  shows "m \<notin> set (h_re_subs (snd (call_callback (RemoveWhenFinished (Some tid) idx) (WEvent e) cid h))) \<and>
    n \<notin> fst ` set (subscriptions (h_worker_events (snd (call_callback (RemoveWhenFinished (Some tid) idx) (WEvent e) cid h))))"
proof -
  let ?h = "re_unsubscribe m h"
  have "snd (unsubscribe_list [(RunEngineCh, m), (WorkerEventsCh, n)] h) = snd (hub_unsubscribe_worker n ?h)"
    by (simp split: prod.splits sum.splits)
  then have "snd (call_callback (RemoveWhenFinished (Some tid) idx) (WEvent e) cid h) = snd (hub_unsubscribe_worker n ?h)"
    using assms by (simp add: remove_callback_when_task_finished_def del: unsubscribe_list.simps)
  then show ?thesis using unsubscribed_gone [of n "h_worker_events ?h"]
    by (simp add: hub_unsubscribe_worker_def Let_def case_prod_beta re_unsubscribe_def)
qed

lemma deliver_clean_up:
  assumes "RemoveWhenFinished (Some tid) idx \<in> set cbs"
    and "h_sub_lists h ! idx = [(RunEngineCh, m), (WorkerEventsCh, n)]"
    and "we_task_status e = Some ts" "ts_task_id ts = tid" "ts_task_complete ts"
  shows "m \<notin> set (h_re_subs (snd (deliver call_callback cbs (WEvent e) cid h))) \<and>
    n \<notin> fst ` set (subscriptions (h_worker_events (snd (deliver call_callback cbs (WEvent e) cid h))))"
proof -
  obtain xs ys where cbs: "cbs = xs @ RemoveWhenFinished (Some tid) idx # ys"
    using assms(1) by (meson split_list)
  let ?h1 = "snd (deliver call_callback xs (WEvent e) cid h)"
  let ?h2 = "snd (call_callback (RemoveWhenFinished (Some tid) idx) (WEvent e) cid ?h1)"
  have "h_sub_lists ?h1 ! idx = [(RunEngineCh, m), (WorkerEventsCh, n)]"
    using deliver_le [of h xs "WEvent e" cid] assms(2) by (simp add: subs_le_def)
  note gone = clean_up_removes [OF this assms(3-5), of cid]
  have "snd (deliver call_callback cbs (WEvent e) cid h) = snd (deliver call_callback ys (WEvent e) cid ?h2)"
    by (simp only: cbs deliver_state fold_append fold.simps comp_def)
  then have "subs_le ?h2 (snd (deliver call_callback cbs (WEvent e) cid h))" by (simp only: deliver_le)
  from subs_le_gone [OF this] gone show ?thesis by (simp del: call_callback.simps)
qed

lemma quiet_event_keeps_writers:
  assumes "case we_task_status e of None \<Rightarrow> True | Some ts \<Rightarrow> \<not> ts_task_complete ts"
  shows "h_re_subs (snd (publish_worker f e cid h)) = h_re_subs h"
proof -
  have "h_re_subs (snd (call_callback cb (WEvent e) cid h')) = h_re_subs h'" for cb h'
    using assms by (cases cb) (simp_all add: mark_task_as_started_def forward_message_def pipe_handler_def
        remove_callback_when_task_finished_def split: option.splits)
  then show ?thesis unfolding publish_worker_def
    by (intro publish_keeps [where P = "\<lambda>h'. h_re_subs h' = h_re_subs h"]) simp_all
qed

lemma begin_attached_writer:
  assumes "worker_ok w" and "ctx_tiled_conf (w_ctx w) = Some tiled"
    and "begin_attached S headers (Some tid) w = (Inr (wait, subs), w')"
  shows "\<exists>writer clean_up. subs = [(RunEngineCh, writer), (WorkerEventsCh, clean_up)] \<and>
    h_re_subs (w_hub w') = h_re_subs (w_hub w) @ [writer] \<and>
    (\<forall>e. case we_task_status e of
       None \<Rightarrow> h_re_subs (snd (publish_worker f e cid (w_hub w'))) = h_re_subs (w_hub w')
     | Some ts \<Rightarrow>
         if \<not> ts_task_complete ts
         then h_re_subs (snd (publish_worker f e cid (w_hub w'))) = h_re_subs (w_hub w')
         else ts_task_id ts \<noteq> tid \<or>
           (writer \<notin> set (h_re_subs (snd (publish_worker f e cid (w_hub w')))) \<and>
            clean_up \<notin> fst ` set (subscriptions (h_worker_events (snd (publish_worker f e cid (w_hub w')))))))"
proof -
  let ?h = "snd (attach_tiled (Some tid) (w_hub w))" and ?idx = "length (h_sub_lists (w_hub w))"
  let ?m = "h_re_next (w_hub w)" and ?n = "sub_count (h_worker_events (w_hub w))"
  have ok: "hub_ok (w_hub w)" using assms(1) by (simp add: worker_ok_def)
  note added = attach_tiled_adds [OF ok, of "Some tid"]
  have ok1: "worker_ok (w\<lparr>w_hub := ?h\<rparr>)" by (rule worker_ok_hub [OF assms(1) added(7)])
  obtain x where b: "begin_task tid (w\<lparr>w_hub := ?h\<rparr>) = (Inr x, w')" and s: "subs = tiled_subs (w_hub w)"
    using assms(2,3) added(1)
    by (cases "sl_tiled_connect S tiled headers"; cases "begin_task tid (w\<lparr>w_hub := ?h\<rparr>)";
        cases "fst (begin_task tid (w\<lparr>w_hub := ?h\<rparr>))")
      (auto simp: begin_attached_def case_prod_beta begin_failed_raises)
  have re: "h_re_subs (w_hub w') = h_re_subs (w_hub w) @ [?m]"
    using begin_task_re_subs [of tid "w\<lparr>w_hub := ?h\<rparr>"] by (simp add: b added(2))
  have cb: "RemoveWhenFinished (Some tid) ?idx \<in> set (dict_values (subscriptions (h_worker_events (w_hub w'))))"
    using b added(3) by (cases rule: begin_task_cases [OF ok1, of tid, case_names unknown busy full put]) auto
  have l: "h_sub_lists (w_hub w') ! ?idx = [(RunEngineCh, ?m), (WorkerEventsCh, ?n)]"
    using begin_task_sub_lists [of tid "w\<lparr>w_hub := ?h\<rparr>"] added(4) by (simp add: b tiled_subs_def)
  note gone = deliver_clean_up [OF cb l]
  note quiet = quiet_event_keeps_writers [of _ f cid "w_hub w'"]
  have e: "snd (publish_worker f e cid (w_hub w')) =
      snd (deliver call_callback (dict_values (subscriptions (h_worker_events (w_hub w')))) (WEvent e) cid (w_hub w'))" for e
    by (simp add: publish_worker_def publish_delivers)
  have "case we_task_status e of
       None \<Rightarrow> h_re_subs (snd (publish_worker f e cid (w_hub w'))) = h_re_subs (w_hub w')
     | Some ts \<Rightarrow>
         if \<not> ts_task_complete ts
         then h_re_subs (snd (publish_worker f e cid (w_hub w'))) = h_re_subs (w_hub w')
         else ts_task_id ts \<noteq> tid \<or>
           (?m \<notin> set (h_re_subs (snd (publish_worker f e cid (w_hub w')))) \<and>
            ?n \<notin> fst ` set (subscriptions (h_worker_events (snd (publish_worker f e cid (w_hub w'))))))" for e
  proof (cases "we_task_status e")
    case None
    then show ?thesis using quiet [of e] by simp
  next
    case (Some ts)
    then show ?thesis using quiet [of e] gone [OF Some, of cid, folded e] by (cases "ts_task_complete ts") simp_all
  qed
  with s re show ?thesis by (intro exI [of _ ?m] exI [of _ ?n]) (simp add: tiled_subs_def)
qed



subsection \<open>Submitting\<close>

lemma task_metadata_for_content:
  assumes "task_metadata_for rq md c cfg = Inr m"
  shows "map_of m ''instrument_session'' = Some (PStr (tr_instrument_session rq))"
    and "k \<notin> {''instrument_session'', ''tiled_access_tags''} \<Longrightarrow> map_of m k = map_of md k"
    and "ctx_tiled_conf c = None \<Longrightarrow> map_of m ''tiled_access_tags'' = map_of md ''tiled_access_tags''"
    and "ctx_tiled_conf c \<noteq> None \<Longrightarrow> \<exists>i blob. env_metadata (cfg_env cfg) = Some i \<and>
      access_blob (tr_instrument_session rq) (md_instrument i) = Inr blob \<and>
      map_of m ''tiled_access_tags'' = Some (PList [PStr blob])"
proof -
  let ?m1 = "dict_set ''instrument_session'' (PStr (tr_instrument_session rq)) md"
  have "(ctx_tiled_conf c = None \<and> m = ?m1) \<or> (ctx_tiled_conf c \<noteq> None \<and>
      (\<exists>i blob. env_metadata (cfg_env cfg) = Some i \<and>
        access_blob (tr_instrument_session rq) (md_instrument i) = Inr blob \<and>
        m = dict_set ''tiled_access_tags'' (PList [PStr blob]) ?m1))"
    using assms by (auto simp: task_metadata_for_def Let_def split: option.splits if_splits)
  then show "map_of m ''instrument_session'' = Some (PStr (tr_instrument_session rq))"
    and "k \<notin> {''instrument_session'', ''tiled_access_tags''} \<Longrightarrow> map_of m k = map_of md k"
    and "ctx_tiled_conf c = None \<Longrightarrow> map_of m ''tiled_access_tags'' = map_of md ''tiled_access_tags''"
    and "ctx_tiled_conf c \<noteq> None \<Longrightarrow> \<exists>i blob. env_metadata (cfg_env cfg) = Some i \<and>
      access_blob (tr_instrument_session rq) (md_instrument i) = Inr blob \<and>
      map_of m ''tiled_access_tags'' = Some (PList [PStr blob])"
    by (auto simp: AList.update_conv')
qed

text \<open>The submission on a service that has its worker.\<close>

definition requested_task :: "task_request \<Rightarrow> pydict \<Rightarrow> task" where
  "requested_task rq m = \<lparr>task_name = tr_name rq, task_params = tr_params rq, task_metadata = m\<rparr>"

lemma interface_submit_live:
  assumes "sv_worker sv = Some w"
  shows "interface_submit_task S uuid baggage rq (Some md) sv =
    (case task_metadata_for rq md (w_ctx w) (sv_config sv) of
       Inl e \<Rightarrow> (Inl e, sv)
     | Inr m \<Rightarrow>
         (case prepare_params (lib_validate (sl_lib S)) (w_ctx w) (requested_task rq m) of
            Inl e \<Rightarrow> (Inl e, sv)
          | Inr _ \<Rightarrow> (Inr uuid, sv\<lparr>sv_worker := Some (track_task uuid (request_id_of baggage, requested_task rq m) w)\<rparr>)))"
  using assms
  by (cases "task_metadata_for rq md (w_ctx w) (sv_config sv)")
    (simp_all add: interface_submit_task_def context_of_def on_worker_def worker_of_def submit_task_def
      requested_task_def split: sum.splits)

text \<open>
  A task submitted through the interface is pending under its fresh id with the plan name
  and parameters of the request. Its metadata carry the session of the request, whatever the caller
  passed for it, and, when Tiled is configured, the access tags made of the session and the
  instrument; all other entries of the caller stay. If the submission raises, the worker is as it was.
\<close>

theorem interface_submit_metadata:
  assumes "sv_worker sv = Some w" and "worker_ok w" and "uuid \<notin> known_ids w"
  shows "case interface_submit_task S uuid baggage rq (Some md) sv of
      (Inl e, sv') \<Rightarrow> sv' = sv
    | (Inr k, sv') \<Rightarrow> k = uuid \<and> (\<exists>w' t. sv_worker sv' = Some w' \<and>
        look_task w' = (look_task w)(uuid \<mapsto> t) \<and> tt_is_pending t \<and> \<not> tt_is_complete t \<and>
        task_name (tt_task t) = tr_name rq \<and> task_params (tt_task t) = tr_params rq \<and>
        (let m = map_of (task_metadata (tt_task t)) in
           m ''instrument_session'' = Some (PStr (tr_instrument_session rq)) \<and>
           m ''blueapi_task_id'' = Some (PStr uuid) \<and>
           (if ctx_tiled_conf (w_ctx w) = None then m ''tiled_access_tags'' = map_of md ''tiled_access_tags''
            else \<exists>i blob. env_metadata (cfg_env (sv_config sv)) = Some i \<and>
              access_blob (tr_instrument_session rq) (md_instrument i) = Inr blob \<and>
              m ''tiled_access_tags'' = Some (PList [PStr blob])) \<and>
           list_all (\<lambda>(k, v). k \<in> {''instrument_session'', ''tiled_access_tags'', ''blueapi_task_id''} \<or>
             m k = map_of md k) md))"
proof (cases "task_metadata_for rq md (w_ctx w) (sv_config sv)")
  case (Inl e)
  then show ?thesis by (simp add: interface_submit_live [OF assms(1)])
next
  case (Inr m)
  let ?t = "requested_task rq m"
  let ?tt = "trackable uuid (request_id_of baggage) ?t"
  note m = task_metadata_for_content [OF Inr]
  note look = look_track_task [OF assms(2,3), of "(request_id_of baggage, ?t)", simplified]
  show ?thesis
  proof (cases "prepare_params (lib_validate (sl_lib S)) (w_ctx w) ?t")
    case (Inl e)
    with Inr show ?thesis by (simp add: interface_submit_live [OF assms(1)])
  next
    case (Inr a)
    have r: "interface_submit_task S uuid baggage rq (Some md) sv =
        (Inr uuid, sv\<lparr>sv_worker := Some (track_task uuid (request_id_of baggage, ?t) w)\<rparr>)"
      using \<open>task_metadata_for rq md (w_ctx w) (sv_config sv) = Inr m\<close> Inr
      by (simp add: interface_submit_live [OF assms(1)])
    have k: "map_of (task_metadata (tt_task ?tt)) k = (if k = ''blueapi_task_id'' then Some (PStr uuid) else map_of m k)" for k
      by (simp add: trackable_def requested_task_def)
    have c: "tt_is_pending ?tt" "\<not> tt_is_complete ?tt" "task_name (tt_task ?tt) = tr_name rq"
        "task_params (tt_task ?tt) = tr_params rq"
      by (simp_all add: trackable_def requested_task_def)
    have l: "list_all (\<lambda>(k, v). k \<in> {''instrument_session'', ''tiled_access_tags'', ''blueapi_task_id''} \<or>
        map_of (task_metadata (tt_task ?tt)) k = map_of md k) md"
    proof -
      have "q \<in> {''instrument_session'', ''tiled_access_tags'', ''blueapi_task_id''} \<or>
          map_of (task_metadata (tt_task ?tt)) q = map_of md q" for q
        using m(2) [of q] by (cases "q = ''blueapi_task_id''") (simp_all add: k, blast)
      then show ?thesis unfolding list_all_iff by blast
    qed
    show ?thesis
      unfolding r prod.case sum.case Let_def
      apply (intro conjI refl exI [of _ "track_task uuid (request_id_of baggage, ?t) w"] exI [of _ ?tt])
              apply simp
      apply (rule look)
      apply (rule c)+
      using m apply (simp add: k)
      apply (simp add: k)
      using m(3,4) apply (simp add: k)
      apply (rule l)
      done
  qed
qed

definition demo_service :: "worker \<Rightarrow> service" where
  "demo_service w = (new_service None)\<lparr>sv_worker := Some w\<rparr>"

definition demo_request :: task_request where
  "demo_request = \<lparr>tr_name = ''count'', tr_params = [], tr_instrument_session = ''cm1-1''\<rparr>"

theorem interface_submit_metadata_witness:
  "\<exists>sv' w' t. interface_submit_task tiled_lib ''t2'' PNone demo_request
      (Some [(''instrument_session'', PStr ''cm2-2'')]) (demo_service one_task) = (Inr ''t2'', sv') \<and>
     sv_worker sv' = Some w' \<and> look_task w' ''t2'' = Some t \<and>
     map_of (task_metadata (tt_task t)) ''instrument_session'' = Some (PStr ''cm1-1'')"
proof -
  have w: "sv_worker (demo_service one_task) = Some one_task" by (simp add: demo_service_def)
  have n: "''t2'' \<notin> known_ids one_task" by (simp add: known_ids_def trackable_def)
  have "fst (interface_submit_task tiled_lib ''t2'' PNone demo_request
      (Some [(''instrument_session'', PStr ''cm2-2'')]) (demo_service one_task)) = Inr ''t2''"
    by (simp add: interface_submit_task_def context_of_def on_worker_def worker_of_def w
        task_metadata_for_def demo_request_def submit_task_def tiled_lib_def demo_ctx_def new_ctx_def
        prepare_params_def lookup_params_def demo_lib_def)
  then obtain sv' where r: "interface_submit_task tiled_lib ''t2'' PNone demo_request
      (Some [(''instrument_session'', PStr ''cm2-2'')]) (demo_service one_task) = (Inr ''t2'', sv')"
    by (metis prod.collapse)
  from interface_submit_metadata [OF w one_task_ok n, where S = tiled_lib and baggage = PNone
      and rq = demo_request and md = "[(''instrument_session'', PStr ''cm2-2'')]"] r
  show ?thesis by (auto simp: Let_def demo_request_def)
qed

subsection \<open>Finding plans and devices\<close>

text \<open>
  A device address whose first part is not a device raises \<open>ValueError\<close> instead of the \<open>KeyError\<close>
  of an unknown device.
\<close>

lemma get_device_missing_parent:
  assumes "map_of (ctx_devices c) p = None" and "CHR ''.'' \<notin> set p" and "CHR ''.'' \<notin> set q"
  shows "\<exists>m. get_device (p @ ''.'' @ q) c = Inl (ValueError m)"
proof -
  have "split_on CHR ''.'' (p @ ''.'' @ q) = [p, q]" 
    using assms(2,3) by (simp add: split_on_append_sep split_on_no_sep)
  with find_component_missing_parent [OF assms(1), of q] show ?thesis
    by (auto simp: get_device_def find_device_def find_device_list_def)
qed

end
