(* ===== verification/SessionProps.thy ===== *)
theory SessionProps
  imports Sessions
begin

section \<open>What login sessions guarantee\<close>

text \<open>
  The client lemmas of the cache contract for \<open>SessionManager\<close>, their instance on the file of
  \<open>SessionCacheManager\<close>, the round trip of a bearer token from client to server, and the end of the
  polling loop.
\<close>

locale session_client = cache_manager ok can_store "co_save ops" "co_load ops" "co_delete ops"
  for ok :: "'s \<Rightarrow> bool" and can_store :: "cache \<Rightarrow> bool" and ops :: "'s cache_ops"
begin

definition no_cache :: "'s \<Rightarrow> bool" where
  "no_cache s \<longleftrightarrow> (\<exists>m. fst (co_load ops s) = Inl (FileNotFoundError m))"

lemma delete_gives_blank:
  assumes "ok s"
  shows "(case co_delete ops s of (Inl e, s') \<Rightarrow> (Inl e, s') | (Inr _, s') \<Rightarrow> (Inr [], s')) =
    (Inr [] :: string result, snd (co_delete ops s)) \<and> ok (snd (co_delete ops s)) \<and> no_cache (snd (co_delete ops s))"
  using delete_ok [OF assms] load_deleted [OF assms]
  by (simp add: case_prod_beta no_cache_def split: sum.splits)

lemma load_pair: "ok s \<Longrightarrow> co_load ops s = (fst (co_load ops s), s)"
  using load_keeps [of s] by (metis prod.collapse)

lemma refresh_outcome:
  assumes "ok s"
  shows "case refresh_auth_token P ops cfg t s of (r, s') \<Rightarrow> ok s' \<and>
    (case ol_refresh P cfg t of
       Inl e \<Rightarrow> r = Inl e \<and> s' = s
     | Inr resp \<Rightarrow>
         if rs_status resp \<noteq> 200 then r = Inr [] \<and> no_cache s'
         else (case bind_r (rs_json resp) (cache_of cfg) of
                 Inl e \<Rightarrow> r = Inl e \<and> s' = s
               | Inr c \<Rightarrow> r = Inr (ca_access_token c) \<and> (can_store c \<longrightarrow> fst (co_load ops s') = Inr c)))"
proof (cases "ol_refresh P cfg t")
  case (Inr resp)
  show ?thesis
  proof (cases "bind_r (rs_json resp) (cache_of cfg)")
    case (Inl e)
    with Inr assms delete_gives_blank [OF assms] show ?thesis by (simp add: refresh_auth_token_def)
  next
    case (Inr c)
    with \<open>ol_refresh P cfg t = Inr resp\<close> assms delete_gives_blank [OF assms] save_ok [OF assms, of c]
      load_saved [OF assms, of c]
    show ?thesis by (cases "co_save ops c s") (auto simp: refresh_auth_token_def)
  qed
qed (use assms in \<open>simp add: refresh_auth_token_def\<close>)

lemma not_loaded:
  assumes "ok s" and "fst (co_load ops s) = Inl e" and "\<not> is_expired e"
  shows "get_valid_access_token P ops cfg s = (Inr [], snd (co_delete ops s)) \<and>
    ok (snd (co_delete ops s)) \<and> no_cache (snd (co_delete ops s))"
  using assms load_pair [OF assms(1)] delete_gives_blank [OF assms(1)]
  by (simp add: get_valid_access_token_def on_token_error_def case_prod_beta)

lemma blank_again:
  assumes "ok s" and "no_cache s"
  shows "fst (get_valid_access_token P ops cfg s) = Inr []"
  using assms not_loaded [OF assms(1)] by (auto simp: no_cache_def)

lemma loaded_outcome:
  assumes "ok s" and "fst (co_load ops s) = Inr c"
  shows "get_valid_access_token P ops cfg s =
    (case ol_decode_jwt P cfg (ca_access_token c) of
       Inr _ \<Rightarrow> (Inr (ca_access_token c), s)
     | Inl e \<Rightarrow> if is_expired e then refresh_auth_token P ops cfg (ca_refresh_token c) s
                else (Inr [], snd (co_delete ops s)))"
  using assms load_pair [OF assms(1)] delete_gives_blank [OF assms(1)]
  by (simp add: get_valid_access_token_def on_token_error_def case_prod_beta split: sum.splits)

end

interpretation session_files: session_client "place_ok env tp" "storable to_json from_json"
  "session_cache_ops to_json from_json env tp"
  for to_json from_json env tp
  unfolding session_client_def session_cache_ops_def
  by (simp add: session_cache.cache_manager_axioms)


definition demo_oidc :: oidc_config where
  "demo_oidc = \<lparr>oidc_well_known_url = None, oidc_issuer = Some ''https://auth'', oidc_client_id = ''blueapi'',
     oidc_client_audience = ''account'', oidc_logout_redirect = []\<rparr>"

definition demo_cache :: "string \<Rightarrow> cache" where
  "demo_cache a = \<lparr>ca_oidc_config = demo_oidc, ca_access_token = a, ca_refresh_token = ''r'', ca_id_token = ''i''\<rparr>"

text \<open>A provider for which every token has expired and that answers a refresh with new tokens.\<close>

definition demo_tokens :: "string \<Rightarrow> response" where
  "demo_tokens a = \<lparr>rs_status = 200, rs_json = Inr (PDict [(''access_token'', PStr a),
     (''refresh_token'', PStr ''r''), (''id_token'', PStr ''i'')]), rs_text = [], rs_headers = []\<rparr>"

definition demo_provider :: oidc_lib where
  "demo_provider = \<lparr>ol_decode_jwt = (\<lambda>_ _. Inl (ForeignError ''ExpiredSignatureError'' ''Signature has expired'')),
     ol_refresh = (\<lambda>_ _. Inr (demo_tokens ''new'')), ol_end_session = (\<lambda>_ _. Inr (demo_tokens [])),
     ol_device_authorization = (\<lambda>_. Inl (RuntimeError [])), ol_raise_for_status = (\<lambda>_. Inr ())\<rparr>"

definition demo_env :: path_env where
  "demo_env = \<lparr>pe_home = [''/'', ''home''], pe_cwd = [''/'', ''work''], pe_xdg_cache_home = None\<rparr>"

definition demo_path :: path where "demo_path = [''/'', ''home'', ''token'']"

text \<open>Any JSON text stands for the tokens its decoder gives it.\<close>

definition demo_to_json :: "cache \<Rightarrow> string" where "demo_to_json c = ca_access_token c"

definition demo_from_json :: "string \<Rightarrow> cache result" where "demo_from_json t = Inr (demo_cache t)"

definition demo_fs :: fs where
  "demo_fs = \<lparr>fs_nodes = [([''/'', ''home''], DirNode), ([''/'', ''work''], DirNode),
     (demo_path, FileNode (b64encode ''old'') 384)], fs_denied = []\<rparr>"


subsection \<open>From client to server\<close>

text \<open>
  The token a client puts into its request is the one the server checks. \<open>scheme_param\<close>
  splits the header at its first space; a token has no white space at its ends. Without a token the
  header is not set, and the server refuses with 401.
\<close>

theorem bearer_token_round_trip:
  assumes "scheme_param (Some (''Bearer '' @ token)) = (''Bearer'', token)"
    and "scheme_param None = ([], [])" and "strip is_space token = token"
  shows "(let req = \<lparr>ci_headers = jwt_auth token hs, ci_cookies = []\<rparr>;
              seen = unchecked_bearer_token scheme_param req
          in (if token \<noteq> [] then seen = Some token \<and> validate_bearer_token P cfg seen = ol_decode_jwt P cfg token
              else map_of hs ''Authorization'' = None \<longrightarrow>
                validate_bearer_token P cfg seen = Inl (HTTPException 401 (DText ''Not authenticated''))) \<and>
             (\<forall>k. k \<noteq> ''Authorization'' \<longrightarrow> map_of (ci_headers req) k = map_of hs k))"
proof -
  have "lower ''Bearer'' = ''bearer''" by code_simp
  moreover have "lower [] = []" by (simp add: lower_def)
  ultimately show ?thesis using assms
    by (auto simp: Let_def jwt_auth_def unchecked_bearer_token_def validate_bearer_token_def)
qed

definition demo_scheme_param :: "string option \<Rightarrow> string \<times> string" where
  "demo_scheme_param h = (case h of None \<Rightarrow> ([], [])
     | Some v \<Rightarrow> (takeWhile (\<lambda>c. c \<noteq> CHR '' '') v, drop 1 (dropWhile (\<lambda>c. c \<noteq> CHR '' '') v)))"

theorem bearer_token_round_trip_witness:
  "unchecked_bearer_token demo_scheme_param \<lparr>ci_headers = jwt_auth ''abc'' [], ci_cookies = []\<rparr> = Some ''abc''"
proof -
  have s: "demo_scheme_param (Some (''Bearer '' @ ''abc'')) = (''Bearer'', ''abc'')" by code_simp
  have n: "demo_scheme_param None = ([], [])" by code_simp
  have t: "strip is_space ''abc'' = ''abc''" by code_simp
  show ?thesis using bearer_token_round_trip [OF s n t, where hs = "[]"] by (simp add: Let_def)
qed

subsection \<open>Polling\<close>

text \<open>The loop ends: once a round starts after the expiry, if not before.\<close>

lemma poll_ends: "list_ex (\<lambda>(now, _). expiry \<le> now) rounds \<Longrightarrow> poll_for_token expiry rounds \<noteq> None"
  by (induction expiry rounds rule: poll_for_token.induct) (auto split: sum.splits)

lemma poll_token_is_an_answer:
  "poll_for_token expiry rounds = Some (Inr json) \<Longrightarrow>
     \<exists>now resp. (now, Inr resp) \<in> set rounds \<and> now < expiry \<and> rs_status resp = 200 \<and> rs_json resp = Inr json"
  by (induction expiry rounds rule: poll_for_token.induct) (auto split: sum.splits if_splits)

text \<open>
  A configured token path with a tilde: the parent folder is made for the unexpanded path, so a home
  without the directory cannot hold the cache, and a directory named tilde appears.
\<close>

lemma save_cache_unexpanded_parent:
  "fst (save_cache demo_to_json demo_env [''~'', ''.cache'', ''token''] (demo_cache ''a'') demo_fs) =
     Inl (FileNotFoundError ''No such file or directory'') \<and>
   node_at (snd (save_cache demo_to_json demo_env [''~'', ''.cache'', ''token''] (demo_cache ''a'') demo_fs))
     [''/'', ''work'', ''~'', ''.cache''] = Some DirNode"
  by code_simp

text \<open>Checking whether the cache can be accessed empties it.\<close>

lemma can_access_cache_empties:
  assumes "place_ok env tp fs"
  shows "fst (can_access_cache env tp fs) = Inr True \<and>
    (\<exists>m. node_at (snd (can_access_cache env tp fs)) (absolute env tp) = Some (FileNode [] m))"
  using assms place_parent(2-4) [OF assms] create_parent_place [OF assms]
  by (simp add: can_access_cache_def write_text_def node_at_put Let_def) (simp add: place_ok_def)

end
