(* ===== verification/RestProps.thy ===== *)
theory RestProps
  imports Rest InterfaceProps SessionProps
begin

section \<open>What the REST handlers guarantee\<close>

text \<open>
  Handlers are followed on a dispatcher whose process runs and has its worker (\<open>worker_of_runner\<close>);
  what they do to it is one replacement of that worker (\<open>put_worker\<close>).
\<close>

definition worker_of_runner :: "service runner \<Rightarrow> worker option" where
  "worker_of_runner r =
     (case ru_subprocess r of
        None \<Rightarrow> None | Some p \<Rightarrow> if pool_closed p then None else sv_worker (pool_state p))"

definition put_worker :: "worker \<Rightarrow> service runner \<Rightarrow> service runner" where
  "put_worker w r = r\<lparr>ru_subprocess :=
     map_option (\<lambda>p. p\<lparr>pool_state := (pool_state p)\<lparr>sv_worker := Some w\<rparr>\<rparr>) (ru_subprocess r)\<rparr>"

named_theorems handler_simps \<open>how handlers act on a live worker\<close>

lemma worker_of_put [simp]: "worker_of_runner r = Some w \<Longrightarrow> worker_of_runner (put_worker w' r) = Some w'"
  by (auto simp: worker_of_runner_def put_worker_def split: option.splits if_splits)

lemma put_put [simp]: "put_worker w' (put_worker w r) = put_worker w' r"
  by (cases "ru_subprocess r") (simp_all add: put_worker_def)

lemma put_same [simp]: "worker_of_runner r = Some w \<Longrightarrow> put_worker w r = r"
  by (auto simp: worker_of_runner_def put_worker_def split: option.splits if_splits)

lemma call_live [handler_simps]:
  "worker_of_runner r = Some w \<Longrightarrow> call A name f r = (fst (f w), put_worker (snd (f w)) r)"
  by (auto simp: worker_of_runner_def put_worker_def call_def on_worker_def worker_of_def run_interface_call
      case_prod_beta split: option.splits if_splits)

lemma query_live [handler_simps]: "worker_of_runner r = Some w \<Longrightarrow> query A name f r = (f w, r)"
  by (simp add: query_def call_live)

lemma bind_h_simps [handler_simps]:
  "h r = (Inl e, r') \<Longrightarrow> bind_h h k r = (Inl e, r')"
  "h r = (Inr v, r') \<Longrightarrow> bind_h h k r = k v r'"
  by (simp_all add: bind_h_def)

lemma lift_h_simps [handler_simps]: "lift_h v r = (v, r)"
  by (simp add: lift_h_def)

subsection \<open>Access to tasks\<close>

lemma access_live:
  assumes "worker_of_runner r = Some w" and "not_admin A opa = Inr restricted"
  shows "access_task_permission A opa user tid r =
    (case get_task_by_id tid w of
       Inl e \<Rightarrow> (Inl e, r)
     | Inr t \<Rightarrow> (if restricted \<and> user \<noteq> task_user t then Inl (HTTPException 404 NoDetail) else Inr (), r))"
  using assms
  by (cases "get_task_by_id tid w") (simp_all add: access_task_permission_def query_live bind_h_def lift_h_def)

text \<open>
  Claim C22. A user who is not an administrator reaches only the tasks that carry their own user:
  looking at, deleting or starting another's task is answered 404 like an unknown task, and neither
  the worker nor the dispatcher changes. For one's own tasks, or as an administrator, reading gives
  the task and deleting removes exactly it.
\<close>

theorem task_access_control:
  assumes "worker_of_runner r = Some w" and "worker_ok w" and "not_admin A opa = Inr restricted" and "tid \<noteq> []"
  shows "if (case look_task w tid of None \<Rightarrow> True | Some t \<Rightarrow> restricted \<and> task_user t \<noteq> user)
    then http_status A 200 (fst (rest_get_task A opa user tid r)) = 404 \<and> snd (rest_get_task A opa user tid r) = r \<and>
      http_status A 200 (fst (rest_delete_submitted_task A opa user tid r)) = 404 \<and>
      snd (rest_delete_submitted_task A opa user tid r) = r \<and>
      http_status A 200 (fst (rest_set_active_task A opa user hs (Some tid) r)) = 404 \<and>
      snd (rest_set_active_task A opa user hs (Some tid) r) = r
    else (\<exists>t. look_task w tid = Some t \<and> rest_get_task A opa user tid r = (Inr t, r)) \<and>
      (\<exists>w'. rest_delete_submitted_task A opa user tid r = (Inr tid, put_worker w' r) \<and>
        look_task w' = (look_task w)(tid := None))"
proof -
  have e: "\<exists>m. get_task_by_id tid w = Inl (KeyError m)" if "look_task w tid = None"
    using that by (auto simp: look_task_def get_task_by_id_def split: option.splits sum.splits)
  have i: "get_task_by_id tid w = Inr t \<longleftrightarrow> look_task w tid = Some t" for t
    by (auto simp: look_task_def split: sum.splits)
  note access = access_live [OF assms(1,3), of user tid]
  have d: "snd (clear_task tid w) = remove_task tid w" by (simp add: remove_task_def)
  have c: "look_task w tid = Some t \<Longrightarrow> fst (clear_task tid w) = Inr tid" for t
    using pendingD [OF assms(2), of tid] completedD [OF assms(2), of tid]
    by (auto simp: clear_task_def look_task_cases split: option.splits)
  show ?thesis
  proof (cases "look_task w tid")
    case None
    with e obtain m where "get_task_by_id tid w = Inl (KeyError m)" by blast
    with None access assms(4) show ?thesis
      by (simp add: rest_get_task_def rest_delete_submitted_task_def rest_set_active_task_def
          start_task_permission_def bind_h_def http_status_def)
  next
    case (Some t)
    with i have t: "get_task_by_id tid w = Inr t" by simp
    show ?thesis
      using Some t access assms(4) c look_remove_task [OF assms(2), of tid]
      by (auto simp: rest_get_task_def rest_delete_submitted_task_def rest_set_active_task_def
          start_task_permission_def bind_h_def http_status_def query_live [OF assms(1)]
          call_live [OF assms(1)] d)
  qed
qed

text \<open>A server for examples: no policy server, one worker with one task.\<close>

definition demo_app :: app where
  "demo_app = \<lparr>ap_lib = tiled_lib, ap_opa = (\<lambda>_ _. Inr (PDict [(''result'', PBool False)])),
     ap_oidc_lib = demo_provider, ap_scheme_param = demo_scheme_param, ap_is_jwt_error = is_expired\<rparr>"

definition demo_runner :: "worker \<Rightarrow> service runner" where
  "demo_runner w = (new_runner (default_app_config None) ''env'')
     \<lparr>ru_subprocess := Some \<lparr>pool_state = demo_service w, pool_closed = False\<rparr>\<rparr>"

definition demo_opa_user :: opa_user_client where
  "demo_opa_user = \<lparr>ou_client = \<lparr>oc_instrument = ''i22'', oc_config = \<lparr>opa_root = [], opa_audience = ''account'',
     opa_tiled_check = ''t'', opa_submit_check = ''s'', opa_admin_check = ''a''\<rparr>\<rparr>, ou_token = ''tok''\<rparr>"

lemma demo_runner_worker [simp]: "worker_of_runner (demo_runner w) = Some w"
  by (simp add: demo_runner_def worker_of_runner_def demo_service_def)

lemma demo_not_admin [simp]: "not_admin demo_app (Some demo_opa_user) = Inr True"
  by (simp add: not_admin_def admin_def is_admin_def call_opa_def demo_app_def)

theorem task_access_control_witness:
  "http_status demo_app 200 (fst (rest_delete_submitted_task demo_app (Some demo_opa_user) (PStr ''bob'') ''t1''
      (demo_runner one_task))) = 404 \<and>
   (\<exists>t. look_task one_task ''t1'' = Some t)"
proof -
  have l: "look_task one_task ''t1'' = Some (trackable ''t1'' None demo_task)" by (simp add: look_task_cases)
  moreover have "task_user (trackable ''t1'' None demo_task) \<noteq> PStr ''bob''"
    by (simp add: task_user_def trackable_def demo_task_def)
  ultimately show ?thesis
    using task_access_control [OF demo_runner_worker one_task_ok demo_not_admin, of "''t1''" "PStr ''bob''"] by simp
qed

subsection \<open>The state of the worker\<close>

text \<open>The requests a change of state makes to the RunEngine.\<close>

definition calls_for :: "worker \<Rightarrow> state_change_request \<Rightarrow> re_call list" where
  "calls_for w sc =
     (case sc_new_state sc of
        PAUSED \<Rightarrow> [RePause (sc_defer sc)]
      | RUNNING \<Rightarrow> [ReResume]
      | new \<Rightarrow> if w_current w = None then []
          else if new = ABORTING then [ReAbort (or_str (sc_reason sc) ''Task failed for unknown reason'')]
          else [ReStop])"

lemma request_cancel_live:
  assumes "worker_of_runner r = Some w" and "sc_new_state sc \<in> {ABORTING, STOPPING}"
  shows "\<exists>res. request_state A current reply sc r = (res, put_worker (w\<lparr>w_re_calls := w_re_calls w @ calls_for w sc\<rparr>) r) \<and>
    (res = Inr () \<longleftrightarrow> reply = Inr () \<and> w_current w \<noteq> None)"
proof -
  note c = call_live [OF assms(1)]
  show ?thesis
  proof (cases "w_current w")
    case None
    with assms(2) show ?thesis
      by (cases "sc_new_state sc") (simp_all add: request_state_def c cancel_active_task_def put_same [OF assms(1)] calls_for_def)
  next
    case (Some i)
    show ?thesis
    proof (cases reply)
      case (Inl e)
      with Some assms(2) show ?thesis
        by (cases "sc_new_state sc"; cases "transition_text e")
          (simp_all add: request_state_def c cancel_active_task_def re_request_def calls_for_def)
    next
      case (Inr u)
      with Some assms(2) show ?thesis
        by (cases "sc_new_state sc") (simp_all add: request_state_def c cancel_active_task_def re_request_def calls_for_def)
    qed
  qed
qed

lemma allowed_iff: "allowed current new \<longleftrightarrow> (current, new) \<in> {(RUNNING, PAUSED), (RUNNING, ABORTING),
    (RUNNING, STOPPING), (PAUSED, RUNNING), (PAUSED, ABORTING), (PAUSED, STOPPING)}"
  by (auto simp: allowed_def allowed_transitions_def)

lemma request_state_live:
  assumes "worker_of_runner r = Some w" and "allowed current (sc_new_state sc)"
  shows "\<exists>res. request_state A current reply sc r = (res, put_worker (w\<lparr>w_re_calls := w_re_calls w @ calls_for w sc\<rparr>) r) \<and>
    (res = Inr () \<longleftrightarrow> reply = Inr () \<and> (sc_new_state sc \<in> {ABORTING, STOPPING} \<longrightarrow> w_current w \<noteq> None))"
proof -
  from assms(2) consider "sc_new_state sc = PAUSED" | "sc_new_state sc = RUNNING"
    | "sc_new_state sc \<in> {ABORTING, STOPPING}" by (auto simp: allowed_iff)
  then show ?thesis
  proof cases
    case 3
    from request_cancel_live [OF assms(1) 3, of A current reply] 3 show ?thesis by simp
  qed (cases reply; simp add: request_state_def call_live [OF assms(1)] pause_def resume_def re_request_def calls_for_def)+
qed

text \<open>The handler, up to the request.\<close>

lemma rest_set_state_live:
  assumes "worker_of_runner r = Some w" and "not_admin A opa = Inr restricted"
  shows "rest_set_state A opa user reply sc r =
    (if \<not> allowed (w_state w) (sc_new_state sc)
     then (Inl (HTTPException 400 (DText (''Cannot transition from '' @ state_value (w_state w) @ '' to '' @ state_value (sc_new_state sc)))), r)
     else if restricted \<and> (case get_active_task w of None \<Rightarrow> False | Some t \<Rightarrow> task_user t \<noteq> user)
     then (Inl (HTTPException 403 (DText ''Not authorized to set worker state'')), r)
     else bind_h (request_state A (w_state w) reply sc) (\<lambda>_. rest_get_state A) r)"
  using assms(2)
  by (auto simp: rest_set_state_def rest_get_state_def query_live [OF assms(1)] bind_h_def lift_h_def split: option.splits)



subsection \<open>Submitting and listing\<close>

definition service_of_runner :: "service runner \<Rightarrow> service option" where
  "service_of_runner r = map_option pool_state (ru_subprocess r)"

lemma run_submit_live:
  assumes "worker_of_runner r = Some w" and "service_of_runner r = Some sv"
  shows "run_rpc (interface_call ''submit_task'' (interface_submit_task S uuid baggage rq (Some md))) r =
    (case task_metadata_for rq md (w_ctx w) (sv_config sv) of
       Inl e \<Rightarrow> (Inl e, r)
     | Inr m \<Rightarrow>
         (case prepare_params (lib_validate (sl_lib S)) (w_ctx w) (requested_task rq m) of
            Inl e \<Rightarrow> (Inl e, r)
          | Inr _ \<Rightarrow> (Inr uuid, put_worker (track_task uuid (request_id_of baggage, requested_task rq m) w) r)))"
proof -
  obtain p where p: "ru_subprocess r = Some p" "\<not> pool_closed p" "sv_worker (pool_state p) = Some w" "pool_state p = sv"
    using assms by (auto simp: worker_of_runner_def service_of_runner_def split: option.splits if_splits)
  have w: "sv_worker sv = Some w" using p(3,4) by simp
  have same: "r\<lparr>ru_subprocess := Some (p\<lparr>pool_state := sv\<rparr>)\<rparr> = r" using p(1,4) by (cases r; cases p) simp
  show ?thesis
    by (simp add: run_interface_call [OF p(1,2)] p(4) interface_submit_live [OF w] put_worker_def same p(1)
        split: sum.splits)
qed

text \<open>
  A submission answers 201 exactly when it is permitted, its session gives access tags
  where Tiled needs them and its parameters validate; the new task then is reachable for the user
  who submitted it and answered 404 to every other user who is no administrator. A submission whose
  parameters do not validate answers 422 with the errors located in the parameters of the body;
  whenever a submission fails nothing changes.
\<close>

theorem submitted_task_belongs_to_its_user:
  assumes "worker_of_runner r = Some w" and "service_of_runner r = Some sv" and "worker_ok w"
    and "uuid \<notin> known_ids w"
    and "submit_permission (ap_opa A) opa rq = Inr ()" and "not_admin A opa' = Inr True"
  shows "case rest_submit_task A opa user url uuid baggage rq r of
      (Inr (tid, location), r') \<Rightarrow> tid = uuid \<and> location = url @ ''/'' @ uuid \<and>
        (\<exists>t. rest_get_task A opa' user uuid r' = (Inr t, r')) \<and>
        (other = user \<or> http_status A 200 (fst (rest_get_task A opa' other uuid r')) = 404)
    | (Inl e, r') \<Rightarrow> r' = r \<and>
        (case task_metadata_for rq [(''user'', user)] (w_ctx w) (sv_config sv) of
           Inl e' \<Rightarrow> True
         | Inr m \<Rightarrow>
            (case prepare_params (lib_validate (sl_lib (ap_lib A))) (w_ctx w) (requested_task rq m) of
               Inl (ValidationError _ errs) \<Rightarrow>
                 e = HTTPException 422 (DErrors (map (\<lambda>v. v\<lparr>ve_loc := LStr ''body'' # LStr ''params'' # ve_loc v\<rparr>) errs))
             | Inl e' \<Rightarrow> e = e'
             | Inr _ \<Rightarrow> False))"
proof (cases "task_metadata_for rq [(''user'', user)] (w_ctx w) (sv_config sv)")
  case (Inl e)
  then show ?thesis
    using assms(5) by (cases e) (simp_all add: rest_submit_task_def bind_h_def lift_h_def run_submit_live [OF assms(1,2)])
next
  case (Inr m)
  note md = Inr
  note submitted = assms(5) rest_submit_task_def bind_h_def lift_h_def run_submit_live [OF assms(1,2)]
  show ?thesis
  proof (cases "prepare_params (lib_validate (sl_lib (ap_lib A))) (w_ctx w) (requested_task rq m)")
    case (Inl e)
    with md show ?thesis by (cases e) (simp_all add: submitted in_body_params_def)
  next
    case (Inr a)
    let ?tt = "trackable uuid (request_id_of baggage) (requested_task rq m)"
    let ?r = "put_worker (track_task uuid (request_id_of baggage, requested_task rq m) w) r"
    have s: "rest_submit_task A opa user url uuid baggage rq r = (Inr (uuid, url @ ''/'' @ uuid), ?r)"
      using md Inr by (simp add: submitted)
    have "look_task (track_task uuid (request_id_of baggage, requested_task rq m) w) uuid = Some ?tt"
      using look_track_task [OF assms(3,4), of "(request_id_of baggage, requested_task rq m)"] by simp
    then have g: "get_task_by_id uuid (track_task uuid (request_id_of baggage, requested_task rq m) w) = Inr ?tt"
      by (auto simp: look_task_def split: sum.splits)
    have u: "task_user ?tt = user"
      using task_metadata_for_content(2) [OF md, of "''user''"] by (simp add: task_user_def trackable_def requested_task_def)
    have live: "worker_of_runner ?r = Some (track_task uuid (request_id_of baggage, requested_task rq m) w)"
      by (rule worker_of_put [OF assms(1)])
    show ?thesis
      unfolding s using access_live [OF live assms(6)] g u
      by (simp add: rest_get_task_def bind_h_def query_live [OF live] http_status_def)
  qed
qed
theorem submitted_task_belongs_to_its_user_witness:
  "\<exists>r'. rest_submit_task demo_app None (PStr ''alice'') ''url'' ''t2'' PNone demo_request (demo_runner one_task) =
      (Inr (''t2'', ''url/t2''), r') \<and>
    http_status demo_app 200 (fst (rest_get_task demo_app (Some demo_opa_user) (PStr ''bob'') ''t2'' r')) = 404"
proof -
  have sv: "service_of_runner (demo_runner one_task) = Some (demo_service one_task)"
    by (simp add: service_of_runner_def demo_runner_def)
  have n: "''t2'' \<notin> known_ids one_task" by (simp add: known_ids_def trackable_def)
  have p: "submit_permission (ap_opa demo_app) None demo_request = Inr ()" by (simp add: submit_permission_def)
  have m: "task_metadata_for demo_request [(''user'', PStr ''alice'')] demo_ctx (sv_config (demo_service one_task)) =
      Inr [(''user'', PStr ''alice''), (''instrument_session'', PStr ''cm1-1'')]"
    by (simp add: task_metadata_for_def demo_request_def demo_ctx_def new_ctx_def)
  have v: "\<exists>a. prepare_params (lib_validate (sl_lib (ap_lib demo_app))) demo_ctx (requested_task demo_request md) = Inr a" for md
    by (simp add: prepare_params_def lookup_params_def demo_app_def tiled_lib_def demo_lib_def demo_ctx_def
        requested_task_def demo_request_def)
  obtain res r' where s: "rest_submit_task demo_app None (PStr ''alice'') ''url'' ''t2'' PNone demo_request
      (demo_runner one_task) = (res, r')" by fastforce
  from submitted_task_belongs_to_its_user [OF demo_runner_worker sv one_task_ok n p demo_not_admin,
      where user = "PStr ''alice''" and other = "PStr ''bob''" and url = "''url''" and baggage = PNone]
    s m v [of "[(''user'', PStr ''alice''), (''instrument_session'', PStr ''cm1-1'')]"]
  show ?thesis by (cases res) auto
qed

text \<open>Listing: everything, or the user's own tasks.\<close>

lemma rest_get_tasks_live:
  assumes "worker_of_runner r = Some w" and "not_admin A opa = Inr restricted"
  shows "rest_get_tasks A opa user status r =
    (Inr (if restricted then filter (\<lambda>t. task_user t = user) (get_tasks status w) else get_tasks status w), r)"
  using assms by (simp add: rest_get_tasks_def bind_h_def lift_h_def query_live)

text \<open>
  The 404 of another's task has another body than that of an unknown task.
\<close>

lemma hidden_task_is_told_from_unknown:
  "error_detail A (HTTPException 404 NoDetail) \<noteq> error_detail A (KeyError k)"
  by (simp add: error_detail_def)

end
