(* ===== verification/Websocket.thy ===== *)
theory Websocket
  imports RestProps
begin

section \<open>Running a plan over a websocket (service/protocol.py, service/main.py: run_plan)\<close>

text \<open>
  One connection from the submitted request to its close: the messages sent to the client and how the
  connection ends. The handler is split at the wait for the start of the task and then takes what the
  event pipe delivers. \<open>sends\<close> is the number of messages the client still takes before it is gone.
  Messages are values here; what is on the wire is in \<open>WireProtocol\<close>.
\<close>

datatype ws_message =
    PlanNotFound string
  | InvalidArgs "verror list"
  | ServerBusy
  | Unauthorized
  | Update event

definition unknown_plan_code :: nat where "unknown_plan_code = 4001"
definition invalid_args_code :: nat where "invalid_args_code = 4002"
definition authz_error_code :: nat where "authz_error_code = 4003"

definition from_validation_error :: "verror list \<Rightarrow> ws_message" where
  "from_validation_error errs =
     InvalidArgs (map (\<lambda>err. err\<lparr>ve_loc := [LStr ''body'', LStr ''params''] @ ve_loc err\<rparr>) errs)"

text \<open>
  How a connection ends: closed with a code and a reason, closed normally, the task cancelled because
  the client went away, or the handler raised.
\<close>

datatype ws_end = WsClosed nat string | WsComplete | WsCancelled | WsRaised exn

record ws_starting =
  wt_task_id :: string
  wt_waiting :: "(nat \<times> nat) option \<times> (sub_channel \<times> nat) list"
  wt_pipe :: event_pipe

datatype ws_progress = WsDone "ws_message list" ws_end | WsStarting ws_starting | WsListening "ws_message list"

definition event_task_id :: "event \<Rightarrow> string option" where
  "event_task_id ev = (case ev of
     WEvent e \<Rightarrow> we_task_id e | PEvent e \<Rightarrow> Some (pe_task_id e) | DEvent e \<Rightarrow> Some (de_task_id e))"

definition completes :: "event \<Rightarrow> bool" where
  "completes ev = (case ev of WEvent e \<Rightarrow> we_is_complete e | _ \<Rightarrow> False)"

text \<open>The exception handlers around the pipe, after the pipe was left.\<close>

fun is_busy :: "exn \<Rightarrow> bool" where
  "is_busy (WorkerBusyError _) = True"
| "is_busy _ = False"

definition ws_failed :: "ws_message list \<Rightarrow> exn \<Rightarrow> ws_progress" where
  "ws_failed sent e =
     (if is_busy e then WsDone (sent @ [ServerBusy]) (WsClosed 1013 ''Worker busy'') else WsDone sent (WsRaised e))"

definition leave_with :: "app \<Rightarrow> event_pipe \<Rightarrow> ws_message list \<Rightarrow> exn \<Rightarrow> service runner \<Rightarrow> ws_progress \<times> service runner" where
  "leave_with A p sent e r =
     (case event_pipe_exit (ap_lib A) p r of
        (Inl e', r') \<Rightarrow> (ws_failed sent e', r')
      | (Inr _, r') \<Rightarrow> (ws_failed sent e, r'))"

fun submit_failure :: "exn \<Rightarrow> ws_progress" where
  "submit_failure (ValidationError _ errs) = WsDone [from_validation_error errs] (WsClosed invalid_args_code ''Invalid Args'')"
| "submit_failure (KeyError k) = WsDone [PlanNotFound k] (WsClosed unknown_plan_code ''Unknown Plan'')"
| "submit_failure e = WsDone [] (WsRaised e)"

text \<open>
  Up to the wait for the start. \<open>request\<close> is the first message, decoded; \<open>send\<close> the sending end of
  the new pipe.
\<close>

definition ws_begin :: "app \<Rightarrow> (string \<times> string) list \<Rightarrow> string \<Rightarrow> event_pipe \<Rightarrow> service runner \<Rightarrow> ws_progress \<times> service runner" where
  "ws_begin A headers task_id p r =
     (case query A ''get_active_task'' (\<lambda>w. Inr (get_active_task w)) r of
        (Inl e, r') \<Rightarrow> leave_with A p [] e r'
      | (Inr active, r') \<Rightarrow>
          if (case active of None \<Rightarrow> False | Some t \<Rightarrow> \<not> tt_is_complete t)
          then leave_with A p [] (WorkerBusyError ''Task already running'') r'
          else
            (case call A ''begin_task'' (interface_begin (ap_lib A) (passthrough_headers propagated_headers headers) (Some task_id)) r' of
               (Inl e, r'') \<Rightarrow> leave_with A p [] e r''
             | (Inr waiting, r'') \<Rightarrow>
                 (WsStarting \<lparr>wt_task_id = task_id, wt_waiting = waiting, wt_pipe = p\<rparr>, r'')))"

definition ws_run_plan :: "app \<Rightarrow> opa_user_client option \<Rightarrow> pyval \<Rightarrow> (string \<times> string) list \<Rightarrow> string \<Rightarrow> pyval \<Rightarrow> nat \<Rightarrow>
    task_request option \<Rightarrow> service runner \<Rightarrow> ws_progress \<times> service runner" where
  "ws_run_plan A opa user headers uuid baggage send request r =
     (case request of
        None \<Rightarrow> (WsDone [] (WsClosed 1007 ''Invalid Request''), r)
      | Some rq \<Rightarrow>
          (case submit_permission (ap_opa A) opa rq of
             Inl _ \<Rightarrow> (WsDone [Unauthorized] (WsClosed authz_error_code ''Unauthorized''), r)
           | Inr _ \<Rightarrow>
               (case run_rpc (interface_call ''submit_task''
                       (interface_submit_task (ap_lib A) uuid baggage rq (Some [(''user'', user)]))) r of
                  (Inl e, r') \<Rightarrow> (submit_failure e, r')
                | (Inr task_id, r') \<Rightarrow>
                    (case event_pipe_enter (ap_lib A) send \<lparr>ep_handles = []\<rparr> r' of
                       (Inl e, r'') \<Rightarrow> (ws_failed [] e, r'')
                     | (Inr p, r'') \<Rightarrow> ws_begin A headers task_id p r''))))"

text \<open>
  The loop over the events: those of other tasks are skipped, a completing event is the last one.
  The result says whether the loop ended, the client went away, or the pipe has nothing more yet.
\<close>

datatype loop_end = LoopEnded | ClientGone | MoreToCome

fun forward_events :: "string \<Rightarrow> nat \<Rightarrow> event list \<Rightarrow> bool \<Rightarrow> ws_message list \<times> loop_end" where
  "forward_events task_id sends [] eof = ([], if eof then LoopEnded else MoreToCome)"
| "forward_events task_id sends (evt # evts) eof =
     (if event_task_id evt \<noteq> Some task_id then forward_events task_id sends evts eof
      else
        (case sends of
           0 \<Rightarrow> ([], ClientGone)
         | Suc n \<Rightarrow>
             if completes evt then ([Update evt], LoopEnded)
             else (let (sent, ending) = forward_events task_id n evts eof in (Update evt # sent, ending))))"

text \<open>
  After the wait for the start, and when the loop over the events delivered so far has ended: the pipe
  is left, and a client that went away cancels the active task.
\<close>

definition ws_started :: "app \<Rightarrow> ws_starting \<Rightarrow> service runner \<Rightarrow> ws_progress \<times> service runner" where
  "ws_started A st r =
     (case call A ''begin_task'' (interface_begin_end (wt_waiting st)) r of
        (Inl e, r') \<Rightarrow> leave_with A (wt_pipe st) [] e r'
      | (Inr _, r') \<Rightarrow> (WsListening [], r'))"

definition ws_listen :: "app \<Rightarrow> ws_starting \<Rightarrow> nat \<Rightarrow> unit result \<Rightarrow> event list \<Rightarrow> bool \<Rightarrow> service runner \<Rightarrow>
    ws_progress \<times> service runner" where
  "ws_listen A st sends reply evts eof r =
     (let (sent, ending) = forward_events (wt_task_id st) sends evts eof in
      if ending = MoreToCome then (WsListening sent, r)
      else
        (case event_pipe_exit (ap_lib A) (wt_pipe st) r of
           (Inl e, r') \<Rightarrow> (ws_failed sent e, r')
         | (Inr _, r') \<Rightarrow>
             if ending = LoopEnded then (WsDone sent WsComplete, r')
             else
               (case call A ''cancel_active_task'' (cancel_active_task True (Some ''Client disconnected'') reply) r' of
                  (Inl e, r'') \<Rightarrow> (WsDone sent (WsRaised e), r'')
                | (Inr _, r'') \<Rightarrow> (WsDone sent WsCancelled, r''))))"

subsection \<open>The loop\<close>

text \<open>The reference: the events of the task up to and including its first completing one.\<close>

fun until_complete :: "event list \<Rightarrow> event list" where
  "until_complete [] = []"
| "until_complete (e # es) = (if completes e then [e] else e # until_complete es)"

lemma forward_events_eq:
  "forward_events tid n evts eof =
    (let own = until_complete (filter (\<lambda>e. event_task_id e = Some tid) evts) in
     (map Update (take n own),
      if n < length own then ClientGone
      else if eof \<or> (own \<noteq> [] \<and> completes (last own)) then LoopEnded else MoreToCome))"
  by (induction tid n evts eof rule: forward_events.induct)
    (auto simp: Let_def split: nat.splits prod.splits)

lemma event_pipe_exit_live:
  assumes "worker_of_runner r = Some w" and "ep_handles p = hs @ [(h, c)]"
  shows "event_pipe_exit S p r =
    (case unpipe_events h w of
       (Inl e, w') \<Rightarrow> (Inl e, put_worker w' r)
     | (Inr _, w') \<Rightarrow> (Inr (p\<lparr>ep_handles := hs\<rparr>), put_worker w' r))"
proof -
  obtain q where q: "ru_subprocess r = Some q" "\<not> pool_closed q" "sv_worker (pool_state q) = Some w"
    using assms(1) by (auto simp: worker_of_runner_def split: option.splits if_splits)
  show ?thesis
    using assms(2) q by (simp add: event_pipe_exit_def run_interface_call [OF q(1,2)] on_worker_def worker_of_def
        put_worker_def case_prod_beta split: sum.splits prod.splits)
qed

lemma event_pipe_enter_live:
  assumes "worker_of_runner r = Some w"
  shows "event_pipe_enter S send p r =
    (Inr (p\<lparr>ep_handles := ep_handles p @ [(fst (pipe_events send w), send)]\<rparr>), put_worker (snd (pipe_events send w)) r)"
proof -
  obtain q where q: "ru_subprocess r = Some q" "\<not> pool_closed q" "sv_worker (pool_state q) = Some w"
    using assms by (auto simp: worker_of_runner_def split: option.splits if_splits)
  show ?thesis
    by (simp add: event_pipe_enter_def run_interface_call [OF q(1,2)] on_worker_def worker_of_def q
        put_worker_def case_prod_beta)
qed

lemma ws_listen_live:
  assumes "worker_of_runner r = Some w" and "ep_handles (wt_pipe st) = [(h, c)]"
    and "unpipe_events h w = (Inr (), w')"
  shows "let own = until_complete (filter (\<lambda>e. event_task_id e = Some (wt_task_id st)) evts);
      res = ws_listen A st sends reply evts eof r in
    if sends < length own
    then res = (WsDone (map Update (take sends own)) (case w_current w' of
          None \<Rightarrow> WsRaised (TransitionError ''Attempted to cancel while no active Task'')
        | Some i \<Rightarrow> (case reply of Inl e \<Rightarrow> WsRaised e | Inr _ \<Rightarrow> WsCancelled)),
      put_worker (w'\<lparr>w_re_calls := w_re_calls w' @
        (if w_current w' = None then [] else [ReAbort ''Client disconnected''])\<rparr>) r)
    else if eof \<or> (own \<noteq> [] \<and> completes (last own))
    then res = (WsDone (map Update own) WsComplete, put_worker w' r)
    else res = (WsListening (map Update own), r)"
proof -
  note live = worker_of_put [OF assms(1), of w']
  have "call A ''cancel_active_task'' (cancel_active_task True (Some ''Client disconnected'') reply) (put_worker w' r) =
      (case w_current w' of None \<Rightarrow> Inl (TransitionError ''Attempted to cancel while no active Task'')
         | Some i \<Rightarrow> (case reply of Inl e \<Rightarrow> Inl e | Inr _ \<Rightarrow> Inr (tt_task_id (task_at w' i))),
       put_worker (w'\<lparr>w_re_calls := w_re_calls w' @
        (if w_current w' = None then [] else [ReAbort ''Client disconnected''])\<rparr>) r)"
    by (cases "w_current w'"; cases reply) (simp_all add: call_live [OF live] cancel_active_task_def re_request_def)
  then show ?thesis
    using event_pipe_exit_live [where hs = "[]", OF assms(1)] assms(2,3)
    by (auto simp: ws_listen_def forward_events_eq Let_def split: sum.splits option.splits)
qed

text \<open>
  Claim C24. The client is sent exactly the events of its own task, in order, up to the first one that
  completes the task, as far as it takes them. Once that event is sent (or the stream ends) the pipe is
  disconnected and the connection closes normally; for a client that is gone before, the pipe is
  disconnected and whatever task is current is aborted, by one request to the RunEngine.
\<close>

theorem websocket_forwards_own_events:
  assumes "worker_of_runner r = Some w" and "ep_handles (wt_pipe st) = [(h, c)]"
    and "unpipe_events h w = (Inr (), w')"
  shows "let own = until_complete (filter (\<lambda>e. event_task_id e = Some (wt_task_id st)) evts);
      res = ws_listen A st sends reply evts eof r in
    if sends < length own
    then res = (WsDone (map Update (take sends own)) (case w_current w' of
          None \<Rightarrow> WsRaised (TransitionError ''Attempted to cancel while no active Task'')
        | Some i \<Rightarrow> (case reply of Inl e \<Rightarrow> WsRaised e | Inr _ \<Rightarrow> WsCancelled)),
      put_worker (w'\<lparr>w_re_calls := w_re_calls w' @
        (if w_current w' = None then [] else [ReAbort ''Client disconnected''])\<rparr>) r)
    else if eof \<or> (own \<noteq> [] \<and> completes (last own))
    then res = (WsDone (map Update own) WsComplete, put_worker w' r)
    else res = (WsListening (map Update own), r)"
  by (rule ws_listen_live [OF assms])

theorem websocket_forwards_own_events_witness:
  "\<exists>w' ev. ws_listen demo_app \<lparr>wt_task_id = ''t1'', wt_waiting = (None, []),
        wt_pipe = \<lparr>ep_handles = [(fst (pipe_events 0 one_task), 0)]\<rparr>\<rparr> 5 (Inr ()) [ev, ev] False
      (demo_runner (snd (pipe_events 0 one_task))) = (WsDone [Update ev] WsComplete, put_worker w' (demo_runner (snd (pipe_events 0 one_task))))"
proof -
  let ?w = "snd (pipe_events 0 one_task)"
  let ?st = "\<lparr>wt_task_id = ''t1'', wt_waiting = (None, []), wt_pipe = \<lparr>ep_handles = [(fst (pipe_events 0 one_task), 0)]\<rparr>\<rparr>"
  let ?ev = "WEvent \<lparr>we_state = IDLE, we_task_status = Some \<lparr>ts_task_id = ''t1'', ts_result = None, ts_task_complete = True,
      ts_task_failed = False\<rparr>, we_errors = [], we_warnings = []\<rparr>"
  have "fst (unpipe_events (fst (pipe_events 0 one_task)) ?w) = Inr ()" by code_simp
  then obtain w' where u: "unpipe_events (fst (pipe_events 0 one_task)) ?w = (Inr (), w')"
    by (metis prod.collapse)
  from websocket_forwards_own_events [where st = ?st and c = 0 and evts = "[?ev, ?ev]" and sends = 5 and eof = False
      and A = demo_app and reply = "Inr ()", OF demo_runner_worker _ u]
  have "ws_listen demo_app ?st 5 (Inr ()) [?ev, ?ev] False (demo_runner ?w) = (WsDone [Update ?ev] WsComplete, put_worker w' (demo_runner ?w))"
    by (simp add: event_task_id_def completes_def we_task_id_def we_is_complete_def Let_def)
  then show ?thesis by blast
qed

end
