(* ===== verification/RestClient.thy ===== *)
theory RestClient
  imports Websocket
begin

section \<open>The REST client (client/rest.py)\<close>

text \<open>
  \<open>BlueapiRestClient\<close>: a request with the bearer token of the session, what its response means, the
  methods for the routes and the websocket run as the events it yields and how it ends. The
  transport (requests, websockets), the tracing headers, pydantic's conversion of responses and
  \<open>packaging\<close>'s versions are parameters; \<open>'s\<close> is everything the client reaches: its files and the server.
\<close>

subsection \<open>Exceptions of the client\<close>

record parameter_error =
  par_loc :: "loc_item list"
  par_msg :: "string option"
  par_type :: "string option"
  par_input :: pyval

datatype client_exn =
    BlueskyRequestError "nat option" string
  | UnauthorisedAccessError "nat option" string
  | NotFoundError "nat option" string
  | UnknownPlanError "nat option" string
  | BlueskyRemoteControlError "pyval list"
  | NonJsonResponseError string
  | NoContentError
  | InvalidParametersError "parameter_error list"
  | ServiceUnavailableError
  | MissingInstrumentSessionError
  | MissingStompConfigurationError string
  | BlueskyStreamingError string
  | PlanFailedError string string
  | InvalidStateError
  | PyError exn

type_synonym 'a client_result = "client_exn + 'a"

fun bind_c :: "'a client_result \<Rightarrow> ('a \<Rightarrow> 'b client_result) \<Rightarrow> 'b client_result" where
  "bind_c (Inl e) f = Inl e"
| "bind_c (Inr x) f = f x"

fun raised :: "'a result \<Rightarrow> 'a client_result" where
  "raised (Inl e) = Inl (PyError e)"
| "raised (Inr v) = Inr v"

text \<open>\<open>isinstance(e, BlueskyRequestError)\<close>, with the subclasses.\<close>

fun is_request_error :: "client_exn \<Rightarrow> bool" where
  "is_request_error (BlueskyRequestError _ _) = True"
| "is_request_error (UnauthorisedAccessError _ _) = True"
| "is_request_error (NotFoundError _ _) = True"
| "is_request_error (UnknownPlanError _ _) = True"
| "is_request_error _ = False"

subsection \<open>Reports of invalid parameters\<close>

text \<open>\<open>repr\<close> of a JSON value; \<open>show_float\<close> is that of a float.\<close>

fun repr_val :: "(rat \<Rightarrow> string) \<Rightarrow> pyval \<Rightarrow> string" where
  "repr_val show_float PNone = ''None''"
| "repr_val show_float (PBool b) = (if b then ''True'' else ''False'')"
| "repr_val show_float (PInt i) = show_int i"
| "repr_val show_float (PFloat q) = show_float q"
| "repr_val show_float (PStr s) = py_repr s"
| "repr_val show_float (PList xs) = ''['' @ join '', '' (map (repr_val show_float) xs) @ '']''"
| "repr_val show_float (PDict d) =
     ''{'' @ join '', '' (map (\<lambda>(k, v). py_repr k @ '': '' @ repr_val show_float v) d) @ ''}''"

fun loc_str :: "loc_item \<Rightarrow> string" where
  "loc_str (LStr s) = s"
| "loc_str (LInt i) = show_int i"

definition field_path :: "parameter_error \<Rightarrow> string" where
  "field_path e = join ''.'' (map loc_str (if drop 2 (par_loc e) \<noteq> [] then drop 2 (par_loc e) else par_loc e))"

definition parameter_error_str :: "(rat \<Rightarrow> string) \<Rightarrow> parameter_error \<Rightarrow> string" where
  "parameter_error_str show_float e =
     (if par_type e = Some ''missing'' then ''Missing value for '' @ py_repr (field_path e)
      else if par_type e = Some ''extra_forbidden'' then ''Unexpected field '' @ py_repr (field_path e)
      else ''Invalid value '' @ repr_val show_float (par_input e) @ '' for field '' @ field_path e @ '': '' @
        (case par_msg e of None \<Rightarrow> ''None'' | Some m \<Rightarrow> m))"

definition invalid_parameters_message :: "(rat \<Rightarrow> string) \<Rightarrow> parameter_error list \<Rightarrow> string" where
  "invalid_parameters_message show_float errors =
     ''Incorrect parameters supplied'' @
     (if errors \<noteq> []
      then [newline] @ ''    '' @ join ([newline] @ ''    '') (map (parameter_error_str show_float) errors)
      else [])"

definition from_verror :: "verror \<Rightarrow> parameter_error" where
  "from_verror e = \<lparr>par_loc = ve_loc e, par_msg = Some (ve_msg e), par_type = Some (ve_type e), par_input = ve_input e\<rparr>"

definition invalid_parameters :: "verror list \<Rightarrow> client_exn" where
  "invalid_parameters errs = InvalidParametersError (map from_verror errs)"

subsection \<open>What a response means\<close>

fun is_json_error :: "exn \<Rightarrow> bool" where
  "is_json_error (ForeignError c _) = (c = ''JSONDecodeError'')"
| "is_json_error _ = False"

definition response_json :: "response \<Rightarrow> pyval client_result" where
  "response_json response =
     (case rs_json response of
        Inr v \<Rightarrow> Inr v
      | Inl e \<Rightarrow> if is_json_error e then Inl (NonJsonResponseError ''Response does not contain a valid JSON object'')
               else Inl (PyError e))"

text \<open>The message of \<open>_exception\<close>; only a response that is no JSON is caught.\<close>

definition remote_message :: "response \<Rightarrow> pyval client_result" where
  "remote_message response =
     (case response_json response of
        Inr (PDict d) \<Rightarrow> Inr (case map_of d ''detail'' of None \<Rightarrow> PStr (rs_text response) | Some v \<Rightarrow> v)
      | Inr _ \<Rightarrow> Inr (PStr (rs_text response))
      | Inl (NonJsonResponseError _) \<Rightarrow> Inr (PStr (rs_text response))
      | Inl e \<Rightarrow> Inl e)"

definition exception_of :: "response \<Rightarrow> client_exn option" where
  "exception_of response =
     (let code = rs_status response in
      if code < 400 then None
      else if code \<in> {401, 403} then Some (UnauthorisedAccessError (Some code) (rs_text response))
      else if code = 404 then Some (NotFoundError (Some code) (rs_text response))
      else Some (case remote_message response of
          Inr message \<Rightarrow> BlueskyRemoteControlError [PInt (int code), message]
        | Inl e \<Rightarrow> e))"

text \<open>\<open>validate_errors\<close> is pydantic's reading of a list of \<open>ParameterError\<close>s.\<close>

definition create_task_exceptions :: "(pyval \<Rightarrow> parameter_error list result) \<Rightarrow> response \<Rightarrow> client_exn option" where
  "create_task_exceptions validate_errors response =
     (let code = rs_status response in
      if code < 400 then None
      else if code = 401 \<or> code = 403 then Some (UnauthorisedAccessError (Some code) (rs_text response))
      else if code = 404 then Some (UnknownPlanError (Some code) (rs_text response))
      else if code = 422 then
        Some (case bind_c (response_json response) (\<lambda>content.
            (case content of
               PDict d \<Rightarrow> raised (validate_errors (case map_of d ''detail'' of None \<Rightarrow> PList [] | Some v \<Rightarrow> v))
             | _ \<Rightarrow> Inl (PyError (AttributeError ''object has no attribute get'')))) of
          Inr errors \<Rightarrow> InvalidParametersError errors
        | Inl _ \<Rightarrow> BlueskyRequestError (Some code) (rs_text response))
      else Some (BlueskyRequestError (Some code) (rs_text response)))"

subsection \<open>Requests\<close>

record http_request =
  hr_method :: string
  hr_url :: string
  hr_json :: "pyval option"
  hr_params :: "(string \<times> pyval) list option"
  hr_headers :: "(string \<times> string) list"

record 's client_lib =
  cl_send :: "http_request \<Rightarrow> 's \<Rightarrow> response result \<times> 's"
  cl_unicode_string :: "url \<Rightarrow> string"
  cl_is_connection_error :: "exn \<Rightarrow> bool"
  cl_trace_headers :: "(string \<times> string) list"
  cl_user_agent :: string
  cl_version :: string
  cl_base_version :: "string \<Rightarrow> string result"
  cl_oidc :: oidc_lib
  cl_cache :: "'s cache_ops"
  cl_validate_errors :: "pyval \<Rightarrow> parameter_error list result"

record rest_client =
  rc_config :: rest_config
  rc_session_manager :: "oidc_config option"

definition new_rest_client :: "rest_config option \<Rightarrow> oidc_config option \<Rightarrow> rest_config \<Rightarrow> rest_client" where
  "new_rest_client config session_manager default_config =
     \<lparr>rc_config = (case config of None \<Rightarrow> default_config | Some c \<Rightarrow> c), rc_session_manager = session_manager\<rparr>"

text \<open>The comparison of versions only logs, but a version that does not parse raises.\<close>

definition compare_versions :: "'s client_lib \<Rightarrow> response \<Rightarrow> bool client_result" where
  "compare_versions L response =
     (case map_of (rs_headers response) ''x-blueapi-version'' of
        None \<Rightarrow> Inr True
      | Some v \<Rightarrow>
          bind_c (raised (cl_base_version L v)) (\<lambda>server_version.
          bind_c (raised (cl_base_version L (cl_version L))) (\<lambda>client_version.
            Inr (server_version = client_version))))"

definition check_response :: "'s client_lib \<Rightarrow> (pyval \<Rightarrow> 'a result) \<Rightarrow> (response \<Rightarrow> client_exn option) \<Rightarrow>
    response \<Rightarrow> 'a client_result" where
  "check_response L decode get_exception response =
     (case get_exception response of
        Some e \<Rightarrow> Inl e
      | None \<Rightarrow>
          if rs_status response = 204 then Inl NoContentError
          else bind_c (compare_versions L response) (\<lambda>_.
               bind_c (response_json response) (\<lambda>v. raised (decode v))))"

definition connection_failure :: "'s client_lib \<Rightarrow> exn \<Rightarrow> client_exn" where
  "connection_failure L e = (if cl_is_connection_error L e then ServiceUnavailableError else PyError e)"

text \<open>The token is fetched within the \<open>try\<close> of the request.\<close>

definition request_and_deserialize :: "'s client_lib \<Rightarrow> rest_client \<Rightarrow> string \<Rightarrow> (pyval \<Rightarrow> 'a result) \<Rightarrow>
    pyval option \<Rightarrow> string \<Rightarrow> (response \<Rightarrow> client_exn option) \<Rightarrow> (string \<times> pyval) list option \<Rightarrow> 's \<Rightarrow>
    'a client_result \<times> 's" where
  "request_and_deserialize L rc suffix decode data method get_exception params s =
     (let headers = dict_set ''User-Agent'' (cl_user_agent L) (cl_trace_headers L) in
      case jwt_auth_token (cl_oidc L) (cl_cache L) (rc_session_manager rc) s of
        (Inl e, s') \<Rightarrow> (Inl (connection_failure L e), s')
      | (Inr token, s') \<Rightarrow>
          (case cl_send L \<lparr>hr_method = method, hr_url = remove_suffix ''/'' (cl_unicode_string L (rest_url (rc_config rc))) @ suffix,
                  hr_json = data, hr_params = params, hr_headers = jwt_auth token headers\<rparr> s' of
             (Inl e, s'') \<Rightarrow> (Inl (connection_failure L e), s'')
           | (Inr response, s'') \<Rightarrow> (check_response L decode get_exception response, s'')))"

subsection \<open>The routes\<close>

text \<open>Each method with its address, method, body and the check of its response; \<open>decode\<close> is pydantic's.\<close>

definition get_request :: "'s client_lib \<Rightarrow> rest_client \<Rightarrow> string \<Rightarrow> (pyval \<Rightarrow> 'a result) \<Rightarrow> 's \<Rightarrow> 'a client_result \<times> 's" where
  "get_request L rc suffix decode = request_and_deserialize L rc suffix decode None ''GET'' exception_of None"

definition rc_get_plans :: "'s client_lib \<Rightarrow> rest_client \<Rightarrow> (pyval \<Rightarrow> 'a result) \<Rightarrow> 's \<Rightarrow> 'a client_result \<times> 's" where
  "rc_get_plans L rc = get_request L rc ''/plans''"

definition rc_get_plan :: "'s client_lib \<Rightarrow> rest_client \<Rightarrow> (pyval \<Rightarrow> 'a result) \<Rightarrow> string \<Rightarrow> 's \<Rightarrow> 'a client_result \<times> 's" where
  "rc_get_plan L rc decode name s =
     (case get_request L rc (''/plans/'' @ name) decode s of
        (Inl (NotFoundError _ _), s') \<Rightarrow> (Inl (UnknownPlanError (Some 404) (''Plan '' @ [quote_char] @ name @ [quote_char] @ '' not found'')), s')
      | other \<Rightarrow> other)"

definition rc_get_devices :: "'s client_lib \<Rightarrow> rest_client \<Rightarrow> (pyval \<Rightarrow> 'a result) \<Rightarrow> 's \<Rightarrow> 'a client_result \<times> 's" where
  "rc_get_devices L rc = get_request L rc ''/devices''"

definition rc_get_device :: "'s client_lib \<Rightarrow> rest_client \<Rightarrow> (pyval \<Rightarrow> 'a result) \<Rightarrow> string \<Rightarrow> 's \<Rightarrow> 'a client_result \<times> 's" where
  "rc_get_device L rc decode name = get_request L rc (''/devices/'' @ name) decode"

definition rc_get_state :: "'s client_lib \<Rightarrow> rest_client \<Rightarrow> (pyval \<Rightarrow> 'a result) \<Rightarrow> 's \<Rightarrow> 'a client_result \<times> 's" where
  "rc_get_state L rc = get_request L rc ''/worker/state''"

definition rc_set_state :: "'s client_lib \<Rightarrow> rest_client \<Rightarrow> (pyval \<Rightarrow> 'a result) \<Rightarrow> worker_state \<Rightarrow> bool \<Rightarrow> 's \<Rightarrow>
    'a client_result \<times> 's" where
  "rc_set_state L rc decode state defer_pause =
     request_and_deserialize L rc ''/worker/state'' decode
       (Some (PDict [(''new_state'', PStr (state_value state)), (''defer'', PBool defer_pause)])) ''PUT'' exception_of None"

definition rc_get_task :: "'s client_lib \<Rightarrow> rest_client \<Rightarrow> (pyval \<Rightarrow> 'a result) \<Rightarrow> string \<Rightarrow> 's \<Rightarrow> 'a client_result \<times> 's" where
  "rc_get_task L rc decode task_id = get_request L rc (''/tasks/'' @ task_id) decode"

definition rc_get_all_tasks :: "'s client_lib \<Rightarrow> rest_client \<Rightarrow> (pyval \<Rightarrow> 'a result) \<Rightarrow> 's \<Rightarrow> 'a client_result \<times> 's" where
  "rc_get_all_tasks L rc = get_request L rc ''/tasks''"

definition rc_get_active_task :: "'s client_lib \<Rightarrow> rest_client \<Rightarrow> (pyval \<Rightarrow> 'a result) \<Rightarrow> 's \<Rightarrow> 'a client_result \<times> 's" where
  "rc_get_active_task L rc = get_request L rc ''/worker/task''"

text \<open>
  The dump of a request: values, lists, and objects that pydantic passes to \<open>task_model_fallback\<close>; a
  device reference is written as its name, any other object raises before anything is sent.
\<close>

datatype py_object = DeviceObject string | OtherObject string

datatype plan_argument = JsonArg pyval | ListArg "plan_argument list" | ObjectArg py_object

fun task_model_fallback :: "py_object \<Rightarrow> pyval result" where
  "task_model_fallback (DeviceObject name) = Inr (PStr name)"
| "task_model_fallback (OtherObject type) =
     Inl (ForeignError ''PydanticSerializationError'' (''Object of type '' @ type @ '' not serializable''))"

fun dump_argument :: "plan_argument \<Rightarrow> pyval result" and dump_arguments :: "plan_argument list \<Rightarrow> pyval list result" where
  "dump_argument (JsonArg v) = Inr v"
| "dump_argument (ObjectArg obj) = task_model_fallback obj"
| "dump_argument (ListArg args) = bind_r (dump_arguments args) (\<lambda>vs. Inr (PList vs))"
| "dump_arguments [] = Inr []"
| "dump_arguments (a # args) = bind_r (dump_argument a) (\<lambda>v. bind_r (dump_arguments args) (\<lambda>vs. Inr (v # vs)))"

record client_request =
  cr_name :: string
  cr_params :: "(string \<times> plan_argument) list"
  cr_session :: string

definition dump_request :: "client_request \<Rightarrow> pyval result" where
  "dump_request rq =
     bind_r (mapM_r (\<lambda>(k, a). bind_r (dump_argument a) (\<lambda>v. Inr (k, v))) (cr_params rq)) (\<lambda>params.
       Inr (PDict [(''name'', PStr (cr_name rq)), (''params'', PDict params), (''instrument_session'', PStr (cr_session rq))]))"

definition rc_create_task :: "'s client_lib \<Rightarrow> rest_client \<Rightarrow> (pyval \<Rightarrow> 'a result) \<Rightarrow> client_request \<Rightarrow> 's \<Rightarrow>
    'a client_result \<times> 's" where
  "rc_create_task L rc decode rq s =
     (case dump_request rq of
        Inl e \<Rightarrow> (Inl (PyError e), s)
      | Inr dumped \<Rightarrow>
          request_and_deserialize L rc ''/tasks'' decode (Some dumped) ''POST''
            (create_task_exceptions (cl_validate_errors L)) None s)"

definition rc_clear_task :: "'s client_lib \<Rightarrow> rest_client \<Rightarrow> (pyval \<Rightarrow> 'a result) \<Rightarrow> string \<Rightarrow> 's \<Rightarrow> 'a client_result \<times> 's" where
  "rc_clear_task L rc decode task_id =
     request_and_deserialize L rc (''/tasks/'' @ task_id) decode None ''DELETE'' exception_of None"

definition rc_update_worker_task :: "'s client_lib \<Rightarrow> rest_client \<Rightarrow> (pyval \<Rightarrow> 'a result) \<Rightarrow> string option \<Rightarrow> 's \<Rightarrow>
    'a client_result \<times> 's" where
  "rc_update_worker_task L rc decode task_id =
     request_and_deserialize L rc ''/worker/task'' decode
       (Some (PDict [(''task_id'', case task_id of None \<Rightarrow> PNone | Some t \<Rightarrow> PStr t)])) ''PUT'' exception_of None"

definition rc_cancel_current_task :: "'s client_lib \<Rightarrow> rest_client \<Rightarrow> (pyval \<Rightarrow> 'a result) \<Rightarrow> worker_state \<Rightarrow>
    string option \<Rightarrow> 's \<Rightarrow> 'a client_result \<times> 's" where
  "rc_cancel_current_task L rc decode state reason =
     request_and_deserialize L rc ''/worker/state'' decode
       (Some (PDict [(''new_state'', PStr (state_value state)), (''reason'', case reason of None \<Rightarrow> PNone | Some t \<Rightarrow> PStr t)]))
       ''PUT'' exception_of None"

definition rc_get_environment :: "'s client_lib \<Rightarrow> rest_client \<Rightarrow> (pyval \<Rightarrow> 'a result) \<Rightarrow> 's \<Rightarrow> 'a client_result \<times> 's" where
  "rc_get_environment L rc = get_request L rc ''/environment''"

definition rc_delete_environment :: "'s client_lib \<Rightarrow> rest_client \<Rightarrow> (pyval \<Rightarrow> 'a result) \<Rightarrow> 's \<Rightarrow> 'a client_result \<times> 's" where
  "rc_delete_environment L rc decode =
     request_and_deserialize L rc ''/environment'' decode None ''DELETE'' exception_of None"

definition rc_get_oidc_config :: "'s client_lib \<Rightarrow> rest_client \<Rightarrow> (pyval \<Rightarrow> 'a result) \<Rightarrow> 's \<Rightarrow> 'a option client_result \<times> 's" where
  "rc_get_oidc_config L rc decode s =
     (case get_request L rc ''/config/oidc'' decode s of
        (Inl NoContentError, s') \<Rightarrow> (Inr None, s')
      | (Inl e, s') \<Rightarrow> (Inl e, s')
      | (Inr c, s') \<Rightarrow> (Inr (Some c), s'))"

definition rc_get_python_environment :: "'s client_lib \<Rightarrow> rest_client \<Rightarrow> (pyval \<Rightarrow> 'a result) \<Rightarrow> string option \<Rightarrow>
    string option \<Rightarrow> 's \<Rightarrow> 'a client_result \<times> 's" where
  "rc_get_python_environment L rc decode name origin =
     request_and_deserialize L rc ''/python_environment'' decode None ''GET'' exception_of
       (Some [(''name'', case name of None \<Rightarrow> PNone | Some n \<Rightarrow> PStr n), (''source'', case origin of None \<Rightarrow> PNone | Some n \<Rightarrow> PStr n)])"

subsection \<open>Running a plan over the websocket\<close>

text \<open>
  How connecting ends, with the messages that arrive (decoded, or the error of decoding) and how the
  connection closes: \<open>None\<close> normally.
\<close>

datatype ws_connect =
    WsConnectionRefused
  | WsInvalidStatus nat
  | WsConnectFailed exn
  | WsConnected "ws_message result list" "exn option"

fun ws_error :: "ws_message \<Rightarrow> client_exn option" where
  "ws_error (Update ev) = None"
| "ws_error (InvalidArgs errs) = Some (invalid_parameters errs)"
| "ws_error (PlanNotFound name) = Some (UnknownPlanError None name)"
| "ws_error ServerBusy = Some (BlueskyRemoteControlError [PInt 409, PStr ''Server is busy''])"
| "ws_error Unauthorized = Some (UnauthorisedAccessError (Some 403) ''Not authorized to submit task'')"

fun update_event :: "ws_message \<Rightarrow> event option" where
  "update_event (Update ev) = Some ev"
| "update_event _ = None"

text \<open>The events that are yielded and the exception, if any, that ends the generator.\<close>

fun receive_events :: "ws_message result list \<Rightarrow> exn option \<Rightarrow> event list \<times> client_exn option" where
  "receive_events [] closing = ([], map_option PyError closing)"
| "receive_events (Inl e # msgs) closing = ([], Some (PyError e))"
| "receive_events (Inr m # msgs) closing =
     (case update_event m of
        None \<Rightarrow> ([], ws_error m)
      | Some ev \<Rightarrow> (let (evs, ending) = receive_events msgs closing in (ev # evs, ending)))"

definition websocket_events :: "ws_connect \<Rightarrow> event list \<times> client_exn option" where
  "websocket_events c =
     (case c of
        WsConnectionRefused \<Rightarrow> ([], Some ServiceUnavailableError)
      | WsInvalidStatus code \<Rightarrow>
          ([], Some (if code = 401 \<or> code = 403 then UnauthorisedAccessError None [] else BlueskyRemoteControlError []))
      | WsConnectFailed e \<Rightarrow> ([], Some (PyError e))
      | WsConnected msgs closing \<Rightarrow> receive_events msgs closing)"

text \<open>
  \<open>run_blocking\<close>: \<open>connect\<close> is the websocket to the address with the headers and the request. A session
  adds the header even when its token is empty.
\<close>

definition rc_run_blocking :: "'s client_lib \<Rightarrow> (string \<Rightarrow> (string \<times> string) list \<Rightarrow> client_request \<Rightarrow> 's \<Rightarrow> ws_connect \<times> 's) \<Rightarrow>
    rest_client \<Rightarrow> client_request \<Rightarrow> 's \<Rightarrow> (event list \<times> client_exn option) \<times> 's" where
  "rc_run_blocking L connect rc rq s =
     (case ws_address (rc_config rc) of
        Inl e \<Rightarrow> (([], Some (PyError e)), s)
      | Inr address \<Rightarrow>
          (let url = rstrip (\<lambda>c. c = CHR ''/'') (cl_unicode_string L address) @ ''/api/v2/run_plan'' in
           case (case rc_session_manager rc of
               None \<Rightarrow> (Inr (cl_trace_headers L), s)
             | Some cfg \<Rightarrow>
                 (case get_valid_access_token (cl_oidc L) (cl_cache L) cfg s of
                    (Inl e, s') \<Rightarrow> (Inl e, s')
                  | (Inr auth, s') \<Rightarrow> (Inr (dict_set ''Authorization'' (''Bearer '' @ auth) (cl_trace_headers L)), s'))) of
             (Inl e, s') \<Rightarrow> (([], Some (PyError e)), s')
           | (Inr headers, s') \<Rightarrow> (let (c, s'') = connect url headers rq s' in (websocket_events c, s''))))"

end
