(* ===== verification/Client.thy ===== *)
theory Client
  imports RestClient
begin

section \<open>Plans and devices of the Python client (client/client.py)\<close>

text \<open>
  Plans as callables, with the binding of their arguments, and the caches of plans and devices. A fetch of
  a device acts on the state \<open>'s\<close>, which is what the REST client reaches.
\<close>

subsection \<open>Plans as callables\<close>

text \<open>The names of the parameters in the JSON schema of a plan, in order, and the required ones.\<close>

definition plan_properties :: "plan_info \<Rightarrow> string list" where
  "plan_properties m = (case map_of (pi_schema m) ''properties'' of Some (PDict d) \<Rightarrow> dict_keys d | _ \<Rightarrow> [])"

fun string_items :: "pyval list \<Rightarrow> string list" where
  "string_items [] = []"
| "string_items (PStr s # vs) = s # string_items vs"
| "string_items (_ # vs) = string_items vs"

definition required_properties :: "plan_info \<Rightarrow> string list" where
  "required_properties m = (case map_of (pi_schema m) ''required'' of Some (PList vs) \<Rightarrow> string_items vs | _ \<Rightarrow> [])"

definition help_text :: "plan_info \<Rightarrow> string \<Rightarrow> string" where
  "help_text m plan_repr = or_str (pi_description m) (''Plan '' @ plan_repr)"

definition plan_repr :: "plan_info \<Rightarrow> string" where
  "plan_repr m =
     (let opts = filter (\<lambda>p. p \<notin> set (required_properties m)) (plan_properties m)
      in pi_name m @ ''('' @ join '', '' (required_properties m @ map (\<lambda>opt. opt @ ''=None'') opts) @ '')'')"

text \<open>The keyword arguments, one after the other, unless positional arguments already gave the value.\<close>

fun add_keywords :: "string \<Rightarrow> (string \<times> 'a) list \<Rightarrow> (string \<times> 'a) list \<Rightarrow> (string \<times> 'a) list result" where
  "add_keywords owner [] params = Inr params"
| "add_keywords owner ((key, value) # kwargs) params =
     (if key \<in> fst ` set params then Inl (TypeError (owner @ '' got multiple values for '' @ key))
      else add_keywords owner kwargs (dict_set key value params))"

text \<open>\<open>show_set\<close> is the text of a set of names.\<close>

definition build_args :: "(string set \<Rightarrow> string) \<Rightarrow> plan_info \<Rightarrow> 'a list \<Rightarrow> (string \<times> 'a) list \<Rightarrow>
    (string \<times> 'a) list result" where
  "build_args show_set m args kwargs =
     (let extra = {k \<in> set (map fst kwargs). k \<notin> set (plan_properties m)} in
      if length (plan_properties m) < length args then Inl (TypeError (pi_name m @ '' got too many arguments''))
      else if extra \<noteq> {} then Inl (TypeError (pi_name m @ '' got unexpected arguments: '' @ show_set extra))
      else
        bind_r (add_keywords (pi_name m) kwargs (zip (plan_properties m) args)) (\<lambda>params.
          (let missing = {k \<in> set (required_properties m). k \<notin> fst ` set params} in
           if missing \<noteq> {} then Inl (TypeError (''Missing argument(s) for '' @ show_set missing)) else Inr params)))"

subsection \<open>Caches\<close>

text \<open>
  The cache of plans and the attributes set on it; names with an underscore are only in the cache.
\<close>

record plan_cache =
  pc_cache :: "(string \<times> plan_info) list"
  pc_attributes :: "(string \<times> plan_info) list"

definition is_public :: "string \<Rightarrow> bool" where
  "is_public name \<longleftrightarrow> \<not> starts_with ''_'' name"

definition new_plan_cache :: "plan_info list \<Rightarrow> plan_cache" where
  "new_plan_cache plans =
     (let cache = dict_comp pi_name (\<lambda>m. m) plans
      in \<lparr>pc_cache = cache, pc_attributes = filter (\<lambda>(name, _). is_public name) cache\<rparr>)"

definition plan_item :: "plan_cache \<Rightarrow> string \<Rightarrow> plan_info result" where
  "plan_item c name = (case map_of (pc_cache c) name of None \<Rightarrow> Inl (KeyError name) | Some p \<Rightarrow> Inr p)"

definition plan_attribute :: "plan_cache \<Rightarrow> string \<Rightarrow> plan_info result" where
  "plan_attribute c name =
     (case map_of (pc_attributes c) name of
        Some p \<Rightarrow> Inr p
      | None \<Rightarrow> Inl (AttributeError (''No plan named '' @ [quote_char] @ name @ [quote_char] @ '' available'')))"

text \<open>
  The devices: a reference is a name with its model. A name that is not cached is asked for at the
  server, remembered under the name and set as an attribute under the name of the model.
\<close>

record device_ref =
  dr_name :: string
  dr_model :: device_info

record device_cache =
  dc_cache :: "(string \<times> device_ref) list"
  dc_attributes :: "(string \<times> device_ref) list"

definition new_device_cache :: "device_info list \<Rightarrow> device_cache" where
  "new_device_cache models =
     (let cache = dict_comp di_name (\<lambda>m. \<lparr>dr_name = di_name m, dr_model = m\<rparr>) models
      in \<lparr>dc_cache = cache, dc_attributes = filter (\<lambda>(name, _). is_public name) cache\<rparr>)"

fun not_found :: "client_exn \<Rightarrow> bool" where
  "not_found (NotFoundError _ _) = True"
| "not_found _ = False"

definition device_item :: "(string \<Rightarrow> 's \<Rightarrow> device_info client_result \<times> 's) \<Rightarrow> string \<Rightarrow> device_cache \<Rightarrow> 's \<Rightarrow>
    device_ref client_result \<times> device_cache \<times> 's" where
  "device_item fetch name c s =
     (case map_of (dc_cache c) name of
        Some dev \<Rightarrow> (Inr dev, c, s)
      | None \<Rightarrow>
          (case fetch name s of
             (Inr model, s') \<Rightarrow>
               (let device = \<lparr>dr_name = name, dr_model = model\<rparr> in
                (Inr device, c\<lparr>dc_cache := dict_set name device (dc_cache c),
                   dc_attributes := dict_set (di_name model) device (dc_attributes c)\<rparr>, s'))
           | (Inl e, s') \<Rightarrow>
               (Inl (if not_found e
                     then PyError (AttributeError (''No device named '' @ [quote_char] @ name @ [quote_char] @ '' available''))
                     else e), c, s')))"

definition device_attribute :: "(string \<Rightarrow> 's \<Rightarrow> device_info client_result \<times> 's) \<Rightarrow> string \<Rightarrow> device_cache \<Rightarrow> 's \<Rightarrow>
    device_ref client_result \<times> device_cache \<times> 's" where
  "device_attribute fetch name c s =
     (case map_of (dc_attributes c) name of
        Some dev \<Rightarrow> (Inr dev, c, s)
      | None \<Rightarrow> if is_public name then device_item fetch name c s
               else (Inl (PyError (AttributeError (''object has no attribute '' @ py_repr name))), c, s))"

text \<open>An attribute of a device reference is the device of the dotted name.\<close>

definition child_device :: "(string \<Rightarrow> 's \<Rightarrow> device_info client_result \<times> 's) \<Rightarrow> device_ref \<Rightarrow> string \<Rightarrow> device_cache \<Rightarrow> 's \<Rightarrow>
    device_ref client_result \<times> device_cache \<times> 's" where
  "child_device fetch d name c s =
     (if is_public name then device_item fetch (dr_name d @ ''.'' @ name) c s
      else (Inl (PyError (AttributeError (''No child device named '' @ name))), c, s))"

end
