(* ===== verification/ClientRun.thy ===== *)
theory ClientRun
  imports Client
begin

section \<open>Running tasks with the Python client (client/client.py, client/event_bus.py)\<close>

text \<open>
  \<open>BlueapiClient\<close>: its callbacks, the runs of tasks over the websocket and over the message bus, the
  reload of the environment, login and logout. The message bus (bluesky-stomp) is a parameter.
\<close>

subsection \<open>The client\<close>

type_synonym 'u on_event = "event \<Rightarrow> 'u \<Rightarrow> unit result \<times> 'u"

record 'u blueapi_client =
  bc_rest :: rest_client
  bc_events :: "string list option"      \<comment> \<open>the subscription ids of the event bus client\<close>
  bc_session :: "string option"
  bc_callbacks :: "(nat \<times> 'u on_event) list"
  bc_callback_id :: nat
  bc_plans :: "plan_cache option"
  bc_devices :: "device_cache option"

definition new_client :: "rest_client \<Rightarrow> string list option \<Rightarrow> 'u blueapi_client" where
  "new_client rest events = \<lparr>bc_rest = rest, bc_events = events, bc_session = None, bc_callbacks = [],
     bc_callback_id = 0, bc_plans = None, bc_devices = None\<rparr>"

text \<open>\<open>from_config\<close>: a cache that gives no session is ignored; STOMP needs a host and a port.\<close>

definition client_from_config :: "'s cache_ops \<Rightarrow> app_config \<Rightarrow> 's \<Rightarrow> 'u blueapi_client client_result \<times> 's" where
  "client_from_config ops config s =
     (let (session, s') = session_from_cache ops s;
          rest = \<lparr>rc_config = cfg_api config,
                  rc_session_manager = (case session of Inl _ \<Rightarrow> None | Inr cfg \<Rightarrow> Some cfg)\<rparr>
      in if stomp_enabled (cfg_stomp config) then
           (if url_host (stomp_url (cfg_stomp config)) = None then Inl (PyError (AssertionError ''Stomp URL missing host''))
            else if url_port (stomp_url (cfg_stomp config)) = None then Inl (PyError (AssertionError ''Stomp URL missing port''))
            else Inr (new_client rest (Some [])), s')
         else (Inr (new_client rest None), s'))"

definition client_session :: "'u blueapi_client \<Rightarrow> string client_result" where
  "client_session c = (case bc_session c of None \<Rightarrow> Inl MissingInstrumentSessionError | Some v \<Rightarrow> Inr v)"

definition with_instrument_session :: "string \<Rightarrow> 'u blueapi_client \<Rightarrow> 'u blueapi_client" where
  "with_instrument_session v c = c\<lparr>bc_session := Some v\<rparr>"

definition add_callback :: "'u on_event \<Rightarrow> 'u blueapi_client \<Rightarrow> nat \<times> 'u blueapi_client" where
  "add_callback callback c =
     (let cb_id = bc_callback_id c
      in (cb_id, c\<lparr>bc_callback_id := Suc cb_id, bc_callbacks := dict_set cb_id callback (bc_callbacks c)\<rparr>))"

definition remove_callback :: "nat \<Rightarrow> 'u blueapi_client \<Rightarrow> unit result \<times> 'u blueapi_client" where
  "remove_callback cb_id c =
     (case map_of (bc_callbacks c) cb_id of
        None \<Rightarrow> (Inl (KeyError (show_nat cb_id)), c)
      | Some _ \<Rightarrow> (Inr (), c\<lparr>bc_callbacks := dict_del cb_id (bc_callbacks c)\<rparr>))"

text \<open>The cached properties \<open>plans\<close> and \<open>devices\<close>.\<close>

definition client_plans :: "('s \<Rightarrow> plan_info list client_result \<times> 's) \<Rightarrow> 'u blueapi_client \<Rightarrow> 's \<Rightarrow>
    plan_cache client_result \<times> 'u blueapi_client \<times> 's" where
  "client_plans fetch c s =
     (case bc_plans c of
        Some p \<Rightarrow> (Inr p, c, s)
      | None \<Rightarrow>
          (case fetch s of
             (Inl e, s') \<Rightarrow> (Inl e, c, s')
           | (Inr ps, s') \<Rightarrow> (Inr (new_plan_cache ps), c\<lparr>bc_plans := Some (new_plan_cache ps)\<rparr>, s')))"

definition client_devices :: "('s \<Rightarrow> device_info list client_result \<times> 's) \<Rightarrow> 'u blueapi_client \<Rightarrow> 's \<Rightarrow>
    device_cache client_result \<times> 'u blueapi_client \<times> 's" where
  "client_devices fetch c s =
     (case bc_devices c of
        Some d \<Rightarrow> (Inr d, c, s)
      | None \<Rightarrow>
          (case fetch s of
             (Inl e, s') \<Rightarrow> (Inl e, c, s')
           | (Inr ds, s') \<Rightarrow> (Inr (new_device_cache ds), c\<lparr>bc_devices := Some (new_device_cache ds)\<rparr>, s')))"

text \<open>The requests to the worker.\<close>

definition client_pause :: "'s client_lib \<Rightarrow> (pyval \<Rightarrow> 'a result) \<Rightarrow> bool \<Rightarrow> 'u blueapi_client \<Rightarrow> 's \<Rightarrow> 'a client_result \<times> 's" where
  "client_pause L decode defer_pause c = rc_set_state L (bc_rest c) decode PAUSED defer_pause"

definition client_resume :: "'s client_lib \<Rightarrow> (pyval \<Rightarrow> 'a result) \<Rightarrow> 'u blueapi_client \<Rightarrow> 's \<Rightarrow> 'a client_result \<times> 's" where
  "client_resume L decode c = rc_set_state L (bc_rest c) decode RUNNING False"

definition client_abort :: "'s client_lib \<Rightarrow> (pyval \<Rightarrow> 'a result) \<Rightarrow> string option \<Rightarrow> 'u blueapi_client \<Rightarrow> 's \<Rightarrow> 'a client_result \<times> 's" where
  "client_abort L decode reason c = rc_cancel_current_task L (bc_rest c) decode ABORTING reason"

definition client_stop :: "'s client_lib \<Rightarrow> (pyval \<Rightarrow> 'a result) \<Rightarrow> 'u blueapi_client \<Rightarrow> 's \<Rightarrow> 'a client_result \<times> 's" where
  "client_stop L decode c = rc_cancel_current_task L (bc_rest c) decode STOPPING None"

definition client_get_task :: "'s client_lib \<Rightarrow> (pyval \<Rightarrow> 'a result) \<Rightarrow> string \<Rightarrow> 'u blueapi_client \<Rightarrow> 's \<Rightarrow> 'a client_result \<times> 's" where
  "client_get_task L decode task_id c s =
     (if task_id = [] then (Inl (PyError (AssertionError ''Task ID not provided!'')), s)
      else rc_get_task L (bc_rest c) decode task_id s)"

subsection \<open>Runs over the websocket\<close>

text \<open>Callbacks are called in the order they were added; what they raise is logged.\<close>

fun call_all :: "'u on_event list \<Rightarrow> event \<Rightarrow> 'u \<Rightarrow> 'u" where
  "call_all [] event u = u"
| "call_all (cb # cbs) event u = call_all cbs event (snd (cb event u))"

definition call_on_event :: "'u on_event option \<Rightarrow> event \<Rightarrow> 'u \<Rightarrow> unit result \<times> 'u" where
  "call_on_event on_event event u = (case on_event of None \<Rightarrow> (Inr (), u) | Some f \<Rightarrow> f event u)"

definition event_status :: "event \<Rightarrow> task_status option" where
  "event_status ev = (case ev of WEvent e \<Rightarrow> we_task_status e | _ \<Rightarrow> None)"

fun follow_events :: "'u on_event list \<Rightarrow> 'u on_event option \<Rightarrow> event list \<Rightarrow> client_exn option \<Rightarrow> 'u \<Rightarrow>
    task_status client_result \<times> 'u" where
  "follow_events callbacks on_event [] ending u =
     (Inl (case ending of Some e \<Rightarrow> e
           | None \<Rightarrow> BlueskyRemoteControlError [PStr ''Connection closed before plan completed.'']), u)"
| "follow_events callbacks on_event (event # events) ending u =
     (case call_on_event on_event event u of
        (Inl e, u') \<Rightarrow> (Inl (PyError e), u')
      | (Inr _, u') \<Rightarrow>
          (let u'' = call_all callbacks event u' in
           if completes event
           then (case event_status event of
                   None \<Rightarrow> Inl (BlueskyRemoteControlError [PStr ''Server completed without task status''])
                 | Some st \<Rightarrow> Inr st, u'')
           else follow_events callbacks on_event events ending u''))"

definition client_run_blocking :: "'s client_lib \<Rightarrow>
    (string \<Rightarrow> (string \<times> string) list \<Rightarrow> client_request \<Rightarrow> 's \<Rightarrow> ws_connect \<times> 's) \<Rightarrow>
    client_request \<Rightarrow> 'u on_event option \<Rightarrow> 'u blueapi_client \<Rightarrow> 's \<times> 'u \<Rightarrow> task_status client_result \<times> 's \<times> 'u" where
  "client_run_blocking L connect request on_event c = (\<lambda>(s, u).
     let ((events, ending), s') = rc_run_blocking L connect (bc_rest c) request s;
         (res, u') = follow_events (dict_values (bc_callbacks c)) on_event events ending u
     in (res, s', u'))"

subsection \<open>Runs over the message bus\<close>

record 's stomp_ops =
  st_connect :: "'s \<Rightarrow> unit result \<times> 's"
  st_disconnect :: "'s \<Rightarrow> unit result \<times> 's"
  st_subscribe :: "string \<Rightarrow> 's \<Rightarrow> string result \<times> 's"
  st_unsubscribe :: "string \<Rightarrow> 's \<Rightarrow> unit result \<times> 's"

definition subscribe_to_all_events :: "'s stomp_ops \<Rightarrow> string list \<Rightarrow> 's \<Rightarrow> string list client_result \<times> 's" where
  "subscribe_to_all_events B ids s =
     (case st_subscribe B ''public.worker.event'' s of
        (Inl e, s') \<Rightarrow> (Inl (BlueskyStreamingError ''Unable to subscribe to messages from blueapi''), s')
      | (Inr i, s') \<Rightarrow> (Inr (ids @ [i]), s'))"

text \<open>\<open>__exit__\<close>: the last subscription goes first; the ids that are left after an error stay.\<close>

function bus_exit :: "'s stomp_ops \<Rightarrow> string list \<Rightarrow> 's \<Rightarrow> (unit result \<times> string list) \<times> 's" where
  "bus_exit B ids s =
     (if ids = [] then (let (res, s') = st_disconnect B s in ((res, []), s'))
      else
        (case st_unsubscribe B (last ids) s of
           (Inl e, s') \<Rightarrow> ((Inl e, butlast ids), s')
         | (Inr _, s') \<Rightarrow> bus_exit B (butlast ids) s'))"
  by pat_completeness auto
termination by (relation "measure (\<lambda>(B, ids, s). length ids)") auto

declare bus_exit.simps [simp del]

text \<open>
  The listener of a run: \<open>fut\<close> is the result of the future once it is set, which can happen once.
\<close>

type_synonym future = "task_status client_result option"

definition relates_to_task :: "string \<Rightarrow> event \<Rightarrow> bool" where
  "relates_to_task task_id event =
     (case event of
        WEvent e \<Rightarrow> (case we_task_status e of None \<Rightarrow> False | Some st \<Rightarrow> ts_task_id st = task_id)
      | PEvent e \<Rightarrow> pe_task_id e = task_id
      | DEvent _ \<Rightarrow> True)"

definition set_future :: "task_status client_result \<Rightarrow> future \<Rightarrow> unit client_result \<times> future" where
  "set_future v fut = (case fut of None \<Rightarrow> (Inr (), Some v) | Some _ \<Rightarrow> (Inl InvalidStateError, fut))"

definition inner_on_event :: "string \<Rightarrow> 'u on_event list \<Rightarrow> 'u on_event option \<Rightarrow> event \<times> string option \<Rightarrow>
    future \<times> 'u \<Rightarrow> unit client_result \<times> future \<times> 'u" where
  "inner_on_event task_id callbacks on_event = (\<lambda>(event, correlation_id) (fut, u).
     if relates_to_task task_id event then
       (case call_on_event on_event event u of
          (Inl e, u') \<Rightarrow> (Inl (PyError e), fut, u')
        | (Inr _, u') \<Rightarrow>
            (let u'' = call_all callbacks event u' in
             if completes event \<and> correlation_id = Some task_id then
               (let (res, fut') = set_future (case event_status event of
                    None \<Rightarrow> Inl (BlueskyRemoteControlError [PStr ''Server completed without task status''])
                  | Some st \<Rightarrow> Inr st) fut
                in (res, fut', u''))
             else (Inr (), fut, u'')))
     else (Inr (), fut, u))"

text \<open>
  What the bus hands to the listener, message by message; what the listener raises concerns only its
  message.
\<close>

definition hand_over :: "string \<Rightarrow> 'u on_event list \<Rightarrow> 'u on_event option \<Rightarrow> (event \<times> string option) list \<Rightarrow>
    future \<times> 'u \<Rightarrow> future \<times> 'u" where
  "hand_over task_id callbacks on_event msgs = fold (\<lambda>m st. snd (inner_on_event task_id callbacks on_event m st)) msgs"

text \<open>
  \<open>run_task\<close>: \<open>msgs\<close> are the messages that arrive while it waits and \<open>timed_out\<close> whether the time is up
  after them. \<open>None\<close>: still waiting. Leaving the bus can replace the result by what it raises.
\<close>

definition leave_bus :: "'s stomp_ops \<Rightarrow> string list \<Rightarrow> 'a client_result \<Rightarrow> 's \<Rightarrow> ('a client_result \<times> string list) \<times> 's" where
  "leave_bus B ids res s =
     (case bus_exit B ids s of
        ((Inl e, ids'), s') \<Rightarrow> ((Inl (PyError e), ids'), s')
      | ((Inr _, ids'), s') \<Rightarrow> ((res, ids'), s'))"

definition await_future :: "future \<Rightarrow> bool \<Rightarrow> task_status client_result option" where
  "await_future fut timed_out =
     (case fut of Some r \<Rightarrow> Some r | None \<Rightarrow> if timed_out then Some (Inl (PyError (TimeoutError []))) else None)"

definition start_and_wait :: "'s client_lib \<Rightarrow> (pyval \<Rightarrow> 'a result) \<Rightarrow> rest_client \<Rightarrow> string \<Rightarrow> 'u on_event list \<Rightarrow>
    'u on_event option \<Rightarrow> (event \<times> string option) list \<Rightarrow> bool \<Rightarrow> 's \<times> 'u \<Rightarrow>
    task_status client_result option \<times> 's \<times> 'u" where
  "start_and_wait L decode_worker rc task_id callbacks on_event msgs timed_out = (\<lambda>(s, u).
     case rc_update_worker_task L rc decode_worker (Some task_id) s of
       (Inl e, s') \<Rightarrow> (Some (Inl e), s', u)
     | (Inr _, s') \<Rightarrow>
         (let (fut, u') = hand_over task_id callbacks on_event msgs (None, u)
          in (await_future fut timed_out, s', u')))"

definition client_run_task :: "'s client_lib \<Rightarrow> 's stomp_ops \<Rightarrow> (pyval \<Rightarrow> string result) \<Rightarrow> (pyval \<Rightarrow> 'a result) \<Rightarrow>
    client_request \<Rightarrow> 'u on_event option \<Rightarrow> (event \<times> string option) list \<Rightarrow> bool \<Rightarrow> 'u blueapi_client \<Rightarrow> 's \<times> 'u \<Rightarrow>
    task_status client_result option \<times> 'u blueapi_client \<times> 's \<times> 'u" where
  "client_run_task L B decode_task decode_worker rq on_event msgs timed_out c = (\<lambda>(s, u).
     case bc_events c of
       None \<Rightarrow> (Some (Inl (MissingStompConfigurationError
                 ''Stomp configuration required to run plans is missing or disabled'')), c, s, u)
     | Some ids \<Rightarrow>
         (case rc_create_task L (bc_rest c) decode_task rq s of
            (Inl e, s1) \<Rightarrow> (Some (Inl e), c, s1, u)
          | (Inr task_id, s1) \<Rightarrow>
              (case st_connect B s1 of
                 (Inl e, s2) \<Rightarrow> (Some (Inl (PyError e)), c, s2, u)
               | (Inr _, s2) \<Rightarrow>
                   (case subscribe_to_all_events B ids s2 of
                      (Inl e, s3) \<Rightarrow>
                        (let ((res, ids'), s4) = leave_bus B ids (Inl e) s3 in (Some res, c\<lparr>bc_events := Some ids'\<rparr>, s4, u))
                    | (Inr ids', s3) \<Rightarrow>
                        (case start_and_wait L decode_worker (bc_rest c) task_id (dict_values (bc_callbacks c)) on_event
                            msgs timed_out (s3, u) of
                           (None, s4, u') \<Rightarrow> (None, c\<lparr>bc_events := Some ids'\<rparr>, s4, u')
                         | (Some outcome, s4, u') \<Rightarrow>
                             (let ((res, ids''), s5) = leave_bus B ids' outcome s4
                              in (Some res, c\<lparr>bc_events := Some ids''\<rparr>, s5, u')))))))"

text \<open>
  A call of a plan: the arguments, then the session, then the run. A task without a result returns
  nothing.
\<close>

definition plan_call :: "(string set \<Rightarrow> string) \<Rightarrow> plan_info \<Rightarrow> plan_argument list \<Rightarrow> (string \<times> plan_argument) list \<Rightarrow>
    'u blueapi_client \<Rightarrow> (client_request \<Rightarrow> 's \<times> 'u \<Rightarrow> task_status client_result option \<times> 'u blueapi_client \<times> 's \<times> 'u) \<Rightarrow>
    's \<times> 'u \<Rightarrow> pyval option client_result option \<times> 'u blueapi_client \<times> 's \<times> 'u" where
  "plan_call show_set m args kwargs c run st =
     (case bind_c (raised (build_args show_set m args kwargs)) (\<lambda>params.
           bind_c (client_session c) (\<lambda>v. Inr \<lparr>cr_name = pi_name m, cr_params = params, cr_session = v\<rparr>)) of
        Inl e \<Rightarrow> (Some (Inl e), c, st)
      | Inr rq \<Rightarrow>
          (let (outcome, c', st') = run rq st in
           (map_option (\<lambda>r. bind_c r (\<lambda>status.
              case ts_result status of
                Some (TaskResult res _) \<Rightarrow> Inr (Some res)
              | Some (TaskError typ msg) \<Rightarrow> Inl (PlanFailedError typ msg)
              | None \<Rightarrow> Inr None)) outcome, c', st')))"

definition create_and_start_task :: "'s client_lib \<Rightarrow> (pyval \<Rightarrow> string result) \<Rightarrow> (pyval \<Rightarrow> string option result) \<Rightarrow>
    client_request \<Rightarrow> 'u blueapi_client \<Rightarrow> 's \<Rightarrow> string client_result \<times> 's" where
  "create_and_start_task L decode_task decode_worker rq c s =
     (case rc_create_task L (bc_rest c) decode_task rq s of
        (Inl e, s1) \<Rightarrow> (Inl e, s1)
      | (Inr task_id, s1) \<Rightarrow>
          (case rc_update_worker_task L (bc_rest c) decode_worker (Some task_id) s1 of
             (Inl e, s2) \<Rightarrow> (Inl e, s2)
           | (Inr started, s2) \<Rightarrow>
               (if started = Some task_id then Inr task_id
                else Inl (BlueskyRemoteControlError [PStr (''Tried to create and start task '' @ task_id @ '' but '' @
                       (case started of None \<Rightarrow> ''None'' | Some t \<Rightarrow> t) @ '' was started instead'')]), s2)))"

subsection \<open>Reloading the environment\<close>

text \<open>
  The polling loop over its rounds: the time the loop condition reads, and what happens elsewhere
  before the request of the round is answered. \<open>None\<close>: still polling.
\<close>

fun wait_for_reload :: "('s \<Rightarrow> env_state client_result \<times> 's) \<Rightarrow> rat option \<Rightarrow> string \<Rightarrow> string \<Rightarrow>
    (rat \<times> ('s \<Rightarrow> 's)) list \<Rightarrow> 's \<Rightarrow> (env_state client_result \<times> 's) option" where
  "wait_for_reload get too_late timeout_text previous [] s = None"
| "wait_for_reload get too_late timeout_text previous ((now, meanwhile) # rounds) s =
     (if (case too_late of None \<Rightarrow> True | Some t \<Rightarrow> now < t) then
        (case get (meanwhile s) of
           (Inl e, s') \<Rightarrow> Some (Inl e, s')
         | (Inr status, s') \<Rightarrow>
             (case es_error_message status of
                Some m \<Rightarrow> Some (Inl (BlueskyRemoteControlError [PStr (''Error reloading environment: '' @ m)]), s')
              | None \<Rightarrow>
                  if es_initialized status \<and> es_environment_id status \<noteq> previous then Some (Inr status, s')
                  else wait_for_reload get too_late timeout_text previous rounds s'))
      else Some (Inl (PyError (TimeoutError (''Failed to reload the environment within '' @ timeout_text @
             '' seconds, a server restart is recommended''))), s))"

text \<open>\<open>begun\<close> is the time after the request to delete the environment.\<close>

definition reload_environment :: "('s \<Rightarrow> env_state client_result \<times> 's) \<Rightarrow> ('s \<Rightarrow> env_state client_result \<times> 's) \<Rightarrow>
    rat option \<Rightarrow> string \<Rightarrow> rat \<Rightarrow> (rat \<times> ('s \<Rightarrow> 's)) list \<Rightarrow> 'u blueapi_client \<Rightarrow> 's \<Rightarrow>
    (env_state client_result \<times> 'u blueapi_client \<times> 's) option" where
  "reload_environment delete get timeout timeout_text begun rounds c s =
     (case delete s of
        (Inl e, s') \<Rightarrow>
          Some (Inl (if is_request_error e \<or> e = ServiceUnavailableError then e
                     else BlueskyRemoteControlError [PStr ''Failed to tear down the environment'']), c, s')
      | (Inr status, s') \<Rightarrow>
          map_option (\<lambda>(res, s''). (res, c\<lparr>bc_plans := None, bc_devices := None\<rparr>, s''))
            (wait_for_reload get (map_option (\<lambda>t. begun + t) timeout) timeout_text (es_environment_id status) rounds s'))"

subsection \<open>Login and logout\<close>

text \<open>
  \<open>login\<close>: a cached session with a token is enough; whatever goes wrong with it, the server is asked
  for its configuration and the device flow is started. The result is what is printed, if anything.
\<close>

definition cached_login :: "'s client_lib \<Rightarrow> 's cache_ops \<Rightarrow> 's \<Rightarrow> unit result \<times> 's" where
  "cached_login L ops s =
     (case session_from_cache ops s of
        (Inl e, s') \<Rightarrow> (Inl e, s')
      | (Inr cfg, s') \<Rightarrow>
          (case get_valid_access_token (cl_oidc L) ops cfg s' of
             (Inl e, s'') \<Rightarrow> (Inl e, s'')
           | (Inr t, s'') \<Rightarrow> (if t = [] then Inl (AssertionError []) else Inr (), s'')))"

definition client_login :: "'s client_lib \<Rightarrow> 's cache_ops \<Rightarrow> (pyval \<Rightarrow> oidc_config result) \<Rightarrow> (pyval \<Rightarrow> pyval result) \<Rightarrow>
    'u blueapi_client \<Rightarrow> 's \<Rightarrow> string option client_result \<times> 'u blueapi_client \<times> 's" where
  "client_login L ops decode_oidc poll c s =
     (case cached_login L ops s of
        (Inr _, s') \<Rightarrow> (Inr (Some ''Logged in''), c, s')
      | (Inl _, s') \<Rightarrow>
          (case rc_get_oidc_config L (bc_rest c) decode_oidc s' of
             (Inl e, s'') \<Rightarrow> (Inl e, c, s'')
           | (Inr None, s'') \<Rightarrow> (Inr (Some ''Server is not configured to use authentication!''), c, s'')
           | (Inr (Some oidc), s'') \<Rightarrow>
               (case start_device_flow (cl_oidc L) ops oidc poll s'' of
                  (Inl e, s3) \<Rightarrow> (Inl (PyError e), c, s3)
                | (Inr _, s3) \<Rightarrow> (Inr None, c\<lparr>bc_rest := (bc_rest c)\<lparr>rc_session_manager := Some oidc\<rparr>\<rparr>, s3))))"

definition client_logout :: "'s client_lib \<Rightarrow> 'u blueapi_client \<Rightarrow> 's \<Rightarrow> string option result \<times> 'u blueapi_client \<times> 's" where
  "client_logout L c s =
     (case rc_session_manager (bc_rest c) of
        None \<Rightarrow> (Inr None, c, s)
      | Some cfg \<Rightarrow>
          (case logout (cl_oidc L) (cl_cache L) cfg s of
             (Inl e, s') \<Rightarrow> (Inl e, c, s')
           | (Inr text, s') \<Rightarrow> (Inr (Some text), c\<lparr>bc_rest := (bc_rest c)\<lparr>rc_session_manager := None\<rparr>\<rparr>, s')))"

end
