(* ===== verification/ClientProps.thy ===== *)
theory ClientProps
  imports ClientRun
begin

section \<open>What the client guarantees, alone and against the server\<close>

text \<open>
  The binding of arguments, the callbacks (an instance of the interface of event sources), and the
  client against the server: the errors of a submission, a run over the websocket, a run over the
  message bus, and the reload of the environment.
\<close>

subsection \<open>Arguments of plans\<close>

lemma add_keywords_ok:
  "dict_ok (params @ kwargs) \<Longrightarrow> add_keywords owner kwargs params = Inr (params @ kwargs)"
proof (induction kwargs arbitrary: params)
  case (Cons kv kwargs)
  obtain k v where kv: "kv = (k, v)" by (cases kv)
  with Cons.prems have n: "k \<notin> fst ` set params" by auto
  with Cons show ?case by (simp add: kv dict_set_new)
qed simp

lemma add_keywords_clash:
  "dict_ok kwargs \<Longrightarrow> fst ` set params \<inter> fst ` set kwargs \<noteq> {} \<Longrightarrow>
   \<exists>m. add_keywords owner kwargs params = Inl (TypeError m)"
proof (induction kwargs arbitrary: params)
  case (Cons kv kwargs)
  obtain k v where kv: "kv = (k, v)" by (cases kv)
  show ?case
  proof (cases "k \<in> fst ` set params")
    case False
    with Cons.prems kv have "fst ` set (dict_set k v params) \<inter> fst ` set kwargs \<noteq> {}"
      by (auto simp: dict_set_keys_mem)
    with Cons False show ?thesis by (simp add: kv)
  qed (simp add: kv)
qed simp

lemma add_keywords_result:
  assumes "dict_ok params" and "dict_ok kwargs"
  shows "if fst ` set params \<inter> fst ` set kwargs = {} then add_keywords owner kwargs params = Inr (params @ kwargs)
    else \<exists>m. add_keywords owner kwargs params = Inl (TypeError m)"
  using assms add_keywords_ok [of params kwargs] add_keywords_clash [of kwargs params] by auto

lemma zip_keys: "length args \<le> length ps \<Longrightarrow> map fst (zip ps args) = take (length args) ps"
  by (simp add: map_fst_zip_take min_def)

text \<open>
  Claim C37. A call of a plan binds its arguments as Python would: it succeeds exactly when there are
  not too many positional arguments, every keyword names a parameter, none is given twice and all
  required ones are given; the positional arguments then go to the first parameters in order, the
  others to those named. Otherwise a \<open>TypeError\<close> is raised.
\<close>

theorem build_args_correct:
  assumes "distinct (plan_properties m)" and "dict_ok kwargs"
  shows "let ps = plan_properties m; positional = set (take (length args) ps); named = fst ` set kwargs in
    if length args \<le> length ps \<and> named \<subseteq> set ps \<and> positional \<inter> named = {} \<and>
       set (required_properties m) \<subseteq> positional \<union> named
    then \<exists>params. build_args show_set m args kwargs = Inr params \<and> dict_ok params \<and>
      map_of params = map_of (zip ps args) ++ map_of kwargs
    else \<exists>text. build_args show_set m args kwargs = Inl (TypeError text)"
proof (cases "length args \<le> length (plan_properties m) \<and> fst ` set kwargs \<subseteq> set (plan_properties m)")
  case False
  then show ?thesis by (auto simp: build_args_def Let_def)
next
  case True
  let ?z = "zip (plan_properties m) args"
  have keys: "fst ` set ?z = set (take (length args) (plan_properties m))"
    using True by (metis zip_keys list.set_map)
  have ok: "dict_ok ?z" using True assms(1) by (simp add: zip_keys)
  have extra: "{k \<in> fst ` set kwargs. k \<notin> set (plan_properties m)} = {}" using True by auto
  note add = add_keywords_result [OF ok assms(2), of "pi_name m", unfolded keys]
  show ?thesis
  proof (cases "set (take (length args) (plan_properties m)) \<inter> fst ` set kwargs = {}")
    case False
    with add True extra show ?thesis by (auto simp: build_args_def Let_def)
  next
    case disjoint: True
    have dict: "dict_ok (?z @ kwargs)" using ok assms(2) disjoint keys by auto
    have m: "map_of (?z @ kwargs) = map_of ?z ++ map_of kwargs"
      using disjoint keys by (simp add: map_add_comm dom_map_of_conv_image_fst)
    have "build_args show_set m args kwargs =
        (if set (required_properties m) \<subseteq> set (take (length args) (plan_properties m)) \<union> fst ` set kwargs
         then Inr (?z @ kwargs)
         else Inl (TypeError (''Missing argument(s) for '' @ show_set {k \<in> set (required_properties m).
           k \<notin> set (take (length args) (plan_properties m)) \<union> fst ` set kwargs})))"
      using add True disjoint extra by (auto simp: build_args_def Let_def keys image_Un)
    with True disjoint dict m show ?thesis by (simp add: Let_def)
  qed
qed

text \<open>An example plan.\<close>

definition demo_plan_info :: plan_info where
  "demo_plan_info = \<lparr>pi_name = ''scan'', pi_description = None,
     pi_schema = [(''properties'', PDict [(''motor'', PDict []), (''num'', PDict [])]), (''required'', PList [PStr ''motor''])]\<rparr>"

theorem build_args_correct_witness:
  "\<exists>params. build_args (\<lambda>_. []) demo_plan_info [PStr ''x''] [(''num'', PInt 3)] = Inr params \<and>
     map_of params ''motor'' = Some (PStr ''x'') \<and> map_of params ''num'' = Some (PInt 3)"
proof -
  have p: "plan_properties demo_plan_info = [''motor'', ''num'']" "required_properties demo_plan_info = [''motor'']"
    by (simp_all add: plan_properties_def required_properties_def demo_plan_info_def)
  from build_args_correct [of demo_plan_info "[(''num'', PInt 3)]" "[PStr ''x'']" "\<lambda>_. []"]
  show ?thesis by (auto simp: p Let_def)
qed

subsection \<open>Callbacks\<close>

definition callbacks_ok :: "'u blueapi_client \<Rightarrow> bool" where
  "callbacks_ok c \<longleftrightarrow> dict_ok (bc_callbacks c) \<and> (\<forall>k \<in> fst ` set (bc_callbacks c). k < bc_callback_id c)"

interpretation client_callbacks: event_source callbacks_ok bc_callbacks add_callback remove_callback
proof unfold_locales
  fix p :: "'u blueapi_client" and cb t
  assume ok: "callbacks_ok p"
  then have new: "bc_callback_id p \<notin> fst ` set (bc_callbacks p)" by (auto simp: callbacks_ok_def)
  then show "bc_callbacks (snd (add_callback cb p)) = bc_callbacks p @ [(fst (add_callback cb p), cb)]"
    and "fst (add_callback cb p) \<notin> fst ` set (bc_callbacks p)"
    by (simp_all add: add_callback_def dict_set_new Let_def)
  from ok show "callbacks_ok (snd (add_callback cb p))"
    by (auto simp: callbacks_ok_def add_callback_def dict_set_keys_mem less_Suc_eq Let_def)
  from ok show "callbacks_ok (snd (remove_callback t p))"
    by (auto simp: callbacks_ok_def remove_callback_def dict_del_eq_filter distinct_map_filter split: option.splits)
  show "t \<in> fst ` set (bc_callbacks p) \<Longrightarrow> fst (remove_callback t p) = Inr () \<and>
      bc_callbacks (snd (remove_callback t p)) = filter (\<lambda>q. fst q \<noteq> t) (bc_callbacks p)"
    by (cases "map_of (bc_callbacks p) t")
      (auto simp: remove_callback_def dict_del_eq_filter map_of_None_keys image_iff)
  show "t \<notin> fst ` set (bc_callbacks p) \<Longrightarrow> (\<exists>e. fst (remove_callback t p) = Inl e) \<and> snd (remove_callback t p) = p"
    by (cases "map_of (bc_callbacks p) t") (auto simp: remove_callback_def dest: map_of_SomeD intro: rev_image_eqI)
qed

lemma new_client_callbacks_ok: "callbacks_ok (new_client rest events)"
  by (simp add: callbacks_ok_def new_client_def)

lemma callback_added_and_removed:
  "callbacks_ok c \<Longrightarrow> bc_callbacks (snd (remove_callback (fst (add_callback cb c)) (snd (add_callback cb c)))) = bc_callbacks c"
  by (rule client_callbacks.stream_sub_unsub(2))

subsection \<open>Errors of the server\<close>

text \<open>
  The response of a handler: FastAPI puts what a handler returns, and the detail of an error, into a
  JSON body; without a handler for the exception the body is plain text, and a 204 or 205 has none.
\<close>

definition loc_json :: "loc_item \<Rightarrow> pyval" where
  "loc_json l = (case l of LStr s \<Rightarrow> PStr s | LInt i \<Rightarrow> PInt i)"

definition verror_json :: "verror \<Rightarrow> pyval" where
  "verror_json e = PDict [(''loc'', PList (map loc_json (ve_loc e))), (''msg'', PStr (ve_msg e)),
     (''type'', PStr (ve_type e)), (''input'', ve_input e)]"

fun detail_json :: "detail \<Rightarrow> pyval" where
  "detail_json NoDetail = PNone"
| "detail_json (DText t) = PStr t"
| "detail_json (DErrors errs) = PList (map verror_json errs)"

definition response_body :: "app \<Rightarrow> nat \<Rightarrow> ('a \<Rightarrow> pyval) \<Rightarrow> 'a result \<Rightarrow> pyval option" where
  "response_body A success encode r =
     (if http_status A success r \<in> {204, 205} then None
      else (case r of
         Inr v \<Rightarrow> Some (encode v)
       | Inl e \<Rightarrow> map_option (\<lambda>d. PDict [(''detail'', detail_json d)]) (error_detail A e)))"

definition respond :: "app \<Rightarrow> (pyval option \<Rightarrow> string) \<Rightarrow> nat \<Rightarrow> ('a \<Rightarrow> pyval) \<Rightarrow> 'a result \<Rightarrow> response" where
  "respond A show_body success encode r =
     \<lparr>rs_status = http_status A success r,
      rs_json = (case response_body A success encode r of
         None \<Rightarrow> Inl (ForeignError ''JSONDecodeError'' []) | Some v \<Rightarrow> Inr v),
      rs_text = show_body (response_body A success encode r), rs_headers = []\<rparr>"

lemma in_body_field_path:
  "ve_loc e \<noteq> [] \<Longrightarrow> field_path (from_verror (in_body_params e)) = join ''.'' (map loc_str (ve_loc e))"
  by (simp add: field_path_def from_verror_def in_body_params_def)

text \<open>
  Claim C32. Creating a task, from the handler of the server to the caller of the client: a task that
  is registered gives the client its id; an unknown plan is an \<open>UnknownPlanError\<close>; parameters that do
  not validate are an \<open>InvalidParametersError\<close> with all of pydantic's errors, each field named by its
  path within the parameters, because the client drops exactly the prefix the server adds.
\<close>

theorem create_task_errors_reach_the_caller:
  assumes "worker_of_runner r = Some w" and "service_of_runner r = Some sv"
    and "submit_permission (ap_opa A) opa rq = Inr ()"
    and "task_metadata_for rq [(''user'', user)] (w_ctx w) (sv_config sv) = Inr md"
    and "\<And>errs. cl_validate_errors L (PList (map verror_json errs)) = Inr (map from_verror errs)"
    and "decode (encode (uuid, url @ ''/'' @ uuid)) = Inr uuid"
  shows "let res = check_response L decode (create_task_exceptions (cl_validate_errors L))
        (respond A show_body 201 encode (fst (rest_submit_task A opa user url uuid baggage rq r))) in
    case prepare_params (lib_validate (sl_lib (ap_lib A))) (w_ctx w) (requested_task rq md) of
      Inr _ \<Rightarrow> res = Inr uuid
    | Inl (KeyError _) \<Rightarrow> (\<exists>t. res = Inl (UnknownPlanError (Some 404) t))
    | Inl (ValidationError _ errs) \<Rightarrow> (\<exists>perrs. res = Inl (InvalidParametersError perrs) \<and>
        length perrs = length errs \<and>
        (\<forall>i < length errs. ve_loc (errs ! i) \<noteq> [] \<longrightarrow>
           field_path (perrs ! i) = join ''.'' (map loc_str (ve_loc (errs ! i))) \<and>
           par_msg (perrs ! i) = Some (ve_msg (errs ! i)) \<and> par_input (perrs ! i) = ve_input (errs ! i)))
    | Inl e \<Rightarrow> True"
proof -
  note submit = rest_submit_task_def bind_h_def lift_h_def assms(3,4) run_submit_live [OF assms(1,2)]
  note answer = check_response_def create_task_exceptions_def respond_def response_body_def http_status_def
    error_detail_def response_json_def compare_versions_def
  show ?thesis
  proof (cases "prepare_params (lib_validate (sl_lib (ap_lib A))) (w_ctx w) (requested_task rq md)")
    case (Inr a)
    then show ?thesis using assms(6) by (simp add: submit answer)
  next
    case (Inl e)
    have v: "cl_validate_errors L (PList (map (verror_json \<circ> in_body_params) errs)) = Inr (map (from_verror \<circ> in_body_params) errs)" for errs
      using assms(5) [of "map in_body_params errs"] by simp
    show ?thesis
    proof (cases e)
      case (ValidationError m errs)
      with Inl show ?thesis
        by (simp add: submit answer v in_body_field_path)
          (simp add: from_verror_def in_body_params_def)
    qed (use Inl in \<open>simp_all add: submit answer\<close>)
  qed
qed

text \<open>A client library for examples, with a reading of parameter errors.\<close>

definition demo_parameter_error :: "pyval \<Rightarrow> parameter_error" where
  "demo_parameter_error v =
     (case v of
        PDict [(_, PList ls), (_, PStr m), (_, PStr t), (_, i)] \<Rightarrow>
          \<lparr>par_loc = map (\<lambda>l. case l of PStr n \<Rightarrow> LStr n | PInt k \<Rightarrow> LInt k | _ \<Rightarrow> LStr []) ls,
           par_msg = Some m, par_type = Some t, par_input = i\<rparr>
      | _ \<Rightarrow> \<lparr>par_loc = [], par_msg = None, par_type = None, par_input = v\<rparr>)"

definition demo_validate_errors :: "pyval \<Rightarrow> parameter_error list result" where
  "demo_validate_errors v = (case v of PList vs \<Rightarrow> Inr (map demo_parameter_error vs) | _ \<Rightarrow> Inl (ValueError []))"

definition demo_client_lib :: "unit client_lib" where
  "demo_client_lib = \<lparr>cl_send = (\<lambda>rq s. (Inl (ForeignError ''ConnectionError'' []), s)), cl_unicode_string = (\<lambda>u. ''http://localhost:8000/''),
     cl_is_connection_error = (\<lambda>e. exn_class e = ''ConnectionError''), cl_trace_headers = [], cl_user_agent = ''blueapi cli'',
     cl_version = ''1.0'', cl_base_version = Inr, cl_oidc = demo_provider,
     cl_cache = \<lparr>co_can_access = Pair (Inr True), co_save = (\<lambda>c. Pair (Inr ())), co_load = Pair (Inl (FileNotFoundError [])),
       co_delete = Pair (Inr ())\<rparr>,
     cl_validate_errors = demo_validate_errors\<rparr>"

lemma demo_validate_errors_reads:
  "cl_validate_errors demo_client_lib (PList (map verror_json errs)) = Inr (map from_verror errs)"
proof -
  have "map ((\<lambda>l. case l of PStr n \<Rightarrow> LStr n | PInt k \<Rightarrow> LInt k | _ \<Rightarrow> LStr []) \<circ> loc_json) ls = ls" for ls
    by (induction ls) (auto simp: loc_json_def split: loc_item.splits)
  then show ?thesis
    by (simp add: demo_client_lib_def demo_validate_errors_def demo_parameter_error_def verror_json_def from_verror_def)
qed

theorem create_task_errors_reach_the_caller_witness:
  "\<exists>t. check_response demo_client_lib (\<lambda>v. Inr ([] :: string)) (create_task_exceptions (cl_validate_errors demo_client_lib))
     (respond demo_app (\<lambda>_. ''text'') 201 (\<lambda>_. PNone) (fst (rest_submit_task demo_app None PNone ''url'' [] PNone
       (demo_request\<lparr>tr_name := ''nope''\<rparr>) (demo_runner one_task)))) = Inl (UnknownPlanError (Some 404) t)"
proof -
  let ?rq = "demo_request\<lparr>tr_name := ''nope''\<rparr>"
  have sv: "service_of_runner (demo_runner one_task) = Some (demo_service one_task)"
    by (simp add: service_of_runner_def demo_runner_def)
  have p: "submit_permission (ap_opa demo_app) None ?rq = Inr ()" by (simp add: submit_permission_def)
  have m: "task_metadata_for ?rq [(''user'', PNone)] (w_ctx one_task) (sv_config (demo_service one_task)) =
      Inr [(''user'', PNone), (''instrument_session'', PStr ''cm1-1'')]"
    by (simp add: task_metadata_for_def demo_request_def demo_ctx_def new_ctx_def)
  have v: "prepare_params (lib_validate (sl_lib (ap_lib demo_app))) demo_ctx (requested_task ?rq md) = Inl (KeyError ''nope'')" for md
    by (simp add: prepare_params_def lookup_params_def demo_ctx_def requested_task_def demo_request_def)
  from create_task_errors_reach_the_caller [where uuid = "[]" and url = "''url''" and baggage = PNone
      and show_body = "\<lambda>_. ''text''" and decode = "\<lambda>_. Inr []" and encode = "\<lambda>_. PNone",
      OF demo_runner_worker sv p m demo_validate_errors_reads refl]
  show ?thesis by (simp add: v Let_def)
qed

subsection \<open>A run over the websocket, from the worker's events to the caller\<close>

lemma receive_updates:
  "receive_events (map (Inr \<circ> Update) evs) None = (evs, None)"
  by (induction evs) simp_all

lemma follow_until_complete:
  assumes "own \<noteq> []" and "completes (last own)" and "\<forall>e \<in> set (butlast own). \<not> completes e"
  shows "\<exists>st. event_status (last own) = Some st \<and> ts_task_complete st \<and>
    follow_events callbacks None own ending u = (Inr st, fold (call_all callbacks) own u)"
  using assms
proof (induction own arbitrary: u)
  case (Cons e es)
  show ?case
  proof (cases "es = []")
    case True
    with Cons.prems show ?thesis
      by (auto simp: completes_def event_status_def we_is_complete_def call_on_event_def Let_def split: event.splits option.splits)
  next
    case False
    with Cons show ?thesis by (simp add: call_on_event_def Let_def)
  qed
qed simp

lemma until_complete_shape:
  "\<forall>e \<in> set (butlast (until_complete es)). \<not> completes e" "set (until_complete es) \<subseteq> set es"
  by (induction es) auto

text \<open>
  Server and client together: when the events of a task contain its completion and the
  client keeps listening, the client's \<open>run_blocking\<close> returns the status of that task, complete, and
  each of its callbacks was called, in the order they were added, for exactly the events of the task
  up to the completing one, whatever other tasks' events came between and whatever callbacks raise.
\<close>

theorem websocket_run_end_to_end:
  assumes "worker_of_runner r = Some w" and "ep_handles (wt_pipe st) = [(h, c)]"
    and "unpipe_events h w = (Inr (), w')"
    and "own = until_complete (filter (\<lambda>e. event_task_id e = Some (wt_task_id st)) evts)"
    and "length own \<le> sends" and "own \<noteq> []" and "completes (last own)"
  shows "\<exists>msgs status. ws_listen A st sends reply evts eof r = (WsDone msgs WsComplete, put_worker w' r) \<and>
    (case websocket_events (WsConnected (map Inr msgs) None) of (events, ending) \<Rightarrow>
       follow_events callbacks None events ending u = (Inr status, fold (call_all callbacks) own u)) \<and>
    ts_task_id status = wt_task_id st \<and> ts_task_complete status"
proof -
  have done_shape: "\<forall>e \<in> set (butlast own). \<not> completes e" unfolding assms(4) by (rule until_complete_shape(1))
  obtain status where s: "event_status (last own) = Some status" "ts_task_complete status"
      "follow_events callbacks None own None u = (Inr status, fold (call_all callbacks) own u)"
    using follow_until_complete [OF assms(6,7) done_shape, of callbacks None u] by (elim exE conjE)
  have "last own \<in> set (filter (\<lambda>e. event_task_id e = Some (wt_task_id st)) evts)"
    using last_in_set [OF assms(6)] until_complete_shape(2) unfolding assms(4) by blast
  then have "event_task_id (last own) = Some (wt_task_id st)" by simp
  with s(1) have "ts_task_id status = wt_task_id st"
    by (auto simp: event_task_id_def event_status_def we_task_id_def split: event.splits)
  moreover have "ws_listen A st sends reply evts eof r = (WsDone (map Update own) WsComplete, put_worker w' r)"
    using ws_listen_live [OF assms(1-3), of evts A sends reply eof] assms(4-7) by (simp add: Let_def)
  moreover have "websocket_events (WsConnected (map Inr (map Update own)) None) = (own, None)"
    using receive_updates [of own] by (simp add: websocket_events_def)
  ultimately show ?thesis
    using s(2,3) by (intro exI [of _ "map Update own"] exI [of _ status]) simp
qed

theorem websocket_run_end_to_end_witness:
  "\<exists>msgs w' ev status. ws_listen demo_app \<lparr>wt_task_id = ''t1'', wt_waiting = (None, []),
        wt_pipe = \<lparr>ep_handles = [(fst (pipe_events 0 one_task), 0)]\<rparr>\<rparr> 1 (Inr ()) [ev] False
      (demo_runner (snd (pipe_events 0 one_task))) = (WsDone msgs WsComplete, put_worker w' (demo_runner (snd (pipe_events 0 one_task)))) \<and>
    (case websocket_events (WsConnected (map Inr msgs) None) of (events, ending) \<Rightarrow>
       follow_events [\<lambda>e n. (Inl (RuntimeError []), Suc n)] None events ending 0 = (Inr status, 1))"
proof -
  let ?w = "snd (pipe_events 0 one_task)"
  let ?st = "\<lparr>wt_task_id = ''t1'', wt_waiting = (None, []), wt_pipe = \<lparr>ep_handles = [(fst (pipe_events 0 one_task), 0)]\<rparr>\<rparr>"
  let ?ev = "WEvent \<lparr>we_state = IDLE, we_task_status = Some \<lparr>ts_task_id = ''t1'', ts_result = None, ts_task_complete = True,
      ts_task_failed = False\<rparr>, we_errors = [], we_warnings = []\<rparr>"
  have c: "completes ?ev" "event_task_id ?ev = Some ''t1''"
    by (simp_all add: completes_def we_is_complete_def event_task_id_def we_task_id_def)
  have "fst (unpipe_events (fst (pipe_events 0 one_task)) ?w) = Inr ()" by code_simp
  then obtain w' where u: "unpipe_events (fst (pipe_events 0 one_task)) ?w = (Inr (), w')"
    by (metis prod.collapse)
  have "\<exists>msgs status. ws_listen demo_app ?st 1 (Inr ()) [?ev] False (demo_runner ?w) =
        (WsDone msgs WsComplete, put_worker w' (demo_runner ?w)) \<and>
    (case websocket_events (WsConnected (map Inr msgs) None) of (events, ending) \<Rightarrow>
       follow_events [\<lambda>e n. (Inl (RuntimeError []), Suc n)] None events ending 0 =
         (Inr status, fold (call_all [\<lambda>e n. (Inl (RuntimeError []), Suc n)]) [?ev] 0)) \<and>
    ts_task_id status = wt_task_id ?st \<and> ts_task_complete status"
    by (rule websocket_run_end_to_end [where h = "fst (pipe_events 0 one_task)" and c = 0, OF demo_runner_worker _ u])
      (simp_all add: c)
  then obtain msgs status where "ws_listen demo_app ?st 1 (Inr ()) [?ev] False (demo_runner ?w) =
        (WsDone msgs WsComplete, put_worker w' (demo_runner ?w))"
    and "case websocket_events (WsConnected (map Inr msgs) None) of (events, ending) \<Rightarrow>
       follow_events [\<lambda>e n. (Inl (RuntimeError []), Suc n)] None events ending 0 = (Inr status, 1)"
    by (elim exE conjE) simp
  then show ?thesis by (intro exI [of _ msgs] exI [of _ w'] exI [of _ ?ev] exI [of _ status] conjI)
qed

subsection \<open>Runs over the message bus\<close>

text \<open>The message that completes a run, and what the listener does, message by message.\<close>

definition is_completion :: "string \<Rightarrow> event \<times> string option \<Rightarrow> bool" where
  "is_completion task_id m \<longleftrightarrow>
     relates_to_task task_id (fst m) \<and> completes (fst m) \<and> snd m = Some task_id"

lemma completion_status:
  "is_completion tid m \<Longrightarrow> \<exists>st. event_status (fst m) = Some st \<and> ts_task_id st = tid \<and> ts_task_complete st"
  by (auto simp: is_completion_def relates_to_task_def completes_def we_is_complete_def event_status_def
      split: event.splits option.splits)

lemma hand_over_future:
  assumes "fst (hand_over tid cbs on_event msgs (fut, u)) = Some (Inr st)"
  shows "fut = Some (Inr st) \<or> (\<exists>m \<in> set msgs. is_completion tid m \<and> event_status (fst m) = Some st)"
  using assms
proof (induction msgs arbitrary: fut u)
  case (Cons m msgs)
  obtain ev cid where m: "m = (ev, cid)" by (cases m)
  obtain res fut' u' where i: "inner_on_event tid cbs on_event m (fut, u) = (res, fut', u')"
    by (cases "inner_on_event tid cbs on_event m (fut, u)") auto
  have f: "fut' = fut \<or> (is_completion tid m \<and> fut = None \<and>
      (case event_status ev of None \<Rightarrow> \<exists>e. fut' = Some (Inl e) | Some st' \<Rightarrow> fut' = Some (Inr st')))"
    using i by (auto simp: inner_on_event_def m is_completion_def set_future_def Let_def
        split: if_splits prod.splits sum.splits option.splits)
  have "fst (hand_over tid cbs on_event msgs (fut', u')) = Some (Inr st)"
    using Cons.prems by (simp add: hand_over_def i)
  from Cons.IH [OF this] f show ?case by (auto simp: m split: option.splits)
qed (simp add: hand_over_def)

lemma hand_over_exact:
  "hand_over tid cbs None msgs (fut, u) =
    (case fut of
       Some r \<Rightarrow> fut
     | None \<Rightarrow> map_option (\<lambda>m. Inr (the (event_status (fst m)))) (find (is_completion tid) msgs),
     fold (call_all cbs) (filter (relates_to_task tid) (map fst msgs)) u)"
proof (induction msgs arbitrary: fut u)
  case (Cons m msgs)
  obtain ev cid where m: "m = (ev, cid)" by (cases m)
  have "snd (inner_on_event tid cbs None m (fut, u)) =
      (if is_completion tid m \<and> fut = None then Some (Inr (the (event_status ev))) else fut,
       if relates_to_task tid ev then call_all cbs ev u else u)"
    using completion_status [of tid m]
    by (auto simp: inner_on_event_def m is_completion_def set_future_def call_on_event_def Let_def split: option.splits)
  with Cons.IH show ?case by (auto simp: hand_over_def m split: option.splits)
qed (simp add: hand_over_def split: option.splits)

lemma bus_exit_unsubscribes: "bus_exit B ids s = ((Inr u, ids'), s') \<Longrightarrow> ids' = []"
proof (induction B ids s rule: bus_exit.induct)
  case (1 B ids s)
  show ?case
  proof (cases "ids = []")
    case False
    obtain res s1 where u: "st_unsubscribe B (last ids) s = (res, s1)" by fastforce
    with 1 False show ?thesis by (cases res) (simp_all add: bus_exit.simps [of B ids s])
  qed (use "1.prems" in \<open>simp add: bus_exit.simps [of B "[]" s] case_prod_beta\<close>)
qed

lemma leave_bus_result: "leave_bus B ids res s = ((Inr v, ids'), s') \<Longrightarrow> res = Inr v \<and> ids' = []"
  by (auto simp: leave_bus_def dest: bus_exit_unsubscribes split: prod.splits sum.splits)

text \<open>
  Claim C34. When \<open>run_task\<close> returns a status it is the complete status of the very task it created,
  taken from a message of the bus that carries the task's id as its correlation id; nothing is
  returned before the server accepted the start, and no subscription of the client is left.
\<close>

theorem run_task_returns_its_own_completion:
  assumes "client_run_task L B decode_task decode_worker rq on_event msgs timed_out c (s, u) = (Some (Inr st), c', s', u')"
  shows "\<exists>task_id s1. rc_create_task L (bc_rest c) decode_task rq s = (Inr task_id, s1) \<and>
    (\<exists>s2 v s3. rc_update_worker_task L (bc_rest c) decode_worker (Some task_id) s2 = (Inr v, s3)) \<and>
    (\<exists>m \<in> set msgs. event_status (fst m) = Some st \<and> snd m = Some task_id) \<and>
    ts_task_id st = task_id \<and> ts_task_complete st \<and> bc_events c' = Some []"
proof -
  obtain ids where ids: "bc_events c = Some ids"
    using assms by (cases "bc_events c") (auto simp: client_run_task_def)
  obtain task_id s1 where create: "rc_create_task L (bc_rest c) decode_task rq s = (Inr task_id, s1)"
    using assms ids by (auto simp: client_run_task_def split: prod.splits sum.splits)
  obtain s2 where connect: "st_connect B s1 = (Inr (), s2)"
    using assms ids create by (auto simp: client_run_task_def split: prod.splits sum.splits)
  obtain ids' s3 where sub: "subscribe_to_all_events B ids s2 = (Inr ids', s3)"
  proof (cases "subscribe_to_all_events B ids s2")
    case (Pair res s3)
    show thesis
    proof (cases res)
      case (Inl e)
      with assms ids create connect Pair show thesis
        by (auto simp: client_run_task_def Let_def dest!: leave_bus_result split: prod.splits)
    qed (use Pair that in simp)
  qed
  let ?wait = "start_and_wait L decode_worker (bc_rest c) task_id (dict_values (bc_callbacks c)) on_event msgs timed_out (s3, u)"
  obtain outcome s4 u4 where wait: "?wait = (Some outcome, s4, u4)"
    using assms ids create connect sub by (cases ?wait) (auto simp: client_run_task_def split: option.splits)
  with assms ids create connect sub have o: "outcome = Inr st" "bc_events c' = Some []"
    by (auto simp: client_run_task_def Let_def dest!: leave_bus_result split: prod.splits)
  from wait o(1) obtain v s5 where upd: "rc_update_worker_task L (bc_rest c) decode_worker (Some task_id) s3 = (Inr v, s5)"
    by (auto simp: start_and_wait_def split: prod.splits sum.splits)
  with wait o(1) have "fst (hand_over task_id (dict_values (bc_callbacks c)) on_event msgs (None, u)) = Some (Inr st)"
    by (auto simp: start_and_wait_def await_future_def split: prod.splits option.splits if_splits)
  from hand_over_future [OF this] obtain m where m: "m \<in> set msgs" "is_completion task_id m" "event_status (fst m) = Some st"
    by auto
  then have "snd m = Some task_id" "ts_task_id st = task_id" "ts_task_complete st"
    using completion_status [of task_id m] by (auto simp: is_completion_def)
  with m create upd o(2) show ?thesis by blast
qed

text \<open>A server that accepts everything, and a bus that never fails, for examples.\<close>

definition demo_accepting_lib :: "nat client_lib" where
  "demo_accepting_lib = \<lparr>cl_send = (\<lambda>rq n. (Inr \<lparr>rs_status = 200, rs_json = Inr PNone, rs_text = [], rs_headers = []\<rparr>, Suc n)),
     cl_unicode_string = (\<lambda>u. ''http://localhost:8000/''), cl_is_connection_error = (\<lambda>e. False), cl_trace_headers = [],
     cl_user_agent = ''blueapi cli'', cl_version = ''1.0'', cl_base_version = Inr, cl_oidc = demo_provider,
     cl_cache = \<lparr>co_can_access = Pair (Inr True), co_save = (\<lambda>c. Pair (Inr ())), co_load = Pair (Inl (FileNotFoundError [])),
       co_delete = Pair (Inr ())\<rparr>,
     cl_validate_errors = demo_validate_errors\<rparr>"

definition demo_bus :: "nat stomp_ops" where
  "demo_bus = \<lparr>st_connect = Pair (Inr ()), st_disconnect = Pair (Inr ()), st_subscribe = (\<lambda>_. Pair (Inr ''sub-1'')),
     st_unsubscribe = (\<lambda>_. Pair (Inr ()))\<rparr>"

definition demo_client :: "nat blueapi_client" where
  "demo_client = new_client \<lparr>rc_config = cfg_api (default_app_config None), rc_session_manager = None\<rparr> (Some [])"

theorem run_task_returns_its_own_completion_witness:
  "\<exists>st c' s' u'. client_run_task demo_accepting_lib demo_bus (\<lambda>_. Inr ''t1'') (\<lambda>_. Inr ())
      \<lparr>cr_name = ''count'', cr_params = [], cr_session = ''cm1-1''\<rparr> None
      [(WEvent \<lparr>we_state = IDLE, we_task_status = Some \<lparr>ts_task_id = ''t1'', ts_result = None, ts_task_complete = True,
         ts_task_failed = False\<rparr>, we_errors = [], we_warnings = []\<rparr>, Some ''t1'')] False demo_client (0, 0)
      = (Some (Inr st), c', s', u') \<and> ts_task_id st = ''t1'' \<and> bc_events c' = Some []"
proof -
  let ?rq = "\<lparr>cr_name = ''count'', cr_params = [], cr_session = ''cm1-1''\<rparr>"
  let ?st = "\<lparr>ts_task_id = ''t1'', ts_result = None, ts_task_complete = True, ts_task_failed = False\<rparr>"
  let ?m = "(WEvent \<lparr>we_state = IDLE, we_task_status = Some ?st, we_errors = [], we_warnings = []\<rparr>, Some ''t1'')"
  have request: "request_and_deserialize demo_accepting_lib (bc_rest demo_client) suffix dec data verb errs params n =
      (check_response demo_accepting_lib dec errs \<lparr>rs_status = 200, rs_json = Inr PNone, rs_text = [], rs_headers = []\<rparr>, Suc n)"
    for suffix data verb errs params n and dec :: "pyval \<Rightarrow> 'a result"
    by (simp add: request_and_deserialize_def Let_def jwt_auth_token_def demo_client_def new_client_def demo_accepting_lib_def)
  have answer: "check_response demo_accepting_lib (\<lambda>_. Inr v) errs
      \<lparr>rs_status = 200, rs_json = Inr PNone, rs_text = [], rs_headers = []\<rparr> = Inr v"
    if "errs \<lparr>rs_status = 200, rs_json = Inr PNone, rs_text = [], rs_headers = []\<rparr> = None" for v :: 'a and errs
    using that by (simp add: check_response_def compare_versions_def response_json_def)
  have create: "rc_create_task demo_accepting_lib (bc_rest demo_client) (\<lambda>_. Inr ''t1'') ?rq n = (Inr ''t1'', Suc n)" for n
    by (simp add: rc_create_task_def dump_request_def request answer create_task_exceptions_def)
  have update: "rc_update_worker_task demo_accepting_lib (bc_rest demo_client) (\<lambda>_. Inr ()) tid n = (Inr (), Suc n)" for tid n
    by (simp add: rc_update_worker_task_def request answer exception_of_def)
  have future: "hand_over ''t1'' [] None [?m] (None, 0 :: nat) = (Some (Inr ?st), 0)"
    unfolding hand_over_exact
    by (simp add: is_completion_def relates_to_task_def completes_def we_is_complete_def event_status_def)
  have c: "bc_events demo_client = Some []" "bc_callbacks demo_client = []" by (simp_all add: demo_client_def new_client_def)
  have run: "client_run_task demo_accepting_lib demo_bus (\<lambda>_. Inr ''t1'') (\<lambda>_. Inr ()) ?rq None [?m] False demo_client (0, 0) =
      (Some (Inr ?st), demo_client\<lparr>bc_events := Some []\<rparr>, 2, 0)"
    by (simp add: client_run_task_def c create update start_and_wait_def future await_future_def subscribe_to_all_events_def
        demo_bus_def leave_bus_def bus_exit.simps)
  from run_task_returns_its_own_completion [OF run]
  show ?thesis using run create by (intro exI [of _ ?st]) auto
qed

subsection \<open>Reloading\<close>

text \<open>The environment routes of the server as a client reaches them; a reload runs in the background.\<close>

definition environment_request :: "'s runner \<Rightarrow> env_state client_result \<times> 's runner" where
  "environment_request r = (Inr (ru_state r), r)"

definition delete_environment_request :: "service runner \<Rightarrow> env_state client_result \<times> service runner" where
  "delete_environment_request r = (Inr (fst (rest_delete_environment r)), r)"

lemma environment_request_is_get: "fst (rest_get_environment r) = Inr (ru_state r)"
  by (simp add: rest_get_environment_def)

lemma start_runner_state:
  "es_environment_id (ru_state (start_runner i factory su r)) = i"
  "es_initialized (ru_state (start_runner i factory su r)) \<longleftrightarrow> es_error_message (ru_state (start_runner i factory su r)) = None"
  by (auto simp: start_runner_def start_failed_def split: sum.splits prod.splits)

lemma wait_while_unchanged:
  assumes "es_error_message (ru_state r) = None" and "previous = es_environment_id (ru_state r)"
    and "\<forall>t \<in> set polls. case too_late of None \<Rightarrow> True | Some l \<Rightarrow> t < l"
  shows "wait_for_reload environment_request too_late timeout_text previous (map (\<lambda>t. (t, \<lambda>r. r)) polls @ rounds) r =
    wait_for_reload environment_request too_late timeout_text previous rounds r"
  using assms(3) by (induction polls) (simp_all add: environment_request_def assms(1,2))



end
