(* ===== verification/Scratch.thy ===== *)
theory Scratch
  imports Config Support
begin

section \<open>The scratch area (cli/scratch.py)\<close>

text \<open>
  Setting up the scratch directory (checks, cloning what is missing, the editable installation) and
  the report of the Python environment. The file system is seen through what stands at a path; git,
  \<open>uv\<close> and the listing of installed distributions are parameters acting on a state \<open>'s\<close>. The texts of
  the permission errors are cut to their first sentence.
\<close>

subsection \<open>Paths and what they need\<close>

datatype dir_entry = IsFile | IsDirectory nat int | IsOther  \<comment> \<open>a directory with its mode and group\<close>

record git_repo =
  gr_head :: string
  gr_refs :: "(string \<times> string) list"
  gr_active_branch :: "string option"
  gr_dirty :: bool
  gr_remotes :: "string list"
  gr_pyproject :: "pydict result option"    \<comment> \<open>\<open>pyproject.toml\<close> parsed, if there is one\<close>

record 's scratch_lib =
  gl_entry :: "'s \<Rightarrow> string \<Rightarrow> dir_entry option"
  gl_clone :: "string \<Rightarrow> string \<Rightarrow> string option \<Rightarrow> 's \<Rightarrow> unit result \<times> 's"
  gl_repo :: "'s \<Rightarrow> string \<Rightarrow> git_repo result"
  gl_install :: "string list \<Rightarrow> rat \<Rightarrow> 's \<Rightarrow> int result \<times> 's"

text \<open>\<open>root / name\<close>: an absolute name replaces the root.\<close>

definition path_div :: "string \<Rightarrow> string \<Rightarrow> string" where
  "path_div base name =
     (if starts_with ''/'' name then name
      else if name = [] then base
      else if ends_with ''/'' base then base @ name else base @ ''/'' @ name)"

definition validate_directory :: "'s scratch_lib \<Rightarrow> string \<Rightarrow> 's \<Rightarrow> unit result" where
  "validate_directory L path s =
     (case gl_entry L s path of
        None \<Rightarrow> Inl (KeyError (path @ '': No such file or directory''))
      | Some IsFile \<Rightarrow> Inl (KeyError (path @ '': Is a file, not a directory''))
      | Some _ \<Rightarrow> Inr ())"

definition entry_mode :: "dir_entry \<Rightarrow> nat \<times> int" where
  "entry_mode e = (case e of IsDirectory mode gid \<Rightarrow> (mode, gid) | _ \<Rightarrow> (0, 0))"

definition sgid_text :: "string \<Rightarrow> string" where
  "sgid_text path = ''The scratch area root directory ('' @ path @ '') needs to have the SGID permission bit set.''"

definition gid_text :: "string \<Rightarrow> int \<Rightarrow> string" where
  "gid_text path gid = ''The configuration requires that '' @ path @ '' be owned by the group with ID '' @ show_int gid @ ''.''"

definition validate_root_directory :: "'s scratch_lib \<Rightarrow> string \<Rightarrow> int option \<Rightarrow> 's \<Rightarrow> unit result" where
  "validate_root_directory L root_path required_gid s =
     bind_r (validate_directory L root_path s) (\<lambda>_.
       case required_gid of
         None \<Rightarrow> Inr ()
       | Some required \<Rightarrow>
           (let (mode, gid) = (case gl_entry L s root_path of None \<Rightarrow> (0, 0) | Some e \<Rightarrow> entry_mode e) in
            if \<not> is_sgid_set mode then Inl (PermissionError (sgid_text root_path))
            else if gid \<noteq> required then Inl (PermissionError (gid_text root_path required))
            else Inr ()))"

subsection \<open>Cloning and installing\<close>

datatype revision_warning = NotAtTarget string | TargetNotFound string

definition check_revision :: "string option \<Rightarrow> git_repo \<Rightarrow> revision_warning list" where
  "check_revision target_revision repo =
     (case target_revision of
        None \<Rightarrow> []
      | Some target \<Rightarrow>
          if target = [] then []
          else (case map_of (gr_refs repo) target of
             Some commit \<Rightarrow> if commit \<noteq> gr_head repo then [NotAtTarget target] else []
           | None \<Rightarrow> [TargetNotFound target]))"

definition ensure_repo :: "'s scratch_lib \<Rightarrow> string \<Rightarrow> string \<Rightarrow> string option \<Rightarrow> 's \<Rightarrow> revision_warning list result \<times> 's" where
  "ensure_repo L remote_url local_directory target_revision s =
     (case gl_entry L s local_directory of
        None \<Rightarrow>
          (case gl_clone L remote_url local_directory target_revision s of
             (Inl e, s') \<Rightarrow> (Inl e, s')
           | (Inr _, s') \<Rightarrow> (Inr [], s'))
      | Some (IsDirectory _ _) \<Rightarrow>
          (bind_r (gl_repo L s local_directory) (\<lambda>repo. Inr (check_revision target_revision repo)), s)
      | Some _ \<Rightarrow>
          (Inl (KeyError (''Unable to open '' @ local_directory @
             '' as a git repository because it is not a directory'')), s))"

fun install_args :: "'s scratch_lib \<Rightarrow> string list \<Rightarrow> 's \<Rightarrow> string list result" where
  "install_args L [] s = Inr []"
| "install_args L (path # paths) s =
     bind_r (validate_directory L path s) (\<lambda>_. bind_r (install_args L paths s) (\<lambda>args. Inr (''-e'' # path # args)))"

definition scratch_install :: "'s scratch_lib \<Rightarrow> string list \<Rightarrow> rat \<Rightarrow> 's \<Rightarrow> unit result \<times> 's" where
  "scratch_install L paths timeout s =
     (if paths = [] then (Inr (), s)
      else
        (case install_args L paths s of
           Inl e \<Rightarrow> (Inl e, s)
         | Inr args \<Rightarrow>
             (case gl_install L ([''uv'', ''pip'', ''install''] @ args) timeout s of
                (Inl e, s') \<Rightarrow> (Inl e, s')
              | (Inr returncode, s') \<Rightarrow>
                  (if returncode \<noteq> 0
                   then Inl (RuntimeError (''Failed to install packages: Exit Code: '' @ show_int returncode)) else Inr (), s'))))"

definition default_install_timeout :: rat where "default_install_timeout = 300"

definition is_own_repository :: "scratch_repository \<Rightarrow> bool" where
  "is_own_repository repo \<longleftrightarrow>
     lower (repo_remote_url repo) = lower forbidden_own_remote_url \<or> repo_name repo = ''blueapi''"

definition repo_directory :: "scratch_config \<Rightarrow> scratch_repository \<Rightarrow> string" where
  "repo_directory config repo = path_div (scratch_root config) (repo_name repo)"

text \<open>
  The repositories are ensured by a pool of threads, each of which works on its own directory: all run,
  in some order, and one failure is enough to fail, after all have run.
\<close>

fun ensure_all :: "'s scratch_lib \<Rightarrow> scratch_config \<Rightarrow> scratch_repository list \<Rightarrow> 's \<Rightarrow> exn list \<times> 's" where
  "ensure_all L config [] s = ([], s)"
| "ensure_all L config (repo # repos) s =
     (let (res, s') = ensure_repo L (repo_remote_url repo) (repo_directory config repo) (repo_target_revision repo) s;
          (errs, s'') = ensure_all L config repos s'
      in ((case res of Inl e \<Rightarrow> e # errs | Inr _ \<Rightarrow> errs), s''))"

definition setup_scratch :: "'s scratch_lib \<Rightarrow> scratch_config \<Rightarrow> rat \<Rightarrow> scratch_repository list \<Rightarrow> 's \<Rightarrow> unit result \<times> 's" where
  "setup_scratch L config install_timeout order s =
     (case validate_root_directory L (scratch_root config) (scratch_required_gid config) s of
        Inl e \<Rightarrow> (Inl e, s)
      | Inr _ \<Rightarrow>
          if list_ex is_own_repository (scratch_repositories config)
          then (Inl (PermissionError ''The scratch area cannot be used to clone the blueapi repository.''), s)
          else
            (let (errs, s') = ensure_all L config order s in
             if errs \<noteq> [] then (Inl (RuntimeError ''Failed to clone repositories''), s')
             else scratch_install L (map (repo_directory config) (scratch_repositories config)) install_timeout s'))"

subsection \<open>The Python environment\<close>

datatype source_info = Pypi | Scratch

record package_info =
  pk_name :: string
  pk_version :: string
  pk_location :: string
  pk_is_dirty :: bool
  pk_source :: source_info

record python_environment =
  py_installed_packages :: "package_info list"
  py_scratch_enabled :: bool

text \<open>The name in \<open>pyproject.toml\<close>, whatever it is, or the empty name.\<close>

definition project_name_from_pyproject :: "pydict result option \<Rightarrow> pyval result" where
  "project_name_from_pyproject pyproject =
     (case pyproject of
        None \<Rightarrow> Inr (PStr [])
      | Some (Inl e) \<Rightarrow> Inl e
      | Some (Inr toml_data) \<Rightarrow>
          (case map_of toml_data ''project'' of
             None \<Rightarrow> Inr (PStr [])
           | Some (PDict project) \<Rightarrow> Inr (case map_of project ''name'' of None \<Rightarrow> PStr [] | Some name \<Rightarrow> name)
           | Some _ \<Rightarrow> Inl (AttributeError ''get'')))"

text \<open>A name that is no string is refused by \<open>PackageInfo\<close>.\<close>

definition scratch_package :: "git_repo \<Rightarrow> package_info result" where
  "scratch_package repo =
     (let branch = (case gr_active_branch repo of Some b \<Rightarrow> b | None \<Rightarrow> gr_head repo) in
      bind_r (project_name_from_pyproject (gr_pyproject repo)) (\<lambda>package_name.
        case package_name of
          PStr name \<Rightarrow>
            Inr \<lparr>pk_name = name,
              pk_version = (case gr_remotes repo of url # _ \<Rightarrow> url @ '' @'' @ branch | [] \<Rightarrow> ''UNKNOWN REMOTE @'' @ branch),
              pk_location = [], pk_is_dirty = gr_dirty repo, pk_source = Scratch\<rparr>
        | _ \<Rightarrow> Inl (ValidationError ''PackageInfo'' [])))"

record distribution =
  ds_name :: string
  ds_version :: string
  ds_location :: string

definition fetch_installed_packages_details :: "distribution list \<Rightarrow> package_info list" where
  "fetch_installed_packages_details installed_packages =
     map (\<lambda>dist. \<lparr>pk_name = ds_name dist, pk_version = ds_version dist, pk_location = ds_location dist, pk_is_dirty = False,
       pk_source = Pypi\<rparr>) installed_packages"

text \<open>
  A distribution with the name of a scratch package adds its location to that package (the last one of
  the name, which is what the dictionary holds).
\<close>

fun add_location :: "string \<Rightarrow> string \<Rightarrow> package_info list \<Rightarrow> package_info list" where
  "add_location name location [] = []"
| "add_location name location (p # ps) =
     (if pk_name p = name \<and> name \<notin> pk_name ` set ps
      then p\<lparr>pk_location := pk_location p @ location @ '' &&''\<rparr> # ps
      else p # add_location name location ps)"

fun merge_installed :: "package_info list \<Rightarrow> package_info list \<Rightarrow> package_info list \<times> package_info list" where
  "merge_installed scratch [] = (scratch, [])"
| "merge_installed scratch (pkg # pkgs) =
     (if pk_name pkg \<in> pk_name ` set scratch
      then merge_installed (add_location (pk_name pkg) (pk_location pkg) scratch) pkgs
      else (let (scratch', others) = merge_installed scratch pkgs in (scratch', pkg # others)))"

definition sorted_packages :: "package_info list \<Rightarrow> package_info list" where
  "sorted_packages packages = sort_key (\<lambda>pkg. lower (pk_name pkg)) packages"

definition filter_packages :: "string option \<Rightarrow> source_info option \<Rightarrow> package_info list \<Rightarrow> package_info list" where
  "filter_packages name origin packages =
     (let named = (case name of None \<Rightarrow> packages | Some n \<Rightarrow> if n = [] then packages else filter (\<lambda>p. pk_name p = n) packages)
      in case origin of None \<Rightarrow> named | Some o' \<Rightarrow> filter (\<lambda>p. pk_source p = o') named)"

definition get_python_environment :: "'s scratch_lib \<Rightarrow> distribution list \<Rightarrow> scratch_config option \<Rightarrow> string option \<Rightarrow>
    source_info option \<Rightarrow> 's \<Rightarrow> python_environment result" where
  "get_python_environment L installed config name origin s =
     bind_r (case config of
         None \<Rightarrow> Inr []
       | Some c \<Rightarrow>
           bind_r (validate_directory L (scratch_root c) s) (\<lambda>_.
             mapM_r (\<lambda>repo. bind_r (gl_repo L s (repo_directory c repo)) scratch_package)
               (scratch_repositories c))) (\<lambda>packages.
     (let (scratch, others) = merge_installed packages (fetch_installed_packages_details installed) in
      Inr \<lparr>py_installed_packages = filter_packages name origin (sorted_packages (scratch @ others)),
           py_scratch_enabled = (config \<noteq> None)\<rparr>))"

end
