(* ===== verification/Display.thy ===== *)
theory Display
  imports RestClient Scratch
begin

section \<open>What the command line shows (cli/format.py, cli/updates.py)\<close>

text \<open>
  The compact and full texts of plans, devices, events and the Python environment, as the lines that
  are printed, and the progress bars. \<open>show_float\<close> is the text of a float; \<open>textwrap\<close>'s \<open>dedent\<close> and
  \<open>fill\<close>, \<open>json.dumps\<close> and \<open>pprint\<close> are parameters, tqdm a bar with its position and value.
\<close>

text \<open>\<open>str\<close> of a JSON value.\<close>

definition str_val :: "(rat \<Rightarrow> string) \<Rightarrow> pyval \<Rightarrow> string" where
  "str_val show_float v = (case v of PStr s \<Rightarrow> s | _ \<Rightarrow> repr_val show_float v)"

subsection \<open>Trees\<close>

definition spaces :: "nat \<Rightarrow> string" where
  "spaces n = replicate n CHR '' ''"

fun fmt_dict :: "(rat \<Rightarrow> string) \<Rightarrow> pyval \<Rightarrow> nat \<Rightarrow> string" where
  "fmt_dict show_float (PDict d) ind =
     [newline] @ join [newline] (map (\<lambda>(k, v). spaces (ind * 4) @ k @ '':'' @ fmt_dict show_float v (Suc ind))
       (filter (\<lambda>(k, v). truthy v) d))"
| "fmt_dict show_float v ind = '' '' @ str_val show_float v"

subsection \<open>Types of arguments\<close>

text \<open>\<open>spec.get(key)\<close> in a condition: a value that is not empty.\<close>

definition truthy_item :: "pydict \<Rightarrow> string \<Rightarrow> pyval option" where
  "truthy_item d key = (case map_of d key of None \<Rightarrow> None | Some v \<Rightarrow> if truthy v then Some v else None)"

lemma truthy_item_size: "truthy_item d key = Some (PList fs) \<Longrightarrow> f \<in> set fs \<Longrightarrow> size f < size (PDict d)"
proof -
  assume "truthy_item d key = Some (PList fs)" and f: "f \<in> set fs"
  then have "(key, PList fs) \<in> set d"
    by (auto simp: truthy_item_def map_of_SomeD split: option.splits if_splits)
  then have "size (PList fs) < size (PDict d)"
    by (induction d) auto
  moreover have "size f < size (PList fs)" using f by (induction fs) auto
  ultimately show ?thesis by simp
qed

lemma mapM_r_cong [fundef_cong]:
  "xs = ys \<Longrightarrow> (\<And>x. x \<in> set ys \<Longrightarrow> f x = g x) \<Longrightarrow> mapM_r f xs = mapM_r g ys"
  by (induction xs arbitrary: ys) auto

text \<open>The type of the items of an array.\<close>

definition element_type :: "(rat \<Rightarrow> string) \<Rightarrow> pydict \<Rightarrow> string result" where
  "element_type show_float d =
     (case map_of d ''items'' of
        None \<Rightarrow> Inr ''Any''
      | Some (PDict i) \<Rightarrow> Inr (case map_of i ''type'' of None \<Rightarrow> ''Any'' | Some v \<Rightarrow> str_val show_float v)
      | Some _ \<Rightarrow> Inl (AttributeError ''object has no attribute get''))"

function describe_type :: "(rat \<Rightarrow> string) \<Rightarrow> pyval \<Rightarrow> bool \<Rightarrow> string result" where
  "describe_type show_float (PDict d) required =
     bind_r (case map_of d ''type'' of
         Some (PStr t) \<Rightarrow>
           if t = ''array'' then bind_r (element_type show_float d) (\<lambda>element. Inr (''['' @ element @ '']'')) else Inr t
       | other \<Rightarrow>
           if other \<notin> {None, Some PNone} then Inl (TypeError ''can only concatenate str'')
           else (case truthy_item d ''allOf'' of
               Some (PList fs) \<Rightarrow>
                 bind_r (mapM_r (\<lambda>f. describe_type show_float f False) fs) (\<lambda>items. Inr (join '' & '' items))
             | Some _ \<Rightarrow> Inl (AttributeError ''object has no attribute get'')
             | None \<Rightarrow>
                 (case truthy_item d ''anyOf'' of
                    Some (PList fs) \<Rightarrow>
                      bind_r (mapM_r (\<lambda>f. describe_type show_float f False) fs) (\<lambda>items.
                        Inr (join '' | '' (filter (\<lambda>item. item \<noteq> ''null'' \<or> length fs \<noteq> 2) items)))
                  | Some _ \<Rightarrow> Inl (AttributeError ''object has no attribute get'')
                  | None \<Rightarrow> Inr ''Any'')))
       (\<lambda>disp. Inr (disp @ (if required then '' (Required)'' else [])))"
| "describe_type show_float PNone required = Inl (AttributeError ''object has no attribute get'')"
| "describe_type show_float (PBool b) required = Inl (AttributeError ''object has no attribute get'')"
| "describe_type show_float (PInt i) required = Inl (AttributeError ''object has no attribute get'')"
| "describe_type show_float (PFloat q) required = Inl (AttributeError ''object has no attribute get'')"
| "describe_type show_float (PStr s) required = Inl (AttributeError ''object has no attribute get'')"
| "describe_type show_float (PList vs) required = Inl (AttributeError ''object has no attribute get'')"
  by pat_completeness auto
termination
  by (relation "measure (\<lambda>(_, v, _). size v)") (auto dest: truthy_item_size)

subsection \<open>Compact texts\<close>

definition protocol_str :: "protocol_info \<Rightarrow> string" where
  "protocol_str p = pr_name p @ (if pr_types p \<noteq> [] then py_list_str (pr_types p) else [])"

definition indent :: "string \<Rightarrow> string \<Rightarrow> string" where
  "indent t prefix = join [newline] (map (\<lambda>line. if list_all is_space line then line else prefix @ line) (split_on newline t))"

definition package_line :: "package_info \<Rightarrow> string" where
  "package_line p = ''- '' @ pk_name p @ '' @ ('' @ pk_version p @ '')'' @
     (if pk_is_dirty p then '' (Dirty)'' else []) @ (if pk_source p = Scratch then '' (Scratch)'' else [])"

definition progress_text :: "(rat \<Rightarrow> string) \<Rightarrow> progress_event \<Rightarrow> string" where
  "progress_text show_float e =
     (let percentages = map (\<lambda>v. case sv_percentage v of None \<Rightarrow> 0 | Some q \<Rightarrow> 100 * q) (dict_values (pe_statuses e)) in
      ''Progress: '' @ (if percentages = [] then ''???''
        else if Max (set percentages) = 0 then ''0'' else show_float (Max (set percentages))) @ ''%'')"

text \<open>The arguments of a plan in its schema, one line each.\<close>

definition argument_lines :: "(rat \<Rightarrow> string) \<Rightarrow> pydict \<Rightarrow> string list result" where
  "argument_lines show_float schema =
     (case map_of schema ''properties'' of
        None \<Rightarrow> Inr []
      | Some (PDict props) \<Rightarrow>
          mapM_r (\<lambda>(arg, spec).
            bind_r (describe_type show_float spec
                (case map_of schema ''required'' of Some (PList vs) \<Rightarrow> PStr arg \<in> set vs | _ \<Rightarrow> False))
              (\<lambda>t. Inr (''      '' @ arg @ ''='' @ t))) props
      | Some _ \<Rightarrow> Inl (AttributeError ''object has no attribute items''))"

record text_lib =
  tx_dedent :: "string \<Rightarrow> string"
  tx_fill :: "string \<Rightarrow> string"
  tx_pprint :: "pyval \<Rightarrow> string list"
  tx_dumps :: "pyval \<Rightarrow> string"
  tx_float :: "rat \<Rightarrow> string"

text \<open>What stands before the first empty line.\<close>

fun first_paragraph :: "string \<Rightarrow> string" where
  "first_paragraph [] = []"
| "first_paragraph (c # cs) = (if c = newline \<and> starts_with [newline] cs then [] else c # first_paragraph cs)"

definition compact_plan :: "text_lib \<Rightarrow> plan_info \<Rightarrow> string list result" where
  "compact_plan X p =
     bind_r (if pi_schema p = [] then Inr []
             else bind_r (argument_lines (tx_float X) (pi_schema p)) (\<lambda>ls. Inr (''    Args'' # ls)))
       (\<lambda>args. Inr (pi_name p #
         (case pi_description p of
            None \<Rightarrow> []
          | Some d \<Rightarrow> if d = [] then []
                    else [indent (tx_dedent X (strip (\<lambda>c. c = newline) (first_paragraph d))) ''    '']) @ args))"

definition compact_device :: "text_lib \<Rightarrow> device_info \<Rightarrow> string list" where
  "compact_device X d =
     [di_name d, indent (tx_fill X (join '', '' (map protocol_str (di_protocols d)))) ''    '']"

definition compact_event :: "(rat \<Rightarrow> string) \<Rightarrow> event \<Rightarrow> string list" where
  "compact_event show_float ev =
     (case ev of
        DEvent d \<Rightarrow> [''Data Event: '' @ de_name d]
      | WEvent w \<Rightarrow> [''Worker Event: '' @ state_value (we_state w)]
      | PEvent p \<Rightarrow> [progress_text show_float p])"

definition environment_lines :: "(package_info \<Rightarrow> string list) \<Rightarrow> string list \<Rightarrow> python_environment \<Rightarrow> string list" where
  "environment_lines show_package heading env =
     (''Scratch Status: '' @ (if py_scratch_enabled env then ''enabled'' else ''disabled'')) #
     (if py_installed_packages env = [] then [''No scratch packages found'']
      else heading @ concat (map show_package (py_installed_packages env)))"

definition compact_environment :: "python_environment \<Rightarrow> string list" where
  "compact_environment = environment_lines (\<lambda>p. [package_line p]) []"

subsection \<open>Full texts\<close>

definition source_value :: "source_info \<Rightarrow> string" where
  "source_value s = (case s of Pypi \<Rightarrow> ''pypi'' | Scratch \<Rightarrow> ''scratch'')"

definition full_package :: "package_info \<Rightarrow> string list" where
  "full_package p =
     [''- '' @ pk_name p, ''Version: '' @ pk_version p, ''Location: '' @ pk_location p,
      ''Source: '' @ source_value (pk_source p), ''Dirty: '' @ (if pk_is_dirty p then ''True'' else ''False'')]"

definition full_environment :: "python_environment \<Rightarrow> string list" where
  "full_environment = environment_lines full_package [''Installed Packages:'']"

definition full_device :: "device_info \<Rightarrow> string list" where
  "full_device d = di_name d # map (\<lambda>p. ''    '' @ protocol_str p) (di_protocols d)"

definition full_plan :: "text_lib \<Rightarrow> plan_info \<Rightarrow> string list" where
  "full_plan X p =
     pi_name p #
     (case pi_description p of
        None \<Rightarrow> []
      | Some d \<Rightarrow> if d = [] then [] else [indent (strip is_space (tx_dedent X d)) ''    '']) @
     (if pi_schema p = [] then [] else [''    Schema'', indent (tx_dumps X (PDict (pi_schema p))) ''        ''])"

definition dump_outcome :: "outcome option \<Rightarrow> pyval" where
  "dump_outcome r =
     (case r of
        None \<Rightarrow> PNone
      | Some (TaskResult v t) \<Rightarrow> PDict [(''outcome'', PStr ''success''), (''result'', v), (''type'', PStr t)]
      | Some (TaskError t m) \<Rightarrow> PDict [(''outcome'', PStr ''error''), (''type'', PStr t), (''message'', PStr m)])"

definition dump_task_status :: "task_status \<Rightarrow> pyval" where
  "dump_task_status t =
     PDict [(''task_id'', PStr (ts_task_id t)), (''result'', dump_outcome (ts_result t)),
            (''task_complete'', PBool (ts_task_complete t)), (''task_failed'', PBool (ts_task_failed t))]"

definition dump_float :: "rat option \<Rightarrow> pyval" where
  "dump_float q = (case q of None \<Rightarrow> PNone | Some v \<Rightarrow> PFloat v)"

definition dump_status_view :: "status_view \<Rightarrow> pyval" where
  "dump_status_view v =
     PDict [(''display_name'', PStr (sv_display_name v)), (''current'', dump_float (sv_current v)),
       (''initial'', dump_float (sv_initial v)), (''target'', dump_float (sv_target v)), (''unit'', PStr (sv_unit v)),
       (''precision'', case sv_precision v of None \<Rightarrow> PNone | Some i \<Rightarrow> PInt i), (''done'', PBool (sv_done v)),
       (''percentage'', dump_float (sv_percentage v)), (''time_elapsed'', dump_float (sv_time_elapsed v)),
       (''time_remaining'', dump_float (sv_time_remaining v))]"

definition dump_progress_event :: "progress_event \<Rightarrow> pyval" where
  "dump_progress_event e =
     PDict [(''task_id'', PStr (pe_task_id e)),
            (''statuses'', PDict (map (\<lambda>(k, v). (k, dump_status_view v)) (pe_statuses e)))]"

text \<open>\<open>str.title\<close>: a letter after a letter is in lower case, any other in upper case.\<close>

definition is_letter :: "char \<Rightarrow> bool" where
  "is_letter c \<longleftrightarrow> upper_char c \<noteq> c \<or> lower_char c \<noteq> c"

fun title_from :: "bool \<Rightarrow> string \<Rightarrow> string" where
  "title_from after_letter [] = []"
| "title_from after_letter (c # cs) = (if after_letter then lower_char c else upper_char c) # title_from (is_letter c) cs"

definition full_event :: "(rat \<Rightarrow> string) \<Rightarrow> event \<Rightarrow> string list" where
  "full_event show_float ev =
     (case ev of
        DEvent d \<Rightarrow> [title_from False (de_name d) @ '':'' @ fmt_dict show_float (PDict (de_doc d)) 1]
      | WEvent w \<Rightarrow> [''WorkerEvent: '' @ state_value (we_state w) @
          fmt_dict show_float (case we_task_status w of None \<Rightarrow> PDict [] | Some t \<Rightarrow> dump_task_status t) 1]
      | PEvent p \<Rightarrow> [''Progress:'' @ fmt_dict show_float (dump_progress_event p) 1])"

subsection \<open>Progress bars\<close>

record bar =
  bar_position :: nat
  bar_desc :: string
  bar_n :: rat
  bar_unit :: string

record progress_bars =
  pb_bars :: "(string \<times> bar) list"
  pb_count :: nat

definition new_progress_bars :: progress_bars where
  "new_progress_bars = \<lparr>pb_bars = [], pb_count = 0\<rparr>"

definition new_bar :: "nat \<Rightarrow> bar" where
  "new_bar pos = \<lparr>bar_position = pos, bar_desc = [], bar_n = 0, bar_unit = ''it''\<rparr>"

text \<open>\<open>bar.update(d)\<close> adds to the value of the bar.\<close>

definition update_bar :: "status_view \<Rightarrow> bar \<Rightarrow> bar" where
  "update_bar view b =
     (if sv_current view \<noteq> None \<and> sv_target view \<noteq> None \<and> sv_initial view \<noteq> None \<and> sv_time_elapsed view \<noteq> None
      then (case sv_percentage view of
          None \<Rightarrow> b
        | Some p \<Rightarrow> b\<lparr>bar_desc := sv_display_name view, bar_n := bar_n b + (p - bar_n b), bar_unit := sv_unit view\<rparr>)
      else b)"

definition show_status :: "string \<Rightarrow> status_view \<Rightarrow> progress_bars \<Rightarrow> progress_bars" where
  "show_status name view pb =
     (let pb' = (if name \<in> fst ` set (pb_bars pb) then pb
                 else pb\<lparr>pb_bars := dict_set name (new_bar (pb_count pb)) (pb_bars pb), pb_count := Suc (pb_count pb)\<rparr>)
      in case map_of (pb_bars pb') name of
           None \<Rightarrow> pb'
         | Some b \<Rightarrow> pb'\<lparr>pb_bars := dict_set name (update_bar view b) (pb_bars pb')\<rparr>)"

definition update_bars :: "(string \<times> status_view) list \<Rightarrow> progress_bars \<Rightarrow> progress_bars" where
  "update_bars views pb = fold (\<lambda>(name, view). show_status name view) views pb"

end
