(* ===== verification/ConfigLoader.thy ===== *)
theory ConfigLoader
  imports Config
begin

section \<open>Loading configuration (ConfigLoader in config.py)\<close>

text \<open>
  \<open>use_values\<close> merges a dictionary into the values collected so far: where both sides hold a
  dictionary the merge descends, everywhere else the new value wins. \<open>value_at\<close> reads a value
  at a path of keys; the properties say which side a path takes its value from.
\<close>

subsection \<open>The merge\<close>

fun rec_update :: "pydict \<Rightarrow> pydict \<Rightarrow> pydict" where
  "rec_update old [] = old"
| "rec_update old ((key, v) # new) =
     rec_update
       (case map_of old key of
          Some (PDict o') \<Rightarrow>
            (case v of
               PDict n' \<Rightarrow> dict_set key (PDict (rec_update o' n')) old
             | _ \<Rightarrow> dict_set key v old)
        | _ \<Rightarrow> dict_set key v old)
       new"

record loader = loader_values :: pydict

definition new_loader :: loader where
  "new_loader = \<lparr>loader_values = []\<rparr>"

definition use_values :: "pydict \<Rightarrow> loader \<Rightarrow> loader" where
  "use_values new l = l\<lparr>loader_values := rec_update (loader_values l) new\<rparr>"

text \<open>
  \<open>use_values_from_yaml\<close>: \<open>read\<close> opens a path and parses its content (\<open>None\<close> for an empty
  document, over which the merge loop cannot iterate). The files before one that fails stay
  merged.
\<close>

fun use_values_from_yaml :: "('p \<Rightarrow> pydict option result) \<Rightarrow> 'p list \<Rightarrow> loader \<Rightarrow> unit result \<times> loader" where
  "use_values_from_yaml read [] l = (Inr (), l)"
| "use_values_from_yaml read (path # paths) l =
     (case read path of
        Inl e \<Rightarrow> (Inl e, l)
      | Inr None \<Rightarrow> (Inl (TypeError (quote_char # ''NoneType'' @ [quote_char] @ '' object is not iterable'')), l)
      | Inr (Some d) \<Rightarrow> use_values_from_yaml read paths (use_values d l))"

text \<open>\<open>load\<close>: \<open>validate\<close> is pydantic's validation of the collected values.\<close>

definition load_config :: "(pydict \<Rightarrow> 'c result) \<Rightarrow> (verror list \<Rightarrow> string) \<Rightarrow> loader \<Rightarrow> 'c result" where
  "load_config validate show_errors l =
     (case validate (loader_values l) of
        Inr c \<Rightarrow> Inr c
      | Inl (ValidationError _ errs) \<Rightarrow>
          Inl (InvalidConfigError (''Something is wrong with the configuration file: '' @ [newline] @ '' '' @ show_errors errs))
      | Inl e \<Rightarrow> Inl e)"

subsection \<open>What the merge does to each key and to each path\<close>

definition merged :: "pyval option \<Rightarrow> pyval option \<Rightarrow> pyval option" where
  "merged old new =
     (case new of
        None \<Rightarrow> old
      | Some (PDict n) \<Rightarrow> (case old of Some (PDict d) \<Rightarrow> Some (PDict (rec_update d n)) | _ \<Rightarrow> new)
      | Some _ \<Rightarrow> new)"

definition rec_step :: "pydict \<Rightarrow> string \<Rightarrow> pyval \<Rightarrow> pydict" where
  "rec_step old key v =
     (case map_of old key of
        Some (PDict o') \<Rightarrow>
          (case v of PDict n' \<Rightarrow> dict_set key (PDict (rec_update o' n')) old | _ \<Rightarrow> dict_set key v old)
      | _ \<Rightarrow> dict_set key v old)"

lemma rec_update_Cons: "rec_update old ((key, v) # new) = rec_update (rec_step old key v) new"
  by (simp add: rec_step_def)

lemma rec_step_lookup:
  "map_of (rec_step old key v) k = (if k = key then merged (map_of old key) (Some v) else map_of old k)"
  by (auto simp: rec_step_def merged_def split: option.splits pyval.splits)

lemma rec_step_ok: "dict_ok old \<Longrightarrow> dict_ok (rec_step old key v)"
  by (auto simp: rec_step_def split: option.splits pyval.splits)

lemma rec_update_ok: "dict_ok old \<Longrightarrow> dict_ok (rec_update old new)"
  by (induction new arbitrary: old) (auto simp: rec_update_Cons rec_step_ok simp del: rec_update.simps(2))

lemma rec_update_lookup:
  "dict_ok new \<Longrightarrow> map_of (rec_update old new) k = merged (map_of old k) (map_of new k)"
proof (induction new arbitrary: old)
  case Nil
  then show ?case by (simp add: merged_def)
next
  case (Cons p new)
  obtain key v where p: "p = (key, v)" by (cases p)
  from Cons.prems have fresh: "map_of new key = None" and ok: "dict_ok new"
    by (auto simp: p map_of_None_keys)
  show ?case
    unfolding p rec_update_Cons Cons.IH [OF ok] rec_step_lookup
    by (auto simp: fresh merged_def)
qed

text \<open>Every dictionary inside a value has distinct keys, as Python guarantees.\<close>

fun value_ok :: "pyval \<Rightarrow> bool" where
  "value_ok (PDict d) \<longleftrightarrow> dict_ok d \<and> (\<forall>p \<in> set d. value_ok (snd p))"
| "value_ok (PList xs) \<longleftrightarrow> (\<forall>x \<in> set xs. value_ok x)"
| "value_ok _ \<longleftrightarrow> True"

lemma value_ok_lookup: "value_ok (PDict d) \<Longrightarrow> map_of d k = Some v \<Longrightarrow> value_ok v"
  by (auto dest!: map_of_SomeD)

text \<open>\<open>value_at d [k1, k2]\<close> is \<open>d[k1][k2]\<close>, \<open>None\<close> where a key is missing or not in a dictionary.\<close>

fun value_at :: "pydict \<Rightarrow> string list \<Rightarrow> pyval option" where
  "value_at d [] = Some (PDict d)"
| "value_at d [k] = map_of d k"
| "value_at d (k # k' # ks) =
     (case map_of d k of Some (PDict d') \<Rightarrow> value_at d' (k' # ks) | _ \<Rightarrow> None)"

fun is_dict :: "pyval \<Rightarrow> bool" where
  "is_dict (PDict _) = True"
| "is_dict _ = False"

text \<open>The new side says nothing about a path: at some key on the way it has no entry.\<close>

fun untouched :: "pydict \<Rightarrow> string list \<Rightarrow> bool" where
  "untouched d [] = False"
| "untouched d (k # ks) =
     (case map_of d k of None \<Rightarrow> True | Some (PDict d') \<Rightarrow> untouched d' ks | Some _ \<Rightarrow> False)"

lemma merge_path_new:
  assumes "value_ok (PDict new)" "value_at new ks = Some v" "\<not> is_dict v"
  shows "value_at (rec_update old new) ks = Some v"
  using assms
proof (induction new ks arbitrary: old rule: value_at.induct)
  case (1 d)
  then show ?case by auto
next
  case (2 d k)
  then show ?case by (cases v) (auto simp: rec_update_lookup merged_def)
next
  case (3 d k k' ks)
  from "3.prems" obtain d' where d': "map_of d k = Some (PDict d')" "value_at d' (k' # ks) = Some v"
    by (auto split: option.splits pyval.splits)
  from "3.prems"(1) d'(1) have ok': "value_ok (PDict d')" by (rule value_ok_lookup)
  have IH: "\<And>old. value_at (rec_update old d') (k' # ks) = Some v"
    using "3.IH" [OF d'(1) refl ok' d'(2) "3.prems"(3)] .
  from "3.prems"(1) have "dict_ok d" by simp
  then show ?case
    using d' IH by (auto simp: rec_update_lookup merged_def split: option.splits pyval.splits)
qed

lemma untouched_value_at: "untouched n (k # ks) \<Longrightarrow> value_at n (k # ks) = None"
  by (induction ks arbitrary: n k) (auto split: option.splits pyval.splits)

lemma merge_path_old:
  assumes "value_ok (PDict new)" "untouched new ks"
  shows "value_at (rec_update old new) ks = value_at old ks"
  using assms
proof (induction old ks arbitrary: new rule: value_at.induct)
  case (3 d k k' ks)
  from "3.prems"(1) have ok: "dict_ok new" by simp
  show ?case
  proof (cases "map_of new k")
    case None
    then show ?thesis by (simp add: rec_update_lookup [OF ok] merged_def)
  next
    case (Some v)
    with "3.prems"(2) obtain n where n: "v = PDict n" "untouched n (k' # ks)"
      by (cases v) auto
    from "3.prems"(1) Some n have okn: "value_ok (PDict n)" by (metis value_ok_lookup)
    show ?thesis
    proof (cases "map_of d k")
      case None
      from n(2) have "value_at n (k' # ks) = None" by (rule untouched_value_at)
      with None Some n show ?thesis by (simp add: rec_update_lookup [OF ok] merged_def)
    next
      case (Some w)
      show ?thesis
      proof (cases "is_dict w")
        case True
        then obtain o' where w: "w = PDict o'" by (cases w) auto
        from "3.IH" [OF _ _ okn n(2)] Some w
        have "value_at (rec_update o' n) (k' # ks) = value_at o' (k' # ks)" by simp
        with Some w \<open>map_of new k = Some v\<close> n show ?thesis
          by (simp add: rec_update_lookup [OF ok] merged_def)
      next
        case False
        from n(2) have "value_at n (k' # ks) = None" by (rule untouched_value_at)
        with False Some \<open>map_of new k = Some v\<close> n show ?thesis
          by (cases w) (simp_all add: rec_update_lookup [OF ok] merged_def)
      qed
    qed
  qed
qed (auto simp: rec_update_lookup merged_def split: option.splits pyval.splits)


text \<open>
  Claim C15. After \<open>use_values new\<close>, a path at which the new dictionary holds a plain value reads
  that value, whatever was there before, and a path the new dictionary says nothing about reads
  what it read before: new values override, and only they.
\<close>

theorem use_values_overrides_only_given_paths:
  assumes "value_ok (PDict new)"
  shows "(value_at new ks = Some v \<and> \<not> is_dict v \<longrightarrow>
            value_at (loader_values (use_values new l)) ks = Some v) \<and>
         (untouched new ks \<longrightarrow>
            value_at (loader_values (use_values new l)) ks = value_at (loader_values l) ks)"
  using merge_path_new [OF assms] merge_path_old [OF assms] by (simp add: use_values_def)

theorem use_values_overrides_only_given_paths_witness:
  "value_at (loader_values (use_values [(''api'', PDict [(''url'', PStr ''http://x'')])]
      \<lparr>loader_values = [(''api'', PDict [(''url'', PStr ''old''), (''cors'', PNone)])]\<rparr>)) [''api'', ''url'']
     = Some (PStr ''http://x'') \<and>
   value_at (loader_values (use_values [(''api'', PDict [(''url'', PStr ''http://x'')])]
      \<lparr>loader_values = [(''api'', PDict [(''url'', PStr ''old''), (''cors'', PNone)])]\<rparr>)) [''api'', ''cors'']
     = Some PNone"
proof -
  have ok: "value_ok (PDict [(''api'', PDict [(''url'', PStr ''http://x'')])])" by simp
  show ?thesis
    using use_values_overrides_only_given_paths
        [OF ok, of "[''api'', ''url'']" "PStr ''http://x''"
          "\<lparr>loader_values = [(''api'', PDict [(''url'', PStr ''old''), (''cors'', PNone)])]\<rparr>"]
      use_values_overrides_only_given_paths
        [OF ok, of "[''api'', ''cors'']" PNone
          "\<lparr>loader_values = [(''api'', PDict [(''url'', PStr ''old''), (''cors'', PNone)])]\<rparr>"]
    by simp
qed

lemma use_values_from_yaml_all:
  "(\<And>p. p \<in> set paths \<Longrightarrow> read p = Inr (Some (doc p))) \<Longrightarrow>
     use_values_from_yaml read paths l = (Inr (), fold (\<lambda>p. use_values (doc p)) paths l)"
  by (induction paths arbitrary: l) auto

lemma use_values_from_yaml_stops:
  "(\<And>p. p \<in> set ps \<Longrightarrow> read p = Inr (Some (doc p))) \<Longrightarrow> read q = Inl e \<Longrightarrow>
     use_values_from_yaml read (ps @ q # qs) l = (Inl e, fold (\<lambda>p. use_values (doc p)) ps l)"
  by (induction ps arbitrary: l) auto

subsection \<open>Environment variables in YAML scalars\<close>

text \<open>
  \<open>_expand_env\<close> is \<open>string.Template.safe_substitute\<close>: \<open>$$\<close> is an escaped dollar, \<open>$name\<close> and
  \<open>${name}\<close> are replaced when the variable is set and left as they are otherwise, any other
  dollar stays. The text that is put in is not scanned again.
\<close>

definition id_start :: "char \<Rightarrow> bool" where
  "id_start c \<longleftrightarrow> (let n = (of_char c :: nat) in n = 95 \<or> 65 \<le> n \<and> n \<le> 90 \<or> 97 \<le> n \<and> n \<le> 122)"

definition id_char :: "char \<Rightarrow> bool" where
  "id_char c \<longleftrightarrow> id_start c \<or> is_digit c"

function expand_env :: "(string \<Rightarrow> string option) \<Rightarrow> string \<Rightarrow> string" where
  "expand_env env [] = []"
| "expand_env env (x # xs) =
     (if x \<noteq> CHR ''$'' then x # expand_env env xs
      else case xs of
          [] \<Rightarrow> [x]
        | y # ys \<Rightarrow>
            (if y = CHR ''$'' then CHR ''$'' # expand_env env ys
             else if id_start y then
               (let nm = y # takeWhile id_char ys
                in (case env nm of Some v \<Rightarrow> v | None \<Rightarrow> x # nm) @ expand_env env (dropWhile id_char ys))
             else if y = CHR ''{'' \<and> takeWhile id_char ys \<noteq> [] \<and> id_start (hd (takeWhile id_char ys)) \<and>
                 dropWhile id_char ys \<noteq> [] \<and> hd (dropWhile id_char ys) = CHR ''}'' then
               (let nm = takeWhile id_char ys
                in (case env nm of Some v \<Rightarrow> v | None \<Rightarrow> x # y # nm @ ''}'') @
                   expand_env env (tl (dropWhile id_char ys)))
             else x # expand_env env xs))"
  by pat_completeness auto
termination
proof (relation "measure (\<lambda>(env, s). length s)", goal_cases)
  case (4 env x xs y ys nm)
  then show ?case using length_dropWhile_le [of id_char ys] by simp
next
  case (5 env x xs y ys nm)
  then show ?case using length_dropWhile_le [of id_char ys] by simp
qed auto

lemma expand_env_no_dollar: "CHR ''$'' \<notin> set s \<Longrightarrow> expand_env env s = s"
  by (induction s) auto

lemma expand_env_prefix: "CHR ''$'' \<notin> set s \<Longrightarrow> expand_env env (s @ t) = s @ expand_env env t"
  by (induction s) auto

lemma takeWhile_id_brace:
  "list_all id_char nm \<Longrightarrow> takeWhile id_char (nm @ CHR ''}'' # t) = nm \<and>
     dropWhile id_char (nm @ CHR ''}'' # t) = CHR ''}'' # t"
  by (induction nm) (auto simp: id_char_def id_start_def is_digit_def)

text \<open>
  A braced variable that is set is replaced by its value, one that is not set stays as
  it is written, and in both cases the rest of the scalar is expanded on its own; text without a
  dollar is not changed.
\<close>

theorem expand_env_braced:
  assumes "CHR ''$'' \<notin> set pre" and "nm \<noteq> []" and "id_start (hd nm)" and "list_all id_char nm"
  shows "expand_env env (pre @ ''${'' @ nm @ ''}'' @ post) =
           pre @ (case env nm of Some v \<Rightarrow> v | None \<Rightarrow> ''${'' @ nm @ ''}'') @ expand_env env post \<and>
         expand_env env pre = pre"
proof -
  note w = takeWhile_id_brace [OF assms(4), of post]
  have brace: "\<not> id_start (CHR ''{'')" "\<not> id_char (CHR ''}'')"
    by (simp_all add: id_char_def id_start_def is_digit_def)
  show ?thesis
    using w assms(1-3) brace by (cases "env nm") (simp_all add: expand_env_prefix expand_env_no_dollar)
qed

theorem expand_env_braced_witness:
  "expand_env (\<lambda>n. if n = ''BEAMLINE'' then Some ''i22'' else None) (''instrument-'' @ ''${'' @ ''BEAMLINE'' @ ''}'' @ ''!'')
     = ''instrument-'' @ ''i22'' @ ''!''"
proof -
  have "CHR ''$'' \<notin> set ''instrument-''" "''BEAMLINE'' \<noteq> []" by simp_all
  moreover have "id_start (hd ''BEAMLINE'')" "list_all id_char ''BEAMLINE''"
    by (simp_all add: id_char_def id_start_def)
  ultimately show ?thesis
    using expand_env_braced [of "''instrument-''" "''BEAMLINE''"
        "\<lambda>n. if n = ''BEAMLINE'' then Some ''i22'' else None" "''!''"] by simp
qed

end
