(* ===== verification/Cli.thy ===== *)
theory Cli
  imports ClientRun Display ConfigLoader
begin

section \<open>The command line (cli/cli.py)\<close>

text \<open>
  The commands that do more than hand a request on: the configuration, running a plan with the texts
  and errors of its end, login and logout, the environment and the scratch area. click parses the
  arguments. A command ends with what it prints, with an error click reports, or with an exception.
\<close>

datatype cli_end = CliPrinted "string list" | CliFailed string | CliCrashed client_exn

subsection \<open>Configuration and parameters\<close>

fun is_file_not_found :: "exn \<Rightarrow> bool" where
  "is_file_not_found (FileNotFoundError _) = True"
| "is_file_not_found _ = False"

text \<open>\<open>file_of\<close> is the file name that a \<open>FileNotFoundError\<close> carries.\<close>

definition cli_config :: "('p \<Rightarrow> pydict option result) \<Rightarrow> (exn \<Rightarrow> string) \<Rightarrow> (loader \<Rightarrow> 'c result) \<Rightarrow> 'p list \<Rightarrow>
    string option \<Rightarrow> string option \<Rightarrow> cli_end + 'c" where
  "cli_config read file_of load_values config host level =
     (case use_values_from_yaml read config new_loader of
        (Inl e, l) \<Rightarrow> Inl (if is_file_not_found e then CliFailed (''Config file not found: '' @ file_of e) else CliCrashed (PyError e))
      | (Inr _, l) \<Rightarrow>
          (let l' = (case host of None \<Rightarrow> l | Some h \<Rightarrow> if h = [] then l
                 else use_values [(''api'', PDict [(''url'', PStr h)])] l);
               l'' = (case level of None \<Rightarrow> l' | Some v \<Rightarrow> if v = [] then l'
                 else use_values [(''logging'', PDict [(''level'', PStr v)])] l')
           in case load_values l'' of Inl e \<Rightarrow> Inl (CliCrashed (PyError e)) | Inr c \<Rightarrow> Inr c))"

text \<open>A parameter on the command line: JSON text (\<open>loads\<close>) that is an object.\<close>

definition convert_parameters :: "(string \<Rightarrow> pyval result) \<Rightarrow> string \<Rightarrow> pydict client_result" where
  "convert_parameters loads value =
     (case loads value of
        Inr (PDict d) \<Rightarrow> Inr d
      | Inr _ \<Rightarrow> Inl (PyError (ForeignError ''BadParameter'' ''Parameters must be a JSON object with string keys''))
      | Inl e \<Rightarrow> Inl (PyError (if is_json_error e
          then ForeignError ''BadParameter'' (''Parameters are not valid JSON: '' @ exn_str e) else e)))"

subsection \<open>Errors of a run\<close>

text \<open>The exceptions that are a \<open>ValueError\<close>.\<close>

fun is_value_error :: "exn \<Rightarrow> bool" where
  "is_value_error (ValueError _) = True"
| "is_value_error (ValidationError _ _) = True"
| "is_value_error (ForeignError c _) = (c \<in> {''JSONDecodeError'', ''UnicodeDecodeError'', ''Error''})"
| "is_value_error _ = False"

text \<open>\<open>check_connection\<close>, around a command.\<close>

fun check_connection :: "client_exn \<Rightarrow> cli_end" where
  "check_connection ServiceUnavailableError = CliFailed ''Failed to establish connection to blueapi server.''"
| "check_connection (UnauthorisedAccessError _ _) = CliFailed ''Access denied. Please check your login status and try again.''"
| "check_connection e = CliCrashed e"

text \<open>The handlers of \<open>run_plan\<close>; \<open>e.args[0]\<close> raises when the error has no arguments.\<close>

fun run_error :: "(rat \<Rightarrow> string) \<Rightarrow> string \<Rightarrow> client_exn \<Rightarrow> cli_end" where
  "run_error show_float name (MissingStompConfigurationError m) = CliFailed m"
| "run_error show_float name (UnknownPlanError _ _) =
     CliFailed (''Plan '' @ [quote_char] @ name @ [quote_char] @ '' was not recognised'')"
| "run_error show_float name (InvalidParametersError errs) = CliFailed (invalid_parameters_message show_float errs)"
| "run_error show_float name (BlueskyStreamingError m) = CliFailed (''Streaming error: '' @ m)"
| "run_error show_float name (BlueskyRemoteControlError args) =
     (case args of
        [] \<Rightarrow> CliCrashed (PyError (IndexError ''tuple index out of range''))
      | a # _ \<Rightarrow> CliFailed (''Remote control error: '' @ str_val show_float a))"
| "run_error show_float name (PyError e) =
     (if is_value_error e then CliFailed (''task could not run: '' @ exn_str e) else check_connection (PyError e))"
| "run_error show_float name e = check_connection e"

definition result_lines :: "(rat \<Rightarrow> string) \<Rightarrow> outcome option \<Rightarrow> string list" where
  "result_lines show_float r =
     (case r of
        None \<Rightarrow> []
      | Some (TaskResult v t) \<Rightarrow>
          [if v = PNone then (if t = ''NoneType'' then ''Plan succeeded''
             else ''Plan returned unserializable result of type '' @ [quote_char] @ t @ [quote_char])
           else ''Plan succeeded: '' @ str_val show_float v]
      | Some (TaskError t m) \<Rightarrow> [''Plan failed: '' @ t @ '': '' @ m])"

definition run_end :: "(rat \<Rightarrow> string) \<Rightarrow> string \<Rightarrow> task_status client_result \<Rightarrow> cli_end" where
  "run_end show_float name res =
     (case res of Inl e \<Rightarrow> run_error show_float name e | Inr st \<Rightarrow> CliPrinted (result_lines show_float (ts_result st)))"

text \<open>
  \<open>run_plan\<close>; the callback shows progress and passes documents to bluesky's callback (\<open>on_event\<close>).
  \<open>run_ws\<close>, \<open>run_bus\<close> and \<open>start\<close> are the client's methods on the world \<open>'w\<close>.
\<close>

definition cli_run_plan :: "(rat \<Rightarrow> string) \<Rightarrow> string \<Rightarrow> bool \<Rightarrow> bool \<Rightarrow> 'u on_event \<Rightarrow>
    ('u blueapi_client \<Rightarrow> 'w \<Rightarrow> task_status client_result option \<times> 'w) \<Rightarrow>
    ('u blueapi_client \<Rightarrow> 'w \<Rightarrow> task_status client_result option \<times> 'w) \<Rightarrow>
    ('u blueapi_client \<Rightarrow> 'w \<Rightarrow> string client_result \<times> 'w) \<Rightarrow> 'u blueapi_client \<Rightarrow> 'w \<Rightarrow>
    cli_end option \<times> 'u blueapi_client \<times> 'w" where
  "cli_run_plan show_float name foreground ws on_event run_ws run_bus start c w =
     (if foreground then
        (let c' = snd (add_callback on_event c);
             (res, w') = (if ws then run_ws c' w else run_bus c' w)
         in (map_option (run_end show_float name) res, c', w'))
      else
        (let (res, w') = start c w in
         (Some (case res of Inl e \<Rightarrow> run_error show_float name e | Inr task_id \<Rightarrow> CliPrinted [task_id]), c, w')))"

text \<open>The callback of \<open>run_plan\<close> on the progress bars and what bluesky's callback does with documents.\<close>

definition cli_on_event :: "(string \<Rightarrow> pydict \<Rightarrow> 'd \<Rightarrow> unit result \<times> 'd) \<Rightarrow> (progress_bars \<times> 'd) on_event" where
  "cli_on_event best_effort ev = (\<lambda>(bars, d).
     case ev of
       PEvent p \<Rightarrow> (Inr (), update_bars (pe_statuses p) bars, d)
     | DEvent e \<Rightarrow> (let (res, d') = best_effort (de_name e) (de_doc e) d in (res, bars, d'))
     | WEvent e \<Rightarrow> (Inr (), bars, d))"

subsection \<open>The environment, the scratch area, login and logout\<close>

definition env_lines :: "env_state \<Rightarrow> string list" where
  "env_lines st =
     [''environment_id=UUID('' @ py_repr (es_environment_id st) @ '') initialized='' @ (if es_initialized st then ''True'' else ''False'') @
      '' error_message='' @ (case es_error_message st of None \<Rightarrow> ''None'' | Some m \<Rightarrow> py_repr m)]"

definition cli_env :: "bool \<Rightarrow> ('w \<Rightarrow> env_state client_result \<times> 'w) \<Rightarrow> ('w \<Rightarrow> env_state client_result \<times> 'w) \<Rightarrow>
    'w \<Rightarrow> cli_end \<times> 'w" where
  "cli_env reload do_reload get w =
     (let (res, w') = (if reload then do_reload w else get w) in
      (case res of
         Inl e \<Rightarrow> check_connection e
       | Inr st \<Rightarrow> CliPrinted ((if reload then [''Reloading environment'', ''Environment is initialized''] else []) @ env_lines st), w'))"

definition cli_setup_scratch :: "'s scratch_lib \<Rightarrow> scratch_config option \<Rightarrow> scratch_repository list \<Rightarrow> 's \<Rightarrow> cli_end \<times> 's" where
  "cli_setup_scratch L config order s =
     (case config of
        None \<Rightarrow> (CliCrashed (PyError (KeyError ''No scratch config supplied'')), s)
      | Some c \<Rightarrow>
          (case setup_scratch L c default_install_timeout order s of
             (Inl e, s') \<Rightarrow> (CliCrashed (PyError e), s')
           | (Inr _, s') \<Rightarrow> (CliPrinted [], s')))"

fun is_non_json :: "client_exn \<Rightarrow> string option" where
  "is_non_json (NonJsonResponseError m) = Some m"
| "is_non_json _ = None"

text \<open>
  \<open>ops\<close> is the cache at the configured path; the client is made from the configuration. What the device
  flow prints for itself is left out.
\<close>

definition cli_login :: "'s client_lib \<Rightarrow> 's cache_ops \<Rightarrow> (pyval \<Rightarrow> oidc_config result) \<Rightarrow> (pyval \<Rightarrow> pyval result) \<Rightarrow>
    app_config \<Rightarrow> 's \<Rightarrow> cli_end \<times> 's" where
  "cli_login L ops decode_oidc poll config s =
     (case cached_login L ops s of
        (Inr _, s') \<Rightarrow> (CliPrinted [''Logged in''], s')
      | (Inl _, s') \<Rightarrow>
          (case client_from_config ops config s' :: unit blueapi_client client_result \<times> 's of
             (Inl e, s1) \<Rightarrow> (check_connection e, s1)
           | (Inr c, s1) \<Rightarrow>
               (case rc_get_oidc_config L (bc_rest c) decode_oidc s1 of
                  (Inl e, s2) \<Rightarrow> (case is_non_json e of Some m \<Rightarrow> CliPrinted [m] | None \<Rightarrow> check_connection e, s2)
                | (Inr None, s2) \<Rightarrow> (CliPrinted [''Server is not configured to use authentication!''], s2)
                | (Inr (Some oidc), s2) \<Rightarrow>
                    (case start_device_flow (cl_oidc L) ops oidc poll s2 of
                       (Inl e, s3) \<Rightarrow> (check_connection (PyError e), s3)
                     | (Inr _, s3) \<Rightarrow> (CliPrinted [], s3)))))"

definition cli_logout :: "'s client_lib \<Rightarrow> 's cache_ops \<Rightarrow> 's \<Rightarrow> cli_end \<times> 's" where
  "cli_logout L ops s =
     (case (case session_from_cache ops s of
         (Inl e, s') \<Rightarrow> (Inl e, s')
       | (Inr cfg, s') \<Rightarrow> logout (cl_oidc L) ops cfg s') of
        (Inr printed, s') \<Rightarrow> (CliPrinted [printed], s')
      | (Inl e, s') \<Rightarrow>
          (if is_file_not_found e then CliPrinted [''Logged out'']
           else if is_value_error e then CliFailed ''Login token is not valid - remove before trying again''
           else CliFailed (''Error logging out: '' @ exn_str e), s'))"

end
