(* ===== verification/CliProps.thy ===== *)
theory CliProps
  imports Cli
begin

section \<open>What the command line guarantees\<close>

text \<open>
  The ends of a run as the user of the command line is told them, the description of argument types
  and the invariant of the progress bars.
\<close>

subsection \<open>The end of a run over the websocket\<close>

lemma receive_after_updates:
  "receive_events (map (Inr \<circ> Update) evs @ msgs) closing =
    (evs @ fst (receive_events msgs closing), snd (receive_events msgs closing))"
  by (induction evs) (simp_all add: case_prod_beta)

lemma follow_unfinished:
  "\<forall>ev \<in> set evs. \<not> completes ev \<Longrightarrow>
   follow_events cbs None (evs @ later) ending u = follow_events cbs None later ending (fold (call_all cbs) evs u)"
  by (induction evs arbitrary: u) (simp_all add: call_on_event_def Let_def)

text \<open>What the user is told at the end of a connection, and one that had updates first.\<close>

definition told :: "(rat \<Rightarrow> string) \<Rightarrow> string \<Rightarrow> 'u on_event list \<Rightarrow> 'u \<Rightarrow> ws_connect \<Rightarrow> cli_end" where
  "told show_float name cbs u c =
     (case websocket_events c of (events, ending) \<Rightarrow>
        run_end show_float name (fst (follow_events cbs None events ending u)))"

definition after_updates :: "event list \<Rightarrow> ws_message result list \<Rightarrow> ws_connect" where
  "after_updates evs msgs = WsConnected (map (Inr \<circ> Update) evs @ msgs) None"

text \<open>
  What the user of \<open>blueapi controller run --ws\<close> is told, whatever progress came before:
  the outcome of the plan once it completes, one line for each way the server refuses the request
  (with every invalid parameter), a refused connection or credentials, and a connection that is
  closed before the plan completes. Only a handshake the server rejects with another status ends in
  an uncaught \<open>IndexError\<close>, because the error that is raised for it has no arguments.
\<close>

theorem cli_reports_websocket_end:
  assumes "\<forall>ev \<in> set evs. \<not> completes ev"
  shows "told show_float name cbs u (after_updates evs [Inr ServerBusy]) = CliFailed ''Remote control error: 409'' \<and>
    told show_float name cbs u (after_updates evs [Inr Unauthorized]) = CliFailed ''Access denied. Please check your login status and try again.'' \<and>
    told show_float name cbs u (after_updates evs [Inr (PlanNotFound n)]) = CliFailed (''Plan '' @ quote_char # name @ quote_char # '' was not recognised'') \<and>
    told show_float name cbs u (after_updates evs [Inr (InvalidArgs errs)]) = CliFailed (invalid_parameters_message show_float (map from_verror errs)) \<and>
    told show_float name cbs u (after_updates evs []) = CliFailed ''Remote control error: Connection closed before plan completed.'' \<and>
    told show_float name cbs u WsConnectionRefused = CliFailed ''Failed to establish connection to blueapi server.'' \<and>
    (if completes ev then \<exists>st. event_status ev = Some st \<and>
       told show_float name cbs u (after_updates evs (Inr (Update ev) # msgs)) = CliPrinted (result_lines show_float (ts_result st)) else True) \<and>
    told show_float name cbs u (WsInvalidStatus code) = (if code \<in> {401, 403}
      then CliFailed ''Access denied. Please check your login status and try again.''
      else CliCrashed (PyError (IndexError ''tuple index out of range'')))"
proof -
  have after: "told show_float name cbs u (after_updates evs m) = run_end show_float name (fst (follow_events cbs None
      (fst (receive_events m None)) (snd (receive_events m None)) (fold (call_all cbs) evs u)))" for m
    by (simp add: told_def after_updates_def websocket_events_def receive_after_updates follow_unfinished [OF assms(1)])
  have "\<exists>st. event_status ev = Some st \<and>
      told show_float name cbs u (after_updates evs (Inr (Update ev) # msgs)) = CliPrinted (result_lines show_float (ts_result st))" if "completes ev"
  proof -
    from that obtain st where "event_status ev = Some st"
      by (auto simp: completes_def event_status_def we_is_complete_def split: event.splits option.splits)
    with that show ?thesis by (simp add: after case_prod_beta call_on_event_def Let_def run_end_def)
  qed
  moreover have "repr_val show_float (PInt 409) = ''409''" by (simp add: show_int_def) code_simp
  ultimately show ?thesis
    unfolding after
    by (simp add: told_def websocket_events_def run_end_def str_val_def invalid_parameters_def)
qed

theorem cli_reports_websocket_end_witness:
  "told (\<lambda>_. []) ''count'' [] (0 :: nat) (after_updates [] [Inr ServerBusy]) = CliFailed ''Remote control error: 409'' \<and>
   told (\<lambda>_. []) ''count'' [] (0 :: nat) (WsInvalidStatus 500) = CliCrashed (PyError (IndexError ''tuple index out of range''))"
proof -
  have "\<forall>ev \<in> set []. \<not> completes ev" by simp
  from cli_reports_websocket_end [OF this, where u = "0 :: nat" and cbs = "[]" and show_float = "\<lambda>_. []" and name = "''count''" and code = 500]
  show ?thesis by simp
qed

subsection \<open>Types of arguments\<close>

text \<open>An optional type is shown as the type itself; the descriptions of alternatives are joined.\<close>

lemma describe_optional:
  assumes "describe_type show_float f False = Inr t" and "t \<noteq> ''null''"
  shows "describe_type show_float (PDict [(''anyOf'', PList [f, PDict [(''type'', PStr ''null'')]])]) False = Inr t"
  using assms by (simp add: truthy_item_def)

lemma describe_required:
  "describe_type show_float (PDict d) False = Inr t \<Longrightarrow>
   describe_type show_float (PDict d) True = Inr (t @ '' (Required)'')"
  by (auto simp: bind_r_Inr)

subsection \<open>Progress bars\<close>

definition bars_ok :: "progress_bars \<Rightarrow> bool" where
  "bars_ok pb \<longleftrightarrow> dict_ok (pb_bars pb) \<and> distinct (map (bar_position \<circ> snd) (pb_bars pb)) \<and>
     list_all (\<lambda>p. p < pb_count pb) (map (bar_position \<circ> snd) (pb_bars pb))"

lemma update_bar_position [simp]: "bar_position (update_bar v b) = bar_position b"
  by (simp add: update_bar_def split: option.splits)

lemma dict_set_positions:
  "map_of bars n = Some b \<Longrightarrow> bar_position b' = bar_position b \<Longrightarrow>
   map (bar_position \<circ> snd) (dict_set n b' bars) = map (bar_position \<circ> snd) bars"
  by (induction bars) (auto split: if_splits)

lemma show_status_ok:
  assumes "bars_ok pb"
  shows "bars_ok (show_status n v pb)"
    and "\<exists>b. map_of (pb_bars (show_status n v pb)) n = Some (update_bar v b)"
    and "map_of (pb_bars pb) m = Some b \<Longrightarrow>
      \<exists>b'. map_of (pb_bars (show_status n v pb)) m = Some b' \<and> bar_position b' = bar_position b \<and> (m = n \<or> b' = b)"
proof -
  let ?pb = "if n \<in> fst ` set (pb_bars pb) then pb
    else pb\<lparr>pb_bars := dict_set n (new_bar (pb_count pb)) (pb_bars pb), pb_count := Suc (pb_count pb)\<rparr>"
  have ok: "bars_ok ?pb"
    using assms by (force simp: bars_ok_def dict_set_new new_bar_def list_all_iff less_SucI)
  obtain b0 where b0: "map_of (pb_bars ?pb) n = Some b0"
    using map_of_None_keys [of "pb_bars pb" n] by (cases "n \<in> fst ` set (pb_bars pb)") auto
  have s: "show_status n v pb = ?pb\<lparr>pb_bars := dict_set n (update_bar v b0) (pb_bars ?pb)\<rparr>"
    using b0 by (simp add: show_status_def Let_def)
  have pos: "map (bar_position \<circ> snd) (dict_set n (update_bar v b0) (pb_bars ?pb)) = map (bar_position \<circ> snd) (pb_bars ?pb)"
    by (rule dict_set_positions [OF b0]) simp
  with ok show "bars_ok (show_status n v pb)" by (simp add: bars_ok_def s)
  show "\<exists>b. map_of (pb_bars (show_status n v pb)) n = Some (update_bar v b)" by (auto simp: s)
  show "\<exists>b'. map_of (pb_bars (show_status n v pb)) m = Some b' \<and> bar_position b' = bar_position b \<and> (m = n \<or> b' = b)"
    if "map_of (pb_bars pb) m = Some b"
  proof -
    from that have "map_of (pb_bars ?pb) m = Some b"
      using map_of_None_keys [of "pb_bars pb" n] by (cases "m = n") auto
    with b0 show ?thesis by (auto simp: s)
  qed
qed

lemma update_bars_ok: "bars_ok pb \<Longrightarrow> bars_ok (update_bars views pb)"
proof (induction views arbitrary: pb)
  case (Cons nv views)
  obtain n v where "nv = (n, v)" by (cases nv)
  with Cons.IH [OF show_status_ok(1) [OF Cons.prems]] show ?case by (simp add: update_bars_def)
qed (simp add: update_bars_def)

lemma full_view_sets_bar:
  "sv_current v \<noteq> None \<Longrightarrow> sv_target v \<noteq> None \<Longrightarrow> sv_initial v \<noteq> None \<Longrightarrow> sv_time_elapsed v \<noteq> None \<Longrightarrow>
   sv_percentage v = Some p \<Longrightarrow> bar_n (update_bar v b) = p"
  by (auto simp: update_bar_def)

end
