(* ===== verification/Asgi.thy ===== *)
theory Asgi
  imports Rest Sessions
begin

section \<open>The middleware of the application (service/middleware.py, service/main.py)\<close>

text \<open>
  An ASGI application is a program that receives and sends messages; \<open>await receive()\<close> and \<open>await send()\<close>
  may raise, so that each continues with a result. What a program notes before its next action
  (lines of the log, the attached tracing context) comes with the action. A middleware takes an
  application to an application, as in the sources. Programs may go on forever: they are a codatatype.
  The adapters of Starlette (CORS, functions as HTTP middleware, its plain responses) and regular
  expressions are parameters. The messages that Starlette makes for an accepted websocket and for the
  start of a response always carry headers.
\<close>

subsection \<open>Connections, messages, programs\<close>

type_synonym headers = "(string \<times> string) list"

text \<open>\<open>as_client\<close> may be missing or \<open>None\<close>.\<close>

record asgi_scope =
  as_type :: string
  as_headers :: headers
  as_client :: "(string \<times> int) option option"
  as_method :: string
  as_path :: string

record asgi_message =
  am_type :: string
  am_headers :: headers
  am_fields :: "(string \<times> pyval) list"

datatype log_arg = ArgValue "pyval option" | ArgText "string option" | ArgNumber int | ArgHeaders headers
  | ArgScope asgi_scope | ArgMessage asgi_message | ArgClient "(string \<times> int) option"

text \<open>A line is its level, its logger, its template with the arguments, and the extra attributes.\<close>

datatype notice =
    LogLine log_level string string "log_arg list" "(string \<times> log_arg) list"
  | Attached headers

codatatype program =
    Finished (noted: "notice list") (outcome: "unit result")
  | Receive (noted: "notice list") (received: "asgi_message result \<Rightarrow> program")
  | Send (noted: "notice list") (message: asgi_message) (sent: "unit result \<Rightarrow> program")

type_synonym asgi_app = "asgi_scope \<Rightarrow> program"

fun with_notes :: "notice list \<Rightarrow> program \<Rightarrow> program" where
  "with_notes pre (Finished ns r) = Finished (pre @ ns) r"
| "with_notes pre (Receive ns k) = Receive (pre @ ns) k"
| "with_notes pre (Send ns m k) = Send (pre @ ns) m k"

text \<open>What happens when the given messages arrive and the sends end as given, up to the first wait.\<close>

datatype event_item = Noted notice | Taken "asgi_message result" | Sending asgi_message | Ended "unit result" | Waiting

fun play :: "asgi_message result list \<Rightarrow> unit result list \<Rightarrow> program \<Rightarrow> event_item list" where
  "play rs ss (Finished ns r) = map Noted ns @ [Ended r]"
| "play [] ss (Receive ns k) = map Noted ns @ [Waiting]"
| "play (r # rs) ss (Receive ns k) = map Noted ns @ Taken r # play rs ss (k r)"
| "play rs [] (Send ns m k) = map Noted ns @ [Sending m]"
| "play rs (s # ss) (Send ns m k) = map Noted ns @ Sending m # play rs ss (k s)"

definition is_web :: "asgi_scope \<Rightarrow> bool" where
  "is_web scope \<longleftrightarrow> as_type scope \<in> {''http'', ''websocket''}"

subsection \<open>Versions and the tracing context\<close>

definition with_versions :: "string \<Rightarrow> string \<Rightarrow> asgi_message \<Rightarrow> asgi_message" where
  "with_versions version api_version msg =
     (if am_type msg \<in> {''websocket.accept'', ''http.response.start''}
      then msg\<lparr>am_headers := am_headers msg @ [(''x-blueapi-version'', version), (''x-api-version'', api_version)]\<rparr>
      else msg)"

text \<open>\<open>sends\<close> is an application with another \<open>send\<close> that changes the messages.\<close>

primcorec sends :: "(asgi_message \<Rightarrow> asgi_message) \<Rightarrow> program \<Rightarrow> program" where
  "sends f p = (case p of
     Finished ns r \<Rightarrow> Finished ns r
   | Receive ns k \<Rightarrow> Receive ns (\<lambda>r. sends f (k r))
   | Send ns m k \<Rightarrow> Send ns (f m) (\<lambda>r. sends f (k r)))"

definition version_headers :: "string \<Rightarrow> string \<Rightarrow> asgi_app \<Rightarrow> asgi_app" where
  "version_headers version api_version app scope =
     (if is_web scope then sends (with_versions version api_version) (app scope) else app scope)"

text \<open>The last header of a name counts. \<open>extract\<close> is the propagator's reading of the carrier.\<close>

definition last_header :: "string \<Rightarrow> headers \<Rightarrow> string option" where
  "last_header name hs = map_of (rev hs) name"

definition observability_carrier :: "headers \<Rightarrow> headers option" where
  "observability_carrier hs =
     (case last_header ''traceparent'' hs of
        None \<Rightarrow> None
      | Some ctx \<Rightarrow>
          if ctx = [] then None
          else Some ((''traceparent'', ctx) #
            (case last_header ''tracestate'' hs of
               None \<Rightarrow> [] | Some v \<Rightarrow> if v = [] then [] else [(''tracestate'', v)])))"

definition context_notes :: "headers \<Rightarrow> notice list" where
  "context_notes hs =
     (case observability_carrier hs of
        None \<Rightarrow> []
      | Some carrier \<Rightarrow>
          [LogLine DEBUG ''blueapi.service.middleware.observability'' ''Propagating observability context: %s, %s''
             [ArgText (last_header ''traceparent'' hs), ArgText (last_header ''tracestate'' hs)] [],
           Attached carrier])"

definition observability_context_propagator :: "asgi_app \<Rightarrow> asgi_app" where
  "observability_context_propagator app scope =
     (if is_web scope then with_notes (context_notes (as_headers scope)) (app scope) else app scope)"

subsection \<open>The origin of websockets\<close>

text \<open>\<open>WebsocketOriginCheck\<close>: allowed origins are one text or several; \<open>*\<close> allows all.\<close>

datatype origins = OneOrigin string | ManyOrigins "string list"

record origin_check =
  oc_allow_origins :: "string list option"
  oc_allow_origin_regex :: "(string \<Rightarrow> bool) option"

definition new_origin_check :: "origins \<Rightarrow> (string \<Rightarrow> bool) option \<Rightarrow> origin_check" where
  "new_origin_check allow_origins regex =
     \<lparr>oc_allow_origins = (case allow_origins of
         OneOrigin s \<Rightarrow> if s = ''*'' then None else Some [s]
       | ManyOrigins xs \<Rightarrow> if ''*'' \<in> set xs then None else Some xs),
      oc_allow_origin_regex = regex\<rparr>"

definition allow_origin :: "origin_check \<Rightarrow> string \<Rightarrow> bool" where
  "allow_origin oc origin =
     ((case oc_allow_origins oc of None \<Rightarrow> False | Some xs \<Rightarrow> origin \<in> set xs) \<or>
      (case oc_allow_origin_regex oc of None \<Rightarrow> False | Some matches \<Rightarrow> matches origin))"

definition websocket_origin_check :: "origin_check \<Rightarrow> (nat \<Rightarrow> string \<Rightarrow> asgi_app) \<Rightarrow> asgi_app \<Rightarrow> asgi_app" where
  "websocket_origin_check oc plain_response app scope =
     (if as_type scope \<noteq> ''websocket'' \<or> (oc_allow_origins oc = None \<and> oc_allow_origin_regex oc = None) then app scope
      else (case map_of (as_headers scope) ''origin'' of
          None \<Rightarrow> app scope
        | Some origin \<Rightarrow>
            if allow_origin oc origin then app scope else plain_response 403 ''Origin not on allow list'' scope))"

subsection \<open>The log of websockets\<close>

text \<open>\<open>_redact_headers\<close>.\<close>

definition redact_value :: "string \<Rightarrow> string" where
  "redact_value v =
     (if CHR '' '' \<in> set v then takeWhile (\<lambda>c. c \<noteq> CHR '' '') v @ '' [REDACTED]'' else v)"

definition redact_headers :: "headers \<Rightarrow> headers" where
  "redact_headers headers = map (\<lambda>(k, v). (k, if k = ''authorization'' then redact_value v else v)) headers"

text \<open>\<open>WebsocketTracing\<close>: the extra attributes of its lines, and the lines.\<close>

definition ws_logger :: string where "ws_logger = ''blueapi.service.middleware.websocket''"

definition ws_client :: "asgi_scope \<Rightarrow> (string \<times> int) option" where
  "ws_client scope = (case as_client scope of None \<Rightarrow> Some (''unknown'', 0) | Some client \<Rightarrow> client)"

definition ws_line :: "string \<Rightarrow> asgi_scope \<Rightarrow> string \<Rightarrow> log_arg list \<Rightarrow> notice" where
  "ws_line conn_id scope template args =
     LogLine DEBUG ws_logger template args [(''conn'', ArgText (Some conn_id)), (''client'', ArgClient (ws_client scope))]"

definition field_arg :: "asgi_message \<Rightarrow> string \<Rightarrow> log_arg" where
  "field_arg msg key = ArgValue (map_of (am_fields msg) key)"

definition connection_line :: "string \<Rightarrow> asgi_scope \<Rightarrow> notice" where
  "connection_line conn_id scope =
     ws_line conn_id scope ''New Connection from %r'' [ArgScope (scope\<lparr>as_headers := redact_headers (as_headers scope)\<rparr>)]"

definition sending_line :: "string \<Rightarrow> asgi_scope \<Rightarrow> asgi_message \<Rightarrow> notice" where
  "sending_line conn_id scope msg =
     (let line = ws_line conn_id scope; t = am_type msg in
      if t = ''websocket.send'' then line ''Sending: %r'' [field_arg msg ''text'']
      else if t = ''websocket.accept'' then line ''Accepting websocket - sending headers: %r'' [ArgHeaders (am_headers msg)]
      else if t = ''websocket.close'' then line ''Closing with code: %r, reason: %r'' [field_arg msg ''code'', field_arg msg ''reason'']
      else if t = ''websocket.http.response.start''
           then line ''HTTP Response: status=%r, headers=%r'' [field_arg msg ''status'', ArgHeaders (am_headers msg)]
      else if t = ''websocket.http.response.body'' then line ''HTTP Response Content: %r'' [field_arg msg ''body'']
      else line ''Sending other: %r'' [ArgMessage msg])"

text \<open>What \<open>local_receive\<close> logs and returns: unpacking a client that is \<open>None\<close> raises.\<close>

fun receive_step :: "string \<Rightarrow> asgi_scope \<Rightarrow> asgi_message result \<Rightarrow> notice list \<times> asgi_message result" where
  "receive_step conn_id scope (Inl e) = ([], Inl e)"
| "receive_step conn_id scope (Inr msg) =
     (let line = ws_line conn_id scope; t = am_type msg in
      if t = ''websocket.receive'' then ([line ''Received: %r'' [field_arg msg ''text'']], Inr msg)
      else if t = ''websocket.connect'' then
        (case ws_client scope of
           None \<Rightarrow> ([], Inl (TypeError ''Value after * must be an iterable, not NoneType''))
         | Some (host, port) \<Rightarrow> ([line ''New connection from %s:%d'' [ArgText (Some host), ArgNumber port]], Inr msg))
      else ([line ''Received other: %r'' [ArgMessage msg]], Inr msg))"

text \<open>The application with \<open>local_receive\<close> and \<open>local_send\<close>; \<open>pre\<close> is what is already noted.\<close>

primcorec traced :: "string \<Rightarrow> asgi_scope \<Rightarrow> notice list \<Rightarrow> program \<Rightarrow> program" where
  "traced conn_id scope pre p = (case p of
     Finished ns r \<Rightarrow> Finished (pre @ ns) r
   | Receive ns k \<Rightarrow>
       Receive (pre @ ns) (\<lambda>r. traced conn_id scope (fst (receive_step conn_id scope r)) (k (snd (receive_step conn_id scope r))))
   | Send ns m k \<Rightarrow> Send (pre @ ns @ [sending_line conn_id scope m]) m (\<lambda>r. traced conn_id scope [] (k r)))"

definition websocket_tracing :: "bool \<Rightarrow> string \<Rightarrow> asgi_app \<Rightarrow> asgi_app" where
  "websocket_tracing active conn_id app scope =
     (if as_type scope \<noteq> ''websocket'' \<or> \<not> active then app scope
      else traced conn_id scope [connection_line conn_id scope] (app scope))"

subsection \<open>The log of requests and the order of the middleware (service/main.py)\<close>

text \<open>\<open>log_request_details\<close>: what it logs before the request is handled, and once there is a response.\<close>

definition request_message :: "asgi_scope \<Rightarrow> string" where
  "request_message scope =
     (let (host, port) = (case as_client scope of Some (Some client) \<Rightarrow> client | _ \<Rightarrow> (''Unknown'', -1))
      in host @ '':'' @ show_int port @ '' '' @ as_method scope @ '' '' @ as_path scope)"

definition request_line :: "asgi_scope \<Rightarrow> string \<Rightarrow> string \<Rightarrow> notice" where
  "request_line scope body text =
     LogLine (if as_method scope = ''GET'' then DEBUG else INFO) ''blueapi.service.main'' text [] [(''request_body'', ArgText (Some body))]"

definition request_notes :: "asgi_scope \<Rightarrow> string \<Rightarrow> notice list" where
  "request_notes scope body =
     (if as_method scope = ''GET'' then [] else [request_line scope body (request_message scope)])"

definition response_notes :: "asgi_scope \<Rightarrow> string \<Rightarrow> nat \<Rightarrow> notice list" where
  "response_notes scope body status = [request_line scope body (request_message scope @ '' '' @ show_nat status)]"

text \<open>Starlette's part: \<open>app.middleware("http")\<close> with what is noted around a request, CORS, plain responses.\<close>

record asgi_lib =
  al_http :: "(asgi_scope \<Rightarrow> string \<Rightarrow> notice list) \<Rightarrow> (asgi_scope \<Rightarrow> string \<Rightarrow> nat \<Rightarrow> notice list) \<Rightarrow> asgi_app \<Rightarrow> asgi_app"
  al_cors :: "cors_config \<Rightarrow> asgi_app \<Rightarrow> asgi_app"
  al_plain_response :: "nat \<Rightarrow> string \<Rightarrow> asgi_app"
  al_version :: string

definition rest_api_version :: string where "rest_api_version = ''1.5.0''"

text \<open>\<open>get_app\<close>: what is added last is outermost.\<close>

definition app_middleware :: "asgi_lib \<Rightarrow> cors_config option \<Rightarrow> bool \<Rightarrow> string \<Rightarrow> asgi_app \<Rightarrow> asgi_app" where
  "app_middleware L cors active conn_id router =
     (let app = al_http L request_notes response_notes
            (websocket_tracing active conn_id
              (version_headers (al_version L) rest_api_version (observability_context_propagator router)))
      in case cors of
           None \<Rightarrow> app
         | Some c \<Rightarrow>
             websocket_origin_check (new_origin_check (ManyOrigins (cors_origins c)) None) (al_plain_response L)
               (al_cors L c app))"

subsection \<open>What a middleware does to a run\<close>

lemma sends_simps [simp]:
  "sends f (Finished ns r) = Finished ns r"
  "sends f (Receive ns k) = Receive ns (\<lambda>r. sends f (k r))"
  "sends f (Send ns m j) = Send ns (f m) (\<lambda>r. sends f (j r))"
  by (subst sends.code; simp)+

lemma traced_simps [simp]:
  "traced c scope pre (Finished ns r) = Finished (pre @ ns) r"
  "traced c scope pre (Receive ns k) =
     Receive (pre @ ns) (\<lambda>r. traced c scope (fst (receive_step c scope r)) (k (snd (receive_step c scope r))))"
  "traced c scope pre (Send ns m j) = Send (pre @ ns @ [sending_line c scope m]) m (\<lambda>r. traced c scope [] (j r))"
  by (subst traced.code; simp)+

fun map_sending :: "(asgi_message \<Rightarrow> asgi_message) \<Rightarrow> event_item \<Rightarrow> event_item" where
  "map_sending f (Sending m) = Sending (f m)"
| "map_sending f i = i"

text \<open>Each message with its line.\<close>

fun annotate :: "string \<Rightarrow> asgi_scope \<Rightarrow> event_item \<Rightarrow> event_item list" where
  "annotate c scope (Sending m) = [Noted (sending_line c scope m), Sending m]"
| "annotate c scope (Taken r) = Taken r # map Noted (fst (receive_step c scope r))"
| "annotate c scope i = [i]"

lemma play_with_notes: "play rs ss (with_notes pre p) = map Noted pre @ play rs ss p"
  by (induction rs ss p rule: play.induct) simp_all

lemma play_sends: "play rs ss (sends f p) = map (map_sending f) (play rs ss p)"
  by (induction rs ss p rule: play.induct) simp_all

lemma receive_step_passes: "ws_client scope \<noteq> None \<Longrightarrow> snd (receive_step c scope r) = r"
  by (cases r) (auto simp: Let_def)

lemma annotate_notes [simp]: "concat (map (annotate c scope \<circ> Noted) ns) = map Noted ns"
  by (induction ns) simp_all

lemma play_traced:
  assumes "ws_client scope \<noteq> None"
  shows "play rs ss (traced c scope pre p) = map Noted pre @ concat (map (annotate c scope) (play rs ss p))"
  by (induction rs ss p arbitrary: pre rule: play.induct) (simp_all add: receive_step_passes [OF assms])

subsection \<open>What the middleware guarantees\<close>

lemma redact_value_hides: "CHR '' '' \<notin> set scheme \<Longrightarrow> redact_value (scheme @ '' '' @ token) = scheme @ '' [REDACTED]''"
  by (induction scheme) (auto simp: redact_value_def split: if_splits)

text \<open>
  The log shows no bearer token of an \<open>Authorization\<close> header: redacted headers are the same
  whatever follows the scheme. It does show the token of an \<open>Authorization\<close> cookie, which the service
  accepts as well: the cookie header is logged as it is.
\<close>

theorem redaction_hides_header_not_cookie:
  assumes "CHR '' '' \<notin> set scheme" and "scheme_param (Some (scheme @ '' '' @ token)) = (scheme, token)"
    and "lower scheme = ''bearer''"
  shows "redact_headers (hs @ (''authorization'', scheme @ '' '' @ token) # hs') =
      redact_headers (hs @ (''authorization'', scheme @ '' '' @ token') # hs') \<and>
    redact_headers [(''cookie'', cookie)] = [(''cookie'', cookie)] \<and>
    unchecked_bearer_token scheme_param \<lparr>ci_headers = [], ci_cookies = [(''Authorization'', scheme @ '' '' @ token)]\<rparr> =
      Some (strip is_space token)"
  using assms redact_value_hides [OF assms(1)]
  by (simp add: redact_headers_def unchecked_bearer_token_def Let_def)

theorem redaction_hides_header_not_cookie_witness:
  "redact_headers [(''host'', ''h''), (''authorization'', ''Bearer abc'')] = redact_headers [(''host'', ''h''), (''authorization'', ''Bearer xyz'')]"
proof -
  have "lower ''Bearer'' = ''bearer''" by code_simp
  with redaction_hides_header_not_cookie [where scheme = "''Bearer''" and scheme_param = "\<lambda>_. (''Bearer'', ''abc'')" and token = "''abc''"
      and hs = "[(''host'', ''h'')]" and hs' = "[]" and token' = "''xyz''" and cookie = "[]"]
  show ?thesis by simp
qed

text \<open>An adapter that leaves websockets alone.\<close>

definition passes_websockets :: "(asgi_app \<Rightarrow> asgi_app) \<Rightarrow> bool" where
  "passes_websockets adapter \<longleftrightarrow> (\<forall>app scope. as_type scope = ''websocket'' \<longrightarrow> adapter app scope = app scope)"

text \<open>The origin of a connection is not one of those that are configured.\<close>

definition origin_refused :: "cors_config option \<Rightarrow> asgi_scope \<Rightarrow> bool" where
  "origin_refused cors scope \<longleftrightarrow>
     (case cors of
        None \<Rightarrow> False
      | Some c \<Rightarrow>
          ''*'' \<notin> set (cors_origins c) \<and>
          (case map_of (as_headers scope) ''origin'' of None \<Rightarrow> False | Some origin \<Rightarrow> origin \<notin> set (cors_origins c)))"

lemma origin_refused_None [simp]: "\<not> origin_refused None scope"
  by (simp add: origin_refused_def)

lemma websocket_origin_enforced:
  "websocket_origin_check (new_origin_check (ManyOrigins (cors_origins c)) None) plain_response app scope =
    (if as_type scope = ''websocket'' \<and> origin_refused (Some c) scope
     then plain_response 403 ''Origin not on allow list'' scope else app scope)"
  by (simp add: websocket_origin_check_def new_origin_check_def allow_origin_def origin_refused_def split: option.splits)

text \<open>What the router sees and does, as the client sees it: the context is attached, the versions are sent.\<close>

definition websocket_run :: "asgi_lib \<Rightarrow> asgi_app \<Rightarrow> asgi_scope \<Rightarrow> asgi_message result list \<Rightarrow> unit result list \<Rightarrow> event_item list" where
  "websocket_run L router scope rs ss =
     map Noted (context_notes (as_headers scope)) @
     map (map_sending (with_versions (al_version L) rest_api_version)) (play rs ss (router scope))"


text \<open>A router that accepts the connection, without adapters.\<close>

definition plain_lib :: asgi_lib where
  "plain_lib = \<lparr>al_http = (\<lambda>_ _ app. app), al_cors = (\<lambda>_ app. app),
     al_plain_response = (\<lambda>status text scope. Finished [] (Inr ())), al_version = ''1.0''\<rparr>"

definition accept_message :: asgi_message where
  "accept_message = \<lparr>am_type = ''websocket.accept'', am_headers = [], am_fields = []\<rparr>"

definition accepting_router :: asgi_app where
  "accepting_router scope = Send [] accept_message (\<lambda>_. Finished [] (Inr ()))"

definition plain_socket :: asgi_scope where
  "plain_socket = \<lparr>as_type = ''websocket'', as_headers = [(''authorization'', ''Bearer abc'')], as_client = Some (Some (''h'', 1)),
     as_method = [], as_path = ''/api/v2/run_plan''\<rparr>"


end
