(* ===== verification/Logging.thy ===== *)
theory Logging
  imports Config
begin

section \<open>Loggers (log.py)\<close>

text \<open>The set-up of the root logger from the configuration, the filters of records and their colours.\<close>

record log_record =
  lr_level :: nat
  lr_level_name :: string
  lr_name :: string
  lr_instrument :: "string option"
  lr_beamline :: "string option"
  lr_plan_name :: "string option"

datatype log_filter = InstrumentTag string | PlanTag string

definition instrument_of_env :: "(string \<Rightarrow> string option) \<Rightarrow> string" where
  "instrument_of_env env =
     (case env ''BEAMLINE'' of Some b \<Rightarrow> b
      | None \<Rightarrow> (case env ''INSTRUMENT'' of Some i \<Rightarrow> i | None \<Rightarrow> ''dev''))"

fun apply_filter :: "log_filter \<Rightarrow> log_record \<Rightarrow> log_record" where
  "apply_filter (InstrumentTag i) r = r\<lparr>lr_instrument := Some i, lr_beamline := Some i\<rparr>"
| "apply_filter (PlanTag p) r = r\<lparr>lr_plan_name := Some p\<rparr>"

datatype log_handler = StreamHandler log_level "log_filter list" | GraylogHandler string nat log_level "log_filter list"

record logger =
  lg_level :: "log_level option"
  lg_handlers :: "log_handler list"
  lg_filters :: "log_filter list"

definition set_up_stream_handler :: "logging_config \<Rightarrow> log_filter list \<Rightarrow> logger \<Rightarrow> logger" where
  "set_up_stream_handler cfg filters l = l\<lparr>lg_handlers := lg_handlers l @ [StreamHandler (log_level_set cfg) filters]\<rparr>"

text \<open>The filter of a plan is on the logger while the body runs, however that ends.\<close>

definition plan_tag_filter_context :: "string \<Rightarrow> (logger \<Rightarrow> 'a result \<times> logger) \<Rightarrow> logger \<Rightarrow> 'a result \<times> logger" where
  "plan_tag_filter_context tag_name body l =
     (let (res, l') = body (l\<lparr>lg_filters := lg_filters l @ [PlanTag tag_name]\<rparr>)
      in (res, l'\<lparr>lg_filters := remove1 (PlanTag tag_name) (lg_filters l')\<rparr>))"

definition level_colour :: "nat \<Rightarrow> (nat \<times> nat \<times> nat) option" where
  "level_colour n =
     map_of [(10, (100, 143, 255)), (20, (120, 94, 240)), (30, (255, 176, 0)), (40, (220, 38, 127)), (50, (254, 97, 0))] n"

text \<open>
  \<open>ColorFormatter.formatMessage\<close> works on a copy of the record, which is what it gives to the formatter of
  the library (\<open>formatted\<close>). \<open>style\<close> is click's.
\<close>

datatype colour = RGB "nat \<times> nat \<times> nat" | NamedColour string

definition padded_level_name :: "string \<Rightarrow> string" where
  "padded_level_name name = replicate (8 - length name) (CHR '' '') @ name"

definition format_message :: "(string \<Rightarrow> colour option \<Rightarrow> string) \<Rightarrow> (log_record \<Rightarrow> string) \<Rightarrow> log_record \<Rightarrow> string" where
  "format_message style formatted r =
     formatted (r\<lparr>lr_level_name := style (padded_level_name (lr_level_name r)) (map_option RGB (level_colour (lr_level r))),
                  lr_name := style (lr_name r) (Some (NamedColour ''green''))\<rparr>)"

definition set_up_graylog_handler :: "logging_config \<Rightarrow> log_filter list \<Rightarrow> logger \<Rightarrow> unit result \<times> logger" where
  "set_up_graylog_handler cfg filters l =
     (case (url_host (graylog_url cfg), url_port (graylog_url cfg)) of
        (None, _) \<Rightarrow> (Inl (AssertionError ''Graylog URL missing host''), l)
      | (Some _, None) \<Rightarrow> (Inl (AssertionError ''Graylog URL missing port''), l)
      | (Some host, Some port) \<Rightarrow>
          (Inr (), l\<lparr>lg_handlers := lg_handlers l @ [GraylogHandler host port (log_level_set cfg) filters]\<rparr>))"

definition set_up_logging :: "(string \<Rightarrow> string option) \<Rightarrow> logging_config \<Rightarrow> logger \<Rightarrow> unit result \<times> logger" where
  "set_up_logging env cfg l =
     (let filters = [InstrumentTag (instrument_of_env env)];
          l' = set_up_stream_handler cfg filters (l\<lparr>lg_level := Some (log_level_set cfg)\<rparr>)
      in if graylog_enabled cfg then set_up_graylog_handler cfg filters l' else (Inr (), l'))"

lemma plan_tag_is_removed:
  assumes "\<And>l. lg_filters (snd (body l)) = lg_filters l" and "PlanTag p \<notin> set (lg_filters l)"
  shows "lg_filters (snd (plan_tag_filter_context p body l)) = lg_filters l"
  using assms by (simp add: plan_tag_filter_context_def case_prod_beta remove1_append Let_def)

lemma level_colours_distinct: "level_colour (level_no a) = level_colour (level_no b) \<Longrightarrow> a = b \<or> NOTSET \<in> {a, b}"
  by (cases a; cases b) (simp_all add: level_colour_def)

end
