(* ===== verification/Switcher.thy ===== *)
theory Switcher
  imports PyStrings "HOL-Library.Multiset" "HOL-Library.Sublist"
begin

section \<open>The versions of the documentation (.github/pages/make_switcher.py)\<close>

text \<open>
  The list of published versions for the switcher of the documentation: the branches first, then the
  tags as git sorts them, then the rest by name. A Python set is a list without repetitions. The
  output of git is a parameter, and \<open>None\<close> where git fails.
\<close>

text \<open>\<open>report_output\<close>: also the empty output has one line, which is empty.\<close>

definition report_output :: "string \<Rightarrow> string list" where
  "report_output stdout = split_on newline (strip is_space stdout)"

definition builds_of :: "string option \<Rightarrow> string option \<Rightarrow> string list" where
  "builds_of contents add =
     (let builds = (case contents of None \<Rightarrow> [] | Some stdout \<Rightarrow> remdups (report_output stdout))
      in case add of None \<Rightarrow> builds | Some a \<Rightarrow> if a = [] then builds else List.insert a builds)"

text \<open>The loop: the versions, and the builds that are left.\<close>

fun take_known :: "string list \<Rightarrow> string list \<Rightarrow> string list \<times> string list" where
  "take_known [] builds = ([], builds)"
| "take_known (v # vs) builds =
     (if v \<in> set builds then (let (versions, rest) = take_known vs (remove1 v builds) in (v # versions, rest))
      else take_known vs builds)"

definition get_versions :: "string option \<Rightarrow> string option \<Rightarrow> string \<Rightarrow> string list" where
  "get_versions contents add tags =
     (let (versions, rest) = take_known ([''master'', ''main''] @ report_output tags) (builds_of contents add)
      in versions @ sort rest)"

text \<open>The entries that are written; a repository that is not \<open>ORG/REPO\<close> raises.\<close>

definition switcher_entries :: "string \<Rightarrow> string list \<Rightarrow> (string \<times> string) list result" where
  "switcher_entries repository versions =
     (case split_on (CHR ''/'') repository of
        [org, repo_name] \<Rightarrow>
          Inr (map (\<lambda>version. (version, ''https://'' @ org @ ''.github.io/'' @ repo_name @ ''/'' @ version @ ''/'')) versions)
      | [_] \<Rightarrow> Inl (ValueError ''not enough values to unpack (expected 2, got 1)'')
      | _ \<Rightarrow> Inl (ValueError ''too many values to unpack (expected 2)''))"

lemma take_known_versions:
  "distinct builds \<Longrightarrow> take_known vs builds = (versions, rest) \<Longrightarrow>
    distinct rest \<and> set rest = set builds - set vs \<and> mset versions + mset rest = mset builds \<and> subseq versions vs"
proof (induction vs arbitrary: builds versions rest)
  case (Cons v vs)
  show ?case
  proof (cases "v \<in> set builds")
    case True
    obtain w r where w: "take_known vs (remove1 v builds) = (w, r)" by fastforce
    with Cons.prems True have e: "versions = v # w" "rest = r" by auto
    from Cons.IH [OF _ w] Cons.prems(1) have "distinct r" "set r = set builds - set (v # vs)"
      "mset w + mset r = mset builds - {#v#}" "subseq w vs" by (auto simp: set_remove1_eq)
    with e True show ?thesis by auto
  next
    case False
    with Cons.prems Cons.IH [of builds] show ?thesis by auto
  qed
qed simp

lemma builds_of_distinct: "distinct (builds_of contents add)"
  by (simp add: builds_of_def Let_def split: option.splits)

text \<open>
  Every build is listed exactly once, and those that are branches or tags come first, in the order
  \<open>master\<close>, \<open>main\<close>, tags; the others follow by name.
\<close>

theorem get_versions_lists_builds:
  "mset (get_versions contents add tags) = mset (builds_of contents add) \<and>
   (\<exists>known. get_versions contents add tags = known @ sorted_list_of_set (set (builds_of contents add) - set ([''master'', ''main''] @ report_output tags)) \<and>
      subseq known ([''master'', ''main''] @ report_output tags))"
proof -
  obtain versions rest where t: "take_known ([''master'', ''main''] @ report_output tags) (builds_of contents add) = (versions, rest)"
    by fastforce
  note k = take_known_versions [OF builds_of_distinct t]
  have g: "get_versions contents add tags = versions @ sort rest" unfolding get_versions_def t by simp
  have "sort rest = sorted_list_of_set (set (builds_of contents add) - set ([''master'', ''main''] @ report_output tags))"
    using k sorted_list_of_set_sort_remdups [of rest] by (simp only: distinct_remdups_id)
  moreover have "mset (versions @ sort rest) = mset (builds_of contents add)" using k by simp
  ultimately show ?thesis unfolding g using k by blast
qed

text \<open>An empty branch and a repository without tags give a version without a name.\<close>

lemma empty_branch_has_a_version: "get_versions (Some []) None [] = [[]]"
  by code_simp

end
