(* ===== verification/ConfigHeap.thy ===== *)
theory ConfigHeap
  imports ConfigLoader
begin

section \<open>The merge of configurations on shared dictionaries (config.py)\<close>

text \<open>
  \<open>recursively_update_map\<close> changes dictionaries in place and puts dictionaries of the new document into
  the old vals, so that both share them from then on; a YAML alias makes two keys of a
  document share one dictionary. Here dictionaries are objects in a heap. Documents without aliases are
  trees, and there the merge is \<open>rec_update\<close> of \<open>ConfigLoader\<close>, which works on values; with an alias it is not.
\<close>

subsection \<open>Objects\<close>

datatype hval = HPlain pyval | HList "hval list" | HDict nat

type_synonym hdict = "(string \<times> hval) list"
type_synonym heap = "hdict list"

definition size_changed :: exn where
  "size_changed = RuntimeError ''dictionary changed size during iteration''"

text \<open>
  The loop over the remaining keys of the object \<open>new\<close>, which had \<open>len\<close> entries when it began: its
  iterator checks the size before it gives a key and before it ends. A value is read when its turn comes.
  \<open>fuel\<close> bounds the depth of the recursion, \<open>None\<close> is a recursion that goes deeper.
\<close>

function merge_keys :: "nat \<Rightarrow> nat \<Rightarrow> nat \<Rightarrow> nat \<Rightarrow> string list \<Rightarrow> heap \<Rightarrow> (unit result \<times> heap) option" where
  "merge_keys fuel len old new [] h = Some (if length (h ! new) = len then Inr () else Inl size_changed, h)"
| "merge_keys fuel len old new (key # keys) h =
     (if length (h ! new) \<noteq> len then Some (Inl size_changed, h)
      else case map_of (h ! new) key of
        None \<Rightarrow> Some (Inl (KeyError key), h)
      | Some v \<Rightarrow>
          (case (map_of (h ! old) key, v) of
             (Some (HDict o'), HDict n') \<Rightarrow>
               (case fuel of
                  0 \<Rightarrow> None
                | Suc f \<Rightarrow>
                    (case merge_keys f (length (h ! n')) o' n' (map fst (h ! n')) h of
                       None \<Rightarrow> None
                     | Some (Inl e, h') \<Rightarrow> Some (Inl e, h')
                     | Some (Inr _, h') \<Rightarrow> merge_keys fuel len old new keys h'))
           | _ \<Rightarrow> merge_keys fuel len old new keys (h[old := dict_set key v (h ! old)])))"
  by pat_completeness auto
termination by (relation "measures [\<lambda>(fuel, _). fuel, \<lambda>(_, _, _, _, keys, _). length keys]") auto

definition recursively_update_map :: "nat \<Rightarrow> nat \<Rightarrow> nat \<Rightarrow> heap \<Rightarrow> (unit result \<times> heap) option" where
  "recursively_update_map fuel old new h = merge_keys fuel (length (h ! new)) old new (map fst (h ! new)) h"

text \<open>\<open>use_values_from_yaml\<close> on documents that are in the heap already.\<close>

fun use_documents :: "nat \<Rightarrow> nat \<Rightarrow> nat list \<Rightarrow> heap \<Rightarrow> (unit result \<times> heap) option" where
  "use_documents fuel target [] h = Some (Inr (), h)"
| "use_documents fuel target (doc # docs) h =
     (case recursively_update_map fuel target doc h of
        None \<Rightarrow> None
      | Some (Inl e, h') \<Rightarrow> Some (Inl e, h')
      | Some (Inr _, h') \<Rightarrow> use_documents fuel target docs h')"

subsection \<open>Trees\<close>

text \<open>\<open>tree h v x F\<close>: the value \<open>v\<close> of the heap reads \<open>x\<close>, and visits the objects \<open>F\<close>, each once.\<close>

fun scalar :: "pyval \<Rightarrow> bool" where
  "scalar (PDict _) = False"
| "scalar (PList _) = False"
| "scalar _ = True"

inductive tree :: "heap \<Rightarrow> hval \<Rightarrow> pyval \<Rightarrow> nat set \<Rightarrow> bool"
  and tree_items :: "heap \<Rightarrow> hdict \<Rightarrow> pydict \<Rightarrow> nat set \<Rightarrow> bool"
  and tree_list :: "heap \<Rightarrow> hval list \<Rightarrow> pyval list \<Rightarrow> nat set \<Rightarrow> bool"
  for h where
  tree_plain: "scalar x \<Longrightarrow> tree h (HPlain x) x {}"
| tree_PList: "tree_list h vs xs F \<Longrightarrow> tree h (HList vs) (PList xs) F"
| tree_PDict: "a < length h \<Longrightarrow> tree_items h (h ! a) d F \<Longrightarrow> a \<notin> F \<Longrightarrow> tree h (HDict a) (PDict d) (insert a F)"
| items_Nil: "tree_items h [] [] {}"
| items_Cons: "tree h v x G \<Longrightarrow> tree_items h vs d F \<Longrightarrow> G \<inter> F = {} \<Longrightarrow> tree_items h ((k, v) # vs) ((k, x) # d) (G \<union> F)"
| list_Nil: "tree_list h [] [] {}"
| list_Cons: "tree h v x G \<Longrightarrow> tree_list h vs xs F \<Longrightarrow> G \<inter> F = {} \<Longrightarrow> tree_list h (v # vs) (x # xs) (G \<union> F)"

inductive_simps tree_HDict: "tree h (HDict a) x F"
inductive_simps tree_PDict_iff: "tree h v (PDict d) F"
inductive_simps tree_items_Nil [simp]: "tree_items h vs [] F"
inductive_simps tree_items_Cons: "tree_items h vs ((k, x) # d) F"
inductive_simps tree_plain_iff [simp]: "tree h (HPlain y) x F"

definition same_on :: "nat set \<Rightarrow> heap \<Rightarrow> heap \<Rightarrow> bool" where
  "same_on F h h' \<longleftrightarrow> (\<forall>a \<in> F. h' ! a = h ! a) \<and> length h' = length h"

lemma tree_frame:
  "tree h v x F \<Longrightarrow> same_on F h h' \<Longrightarrow> tree h' v x F"
  "tree_items h vs d F \<Longrightarrow> same_on F h h' \<Longrightarrow> tree_items h' vs d F"
  "tree_list h ws xs F \<Longrightarrow> same_on F h h' \<Longrightarrow> tree_list h' ws xs F"
  by (induction rule: tree_tree_items_tree_list.inducts)
    (auto simp: same_on_def intro: tree_tree_items_tree_list.intros)

lemma tree_addresses:
  "tree h v x F \<Longrightarrow> F \<subseteq> {..<length h}"
  "tree_items h vs d F \<Longrightarrow> F \<subseteq> {..<length h}"
  "tree_list h ws xs F \<Longrightarrow> F \<subseteq> {..<length h}"
  by (induction rule: tree_tree_items_tree_list.inducts) auto

inductive_cases tree_items_heapE: "tree_items h (p # vs) d F"

lemma items_keys: "tree_items h vs d F \<Longrightarrow> map fst vs = map fst d"
  by (induction vs arbitrary: d F) (auto elim: tree_items.cases tree_items_heapE)

lemma tree_dict_iff: "tree h v (PDict d) F \<longleftrightarrow>
    (\<exists>a F'. v = HDict a \<and> F = insert a F' \<and> a < length h \<and> tree_items h (h ! a) d F' \<and> a \<notin> F')"
  by (auto simp: tree_PDict_iff)

lemma tree_no_dict: "tree h v x F \<Longrightarrow> \<not> is_dict x \<Longrightarrow> \<forall>a. v \<noteq> HDict a"
  by (auto simp: tree_HDict)

text \<open>An entry of a tree, what remains of it, and the tree with another entry there.\<close>

lemma items_focus:
  assumes "tree_items h vs d F" and "map_of vs k = Some v"
  obtains x G R where "map_of d k = Some x" "tree h v x G" "G \<inter> R = {}" "F = G \<union> R"
    "\<And>h' x' v' G'. same_on R h h' \<Longrightarrow> tree h' v' x' G' \<Longrightarrow> G' \<inter> R = {} \<Longrightarrow>
      tree_items h' (dict_set k v' vs) (dict_set k x' d) (G' \<union> R)"
  using assms
proof (induction vs arbitrary: d F thesis)
  case (Cons p vs)
  obtain k0 v0 where p: "p = (k0, v0)" by fastforce
  from Cons.prems(2) p obtain x0 d0 G0 F0 where d: "d = (k0, x0) # d0" "F = G0 \<union> F0" "tree h v0 x0 G0"
    "tree_items h vs d0 F0" "G0 \<inter> F0 = {}" by (auto elim: tree_items_heapE)
  show ?case
  proof (cases "k = k0")
    case True
    show ?thesis
      by (rule Cons.prems(1) [of x0 G0 F0])
        (use True p d Cons.prems(3) in \<open>auto intro: items_Cons tree_frame(2)\<close>)
  next
    case False
    with Cons.prems(3) p have "map_of vs k = Some v" by simp
    from Cons.IH [OF _ d(4) this] obtain x G R where f: "map_of d0 k = Some x" "tree h v x G" "G \<inter> R = {}" "F0 = G \<union> R"
      "\<And>h' x' v' G'. same_on R h h' \<Longrightarrow> tree h' v' x' G' \<Longrightarrow> G' \<inter> R = {} \<Longrightarrow>
        tree_items h' (dict_set k v' vs) (dict_set k x' d0) (G' \<union> R)" by metis
    show ?thesis
    proof (rule Cons.prems(1) [of x G "G0 \<union> R"])
      fix h' x' v' G'
      assume a: "same_on (G0 \<union> R) h h'" "tree h' v' x' G'" "G' \<inter> (G0 \<union> R) = {}"
      then have r: "same_on R h h'" "same_on G0 h h'" by (auto simp: same_on_def)
      have "tree_items h' ((k0, v0) # dict_set k v' vs) ((k0, x0) # dict_set k x' d0) (G0 \<union> (G' \<union> R))"
        using tree_frame(1) [OF d(3) r(2)] f(5) [OF r(1) a(2)] a(3) d(5) f(4) by (intro items_Cons) auto
      then show "tree_items h' (dict_set k v' (p # vs)) (dict_set k x' d) (G' \<union> (G0 \<union> R))"
        using False p d(1) by (simp add: Un_left_commute)
    qed (use False d f in auto)
  qed
qed simp

lemma items_absent:
  assumes "tree_items h vs d F" and "map_of vs k = None" and "tree h v x G" and "F \<inter> G = {}"
  shows "tree_items h (dict_set k v vs) (dict_set k x d) (F \<union> G)"
  using assms
proof (induction vs arbitrary: d F)
  case Nil
  then have "d = []" "F = {}" by (auto elim: tree_items.cases)
  with items_Cons [OF Nil.prems(3) items_Nil, of k] show ?case by simp
next
  case (Cons p vs)
  obtain k0 v0 where p: "p = (k0, v0)" by fastforce
  from Cons.prems(1) p obtain x0 d0 G0 F0 where d: "d = (k0, x0) # d0" "F = G0 \<union> F0" "tree h v0 x0 G0"
    "tree_items h vs d0 F0" "G0 \<inter> F0 = {}" by (auto elim: tree_items_heapE)
  from Cons.prems(2) p have n: "k \<noteq> k0" "map_of vs k = None" by (auto split: if_splits)
  have "tree_items h (dict_set k v vs) (dict_set k x d0) (F0 \<union> G)"
    using Cons.IH [OF d(4) n(2) Cons.prems(3)] Cons.prems(4) d(2) by blast
  from items_Cons [OF d(3) this, of k0] d(2,5) Cons.prems(4) have
    "tree_items h ((k0, v0) # dict_set k v vs) ((k0, x0) # dict_set k x d0) (G0 \<union> (F0 \<union> G))" by blast
  with n(1) p d(1,2) show ?case by (simp add: Un_assoc)
qed

lemma items_set:
  assumes "tree_items h vs d F" and "tree h v x G" and "F \<inter> G = {}"
  shows "\<exists>F1 \<subseteq> F \<union> G. tree_items h (dict_set k v vs) (dict_set k x d) F1"
proof (cases "map_of vs k")
  case None
  from items_absent [OF assms(1) None assms(2,3)] show ?thesis by blast
next
  case (Some w)
  show ?thesis
  proof (rule items_focus [OF assms(1) Some])
    fix y H R
    assume "F = H \<union> R" and step: "\<And>h' x' v' G'. same_on R h h' \<Longrightarrow> tree h' v' x' G' \<Longrightarrow> G' \<inter> R = {} \<Longrightarrow>
      tree_items h' (dict_set k v' vs) (dict_set k x' d) (G' \<union> R)"
    then have "tree_items h (dict_set k v vs) (dict_set k x d) (G \<union> R)"
      using assms(2,3) by (intro step) (auto simp: same_on_def)
    with \<open>F = H \<union> R\<close> show ?thesis by blast
  qed
qed

lemma items_lookup_None: "tree_items h vs d F \<Longrightarrow> map_of vs k = None \<Longrightarrow> map_of d k = None"
  by (metis items_keys map_of_eq_None_iff set_map)

lemma dict_set_same: "map_of d k = Some v \<Longrightarrow> dict_set k v d = d"
  by (induction d) (auto split: if_splits)

subsection \<open>On trees the merge is the merge of values\<close>

text \<open>The depth of a dictionary, which the recursion of the merge does not exceed.\<close>

fun nesting :: "pyval \<Rightarrow> nat" where
  "nesting (PDict d) = Suc (fold max (map (\<lambda>p. nesting (snd p)) d) 0)"
| "nesting _ = 0"

definition items_depth :: "pydict \<Rightarrow> nat" where
  "items_depth d = fold max (map (\<lambda>p. nesting (snd p)) d) 0"

lemma fold_max: "fold max ns (n :: nat) \<le> m \<longleftrightarrow> n \<le> m \<and> (\<forall>k \<in> set ns. k \<le> m)"
  by (induction ns arbitrary: n) auto

lemma items_depth_Cons: "items_depth ((k, x) # d) \<le> m \<longleftrightarrow> nesting x \<le> m \<and> items_depth d \<le> m"
  by (auto simp: items_depth_def fold_max)

lemma nesting_PDict: "nesting (PDict d) = Suc (items_depth d)"
  by (simp add: items_depth_def)

text \<open>The new side of a loop: the remaining entries are those of the object, apart from the old side.\<close>

definition remaining :: "heap \<Rightarrow> nat \<Rightarrow> nat \<Rightarrow> hdict \<Rightarrow> pydict \<Rightarrow> nat set \<Rightarrow> nat set \<Rightarrow> bool" where
  "remaining h len new vs d G F \<longleftrightarrow>
     tree_items h vs d G \<and> length (h ! new) = len \<and> (\<forall>(k, v) \<in> set vs. map_of (h ! new) k = Some v) \<and>
     new \<notin> F \<union> G \<and> G \<inter> F = {} \<and> value_ok (PDict d)"

lemma remaining_start:
  assumes "tree h (HDict n) (PDict d) G" and "value_ok (PDict d)" and "G \<inter> F = {}"
  shows "\<exists>G' \<subseteq> G. remaining h (length (h ! n)) n (h ! n) d G' F"
proof -
  from assms(1) obtain G' where t: "tree_items h (h ! n) d G'" "G = insert n G'" "n \<notin> G'" by (auto simp: tree_dict_iff)
  with assms(2) items_keys [OF t(1)] have "dict_ok (h ! n)" by simp
  then have "\<forall>(k, v) \<in> set (h ! n). map_of (h ! n) k = Some v" by auto
  moreover from t assms(3) have "n \<notin> F \<union> G'" by auto
  ultimately show ?thesis using t assms unfolding remaining_def by blast
qed

lemma remaining_step:
  assumes "remaining h len new ((k, v) # vs) ((k, x) # d) G F" and "tree h v x Gx" and "tree_items h vs d G'"
    and "G = Gx \<union> G'" and "Gx \<inter> G' = {}" and "same_on (- (F \<union> Gx)) h h'" and "F' \<subseteq> F \<union> Gx"
  shows "remaining h' len new vs d G' F'"
proof -
  from assms have s: "same_on G' h h'" "same_on {new} h h'" by (auto simp: remaining_def same_on_def)
  from tree_frame(2) [OF assms(3) s(1)] assms s(2) show ?thesis
    by (auto simp: remaining_def same_on_def)
qed

lemma same_on_mono: "same_on A h h' \<Longrightarrow> B \<subseteq> A \<Longrightarrow> same_on B h h'"
  by (auto simp: same_on_def)

lemma same_on_trans:
  "same_on A h h' \<Longrightarrow> same_on B h' h'' \<Longrightarrow> C \<subseteq> A \<Longrightarrow> C \<subseteq> B \<Longrightarrow> same_on C h h''"
  unfolding same_on_def by (metis subsetD)

text \<open>One entry of the new side, on the heap and on values.\<close>

lemma merge_step_set:
  assumes "remaining h len new ((key, w) # vs) ((key, v) # d_new) G (insert old F)" and "old < length h"
    and "tree_items h (h ! old) d_old F" and "old \<notin> F" and "tree h w v Gx" and "Gx \<subseteq> G"
    and "\<not> (\<exists>o' n'. map_of d_old key = Some (PDict o') \<and> v = PDict n')"
  shows "\<exists>h1 F1. merge_keys fuel len old new (key # keys) h = merge_keys fuel len old new keys h1 \<and>
    tree_items h1 (h1 ! old) (rec_step d_old key v) F1 \<and> F1 \<subseteq> F \<union> Gx \<and> old \<notin> F1 \<and> same_on (- insert old (F \<union> Gx)) h h1"
proof -
  let ?h1 = "h[old := dict_set key w (h ! old)]"
  from assms(1,6) have dis: "F \<inter> Gx = {}" "old \<notin> Gx" and l: "length (h ! new) = len" "map_of (h ! new) key = Some w"
    by (auto simp: remaining_def)
  obtain F1 where f: "F1 \<subseteq> F \<union> Gx" "tree_items h (dict_set key w (h ! old)) (dict_set key v d_old) F1"
    using items_set [OF assms(3,5) dis(1)] by blast
  with assms(4) dis have o: "old \<notin> F1" by auto
  then have "same_on F1 h ?h1" unfolding same_on_def by (metis length_list_update nth_list_update_neq)
  from tree_frame(2) [OF f(2) this] have t: "tree_items ?h1 (?h1 ! old) (dict_set key v d_old) F1" using assms(2) by simp
  have "\<not> (\<exists>a b. map_of (h ! old) key = Some (HDict a) \<and> w = HDict b)"
  proof
    assume "\<exists>a b. map_of (h ! old) key = Some (HDict a) \<and> w = HDict b"
    then obtain a b where ab: "map_of (h ! old) key = Some (HDict a)" "w = HDict b" by blast
    obtain x H where "map_of d_old key = Some x" "tree h (HDict a) x H" using items_focus [OF assms(3) ab(1)] by metis
    with ab(2) assms(5,7) show False by (auto simp: tree_HDict)
  qed
  with l have "merge_keys fuel len old new (key # keys) h = merge_keys fuel len old new keys ?h1"
    by (auto split: option.splits hval.splits)
  moreover have "rec_step d_old key v = dict_set key v d_old"
    using assms(7) by (auto simp: rec_step_def split: option.splits pyval.splits)
  moreover have "same_on (- insert old (F \<union> Gx)) h ?h1" by (auto simp: same_on_def)
  ultimately show ?thesis using t f(1) o by metis
qed

text \<open>A recursive call: \<open>sub\<close> is what it does.\<close>

lemma merge_step_nested:
  assumes "remaining h len new ((key, w) # vs) ((key, PDict n) # d_new) G (insert old F)" and "old < length h"
    and "tree_items h (h ! old) d_old F" and "old \<notin> F" and "tree h w (PDict n) Gx" and "Gx \<subseteq> G"
    and "map_of d_old key = Some (PDict o')" and "Suc (items_depth n) \<le> fuel"
    and sub: "\<And>fuel len old new vs h G F.
      remaining h len new vs n G (insert old F) \<Longrightarrow> old < length h \<Longrightarrow> tree_items h (h ! old) o' F \<Longrightarrow> old \<notin> F \<Longrightarrow>
      items_depth n \<le> fuel \<Longrightarrow>
      \<exists>h' F'. merge_keys fuel len old new (map fst vs) h = Some (Inr (), h') \<and> tree_items h' (h' ! old) (rec_update o' n) F' \<and>
        F' \<subseteq> F \<union> G \<and> old \<notin> F' \<and> same_on (- insert old (F \<union> G)) h h'"
  shows "\<exists>h1 F1. merge_keys fuel len old new (key # keys) h = merge_keys fuel len old new keys h1 \<and>
    tree_items h1 (h1 ! old) (rec_step d_old key (PDict n)) F1 \<and> F1 \<subseteq> F \<union> Gx \<and> old \<notin> F1 \<and> same_on (- insert old (F \<union> Gx)) h h1"
proof -
  from assms(1,6) have dis: "F \<inter> Gx = {}" "old \<notin> Gx" and l: "length (h ! new) = len" "map_of (h ! new) key = Some w"
    and ok: "value_ok (PDict n)" by (auto simp: remaining_def)
  from assms(3,7) obtain w' where w': "map_of (h ! old) key = Some w'"
    using items_lookup_None by (metis not_None_eq)
  obtain H R where focus: "tree h w' (PDict o') H" "H \<inter> R = {}" "F = H \<union> R"
    "\<And>h' x' v' G'. same_on R h h' \<Longrightarrow> tree h' v' x' G' \<Longrightarrow> G' \<inter> R = {} \<Longrightarrow>
      tree_items h' (dict_set key v' (h ! old)) (dict_set key x' d_old) (G' \<union> R)"
    using items_focus [OF assms(3) w'] assms(7) by (metis option.inject)
  obtain a Fa where a: "w' = HDict a" "H = insert a Fa" "a < length h" "tree_items h (h ! a) o' Fa" "a \<notin> Fa"
    using focus(1) by (auto simp: tree_dict_iff)
  obtain b where b: "w = HDict b" using assms(5) by (auto simp: tree_dict_iff)
  obtain f where fuel: "fuel = Suc f" "items_depth n \<le> f" using assms(8) by (cases fuel) auto
  have "Gx \<inter> insert a Fa = {}" using dis focus(3) a(2) by auto
  then obtain G1 where g: "G1 \<subseteq> Gx" "remaining h (length (h ! b)) b (h ! b) n G1 (insert a Fa)"
    using remaining_start [OF _ ok] assms(5) b by metis
  obtain h1 F1 where m: "merge_keys f (length (h ! b)) a b (map fst (h ! b)) h = Some (Inr (), h1)"
    "tree_items h1 (h1 ! a) (rec_update o' n) F1" "F1 \<subseteq> Fa \<union> G1" "a \<notin> F1" "same_on (- insert a (Fa \<union> G1)) h h1"
    using sub [OF g(2) a(3,4,5) fuel(2)] by blast
  let ?F = "insert a F1 \<union> R"
  have "tree h1 (HDict a) (PDict (rec_update o' n)) (insert a F1)"
    using m(2,4,5) a(3) by (auto simp: tree_dict_iff same_on_def)
  moreover have "same_on R h h1"
    by (rule same_on_mono [OF m(5)]) (use g(1) focus(2,3) a(2) dis(1) in auto)
  moreover have "insert a F1 \<inter> R = {}" using m(3) g(1) focus(2,3) a(2) dis(1) by auto
  ultimately have "tree_items h1 (dict_set key (HDict a) (h ! old)) (dict_set key (PDict (rec_update o' n)) d_old) ?F"
    using focus(4) by blast
  moreover have "h1 ! old = h ! old" using m(5) g(1) assms(4) dis(2) focus(3) a(2) unfolding same_on_def by blast
  ultimately have "tree_items h1 (h1 ! old) (rec_step d_old key (PDict n)) ?F"
    using w' a(1) assms(7) by (simp add: dict_set_same rec_step_def)
  moreover have "merge_keys fuel len old new (key # keys) h = merge_keys fuel len old new keys h1"
    using l w' a(1) b fuel(1) m(1) by simp
  moreover have "?F \<subseteq> F \<union> Gx" "old \<notin> ?F" using m(3) g(1) focus(3) a(2) assms(4) dis(2) by auto
  moreover have "same_on (- insert old (F \<union> Gx)) h h1"
    by (rule same_on_mono [OF m(5)]) (use g(1) focus(3) a(2) in auto)
  ultimately show ?thesis by blast
qed

lemma merge_keys_tree:
  assumes "remaining h len new vs d_new G (insert old F)" and "old < length h"
    and "tree_items h (h ! old) d_old F" and "old \<notin> F" and "items_depth d_new \<le> fuel"
  shows "\<exists>h' F'. merge_keys fuel len old new (map fst vs) h = Some (Inr (), h') \<and> tree_items h' (h' ! old) (rec_update d_old d_new) F' \<and>
    F' \<subseteq> F \<union> G \<and> old \<notin> F' \<and> same_on (- insert old (F \<union> G)) h h'"
  using assms
proof (induction d_old d_new arbitrary: fuel len old new vs h G F rule: rec_update.induct)
  case (1 d_old)
  then have "vs = []" "length (h ! new) = len" by (auto simp: remaining_def)
  with "1.prems" show ?case by (intro exI [of _ h] exI [of _ F]) (simp add: same_on_def)
next
  case (2 d_old key v d_new)
  from "2.prems"(1) obtain w vs' Gx G' where vs: "vs = (key, w) # vs'" "tree h w v Gx" "tree_items h vs' d_new G'"
    "G = Gx \<union> G'" "Gx \<inter> G' = {}" unfolding remaining_def tree_items_Cons by blast
  have depth: "nesting v \<le> fuel" "items_depth d_new \<le> fuel" using "2.prems"(5) by (simp_all add: items_depth_Cons)
  note r = "2.prems"(1) [unfolded vs(1)]
  have "\<exists>h1 F1. merge_keys fuel len old new (key # map fst vs') h = merge_keys fuel len old new (map fst vs') h1 \<and>
    tree_items h1 (h1 ! old) (rec_step d_old key v) F1 \<and> F1 \<subseteq> F \<union> Gx \<and> old \<notin> F1 \<and> same_on (- insert old (F \<union> Gx)) h h1"
  proof (cases "\<exists>o' n'. map_of d_old key = Some (PDict o') \<and> v = PDict n'")
    case True
    then obtain o' n' where on: "map_of d_old key = Some (PDict o')" "v = PDict n'" by blast
    show ?thesis unfolding on(2)
    proof (rule merge_step_nested [OF _ "2.prems"(2-4)])
      show "Suc (items_depth n') \<le> fuel" using depth(1) on(2) by (simp add: items_depth_def)
    qed (use r vs on "2.IH"(1) [OF on(1) refl on(2)] in auto)
  next
    case False
    from merge_step_set [OF r "2.prems"(2-4) vs(2) _ False] vs(4) show ?thesis by blast
  qed
  then obtain h1 F1 where h1: "merge_keys fuel len old new (key # map fst vs') h = merge_keys fuel len old new (map fst vs') h1"
    "tree_items h1 (h1 ! old) (rec_step d_old key v) F1" "F1 \<subseteq> F \<union> Gx" "old \<notin> F1" "same_on (- insert old (F \<union> Gx)) h h1" by blast
  have "remaining h1 len new vs' d_new G' (insert old F1)"
    by (rule remaining_step [OF r vs(2-5)]) (use h1(3,5) in auto)
  moreover have "old < length h1" using "2.prems"(2) h1(5) by (simp add: same_on_def)
  ultimately obtain h2 F2 where h2: "merge_keys fuel len old new (map fst vs') h1 = Some (Inr (), h2)"
    "tree_items h2 (h2 ! old) (rec_update (rec_step d_old key v) d_new) F2" "F2 \<subseteq> F1 \<union> G'" "old \<notin> F2" "same_on (- insert old (F1 \<union> G')) h1 h2"
    using "2.IH"(2) [folded rec_step_def] h1(2,4) depth(2) by blast
  have "same_on (- insert old (F \<union> G)) h h2"
    by (rule same_on_trans [OF h1(5) h2(5)]) (use h1(3) vs(4) in auto)
  moreover have "F2 \<subseteq> F \<union> G" using h2(3) h1(3) vs(4) by blast
  moreover have "merge_keys fuel len old new (map fst vs) h = Some (Inr (), h2)" using h1(1) h2(1) vs(1) by simp
  ultimately show ?case using h2(2,4) unfolding rec_update_Cons by blast
qed

subsection \<open>Loading documents\<close>

text \<open>Documents without aliases, apart from each other and from the objects \<open>F\<close>.\<close>

fun documents :: "heap \<Rightarrow> nat list \<Rightarrow> pydict list \<Rightarrow> nat set \<Rightarrow> bool" where
  "documents h [] [] F = True"
| "documents h (doc # docs) (d # ds) F =
     (\<exists>G. tree h (HDict doc) (PDict d) G \<and> value_ok (PDict d) \<and> G \<inter> F = {} \<and> documents h docs ds (F \<union> G))"
| "documents h docs ds F = False"

lemma documents_frame: "documents h docs ds F \<Longrightarrow> same_on (- F) h h' \<Longrightarrow> documents h' docs ds F"
proof (induction h docs ds F rule: documents.induct)
  case (2 h doc docs d ds F)
  then obtain G where g: "tree h (HDict doc) (PDict d) G" "value_ok (PDict d)" "G \<inter> F = {}" "documents h docs ds (F \<union> G)"
    by auto
  have "same_on (- (F \<union> G)) h h'" "same_on G h h'"
    using "2.prems"(2) g(3) by (auto elim!: same_on_mono)
  with g "2.IH" [OF g(4)] tree_frame(1) [OF g(1)] show ?case by auto
qed auto

lemma documents_mono: "documents h docs ds F \<Longrightarrow> F' \<subseteq> F \<Longrightarrow> documents h docs ds F'"
  by (induction h docs ds F arbitrary: F' rule: documents.induct) (auto, blast)

lemma documents_Cons:
  "documents h (doc # docs) ds F \<longleftrightarrow>
    (\<exists>d ds' G. ds = d # ds' \<and> tree h (HDict doc) (PDict d) G \<and> value_ok (PDict d) \<and> G \<inter> F = {} \<and> documents h docs ds' (F \<union> G))"
  by (cases ds) auto

lemma merge_documents:
  assumes "tree h (HDict target) (PDict vals) F" and "documents h docs ds F" and "\<forall>d \<in> set ds. items_depth d \<le> fuel"
  shows "\<exists>h' F'. use_documents fuel target docs h = Some (Inr (), h') \<and>
    tree h' (HDict target) (PDict (loader_values (fold use_values ds \<lparr>loader_values = vals\<rparr>))) F'"
  using assms
proof (induction docs arbitrary: h ds F vals)
  case Nil
  then show ?case by (cases ds) auto
next
  case (Cons doc docs)
  from Cons.prems(1) obtain F0 where f: "F = insert target F0" "target < length h" "tree_items h (h ! target) vals F0" "target \<notin> F0"
    by (auto simp: tree_dict_iff)
  from Cons.prems(2) obtain d ds' G where g: "tree h (HDict doc) (PDict d) G" "value_ok (PDict d)" "G \<inter> F = {}"
    "documents h docs ds' (F \<union> G)" and ds: "ds = d # ds'" unfolding documents_Cons by blast
  obtain G' where r: "G' \<subseteq> G" "remaining h (length (h ! doc)) doc (h ! doc) d G' (insert target F0)"
    using remaining_start [OF g(1,2)] g(3) f(1) by metis
  obtain h' F' where m: "recursively_update_map fuel target doc h = Some (Inr (), h')" "tree_items h' (h' ! target) (rec_update vals d) F'"
    "F' \<subseteq> F0 \<union> G'" "target \<notin> F'" "same_on (- insert target (F0 \<union> G')) h h'"
    using merge_keys_tree [OF r(2) f(2,3,4), of fuel] Cons.prems(3) ds unfolding recursively_update_map_def by auto
  have s: "same_on (- (F \<union> G)) h h'" by (rule same_on_mono [OF m(5)]) (use f(1) r(1) in auto)
  have "tree h' (HDict target) (PDict (rec_update vals d)) (insert target F')"
    using m(2,4) f(2) m(5) by (auto simp: tree_dict_iff same_on_def)
  moreover have "documents h' docs ds' (insert target F')"
    by (rule documents_mono [OF documents_frame [OF g(4) s]]) (use f(1) m(3) r(1) in auto)
  moreover have "\<forall>d \<in> set ds'. items_depth d \<le> fuel" using Cons.prems(3) ds by simp
  ultimately have "\<exists>h'' F''. use_documents fuel target docs h' = Some (Inr (), h'') \<and>
      tree h'' (HDict target) (PDict (loader_values (fold use_values ds' \<lparr>loader_values = rec_update vals d\<rparr>))) F''"
    by (rule Cons.IH)
  moreover have "use_values d \<lparr>loader_values = vals\<rparr> = \<lparr>loader_values = rec_update vals d\<rparr>" by (simp add: use_values_def)
  ultimately show ?case using m(1) ds by simp
qed

text \<open>
  Claim C16. Loading on shared dictionaries refines loading on values. If the documents have no aliases, the
  merge in place of one after the other ends without an error, however the documents come to share their
  dictionaries with the collected values, and what it leaves reads as the values that
  \<open>use_values\<close> computes. (With an alias that fails: lemma \<open>alias_is_overridden_too\<close>.)
\<close>

theorem merge_in_place_refines_merge:
  assumes "tree h (HDict target) (PDict (loader_values l)) F" and "documents h docs ds F" and "\<forall>d \<in> set ds. items_depth d \<le> fuel"
  shows "\<exists>h' F'. use_documents fuel target docs h = Some (Inr (), h') \<and>
    tree h' (HDict target) (PDict (loader_values (fold use_values ds l))) F'"
  using merge_documents [OF assms] by (cases l) simp

text \<open>
  The new loader and two documents: \<open>api: {url: x}\<close>, then \<open>api: {port: 1}\<close>.
\<close>

definition demo_heap :: heap where
  "demo_heap = [[], [(''api'', HDict 2)], [(''url'', HPlain (PStr ''x''))], [(''api'', HDict 4)], [(''port'', HPlain (PInt 1))]]"

theorem merge_in_place_refines_merge_witness:
  "\<exists>h' F'. use_documents 2 0 [1, 3] demo_heap = Some (Inr (), h') \<and>
    tree h' (HDict 0) (PDict [(''api'', PDict [(''url'', PStr ''x''), (''port'', PInt 1)])]) F'"
proof -
  let ?d1 = "[(''api'', PDict [(''url'', PStr ''x'')])]" and ?d2 = "[(''api'', PDict [(''port'', PInt 1)])]"
  have "tree demo_heap (HDict 0) (PDict (loader_values new_loader)) {0}"
    by (auto simp: tree_HDict demo_heap_def new_loader_def intro: items_Nil)
  moreover have "documents demo_heap [1, 3] [?d1, ?d2] {0}"
    by (auto simp: tree_HDict tree_items_Cons demo_heap_def)
  moreover have "\<forall>d \<in> set [?d1, ?d2]. items_depth d \<le> 2" by (simp add: items_depth_def)
  moreover have "loader_values (fold use_values [?d1, ?d2] new_loader) = [(''api'', PDict [(''url'', PStr ''x''), (''port'', PInt 1)])]"
    by (simp add: new_loader_def use_values_def)
  ultimately show ?thesis using merge_in_place_refines_merge [of demo_heap 0 new_loader "{0}" "[1, 3]" "[?d1, ?d2]" 2]
    by (simp only:)
qed

text \<open>
  An alias: the first document is \<open>a: &x {k: 1}, b: *x\<close>, the second \<open>a: {k: 2}\<close>. Overriding \<open>a.k\<close> changes \<open>b.k\<close> as
  well, which merging values does not.
\<close>

lemma alias_is_overridden_too:
  "use_documents 2 0 [1, 3] [[], [(''a'', HDict 2), (''b'', HDict 2)], [(''k'', HPlain (PInt 1))], [(''a'', HDict 4)], [(''k'', HPlain (PInt 2))]] =
     Some (Inr (), [[(''a'', HDict 2), (''b'', HDict 2)], [(''a'', HDict 2), (''b'', HDict 2)], [(''k'', HPlain (PInt 2))], [(''a'', HDict 4)], [(''k'', HPlain (PInt 2))]])"
  "value_at (rec_update [(''a'', PDict [(''k'', PInt 1)]), (''b'', PDict [(''k'', PInt 1)])] [(''a'', PDict [(''k'', PInt 2)])]) [''b'', ''k''] = Some (PInt 1)"
  by code_simp+

subsection \<open>Values stay well formed\<close>

lemma rec_step_value_ok: "value_ok (PDict old) \<Longrightarrow> value_ok v \<Longrightarrow> value_ok (PDict (dict_set key v old))"
  by (induction old) (auto simp: dict_set_keys_mem)

lemma rec_update_value_ok: "value_ok (PDict old) \<Longrightarrow> value_ok (PDict new) \<Longrightarrow> value_ok (PDict (rec_update old new))"
proof (induction old new rule: rec_update.induct)
  case (2 old key v new)
  have "value_ok (PDict (rec_step old key v))"
  proof (cases "\<exists>o' n'. map_of old key = Some (PDict o') \<and> v = PDict n'")
    case True
    then obtain o' n' where on: "map_of old key = Some (PDict o')" "v = PDict n'" by blast
    have "value_ok (PDict (rec_update o' n'))"
      by (rule "2.IH"(1) [OF on(1) refl on(2) value_ok_lookup [OF "2.prems"(1) on(1)]]) (use "2.prems"(2) on(2) in simp)
    from rec_step_value_ok [OF "2.prems"(1) this] on show ?thesis by (simp add: rec_step_def)
  next
    case False
    then have "rec_step old key v = dict_set key v old" by (auto simp: rec_step_def split: option.splits pyval.splits)
    moreover have "value_ok v" using "2.prems"(2) by simp
    ultimately show ?thesis using rec_step_value_ok [OF "2.prems"(1)] by metis
  qed
  with "2.IH"(2) [folded rec_step_def] "2.prems"(2) show ?case unfolding rec_update_Cons by simp
qed simp



end
