(* ===== verification/Polling.thy ===== *)
theory Polling
  imports ClientRun
begin

section \<open>The polling loops end in time (service/authentication.py, client/client.py)\<close>

text \<open>
  Both loops read the clock, make a request and sleep. What is relied on is that the clock goes forward
  and that a sleep lasts at least as long as asked for: the rounds are spaced. The number of requests is
  then bounded by the time allowed over the interval, and the loop returns.
\<close>

fun spaced :: "rat \<Rightarrow> rat \<Rightarrow> rat list \<Rightarrow> bool" where
  "spaced begun interval [] = True"
| "spaced begun interval (now # later) = (begun \<le> now \<and> spaced (now + interval) interval later)"

text \<open>The rounds that fit into a time.\<close>

definition rounds_within :: "rat \<Rightarrow> rat \<Rightarrow> nat" where
  "rounds_within time interval = nat \<lceil>time / interval\<rceil>"

lemma rounds_within_enough: "0 < interval \<Longrightarrow> time \<le> of_nat (rounds_within time interval) * interval"
proof -
  assume "0 < interval"
  have "time / interval \<le> of_nat (rounds_within time interval)"
    unfolding rounds_within_def by (rule of_nat_ceiling)
  then show ?thesis using \<open>0 < interval\<close> by (simp add: pos_divide_le_eq)
qed

text \<open>One step of a bound: a round that starts in time leaves one round less.\<close>

lemma bound_step: "e \<le> begun + of_nat (Suc n) * i \<Longrightarrow> begun \<le> (now :: rat) \<Longrightarrow> e \<le> (now + i) + of_nat n * i"
  by (simp add: algebra_simps)

subsection \<open>The device flow\<close>

text \<open>The answer of a round that ends the loop, with what it gives.\<close>

fun decides :: "response result \<Rightarrow> pyval result \<Rightarrow> bool" where
  "decides (Inl e) res \<longleftrightarrow> res = Inl e"
| "decides (Inr response) res \<longleftrightarrow> rs_status response = 200 \<and> res = rs_json response"

lemma poll_within:
  assumes "spaced begun i (map fst rounds)" and "e \<le> begun + of_nat n * i" and "n < length rounds"
  shows "\<exists>res. poll_for_token e rounds = Some res \<and>
    (res = Inl (TimeoutError ''Polling timed out'') \<or> (\<exists>(now, answer) \<in> set (take n rounds). now < e \<and> decides answer res))"
  using assms
proof (induction n arbitrary: begun rounds)
  case 0
  then show ?case by (cases rounds) auto
next
  case (Suc n)
  then obtain now answer later where r: "rounds = (now, answer) # later" by (cases rounds) auto
  from Suc.prems r have b: "begun \<le> now" and s: "spaced (now + i) i (map fst later)" and l: "n < length later" by auto
  from Suc.IH [OF s bound_step [OF Suc.prems(2) b] l] r show ?case by (cases answer) auto
qed



subsection \<open>Reloading\<close>

text \<open>Counting what the client asks: only its requests count.\<close>

definition counts :: "('s \<Rightarrow> nat) \<Rightarrow> ('s \<Rightarrow> 'a \<times> 's) \<Rightarrow> bool" where
  "counts asked get \<longleftrightarrow> (\<forall>s. asked (snd (get s)) = Suc (asked s))"

lemma reload_within:
  assumes "spaced begun i (map fst rounds)" and "e \<le> begun + of_nat n * i" and "n < length rounds"
    and "counts asked get" and "\<forall>(now, meanwhile) \<in> set rounds. \<forall>s. asked (meanwhile s) = asked s"
  shows "\<exists>res s'. wait_for_reload get (Some e) limit_text previous rounds s = Some (res, s') \<and> asked s' \<le> asked s + n"
  using assms(1-3,5)
proof (induction n arbitrary: begun rounds s)
  case 0
  then show ?case by (cases rounds) auto
next
  case (Suc n)
  then obtain now meanwhile later where r: "rounds = (now, meanwhile) # later" by (cases rounds) auto
  from Suc.prems r have b: "begun \<le> now" and sp: "spaced (now + i) i (map fst later)" and l: "n < length later"
    and m: "asked (meanwhile s) = asked s" and q: "\<forall>(now, meanwhile) \<in> set later. \<forall>s. asked (meanwhile s) = asked s" by auto
  obtain res s' where g: "get (meanwhile s) = (res, s')" by fastforce
  with assms(4) m have a: "asked s' = Suc (asked s)" unfolding counts_def by (metis snd_conv)
  from Suc.IH [OF sp bound_step [OF Suc.prems(2) b] l q, of s'] a g r show ?case
    by (cases res) (auto split: option.splits)
qed


text \<open>A server that counts requests and never comes back.\<close>

definition never_ready :: "nat \<Rightarrow> env_state client_result \<times> nat" where
  "never_ready n = (Inr \<lparr>es_environment_id = ''e1'', es_initialized = False, es_error_message = None\<rparr>, Suc n)"


end
