(* ===== verification/RestApp.thy ===== *)
theory RestApp
  imports RestProps Scratch
begin

section \<open>The application as a whole (service/main.py: get_app and its routes)\<close>

text \<open>
  A request that FastAPI has routed and decoded is a \<open>api_call\<close>. The application resolves the dependencies
  of its router and its handler in the order of the sources, runs the handler on the dispatcher, if
  there is one, and answers with a status. \<open>endpoint_lib\<close> has what handlers take from pydantic, the OIDC
  provider and, for the report of the Python environment, git, the installed distributions and the files.
\<close>

subsection \<open>Calls and their routes\<close>

datatype api_call =
    RootRedirect
  | GetEnvironment
  | DeleteEnvironment
  | GetOidcConfig
  | GetPlans
  | GetPlanByName string
  | GetDevices
  | GetDeviceByName string
  | SubmitTask task_request
  | DeleteSubmittedTask string
  | GetTasks "task_status_enum option"
  | SetActiveTask "string option"
  | GetTask string
  | GetActiveTask
  | GetState
  | SetState state_change_request
  | GetPythonEnvironment "string option" "source_info option"
  | HealthProbe
  | Logout

datatype router = OpenRouter | SecureRouter | SecureRouterV1

text \<open>The prefix of each router.\<close>

fun router_prefix :: "router \<Rightarrow> string" where
  "router_prefix OpenRouter = []"
| "router_prefix SecureRouter = []"
| "router_prefix SecureRouterV1 = ''/api/v1''"

text \<open>The routers a call is on, its method and its path below the prefix, as the decorators say.\<close>

fun route_of :: "api_call \<Rightarrow> router list \<times> string \<times> string" where
  "route_of RootRedirect = ([SecureRouter], ''GET'', ''/'')"
| "route_of GetEnvironment = ([SecureRouterV1, SecureRouter], ''GET'', ''/environment'')"
| "route_of DeleteEnvironment = ([SecureRouterV1, SecureRouter], ''DELETE'', ''/environment'')"
| "route_of GetOidcConfig = ([OpenRouter], ''GET'', ''/config/oidc'')"
| "route_of GetPlans = ([SecureRouterV1, SecureRouter], ''GET'', ''/plans'')"
| "route_of (GetPlanByName name) = ([SecureRouterV1, SecureRouter], ''GET'', ''/plans/'' @ name)"
| "route_of GetDevices = ([SecureRouterV1, SecureRouter], ''GET'', ''/devices'')"
| "route_of (GetDeviceByName name) = ([SecureRouterV1, SecureRouter], ''GET'', ''/devices/'' @ name)"
| "route_of (SubmitTask rq) = ([SecureRouterV1, SecureRouter], ''POST'', ''/tasks'')"
| "route_of (DeleteSubmittedTask task_id) = ([SecureRouterV1, SecureRouter], ''DELETE'', ''/tasks/'' @ task_id)"
| "route_of (GetTasks status) = ([SecureRouterV1, SecureRouter], ''GET'', ''/tasks'')"
| "route_of (SetActiveTask task_id) = ([SecureRouterV1, SecureRouter], ''PUT'', ''/worker/task'')"
| "route_of (GetTask task_id) = ([SecureRouterV1, SecureRouter], ''GET'', ''/tasks/'' @ task_id)"
| "route_of GetActiveTask = ([SecureRouterV1, SecureRouter], ''GET'', ''/worker/task'')"
| "route_of GetState = ([SecureRouterV1, SecureRouter], ''GET'', ''/worker/state'')"
| "route_of (SetState sc) = ([SecureRouterV1, SecureRouter], ''PUT'', ''/worker/state'')"
| "route_of (GetPythonEnvironment name origin) = ([SecureRouterV1, SecureRouter], ''GET'', ''/python_environment'')"
| "route_of HealthProbe = ([OpenRouter], ''GET'', ''/healthz'')"
| "route_of Logout = ([SecureRouterV1, SecureRouter], ''GET'', ''/logout'')"

definition secured :: "api_call \<Rightarrow> bool" where
  "secured c \<longleftrightarrow> OpenRouter \<notin> set (fst (route_of c))"

definition call_method :: "api_call \<Rightarrow> string" where
  "call_method c = fst (snd (route_of c))"

text \<open>The paths a call answers at.\<close>

definition call_paths :: "api_call \<Rightarrow> string list" where
  "call_paths c = map (\<lambda>rt. router_prefix rt @ snd (snd (route_of c))) (fst (route_of c))"

fun success_status :: "api_call \<Rightarrow> nat" where
  "success_status RootRedirect = 307"
| "success_status (SubmitTask rq) = 201"
| "success_status (SetState sc) = 202"
| "success_status Logout = 308"
| "success_status c = 200"

subsection \<open>Answers\<close>

datatype reply =
    RedirectTo string
  | EnvironmentReply env_state
  | OidcReply oidc_config
  | PlansReply "plan_info list"
  | PlanReply plan_info
  | DevicesReply "device_info list"
  | DeviceReply device_info
  | SubmittedReply string string                  \<comment> \<open>the task and its \<open>Location\<close>\<close>
  | TaskIdReply string
  | TasksReply "trackable_task list"
  | TaskReply trackable_task
  | WorkerTaskReply "string option"
  | StartingReply "(nat \<times> nat) option \<times> (sub_channel \<times> nat) list"  \<comment> \<open>still waits for the start\<close>
  | StateReply worker_state
  | PythonReply python_environment
  | HealthOk

record 's endpoint_lib =
  el_json_schema :: "plan_model \<Rightarrow> pydict"
  el_end_session :: "oidc_config \<Rightarrow> string result"
  el_scratch :: "'s scratch_lib"
  el_installed :: "distribution list"
  el_files :: 's

text \<open>
  What comes with a request: its connection, headers and address, the identifier a new task gets, the
  baggage of its trace, and how the RunEngine answers a change of state.
\<close>

record api_request =
  ar_conn :: connection_info
  ar_headers :: "(string \<times> string) list"
  ar_url :: string
  ar_uuid :: string
  ar_baggage :: pyval
  ar_engine :: "unit result"

subsection \<open>Handlers with their dependencies\<close>

text \<open>\<open>get_python_env\<close> of the interface and its route.\<close>

definition interface_get_python_env :: "'s endpoint_lib \<Rightarrow> string option \<Rightarrow> source_info option \<Rightarrow> service \<Rightarrow>
    python_environment result \<times> service" where
  "interface_get_python_env E name origin sv =
     (get_python_environment (el_scratch E) (el_installed E) (cfg_scratch (sv_config sv)) name origin (el_files E), sv)"

definition rest_get_python_environment :: "'s endpoint_lib \<Rightarrow> string option \<Rightarrow> source_info option \<Rightarrow> python_environment handler" where
  "rest_get_python_environment E name origin =
     run_rpc (interface_call ''get_python_env'' (interface_get_python_env E name origin))"

definition docs_endpoint :: string where "docs_endpoint = ''/docs''"

definition root_redirect :: reply where "root_redirect = RedirectTo docs_endpoint"

text \<open>A handler behind the dependency \<open>_runner\<close>, and one behind the dependency \<open>opa\<close>.\<close>

definition with_runner :: "('a \<Rightarrow> reply) \<Rightarrow> 'a handler \<Rightarrow> service runner option \<Rightarrow> reply result \<times> service runner option" where
  "with_runner wrap h R =
     (case runner_dependency R of
        Inl e \<Rightarrow> (Inl e, R)
      | Inr r \<Rightarrow> (let (res, r') = h r in (bind_r res (\<lambda>v. Inr (wrap v)), Some r')))"

definition with_opa :: "app \<Rightarrow> opa_client option \<Rightarrow> api_request \<Rightarrow>
    (opa_user_client option \<Rightarrow> service runner option \<Rightarrow> reply result \<times> service runner option) \<Rightarrow>
    service runner option \<Rightarrow> reply result \<times> service runner option" where
  "with_opa A authz rq h R =
     (case opa_of_request A authz (ar_conn rq) of Inl e \<Rightarrow> (Inl e, R) | Inr client \<Rightarrow> h client R)"

text \<open>
  The handlers. \<open>submit_permission\<close> is asked before the dispatcher, \<open>get_tasks\<close> takes the dispatcher before
  the policy client.
\<close>

fun run_endpoint :: "app \<Rightarrow> 's endpoint_lib \<Rightarrow> opa_client option \<Rightarrow> api_request \<Rightarrow> pyval \<Rightarrow> api_call \<Rightarrow>
    service runner option \<Rightarrow> reply result \<times> service runner option" where
  "run_endpoint A E authz rq user RootRedirect R = (Inr root_redirect, R)"
| "run_endpoint A E authz rq user GetEnvironment R = with_runner EnvironmentReply rest_get_environment R"
| "run_endpoint A E authz rq user DeleteEnvironment R =
     with_runner EnvironmentReply (\<lambda>r. (Inr (fst (rest_delete_environment r)), r)) R"
| "run_endpoint A E authz rq user GetOidcConfig R = with_runner OidcReply rest_get_oidc_config R"
| "run_endpoint A E authz rq user GetPlans R = with_runner PlansReply (rest_get_plans A (el_json_schema E)) R"
| "run_endpoint A E authz rq user (GetPlanByName name) R =
     with_runner PlanReply (rest_get_plan_by_name A (el_json_schema E) name) R"
| "run_endpoint A E authz rq user GetDevices R = with_runner DevicesReply (rest_get_devices A) R"
| "run_endpoint A E authz rq user (GetDeviceByName name) R = with_runner DeviceReply (rest_get_device_by_name A name) R"
| "run_endpoint A E authz rq user (SubmitTask task) R =
     with_opa A authz rq (\<lambda>client R'.
       case submit_permission (ap_opa A) client task of
         Inl e \<Rightarrow> (Inl e, R')
       | Inr _ \<Rightarrow>
           with_runner (\<lambda>(task_id, location). SubmittedReply task_id location)
             (rest_submit_task A client user (ar_url rq) (ar_uuid rq) (ar_baggage rq) task) R') R"
| "run_endpoint A E authz rq user (DeleteSubmittedTask task_id) R =
     with_opa A authz rq (\<lambda>client. with_runner TaskIdReply (rest_delete_submitted_task A client user task_id)) R"
| "run_endpoint A E authz rq user (GetTasks status) R =
     (case runner_dependency R of
        Inl e \<Rightarrow> (Inl e, R)
      | Inr _ \<Rightarrow> with_opa A authz rq (\<lambda>client. with_runner TasksReply (rest_get_tasks A client user status)) R)"
| "run_endpoint A E authz rq user (SetActiveTask task_id) R =
     with_opa A authz rq (\<lambda>client.
       with_runner StartingReply (rest_set_active_task A client user (ar_headers rq) task_id)) R"
| "run_endpoint A E authz rq user (GetTask task_id) R =
     with_opa A authz rq (\<lambda>client. with_runner TaskReply (rest_get_task A client user task_id)) R"
| "run_endpoint A E authz rq user GetActiveTask R = with_runner WorkerTaskReply (rest_get_active_task A) R"
| "run_endpoint A E authz rq user GetState R = with_runner StateReply (rest_get_state A) R"
| "run_endpoint A E authz rq user (SetState sc) R =
     with_opa A authz rq (\<lambda>client. with_runner StateReply (rest_set_state A client user (ar_engine rq) sc)) R"
| "run_endpoint A E authz rq user (GetPythonEnvironment name origin) R =
     with_runner PythonReply (rest_get_python_environment E name origin) R"
| "run_endpoint A E authz rq user HealthProbe R = (Inr HealthOk, R)"
| "run_endpoint A E authz rq user Logout R = with_runner RedirectTo (rest_logout (el_end_session E)) R"

text \<open>
  A request: on a secured router the check of the token comes first, when OIDC is configured. The last
  component says whether a reload runs in the background once the answer is sent.
\<close>

definition schedules_reload :: "api_call \<Rightarrow> service runner option \<Rightarrow> bool" where
  "schedules_reload c R \<longleftrightarrow>
     c = DeleteEnvironment \<and> (case R of None \<Rightarrow> False | Some r \<Rightarrow> snd (rest_delete_environment r))"

definition serve :: "app \<Rightarrow> 's endpoint_lib \<Rightarrow> oidc_config option \<Rightarrow> opa_client option \<Rightarrow> api_request \<Rightarrow> api_call \<Rightarrow>
    service runner option \<Rightarrow> reply result \<times> service runner option \<times> bool" where
  "serve A E oidc authz rq c R =
     (if secured c then
        (case authenticated_user A oidc (ar_conn rq) of
           Inl e \<Rightarrow> (Inl e, R, False)
         | Inr user \<Rightarrow> (let (res, R') = run_endpoint A E authz rq user c R in (res, R', schedules_reload c R)))
      else (let (res, R') = run_endpoint A E authz rq PNone c R in (res, R', schedules_reload c R)))"

definition serve_status :: "app \<Rightarrow> api_call \<Rightarrow> reply result \<Rightarrow> nat" where
  "serve_status A c res = http_status A (success_status c) res"

end
