(* ===== verification/ScratchProps.thy ===== *)
theory ScratchProps
  imports Scratch
begin

section \<open>What setting up the scratch area guarantees\<close>

text \<open>
  What is relied on of \<open>git clone\<close>: a clone that succeeds makes the directory, and no clone removes or
  changes what already stands at a path.
\<close>

definition clone_contract :: "'s scratch_lib \<Rightarrow> bool" where
  "clone_contract L \<longleftrightarrow>
     (\<forall>url dir target s. gl_entry L s dir = None \<longrightarrow> fst (gl_clone L url dir target s) = Inr () \<longrightarrow>
        (\<exists>mode gid. gl_entry L (snd (gl_clone L url dir target s)) dir = Some (IsDirectory mode gid))) \<and>
     (\<forall>url dir target s p e. gl_entry L s p = Some e \<longrightarrow> gl_entry L (snd (gl_clone L url dir target s)) p = Some e)"

definition is_directory :: "'s scratch_lib \<Rightarrow> 's \<Rightarrow> string \<Rightarrow> bool" where
  "is_directory L s p \<longleftrightarrow> (\<exists>mode gid. gl_entry L s p = Some (IsDirectory mode gid))"

lemma ensure_repo_directory:
  assumes "clone_contract L" and "ensure_repo L url dir target s = (Inr ws, s')"
  shows "is_directory L s' dir"
proof (cases "gl_entry L s dir")
  case None
  then have c: "gl_clone L url dir target s = (Inr (), s')"
    using assms(2) by (auto simp: ensure_repo_def split: sum.splits prod.splits)
  have "\<exists>mode gid. gl_entry L (snd (gl_clone L url dir target s)) dir = Some (IsDirectory mode gid)"
    using assms(1) None c unfolding clone_contract_def by (metis fst_conv)
  with c show ?thesis by (simp add: is_directory_def)
next
  case (Some e)
  with assms(2) show ?thesis
    by (cases e) (auto simp: ensure_repo_def is_directory_def)
qed

lemma ensure_repo_keeps:
  assumes "clone_contract L" and "gl_entry L s p = Some e"
  shows "gl_entry L (snd (ensure_repo L url dir target s)) p = Some e"
proof (cases "gl_entry L s dir")
  case None
  have "gl_entry L (snd (gl_clone L url dir target s)) p = Some e"
    using assms by (simp add: clone_contract_def)
  with None show ?thesis
    by (cases "gl_clone L url dir target s") (auto simp: ensure_repo_def split: sum.splits)
next
  case (Some e')
  with assms(2) show ?thesis by (cases e') (simp_all add: ensure_repo_def)
qed

lemma ensure_all_keeps:
  "clone_contract L \<Longrightarrow> gl_entry L s p = Some e \<Longrightarrow> gl_entry L (snd (ensure_all L config repos s)) p = Some e"
proof (induction repos arbitrary: s)
  case (Cons r repos)
  let ?n = "ensure_repo L (repo_remote_url r) (repo_directory config r) (repo_target_revision r) s"
  have "gl_entry L (snd ?n) p = Some e" by (rule ensure_repo_keeps [OF Cons.prems])
  from Cons.IH [OF Cons.prems(1) this] show ?case by (simp add: case_prod_beta)
qed simp

lemma ensure_all_directories:
  "clone_contract L \<Longrightarrow> ensure_all L config repos s = ([], s') \<Longrightarrow> r \<in> set repos \<Longrightarrow>
   is_directory L s' (repo_directory config r)"
proof (induction repos arbitrary: s)
  case (Cons r' repos)
  let ?n = "ensure_repo L (repo_remote_url r') (repo_directory config r') (repo_target_revision r') s"
  obtain ws s1 where n: "?n = (Inr ws, s1)" and rest: "ensure_all L config repos s1 = ([], s')"
    using Cons.prems(2) by (cases ?n) (auto split: sum.splits prod.splits)
  show ?case
  proof (cases "r = r'")
    case True
    from ensure_repo_directory [OF Cons.prems(1) n] obtain mode gid
      where "gl_entry L s1 (repo_directory config r') = Some (IsDirectory mode gid)"
      by (auto simp: is_directory_def)
    from ensure_all_keeps [OF Cons.prems(1) this, of config repos] rest True show ?thesis
      by (simp add: is_directory_def)
  qed (use Cons.IH [OF Cons.prems(1) rest] Cons.prems(3) in simp)
qed simp

lemma install_args_ok:
  "\<forall>p \<in> set paths. is_directory L s p \<Longrightarrow> install_args L paths s = Inr (concat (map (\<lambda>p. [''-e'', p]) paths))"
  by (induction paths) (auto simp: is_directory_def validate_directory_def)


text \<open>A file system of paths, on which every clone and installation succeeds, for examples.\<close>

definition demo_scratch_lib :: "(string \<times> dir_entry) list scratch_lib" where
  "demo_scratch_lib = \<lparr>gl_entry = map_of, gl_clone = (\<lambda>url dir target s. (Inr (), s @ [(dir, IsDirectory 1024 7)])),
     gl_repo = (\<lambda>s p. Inl (ForeignError ''InvalidGitRepositoryError'' p)), gl_install = (\<lambda>args timeout s. (Inr 0, s))\<rparr>"

definition demo_scratch_config :: scratch_config where
  "demo_scratch_config = \<lparr>scratch_root = ''/scratch'', scratch_required_gid = Some 7,
     scratch_repositories = [\<lparr>repo_name = ''plans'', repo_remote_url = ''https://plans'', repo_target_revision = None\<rparr>]\<rparr>"

lemma demo_clone_contract: "clone_contract demo_scratch_lib"
  by (auto simp: clone_contract_def demo_scratch_lib_def map_add_Some_iff)


subsection \<open>The Python environment\<close>

lemma add_location_names [simp]: "map pk_name (add_location n l ps) = map pk_name ps"
  by (induction ps) simp_all

lemma add_location_names_set: "pk_name ` set (add_location n l ps) = pk_name ` set ps"
  using add_location_names [of n l ps] by (metis list.set_map)

lemma merge_installed_names:
  "map pk_name (fst (merge_installed scratch pkgs)) = map pk_name scratch \<and>
   snd (merge_installed scratch pkgs) = filter (\<lambda>p. pk_name p \<notin> pk_name ` set scratch) pkgs"
  by (induction scratch pkgs rule: merge_installed.induct) (simp_all add: add_location_names_set case_prod_beta)

text \<open>
  Without filters the environment names each scratch package once and, in addition, exactly the
  installed distributions that are no scratch package, in the order of the lower-case names; the
  filters select from that.
\<close>

lemma sort_key_map: "map f (sort_key (\<lambda>x. g (f x)) xs) = sort_key g (map f xs)"
proof -
  have "map f (insort_key (\<lambda>x. g (f x)) a ys) = insort_key g (f a) (map f ys)" for a ys
    by (induction ys) simp_all
  then show ?thesis by (induction xs) simp_all
qed

lemma python_environment_names:
  assumes "get_python_environment L installed config None None s = Inr env"
  shows "\<exists>scratch. map pk_name (py_installed_packages env) =
      sort_key lower (scratch @ filter (\<lambda>n. n \<notin> set scratch) (map ds_name installed)) \<and>
    length scratch = (case config of None \<Rightarrow> 0 | Some c \<Rightarrow> length (scratch_repositories c)) \<and>
    (py_scratch_enabled env \<longleftrightarrow> config \<noteq> None)"
proof -
  obtain packages where e: "env = \<lparr>py_installed_packages = sorted_packages (fst (merge_installed packages (fetch_installed_packages_details installed)) @
        snd (merge_installed packages (fetch_installed_packages_details installed))), py_scratch_enabled = (config \<noteq> None)\<rparr>"
      and l: "length packages = (case config of None \<Rightarrow> 0 | Some c \<Rightarrow> length (scratch_repositories c))"
    using assms by (auto simp: get_python_environment_def filter_packages_def case_prod_beta Let_def
        dest: mapM_r_length split: option.splits)
  have "map pk_name (py_installed_packages env) =
      sort_key lower (map pk_name packages @ filter (\<lambda>n. n \<notin> set (map pk_name packages)) (map ds_name installed))"
    using merge_installed_names [of packages "fetch_installed_packages_details installed"]
    by (simp add: e sorted_packages_def sort_key_map filter_map comp_def fetch_installed_packages_details_def)
  with e l show ?thesis by (intro exI [of _ "map pk_name packages"]) simp
qed

lemma filter_packages_selects:
  "p \<in> set (filter_packages name origin ps) \<longleftrightarrow> p \<in> set ps \<and>
     (case name of None \<Rightarrow> True | Some n \<Rightarrow> n = [] \<or> pk_name p = n) \<and>
     (case origin of None \<Rightarrow> True | Some o' \<Rightarrow> pk_source p = o')"
  by (auto simp: filter_packages_def Let_def split: option.splits)

end
