(* ===== verification/RestAppProps.thy ===== *)
theory RestAppProps
  imports RestApp RestClient ScratchProps
begin

section \<open>What the application guarantees as a whole\<close>

text \<open>
  Who gets past the routers, what reading requests leave alone, and that the addresses of the Python
  client are routes of the server.
\<close>

subsection \<open>Authentication\<close>

lemma secured_iff: "secured c \<longleftrightarrow> c \<notin> {GetOidcConfig, HealthProbe}"
  by (cases c) (simp_all add: secured_def)

text \<open>
  Claim C27. With OIDC configured, every request but the two open ones (the OIDC configuration and the
  health probe) is answered by its handler exactly when its bearer token is accepted, and the handler
  then acts for the user of that token. Otherwise the error of the check is the answer, 401 when the
  token is missing, empty or refused by the verification; no handler runs, nothing changes and no reload
  is scheduled.
\<close>

theorem no_handler_without_token:
  assumes "c \<notin> {GetOidcConfig, HealthProbe}"
  shows "case validate_bearer_token (ap_oidc_lib A) cfg (unchecked_bearer_token (ap_scheme_param A) (ar_conn rq)) of
      Inl e \<Rightarrow> serve A E (Some cfg) authz rq c R = (Inl e, R, False) \<and>
        (unchecked_bearer_token (ap_scheme_param A) (ar_conn rq) \<in> {None, Some []} \<or> (\<exists>n m. e = ForeignError n m \<and> ap_is_jwt_error A e) \<longrightarrow>
          serve_status A c (fst (serve A E (Some cfg) authz rq c R)) = 401)
    | Inr claims \<Rightarrow>
        (let (res, R', reload) = serve A E (Some cfg) authz rq c R
         in (res, R') = run_endpoint A E authz rq (case fedid (Some claims) of None \<Rightarrow> PNone | Some v \<Rightarrow> v) c R)"
proof -
  have s: "secured c" using assms by (simp add: secured_iff)
  let ?token = "unchecked_bearer_token (ap_scheme_param A) (ar_conn rq)"
  show ?thesis
  proof (cases "validate_bearer_token (ap_oidc_lib A) cfg ?token")
    case (Inl e)
    have "?token \<in> {None, Some []} \<Longrightarrow> e = HTTPException 401 (DText ''Not authenticated'')"
      using Inl by (auto simp: validate_bearer_token_def)
    with s Inl show ?thesis
      by (auto simp: serve_def authenticated_user_def serve_status_def http_status_def)
  next
    case (Inr claims)
    with s show ?thesis by (simp add: serve_def authenticated_user_def case_prod_beta)
  qed
qed

text \<open>A request without headers, and a server that takes no token from it.\<close>

definition demo_endpoints :: "(string \<times> dir_entry) list endpoint_lib" where
  "demo_endpoints = \<lparr>el_json_schema = (\<lambda>_. []), el_end_session = (\<lambda>_. Inr ''end''), el_scratch = demo_scratch_lib,
     el_installed = [], el_files = []\<rparr>"

definition bare_request :: api_request where
  "bare_request = \<lparr>ar_conn = \<lparr>ci_headers = [], ci_cookies = []\<rparr>, ar_headers = [], ar_url = ''/tasks'',
     ar_uuid = ''t7'', ar_baggage = PNone, ar_engine = Inr ()\<rparr>"

definition tokenless_app :: app where
  "tokenless_app = demo_app\<lparr>ap_scheme_param := \<lambda>_. ([], [])\<rparr>"

theorem no_handler_without_token_witness:
  "serve tokenless_app demo_endpoints (Some demo_oidc) None bare_request (DeleteSubmittedTask ''t1'') (Some (demo_runner one_task)) =
    (Inl (HTTPException 401 (DText ''Not authenticated'')), Some (demo_runner one_task), False)"
proof -
  have n: "unchecked_bearer_token (ap_scheme_param tokenless_app) (ar_conn bare_request) = None"
    by (simp add: unchecked_bearer_token_def tokenless_app_def lower_def)
  then have "validate_bearer_token (ap_oidc_lib tokenless_app) demo_oidc
      (unchecked_bearer_token (ap_scheme_param tokenless_app) (ar_conn bare_request)) = Inl (HTTPException 401 (DText ''Not authenticated''))"
    by (simp add: validate_bearer_token_def)
  with no_handler_without_token [where E = demo_endpoints and c = "DeleteSubmittedTask ''t1''" and A = tokenless_app and cfg = demo_oidc and rq = bare_request]
  show ?thesis by simp
qed

subsection \<open>Reading\<close>

lemma rpc_keeps:
  assumes "worker_of_runner r = Some w" and "\<And>sv. sv_worker sv = Some w \<Longrightarrow> snd (f sv) = sv"
  shows "snd (run_rpc (interface_call name f) r) = r"
proof -
  from assms(1) obtain p where p: "ru_subprocess r = Some p" "\<not> pool_closed p" "sv_worker (pool_state p) = Some w"
    by (auto simp: worker_of_runner_def split: option.splits if_splits)
  with assms(2) [OF p(3)] show ?thesis by (simp add: run_interface_call case_prod_beta)
qed

lemma config_call_keeps: "worker_of_runner r = Some w \<Longrightarrow> snd (config_call name f r) = r"
  unfolding config_call_def by (erule rpc_keeps) simp

lemma context_call_keeps: "worker_of_runner r = Some w \<Longrightarrow> snd (context_call A name f r) = r"
  unfolding context_call_def by (erule rpc_keeps) (simp add: context_of_def)

lemma python_env_keeps: "worker_of_runner r = Some w \<Longrightarrow> snd (rest_get_python_environment E name origin r) = r"
  unfolding rest_get_python_environment_def by (erule rpc_keeps) (simp add: interface_get_python_env_def)

lemma bind_h_keeps: "snd (h r) = r \<Longrightarrow> (\<And>v. snd (k v r) = r) \<Longrightarrow> snd (bind_h h k r) = r"
  by (cases "h r"; cases "fst (h r)") (auto simp: bind_h_def)

lemma lift_h_keeps: "snd (lift_h v r) = r"
  by (simp add: lift_h_def)

lemma query_keeps: "worker_of_runner r = Some w \<Longrightarrow> snd (query A name f r) = r"
  by (simp add: query_live)

lemmas keeps = config_call_keeps context_call_keeps python_env_keeps query_keeps

lemma with_runner_keeps: "snd (h r) = r \<Longrightarrow> snd (with_runner wrap h (Some r)) = Some r"
  by (simp add: with_runner_def runner_dependency_def case_prod_beta)

lemma with_opa_keeps: "(\<And>client. snd (h client R) = R) \<Longrightarrow> snd (with_opa A authz rq h R) = R"
  by (simp add: with_opa_def split: sum.splits)

lemma access_keeps: "worker_of_runner r = Some w \<Longrightarrow> snd (access_task_permission A opa user tid r) = r"
  unfolding access_task_permission_def by (intro bind_h_keeps query_keeps lift_h_keeps)

lemma get_endpoints_keep:
  assumes "worker_of_runner r = Some w" and "call_method c = ''GET''"
  shows "snd (run_endpoint A E authz rq user c (Some r)) = Some r"
  using assms(2)
  by (cases c)
    (auto simp: call_method_def runner_dependency_def rest_get_environment_def rest_get_oidc_config_def rest_get_plans_def
      rest_get_plan_by_name_def rest_get_devices_def rest_get_device_by_name_def rest_get_tasks_def rest_get_task_def
      rest_get_active_task_def rest_get_state_def rest_logout_def
      intro!: with_runner_keeps with_opa_keeps bind_h_keeps lift_h_keeps access_keeps [OF assms(1)] keeps [OF assms(1)])

text \<open>
  Claim C28. Reading is safe: a GET request to a service whose worker is up leaves the dispatcher, the
  process behind it and the worker exactly as they were, whoever asks and whatever the answer is, and
  schedules no reload.
\<close>

theorem reading_changes_nothing:
  assumes "worker_of_runner r = Some w" and "call_method c = ''GET''"
  shows "snd (serve A E oidc authz rq c (Some r)) = (Some r, False)"
proof -
  have "\<not> schedules_reload c (Some r)" using assms(2) by (auto simp: schedules_reload_def call_method_def)
  with get_endpoints_keep [OF assms, of A E authz rq] show ?thesis
    by (auto simp: serve_def case_prod_beta split: sum.splits)
qed

theorem reading_changes_nothing_witness:
  "serve demo_app demo_endpoints None None bare_request GetState (Some (demo_runner one_task)) =
     (Inr (StateReply IDLE), Some (demo_runner one_task), False)"
proof -
  have "fst (serve demo_app demo_endpoints None None bare_request GetState (Some (demo_runner one_task))) = Inr (StateReply IDLE)"
    by (simp add: serve_def secured_def authenticated_user_def with_runner_def runner_dependency_def rest_get_state_def
        query_live [OF demo_runner_worker])
  with reading_changes_nothing [OF demo_runner_worker, of GetState demo_app demo_endpoints None None bare_request one_task]
  show ?thesis by (simp add: prod_eq_iff call_method_def)
qed

subsection \<open>The addresses of the client\<close>

text \<open>A transport that records method and address of every request.\<close>

definition records_requests :: "(string \<times> string) list client_lib \<Rightarrow> bool" where
  "records_requests L \<longleftrightarrow> (\<forall>rq s. snd (cl_send L rq s) = s @ [(hr_method rq, hr_url rq)])"

text \<open>What was sent is one request, at a route of the call.\<close>

definition reaches :: "(string \<times> string) list client_lib \<Rightarrow> rest_client \<Rightarrow> (string \<times> string) list \<Rightarrow>
    (string \<times> string) list \<Rightarrow> api_call \<Rightarrow> bool" where
  "reaches L rc s s' c \<longleftrightarrow>
     (\<exists>path \<in> set (call_paths c). s' = s @ [(call_method c, remove_suffix ''/'' (cl_unicode_string L (rest_url (rc_config rc))) @ path)])"

lemma request_recorded:
  assumes "records_requests L" and "rc_session_manager rc = None"
  shows "snd (request_and_deserialize L rc suffix decode data verb get_exn params s) =
    s @ [(verb, remove_suffix ''/'' (cl_unicode_string L (rest_url (rc_config rc))) @ suffix)]"
proof -
  have "snd (cl_send L rq s) = s @ [(hr_method rq, hr_url rq)]" for rq
    using assms(1) by (simp add: records_requests_def)
  then show ?thesis using assms(2)
    by (simp add: request_and_deserialize_def jwt_auth_token_def Let_def case_prod_beta split: sum.splits prod.splits)
qed

lemmas client_routes = rc_get_plans_def rc_get_devices_def rc_get_device_def rc_get_state_def
  rc_set_state_def rc_get_task_def rc_get_all_tasks_def rc_get_active_task_def rc_clear_task_def rc_update_worker_task_def
  rc_cancel_current_task_def rc_get_environment_def rc_delete_environment_def rc_get_python_environment_def get_request_def

lemma get_plan_recorded: "snd (rc_get_plan L rc decode name s) = snd (get_request L rc (''/plans/'' @ name) decode s)"
  unfolding rc_get_plan_def by (auto split: prod.splits sum.splits client_exn.splits)

lemma get_oidc_recorded: "snd (rc_get_oidc_config L rc decode s) = snd (get_request L rc ''/config/oidc'' decode s)"
  unfolding rc_get_oidc_config_def by (auto split: prod.splits sum.splits client_exn.splits)

lemma reachesI:
  assumes "x = s @ [(call_method c, remove_suffix ''/'' (cl_unicode_string L (rest_url (rc_config rc))) @ path)]"
    and "path \<in> set (call_paths c)"
  shows "reaches L rc s x c"
  using assms by (auto simp: reaches_def)


text \<open>A server that answers every request, and a client of it.\<close>

definition recording_lib :: "(string \<times> string) list client_lib" where
  "recording_lib = \<lparr>cl_send = (\<lambda>rq s. (Inr \<lparr>rs_status = 200, rs_json = Inr PNone, rs_text = [], rs_headers = []\<rparr>,
       s @ [(hr_method rq, hr_url rq)])),
     cl_unicode_string = (\<lambda>u. ''http://localhost:8000/''), cl_is_connection_error = (\<lambda>e. False), cl_trace_headers = [],
     cl_user_agent = ''blueapi cli'', cl_version = ''1.0'', cl_base_version = Inr, cl_oidc = demo_provider,
     cl_cache = \<lparr>co_can_access = Pair (Inr True), co_save = (\<lambda>c. Pair (Inr ())), co_load = Pair (Inl (FileNotFoundError [])),
       co_delete = Pair (Inr ())\<rparr>,
     cl_validate_errors = (\<lambda>_. Inl (ValueError []))\<rparr>"


end
