(* ===== verification/Commands.thy ===== *)
theory Commands
  imports Cli RestAppProps
begin

section \<open>The commands that ask, show and control (cli/cli.py, cli/format.py, client/client.py)\<close>

text \<open>
  The three output formats over everything the commands show, the commands of the controller that hand
  a request of the client on, listening to the message bus, the client's remaining methods, and starting
  the server. Printing is the list of lines; \<open>json.dumps\<close> and \<open>pprint\<close> are parameters.
\<close>

subsection \<open>Output formats\<close>

datatype output_format = JsonFormat | FullFormat | CompactFormat

datatype shown =
    ShownPlans "plan_info list"
  | ShownDevices "device_info list"
  | ShownEvent event
  | ShownEnvironment python_environment

text \<open>\<open>model_dump()\<close> of what is shown.\<close>

definition dump_str :: "string option \<Rightarrow> pyval" where
  "dump_str s = (case s of None \<Rightarrow> PNone | Some v \<Rightarrow> PStr v)"

definition dump_plan :: "plan_info \<Rightarrow> pyval" where
  "dump_plan p = PDict [(''name'', PStr (pi_name p)), (''description'', dump_str (pi_description p)),
     (''parameter_schema'', PDict (pi_schema p))]"

definition dump_device :: "device_info \<Rightarrow> pyval" where
  "dump_device d = PDict [(''name'', PStr (di_name d)), (''protocols'', PList (map (\<lambda>p.
     PDict [(''name'', PStr (pr_name p)), (''types'', PList (map PStr (pr_types p)))]) (di_protocols d)))]"

definition dump_event :: "event \<Rightarrow> pyval" where
  "dump_event ev =
     (case ev of
        WEvent w \<Rightarrow> PDict [(''state'', PStr (state_value (we_state w))),
          (''task_status'', case we_task_status w of None \<Rightarrow> PNone | Some t \<Rightarrow> dump_task_status t),
          (''errors'', PList (map PStr (we_errors w))), (''warnings'', PList (map PStr (we_warnings w)))]
      | PEvent p \<Rightarrow> dump_progress_event p
      | DEvent d \<Rightarrow> PDict [(''name'', PStr (de_name d)), (''doc'', PDict (de_doc d)), (''task_id'', PStr (de_task_id d))])"

definition dump_package :: "package_info \<Rightarrow> pyval" where
  "dump_package p = PDict [(''name'', PStr (pk_name p)), (''version'', PStr (pk_version p)), (''location'', PStr (pk_location p)),
     (''is_dirty'', PBool (pk_is_dirty p)), (''source'', PStr (source_value (pk_source p)))]"

definition dump_environment :: "python_environment \<Rightarrow> pyval" where
  "dump_environment env = PDict [(''installed_packages'', PList (map dump_package (py_installed_packages env))),
     (''scratch_enabled'', PBool (py_scratch_enabled env))]"

text \<open>\<open>dumps\<close> without and with an indentation of two.\<close>

definition display_json :: "(pyval \<Rightarrow> string) \<Rightarrow> (pyval \<Rightarrow> string) \<Rightarrow> shown \<Rightarrow> string list" where
  "display_json dumps dumps_indented obj =
     (case obj of
        ShownPlans ps \<Rightarrow> [dumps_indented (PList (map dump_plan ps))]
      | ShownDevices ds \<Rightarrow> [dumps_indented (PList (map dump_device ds))]
      | ShownEvent ev \<Rightarrow> [dumps (dump_event ev)]
      | ShownEnvironment env \<Rightarrow> [dumps (dump_environment env)])"

definition display_compact :: "text_lib \<Rightarrow> shown \<Rightarrow> string list result" where
  "display_compact X obj =
     (case obj of
        ShownPlans ps \<Rightarrow> bind_r (mapM_r (compact_plan X) ps) (\<lambda>ls. Inr (concat ls))
      | ShownDevices ds \<Rightarrow> Inr (concat (map (compact_device X) ds))
      | ShownEvent ev \<Rightarrow> Inr (compact_event (tx_float X) ev)
      | ShownEnvironment env \<Rightarrow> Inr (compact_environment env))"

definition display_full :: "text_lib \<Rightarrow> shown \<Rightarrow> string list" where
  "display_full X obj =
     (case obj of
        ShownPlans ps \<Rightarrow> concat (map (full_plan X) ps)
      | ShownDevices ds \<Rightarrow> concat (map full_device ds)
      | ShownEvent ev \<Rightarrow> full_event (tx_float X) ev
      | ShownEnvironment env \<Rightarrow> full_environment env)"

text \<open>\<open>tx_dumps\<close> indents by two.\<close>

definition display :: "text_lib \<Rightarrow> (pyval \<Rightarrow> string) \<Rightarrow> output_format \<Rightarrow> shown \<Rightarrow> string list result" where
  "display X dumps fmt obj =
     (case fmt of
        JsonFormat \<Rightarrow> Inr (display_json dumps (tx_dumps X) obj)
      | FullFormat \<Rightarrow> Inr (display_full X obj)
      | CompactFormat \<Rightarrow> display_compact X obj)"

subsection \<open>The remaining methods of the client\<close>

text \<open>Iterating over a cache gives its plans or devices.\<close>

definition iterate_plans :: "plan_cache \<Rightarrow> plan_info list" where
  "iterate_plans c = dict_values (pc_cache c)"

definition iterate_devices :: "device_cache \<Rightarrow> device_ref list" where
  "iterate_devices c = dict_values (dc_cache c)"

definition plan_cache_repr :: "plan_cache \<Rightarrow> string" where
  "plan_cache_repr c = ''PlanCache('' @ show_nat (length (pc_cache c)) @ '' plans)''"

definition device_cache_repr :: "device_cache \<Rightarrow> string" where
  "device_cache_repr c = ''DeviceCache('' @ show_nat (length (dc_cache c)) @ '' devices)''"

definition device_ref_repr :: "device_ref \<Rightarrow> string" where
  "device_ref_repr d = ''Device('' @ dr_name d @ '')''"

text \<open>\<open>print_plans\<close> and \<open>print_devices\<close>: a plan is printed with its parameters.\<close>

definition print_plans :: "('s \<Rightarrow> plan_info list client_result \<times> 's) \<Rightarrow> 'u blueapi_client \<Rightarrow> 's \<Rightarrow>
    string list client_result \<times> 'u blueapi_client \<times> 's" where
  "print_plans fetch c s =
     (let (res, c', s') = client_plans fetch c s
      in (bind_c res (\<lambda>cache. Inr (map plan_repr (iterate_plans cache))), c', s'))"

definition print_devices :: "('s \<Rightarrow> device_info list client_result \<times> 's) \<Rightarrow> 'u blueapi_client \<Rightarrow> 's \<Rightarrow>
    string list client_result \<times> 'u blueapi_client \<times> 's" where
  "print_devices fetch c s =
     (let (res, c', s') = client_devices fetch c s
      in (bind_c res (\<lambda>cache. Inr (map device_ref_repr (iterate_devices cache))), c', s'))"

definition client_callbacks :: "'u blueapi_client \<Rightarrow> 'u on_event list" where
  "client_callbacks c = dict_values (bc_callbacks c)"

definition client_state :: "'s client_lib \<Rightarrow> (pyval \<Rightarrow> 'a result) \<Rightarrow> 'u blueapi_client \<Rightarrow> 's \<Rightarrow> 'a client_result \<times> 's" where
  "client_state L decode c = rc_get_state L (bc_rest c) decode"

definition client_active_task :: "'s client_lib \<Rightarrow> (pyval \<Rightarrow> 'a result) \<Rightarrow> 'u blueapi_client \<Rightarrow> 's \<Rightarrow> 'a client_result \<times> 's" where
  "client_active_task L decode c = rc_get_active_task L (bc_rest c) decode"

definition client_environment :: "'s client_lib \<Rightarrow> (pyval \<Rightarrow> 'a result) \<Rightarrow> 'u blueapi_client \<Rightarrow> 's \<Rightarrow> 'a client_result \<times> 's" where
  "client_environment L decode c = rc_get_environment L (bc_rest c) decode"

definition client_oidc_config :: "'s client_lib \<Rightarrow> (pyval \<Rightarrow> 'a result) \<Rightarrow> 'u blueapi_client \<Rightarrow> 's \<Rightarrow> 'a option client_result \<times> 's" where
  "client_oidc_config L decode c = rc_get_oidc_config L (bc_rest c) decode"

definition client_python_env :: "'s client_lib \<Rightarrow> (pyval \<Rightarrow> 'a result) \<Rightarrow> string option \<Rightarrow> string option \<Rightarrow>
    'u blueapi_client \<Rightarrow> 's \<Rightarrow> 'a client_result \<times> 's" where
  "client_python_env L decode name origin c = rc_get_python_environment L (bc_rest c) decode name origin"

subsection \<open>The commands of the controller\<close>

datatype command =
    PlansCommand
  | DevicesCommand
  | StateCommand
  | PauseCommand bool
  | ResumeCommand
  | AbortCommand "string option"
  | StopCommand
  | GetPythonEnvCommand "string option" "string option"

text \<open>How pydantic reads the answers.\<close>

record decoders =
  dc_plans :: "pyval \<Rightarrow> plan_info list result"
  dc_devices :: "pyval \<Rightarrow> device_info list result"
  dc_state :: "pyval \<Rightarrow> worker_state result"
  dc_python_env :: "pyval \<Rightarrow> python_environment result"

text \<open>\<open>pprint\<close> of a state is its \<open>repr\<close>.\<close>

definition state_repr :: "worker_state \<Rightarrow> string" where
  "state_repr st = ''<WorkerState.'' @ state_value st @ '': '' @ py_repr (state_value st) @ ''>''"

text \<open>A command inside \<open>check_connection\<close>, from what it got to what it prints.\<close>

definition command_end :: "('a \<Rightarrow> string list result) \<Rightarrow> 'a client_result \<Rightarrow> cli_end" where
  "command_end lines res =
     (case res of
        Inl e \<Rightarrow> check_connection e
      | Inr v \<Rightarrow> (case lines v of Inl e \<Rightarrow> check_connection (PyError e) | Inr ls \<Rightarrow> CliPrinted ls))"

definition state_end :: "(worker_state \<Rightarrow> string) \<Rightarrow> worker_state client_result \<times> 's \<Rightarrow> cli_end \<times> 's" where
  "state_end text_of = (\<lambda>(res, s'). (command_end (\<lambda>st. Inr [text_of st]) res, s'))"

definition plans_command :: "(shown \<Rightarrow> string list result) \<Rightarrow> 's client_lib \<Rightarrow> decoders \<Rightarrow> 'u blueapi_client \<Rightarrow> 's \<Rightarrow>
    cli_end \<times> 's" where
  "plans_command show_it L D c s =
     (let (res, c', s') = client_plans (rc_get_plans L (bc_rest c) (dc_plans D)) c s
      in (command_end (\<lambda>cache. show_it (ShownPlans (iterate_plans cache))) res, s'))"

definition devices_command :: "(shown \<Rightarrow> string list result) \<Rightarrow> 's client_lib \<Rightarrow> decoders \<Rightarrow> 'u blueapi_client \<Rightarrow> 's \<Rightarrow>
    cli_end \<times> 's" where
  "devices_command show_it L D c s =
     (let (res, c', s') = client_devices (rc_get_devices L (bc_rest c) (dc_devices D)) c s
      in (command_end (\<lambda>cache. show_it (ShownDevices (map dr_model (iterate_devices cache)))) res, s'))"

definition python_env_command :: "(shown \<Rightarrow> string list result) \<Rightarrow> 's client_lib \<Rightarrow> decoders \<Rightarrow> string option \<Rightarrow> string option \<Rightarrow>
    'u blueapi_client \<Rightarrow> 's \<Rightarrow> cli_end \<times> 's" where
  "python_env_command show_it L D name origin c s =
     (let (res, s') = client_python_env L (dc_python_env D) name origin c s
      in (command_end (\<lambda>env. show_it (ShownEnvironment env)) res, s'))"

lemmas showing_commands = plans_command_def devices_command_def python_env_command_def

fun run_command :: "(shown \<Rightarrow> string list result) \<Rightarrow> 's client_lib \<Rightarrow> decoders \<Rightarrow> command \<Rightarrow> 'u blueapi_client \<Rightarrow> 's \<Rightarrow>
    cli_end \<times> 's" where
  "run_command show_it L D PlansCommand c s = plans_command show_it L D c s"
| "run_command show_it L D DevicesCommand c s = devices_command show_it L D c s"
| "run_command show_it L D StateCommand c s = state_end state_value (client_state L (dc_state D) c s)"
| "run_command show_it L D (PauseCommand defer_pause) c s = state_end state_repr (client_pause L (dc_state D) defer_pause c s)"
| "run_command show_it L D ResumeCommand c s = state_end state_repr (client_resume L (dc_state D) c s)"
| "run_command show_it L D (AbortCommand reason) c s = state_end state_repr (client_abort L (dc_state D) reason c s)"
| "run_command show_it L D StopCommand c s = state_end state_repr (client_stop L (dc_state D) c s)"
| "run_command show_it L D (GetPythonEnvCommand name origin) c s = python_env_command show_it L D name origin c s"

text \<open>
  \<open>blueapi controller\<close>: the client is made before the command runs, outside of \<open>check_connection\<close>.
\<close>

definition controller :: "'s cache_ops \<Rightarrow> app_config \<Rightarrow> ('u blueapi_client \<Rightarrow> 's \<Rightarrow> cli_end \<times> 's) option \<Rightarrow> 's \<Rightarrow> cli_end \<times> 's" where
  "controller ops config subcommand s =
     (case subcommand of
        None \<Rightarrow> (CliPrinted [''Please invoke subcommand!''], s)
      | Some run \<Rightarrow>
          (case client_from_config ops config s of
             (Inl e, s') \<Rightarrow> (CliCrashed e, s')
           | (Inr c, s') \<Rightarrow> run c s'))"

subsection \<open>Listening\<close>

text \<open>
  \<open>listen\<close> until Enter: \<open>events\<close> are the messages of the bus in that time. A message whose display raises
  concerns only itself. The first two lines go to the error stream.
\<close>

definition listen_lines :: "(shown \<Rightarrow> string list result) \<Rightarrow> event list \<Rightarrow> string list" where
  "listen_lines show_it events = concat (map (\<lambda>ev. case show_it (ShownEvent ev) of Inl _ \<Rightarrow> [] | Inr ls \<Rightarrow> ls) events)"

definition cli_listen :: "(shown \<Rightarrow> string list result) \<Rightarrow> 's stomp_ops \<Rightarrow> app_config \<Rightarrow> event list \<Rightarrow> 's \<Rightarrow> cli_end \<times> 's" where
  "cli_listen show_it B config events s =
     (let url = stomp_url (cfg_stomp config) in
      if \<not> stomp_enabled (cfg_stomp config) then (check_connection (BlueskyStreamingError ''Message bus needs to be configured''), s)
      else (case (url_host url, url_port url) of
          (None, _) \<Rightarrow> (check_connection (PyError (AssertionError ''Stomp URL missing host'')), s)
        | (_, None) \<Rightarrow> (check_connection (PyError (AssertionError ''Stomp URL missing port'')), s)
        | (Some host, Some port) \<Rightarrow>
            (case st_connect B s of
               (Inl e, s1) \<Rightarrow> (check_connection (PyError e), s1)
             | (Inr _, s1) \<Rightarrow>
                 (case subscribe_to_all_events B [] s1 of
                    (Inl e, s2) \<Rightarrow>
                      (let ((res, ids), s3) = leave_bus B [] (Inl e :: unit client_result) s2
                       in (command_end (\<lambda>_. Inr []) res, s3))
                  | (Inr ids, s2) \<Rightarrow>
                      (let ((res, ids'), s3) = leave_bus B ids (Inr ()) s2
                       in (command_end (\<lambda>_. Inr ([''Subscribing to all bluesky events from '' @ host @ '':'' @ show_nat port,
                             ''Press enter to exit''] @ listen_lines show_it events)) res, s3))))))"

subsection \<open>Starting the server (service/main.py)\<close>

text \<open>\<open>start\<close>: what uvicorn is given to listen on.\<close>

definition start_address :: "app_config \<Rightarrow> (string \<times> nat) result" where
  "start_address config =
     (case (url_host (rest_url (cfg_api config)), url_port (rest_url (cfg_api config))) of
        (None, _) \<Rightarrow> Inl (AssertionError ''API URL missing host'')
      | (_, None) \<Rightarrow> Inl (AssertionError ''API URL missing port'')
      | (Some host, Some port) \<Rightarrow> Inr (host, port))"

subsection \<open>Every command is one request\<close>

text \<open>The call of the server behind a command; its body and query are not part of the address.\<close>

fun command_call :: "command \<Rightarrow> state_change_request \<Rightarrow> api_call" where
  "command_call PlansCommand sc = GetPlans"
| "command_call DevicesCommand sc = GetDevices"
| "command_call StateCommand sc = GetState"
| "command_call (PauseCommand defer_pause) sc = SetState sc"
| "command_call ResumeCommand sc = SetState sc"
| "command_call (AbortCommand reason) sc = SetState sc"
| "command_call StopCommand sc = SetState sc"
| "command_call (GetPythonEnvCommand name origin) sc = GetPythonEnvironment name None"

lemma command_end_cases:
  "command_end lines res \<in> {CliPrinted ls | ls. True} \<union> {CliFailed ''Failed to establish connection to blueapi server.'',
     CliFailed ''Access denied. Please check your login status and try again.''} \<union>
   {CliCrashed e | e. e \<noteq> ServiceUnavailableError}"
proof (cases res)
  case (Inl e)
  then show ?thesis by (cases e) (simp_all add: command_end_def)
qed (simp add: command_end_def split: sum.splits)

lemmas client_requests = client_plans_def client_devices_def client_state_def client_pause_def client_resume_def
  client_abort_def client_stop_def client_python_env_def

text \<open>
  Every command of the controller of a new client without a session is exactly one request, at a
  route that the server has for its call, and ends by printing the answer, with one of the two messages
  for a server that is not there or does not accept the credentials, or with an error that is neither.
\<close>

theorem commands_are_requests:
  assumes "records_requests L" and "rc_session_manager (bc_rest c) = None" and "bc_plans c = None" and "bc_devices c = None"
  shows "reaches L (bc_rest c) s (snd (run_command show_it L D cmd c s)) (command_call cmd sc) \<and>
    fst (run_command show_it L D cmd c s) \<in> {CliPrinted ls | ls. True} \<union>
      {CliFailed ''Failed to establish connection to blueapi server.'',
       CliFailed ''Access denied. Please check your login status and try again.''} \<union>
      {CliCrashed e | e. e \<noteq> ServiceUnavailableError}"
proof
  show "reaches L (bc_rest c) s (snd (run_command show_it L D cmd c s)) (command_call cmd sc)"
    by (cases cmd)
      (auto intro!: reachesI simp: showing_commands client_requests client_routes request_recorded [OF assms(1,2)] assms(3,4) state_end_def
        call_method_def call_paths_def case_prod_beta split: prod.splits sum.splits dest!: arg_cong [where f = snd])
  show "fst (run_command show_it L D cmd c s) \<in> {CliPrinted ls | ls. True} \<union>
      {CliFailed ''Failed to establish connection to blueapi server.'',
       CliFailed ''Access denied. Please check your login status and try again.''} \<union>
      {CliCrashed e | e. e \<noteq> ServiceUnavailableError}"
    by (cases cmd) (simp_all only: run_command.simps showing_commands state_end_def Let_def case_prod_beta fst_conv command_end_cases)
qed

end
