(* ===== verification/ReferenceSchema.thy ===== *)
theory ReferenceSchema
  imports PlanContext
begin

section \<open>The schema of a reference (core/context.py: \<open>_reference\<close>)\<close>

text \<open>
  The cache of reference types and the JSON schema of one, which names the devices a parameter may be given. The
  schema of the text type, which pydantic makes, is a parameter.
\<close>

text \<open>A reference type is known by its target, and made once.\<close>

definition reference_type :: "pyty \<Rightarrow> pyty list \<Rightarrow> pyty \<times> pyty list" where
  "reference_type target cache = (target, if target \<in> set cache then cache else cache @ [target])"

text \<open>\<open>isinstance(device, cls.origin or target)\<close>.\<close>

fun is_target_instance :: "pyty \<Rightarrow> pyobj \<Rightarrow> bool" where
  "is_target_instance target (InstObj i _) =
     (case fst (ref_origin target) of None \<Rightarrow> False | Some t \<Rightarrow> cls_full t \<in> set (dv_insts i))"
| "is_target_instance target _ = False"

definition device_names :: "pyty \<Rightarrow> ctx \<Rightarrow> string list" where
  "device_names target c = sort (map fst (filter (\<lambda>(_, device). is_target_instance target device) (ctx_devices c)))"

definition reference_schema :: "pydict \<Rightarrow> pyty \<Rightarrow> ctx \<Rightarrow> pydict" where
  "reference_schema text_schema target c =
     (let d = dict_set ''enum'' (PList (map PStr (device_names target c)))
            (dict_set ''type'' (PStr (qualified_name target)) text_schema)
      in if get_args target \<noteq> [] then dict_set ''types'' (PList (map (PStr \<circ> qualified_name) (get_args target))) d else d)"

lemma device_names_set:
  "dict_ok (ctx_devices c) \<Longrightarrow> n \<in> set (device_names target c) \<longleftrightarrow>
    (\<exists>d. look_device c n = Some d \<and> is_target_instance target d)"
  by (force simp: device_names_def look_device_def map_of_mem)

text \<open>
  The schema agrees with the validator on plain names: it lists, in order and once each, every name
  that validates, and without type arguments it lists nothing else among the devices of Bluesky.
  (Children of devices validate as well, with dots, and are not listed.)
\<close>

theorem schema_lists_valid_names:
  assumes "dict_ok (ctx_devices c)" and "CHR ''.'' \<notin> set n"
  shows "sorted (device_names target c) \<and> distinct (device_names target c) \<and>
    (reference_valid target n c = Inr d \<longrightarrow> n \<in> set (device_names target c)) \<and>
    (n \<in> set (device_names target c) \<and> look_device c n = Some d \<and> is_bluesky_compatible_device d \<and> get_args target = [] \<longrightarrow>
      reference_valid target n c = Inr d)"
proof (intro conjI impI)
  show "sorted (device_names target c)" by (simp add: device_names_def)
  have "distinct (map fst (filter P (ctx_devices c)))" for P
    using assms(1) by (induction "ctx_devices c") (auto simp: distinct_map_filter)
  then show "distinct (device_names target c)" by (simp add: device_names_def)
next
  assume v: "reference_valid target n c = Inr d"
  then obtain i attrs t args where d: "d = InstObj i attrs" "ref_origin target = (Some t, args)"
    "at_path (DictObj (ctx_devices c)) (split_on CHR ''.'' n) d" "is_compatible i t args = Inr True"
    unfolding reference_valid_iff by blast
  from d(3) have "look_device c n = Some d"
    by (auto simp: split_on_no_sep [OF assms(2)] look_device_def elim: at_path_singleE)
  with d show "n \<in> set (device_names target c)"
    by (auto simp: device_names_set [OF assms(1)] is_compatible_def split: if_splits)
next
  assume a: "n \<in> set (device_names target c) \<and> look_device c n = Some d \<and> is_bluesky_compatible_device d \<and> get_args target = []"
  then have t: "is_target_instance target d" by (auto simp: device_names_set [OF assms(1)])
  then obtain i attrs t args where i: "d = InstObj i attrs" "ref_origin target = (Some t, args)" "cls_full t \<in> set (dv_insts i)"
    by (cases d; cases "ref_origin target") (auto split: option.splits)
  have "args = Some []" using a i(2) by (cases target) auto
  with i have "is_compatible i t args = Inr True" by (simp add: is_compatible_def is_compatible_args_def)
  moreover have "at_path (DictObj (ctx_devices c)) (split_on CHR ''.'' n) d"
    using a by (auto simp: split_on_no_sep [OF assms(2)] look_device_def intro: in_dict)
  ultimately show "reference_valid target n c = Inr d" unfolding reference_valid_iff using i a by blast
qed

text \<open>With type arguments the schema does not look at them: a name it lists may be refused.\<close>

lemma schema_ignores_arguments:
  assumes "args \<noteq> []" and "look_device c n = Some (InstObj i attrs)" and "dict_ok (ctx_devices c)"
    and "cls_full t \<in> set (dv_insts i)" and "is_compatible i t (Some args) = Inr False" and "CHR ''.'' \<notin> set n"
  shows "n \<in> set (device_names (TGen t args) c) \<and> reference_valid (TGen t args) n c \<noteq> Inr d"
  using assms reference_valid_iff [of "TGen t args" n c d]
  by (auto simp: device_names_set split_on_no_sep look_device_def elim: at_path_singleE)

end
