(* ===== verification/Compat.thy ===== *)
theory Compat
  imports PyStrings
begin

section \<open>Deprecated names, schemas and reports (config.py, client/rest.py, utils)\<close>

text \<open>
  What modules still answer for old names, the identifiers in the schema of the configuration, the
  serialisation of models and the report of connected devices.
\<close>

subsection \<open>Attributes of a module\<close>

text \<open>\<open>__getattr__\<close> of a module for a name it does not define: the class, and the warnings.\<close>

definition module_getattr :: "string \<Rightarrow> (string \<times> string) list \<Rightarrow> string \<Rightarrow> string result \<times> string list" where
  "module_getattr module_name renames name =
     (case map_of renames name of
        Some new_name \<Rightarrow> (Inr new_name, [py_repr name @ '' is deprecated, use '' @ py_repr new_name @ '' instead''])
      | None \<Rightarrow> (Inl (AttributeError (''module '' @ py_repr module_name @ '' has no attribute '' @ py_repr name)), []))"

definition config_getattr :: "string \<Rightarrow> string result \<times> string list" where
  "config_getattr = module_getattr ''blueapi.config'' [(''MissingStompConfiguration'', ''MissingStompConfigurationError'')]"

definition rest_getattr :: "string \<Rightarrow> string result \<times> string list" where
  "rest_getattr = module_getattr ''blueapi.client.rest''
     [(''InvalidParameters'', ''InvalidParametersError''), (''NoContent'', ''NoContentError''),
      (''UnauthorisedAccess'', ''UnauthorisedAccessError''), (''UnknownPlan'', ''UnknownPlanError'')]"

text \<open>Every old name is its new one, with the ending that says that it is an exception.\<close>

lemma renamed_errors: "fst (rest_getattr n) = Inr new \<or> fst (config_getattr n) = Inr new \<Longrightarrow> new = n @ ''Error''"
  by (auto simp: rest_getattr_def config_getattr_def module_getattr_def split: if_splits)

subsection \<open>The schema of the configuration\<close>

text \<open>\<open>_GenerateJsonSchema.generate\<close> on the schema that pydantic made: every definition gets its name.\<close>

definition with_ids :: "pydict \<Rightarrow> pydict result" where
  "with_ids schema =
     (case map_of schema ''$defs'' of
        None \<Rightarrow> Inl (KeyError ''$defs'')
      | Some (PDict defs) \<Rightarrow>
          bind_r (mapM_r (\<lambda>(i, d). case d of
              PDict dd \<Rightarrow> Inr (i, PDict (dict_set ''$id'' (PStr i) dd))
            | _ \<Rightarrow> Inl (TypeError ''object does not support item assignment'')) defs)
            (\<lambda>defs'. Inr (dict_set ''$defs'' (PDict defs') schema))
      | Some _ \<Rightarrow> Inl (TypeError ''object does not support item assignment''))"

subsection \<open>Serialisation\<close>

text \<open>A model with its dump by alias, an object that refers to one, anything else.\<close>

datatype 'a serializable = Model 'a | WithModel "'a serializable" | Primitive 'a

fun serialize :: "'a serializable \<Rightarrow> 'a" where
  "serialize (Model dumped) = dumped"
| "serialize (WithModel m) = serialize m"
| "serialize (Primitive v) = v"

subsection \<open>Connected devices\<close>

definition report_successful_devices :: "string list \<Rightarrow> bool \<Rightarrow> string list" where
  "report_successful_devices names sim_backend =
     [show_nat (length names) @ '' devices connected'' @ (if sim_backend then '' (sim mode)'' else []) @ '':'',
      join [newline] (sort (map (\<lambda>name. CHR 0x09 # name) names))]"

end
