(* ===== verification/Legacy.thy ===== *)
theory Legacy
  imports Commands ConfigLoader
begin

section \<open>Deprecated methods of the Python client (client/client.py, utils: deprecated)\<close>

text \<open>
  The methods that \<open>BlueapiClient\<close> keeps for older callers. Each is a function wrapped by \<open>deprecated\<close>,
  whose closure remembers whether the method was called in this process. Also the client from a
  configuration file. Decoding answers is pydantic's.
\<close>

subsection \<open>Functions that warn once\<close>

text \<open>
  What the process holds: the deprecated functions called so far, the warnings given, in order, and the
  rest of the world. A filter that turns warnings into exceptions is not modelled.
\<close>

record 's process =
  pr_called :: "string list"
  pr_warnings :: "string list"
  pr_world :: 's

definition deprecated :: "string \<Rightarrow> string \<Rightarrow> ('s \<Rightarrow> 'a \<times> 's) \<Rightarrow> 's process \<Rightarrow> 'a \<times> 's process" where
  "deprecated name alternative func p =
     (let (warned, _) = deprecated_call name alternative (name \<in> set (pr_called p));
          (answer, s) = func (pr_world p)
      in (answer, \<lparr>pr_called = List.insert name (pr_called p), pr_warnings = pr_warnings p @ warned, pr_world = s\<rparr>))"

subsection \<open>The methods\<close>

definition legacy_get_plans :: "'s client_lib \<Rightarrow> (pyval \<Rightarrow> 'a result) \<Rightarrow> 'u blueapi_client \<Rightarrow> 's process \<Rightarrow> 'a client_result \<times> 's process" where
  "legacy_get_plans L decode c = deprecated ''get_plans'' ''plans property'' (rc_get_plans L (bc_rest c) decode)"

definition legacy_get_plan :: "'s client_lib \<Rightarrow> (pyval \<Rightarrow> 'a result) \<Rightarrow> string \<Rightarrow> 'u blueapi_client \<Rightarrow> 's process \<Rightarrow> 'a client_result \<times> 's process" where
  "legacy_get_plan L decode name c = deprecated ''get_plan'' ''plans[name]'' (rc_get_plan L (bc_rest c) decode name)"

definition legacy_get_devices :: "'s client_lib \<Rightarrow> (pyval \<Rightarrow> 'a result) \<Rightarrow> 'u blueapi_client \<Rightarrow> 's process \<Rightarrow> 'a client_result \<times> 's process" where
  "legacy_get_devices L decode c = deprecated ''get_devices'' ''devices property'' (rc_get_devices L (bc_rest c) decode)"

definition legacy_get_device :: "'s client_lib \<Rightarrow> (pyval \<Rightarrow> 'a result) \<Rightarrow> string \<Rightarrow> 'u blueapi_client \<Rightarrow> 's process \<Rightarrow> 'a client_result \<times> 's process" where
  "legacy_get_device L decode name c = deprecated ''get_device'' ''devices[name]'' (rc_get_device L (bc_rest c) decode name)"

definition legacy_get_state :: "'s client_lib \<Rightarrow> (pyval \<Rightarrow> 'a result) \<Rightarrow> 'u blueapi_client \<Rightarrow> 's process \<Rightarrow> 'a client_result \<times> 's process" where
  "legacy_get_state L decode c = deprecated ''get_state'' ''state property'' (client_state L decode c)"

definition legacy_get_all_tasks :: "'s client_lib \<Rightarrow> (pyval \<Rightarrow> 'a result) \<Rightarrow> 'u blueapi_client \<Rightarrow> 's process \<Rightarrow> 'a client_result \<times> 's process" where
  "legacy_get_all_tasks L decode c = deprecated ''get_all_tasks'' ''rest client'' (rc_get_all_tasks L (bc_rest c) decode)"

definition legacy_get_active_task :: "'s client_lib \<Rightarrow> (pyval \<Rightarrow> 'a result) \<Rightarrow> 'u blueapi_client \<Rightarrow> 's process \<Rightarrow> 'a client_result \<times> 's process" where
  "legacy_get_active_task L decode c = deprecated ''get_active_task'' ''active_task property'' (client_active_task L decode c)"

definition legacy_create_task :: "'s client_lib \<Rightarrow> (pyval \<Rightarrow> 'a result) \<Rightarrow> client_request \<Rightarrow> 'u blueapi_client \<Rightarrow> 's process \<Rightarrow> 'a client_result \<times> 's process" where
  "legacy_create_task L decode task c = deprecated ''create_task'' ''rest client'' (rc_create_task L (bc_rest c) decode task)"

definition legacy_clear_task :: "'s client_lib \<Rightarrow> (pyval \<Rightarrow> 'a result) \<Rightarrow> string \<Rightarrow> 'u blueapi_client \<Rightarrow> 's process \<Rightarrow> 'a client_result \<times> 's process" where
  "legacy_clear_task L decode task_id c = deprecated ''clear_task'' ''rest client'' (rc_clear_task L (bc_rest c) decode task_id)"

definition legacy_start_task :: "'s client_lib \<Rightarrow> (pyval \<Rightarrow> 'a result) \<Rightarrow> string option \<Rightarrow> 'u blueapi_client \<Rightarrow> 's process \<Rightarrow> 'a client_result \<times> 's process" where
  "legacy_start_task L decode task c = deprecated ''start_task'' ''rest client'' (rc_update_worker_task L (bc_rest c) decode task)"

definition legacy_get_environment :: "'s client_lib \<Rightarrow> (pyval \<Rightarrow> 'a result) \<Rightarrow> 'u blueapi_client \<Rightarrow> 's process \<Rightarrow> 'a client_result \<times> 's process" where
  "legacy_get_environment L decode c = deprecated ''get_environment'' ''environment property'' (client_environment L decode c)"

definition legacy_get_oidc_config :: "'s client_lib \<Rightarrow> (pyval \<Rightarrow> 'a result) \<Rightarrow> 'u blueapi_client \<Rightarrow> 's process \<Rightarrow> 'a option client_result \<times> 's process" where
  "legacy_get_oidc_config L decode c = deprecated ''get_oidc_config'' ''oidc_config property'' (client_oidc_config L decode c)"

subsection \<open>A script of calls\<close>

datatype legacy_call =
    GetPlans | GetPlan string | GetDevices | GetDevice string | GetState | GetAllTasks | GetActiveTask
  | CreateTask client_request | ClearTask string | StartTask "string option" | GetEnvironment | GetOidcConfig

fun legacy_name :: "legacy_call \<Rightarrow> string" where
  "legacy_name GetPlans = ''get_plans''"
| "legacy_name (GetPlan _) = ''get_plan''"
| "legacy_name GetDevices = ''get_devices''"
| "legacy_name (GetDevice _) = ''get_device''"
| "legacy_name GetState = ''get_state''"
| "legacy_name GetAllTasks = ''get_all_tasks''"
| "legacy_name GetActiveTask = ''get_active_task''"
| "legacy_name (CreateTask _) = ''create_task''"
| "legacy_name (ClearTask _) = ''clear_task''"
| "legacy_name (StartTask _) = ''start_task''"
| "legacy_name GetEnvironment = ''get_environment''"
| "legacy_name GetOidcConfig = ''get_oidc_config''"

text \<open>The answer of \<open>get_oidc_config\<close> may be empty, so all answers are options here.\<close>

definition answered :: "'a client_result \<times> 'p \<Rightarrow> 'a option client_result \<times> 'p" where
  "answered = map_prod (map_sum id Some) id"

fun legacy :: "'s client_lib \<Rightarrow> (pyval \<Rightarrow> 'a result) \<Rightarrow> 'u blueapi_client \<Rightarrow> legacy_call \<Rightarrow>
    's process \<Rightarrow> 'a option client_result \<times> 's process" where
  "legacy L decode c GetPlans p = answered (legacy_get_plans L decode c p)"
| "legacy L decode c (GetPlan n) p = answered (legacy_get_plan L decode n c p)"
| "legacy L decode c GetDevices p = answered (legacy_get_devices L decode c p)"
| "legacy L decode c (GetDevice n) p = answered (legacy_get_device L decode n c p)"
| "legacy L decode c GetState p = answered (legacy_get_state L decode c p)"
| "legacy L decode c GetAllTasks p = answered (legacy_get_all_tasks L decode c p)"
| "legacy L decode c GetActiveTask p = answered (legacy_get_active_task L decode c p)"
| "legacy L decode c (CreateTask rq) p = answered (legacy_create_task L decode rq c p)"
| "legacy L decode c (ClearTask t) p = answered (legacy_clear_task L decode t c p)"
| "legacy L decode c (StartTask t) p = answered (legacy_start_task L decode t c p)"
| "legacy L decode c GetEnvironment p = answered (legacy_get_environment L decode c p)"
| "legacy L decode c GetOidcConfig p = legacy_get_oidc_config L decode c p"

text \<open>The same call on what replaces the method: a property of the client or its REST client.\<close>

fun replacement :: "'s client_lib \<Rightarrow> (pyval \<Rightarrow> 'a result) \<Rightarrow> 'u blueapi_client \<Rightarrow> legacy_call \<Rightarrow>
    's \<Rightarrow> 'a option client_result \<times> 's" where
  "replacement L decode c GetPlans s = answered (rc_get_plans L (bc_rest c) decode s)"
| "replacement L decode c (GetPlan n) s = answered (rc_get_plan L (bc_rest c) decode n s)"
| "replacement L decode c GetDevices s = answered (rc_get_devices L (bc_rest c) decode s)"
| "replacement L decode c (GetDevice n) s = answered (rc_get_device L (bc_rest c) decode n s)"
| "replacement L decode c GetState s = answered (client_state L decode c s)"
| "replacement L decode c GetAllTasks s = answered (rc_get_all_tasks L (bc_rest c) decode s)"
| "replacement L decode c GetActiveTask s = answered (client_active_task L decode c s)"
| "replacement L decode c (CreateTask rq) s = answered (rc_create_task L (bc_rest c) decode rq s)"
| "replacement L decode c (ClearTask t) s = answered (rc_clear_task L (bc_rest c) decode t s)"
| "replacement L decode c (StartTask t) s = answered (rc_update_worker_task L (bc_rest c) decode t s)"
| "replacement L decode c GetEnvironment s = answered (client_environment L decode c s)"
| "replacement L decode c GetOidcConfig s = client_oidc_config L decode c s"

fun run_calls :: "('c \<Rightarrow> 's \<Rightarrow> 'a \<times> 's) \<Rightarrow> 'c list \<Rightarrow> 's \<Rightarrow> 'a list \<times> 's" where
  "run_calls step [] s = ([], s)"
| "run_calls step (c # cs) s =
     (let (answer, s') = step c s; (answers, s'') = run_calls step cs s' in (answer # answers, s''))"

lemma answered_sel [simp]: "snd (answered x) = snd x" "answered (y, z) = (map_sum id Some y, z)"
  by (simp_all add: answered_def)

lemma fst_answered: "fst (answered x) = map_sum id Some (fst x)" by (simp add: answered_def)

lemmas legacy_methods = legacy_get_plans_def legacy_get_plan_def legacy_get_devices_def legacy_get_device_def legacy_get_state_def legacy_get_all_tasks_def
  legacy_get_active_task_def legacy_create_task_def legacy_clear_task_def legacy_start_task_def legacy_get_environment_def legacy_get_oidc_config_def

text \<open>The parts of a warning after the name of the method.\<close>

fun legacy_alternative :: "legacy_call \<Rightarrow> string" where
  "legacy_alternative GetPlans = ''plans property''"
| "legacy_alternative (GetPlan _) = ''plans[name]''"
| "legacy_alternative GetDevices = ''devices property''"
| "legacy_alternative (GetDevice _) = ''devices[name]''"
| "legacy_alternative GetState = ''state property''"
| "legacy_alternative GetActiveTask = ''active_task property''"
| "legacy_alternative GetEnvironment = ''environment property''"
| "legacy_alternative GetOidcConfig = ''oidc_config property''"
| "legacy_alternative _ = ''rest client''"

definition warning_of :: "legacy_call \<Rightarrow> string" where
  "warning_of req = ''Function '' @ legacy_name req @ '' is deprecated - use '' @ legacy_alternative req"

lemma legacy_step:
  "legacy L decode c req p = (fst (replacement L decode c req (pr_world p)),
     \<lparr>pr_called = List.insert (legacy_name req) (pr_called p),
      pr_warnings = pr_warnings p @ (if legacy_name req \<in> set (pr_called p) then [] else [warning_of req]),
      pr_world = snd (replacement L decode c req (pr_world p))\<rparr>)"
  by (cases req)
    (simp_all add: legacy_methods deprecated_def deprecated_call_def warning_of_def Let_def case_prod_beta fst_answered
      del: append.simps append_Cons)

text \<open>The methods of a script that are used for the first time, after those in \<open>seen\<close>.\<close>

fun first_uses :: "string list \<Rightarrow> legacy_call list \<Rightarrow> legacy_call list" where
  "first_uses seen [] = []"
| "first_uses seen (req # calls) =
     (if legacy_name req \<in> set seen then first_uses seen calls
      else req # first_uses (legacy_name req # seen) calls)"

lemma first_uses_cong: "set seen = set seen' \<Longrightarrow> first_uses seen calls = first_uses seen' calls"
proof (induction calls arbitrary: seen seen')
  case (Cons req calls)
  from Cons.IH [of "legacy_name req # seen" "legacy_name req # seen'"] Cons.IH [OF Cons.prems] Cons.prems
  show ?case by simp
qed simp

lemma first_uses_distinct:
  "distinct (map legacy_name (first_uses seen calls)) \<and> set (map legacy_name (first_uses seen calls)) \<inter> set seen = {} \<and>
     set (map legacy_name calls) \<subseteq> set seen \<union> set (map legacy_name (first_uses seen calls))"
proof (induction calls arbitrary: seen)
  case (Cons req calls)
  from Cons.IH [of seen] Cons.IH [of "legacy_name req # seen"] show ?case
    by (cases "legacy_name req \<in> set seen") auto
qed simp

lemma legacy_calls_gen:
  "run_calls (legacy L decode c) calls p =
     (fst (run_calls (replacement L decode c) calls (pr_world p)),
      \<lparr>pr_called = fold (List.insert \<circ> legacy_name) calls (pr_called p),
       pr_warnings = pr_warnings p @ map warning_of (first_uses (pr_called p) calls),
       pr_world = snd (run_calls (replacement L decode c) calls (pr_world p))\<rparr>)"
proof (induction calls arbitrary: p)
  case (Cons req calls)
  have "first_uses (List.insert (legacy_name req) (pr_called p)) calls =
      (if legacy_name req \<in> set (pr_called p) then first_uses (pr_called p) calls
       else first_uses (legacy_name req # pr_called p) calls)"
    by (auto intro: first_uses_cong)
  then show ?case by (simp add: legacy_step [of L decode c req p] Cons.IH Let_def case_prod_beta comp_def)
qed simp

text \<open>
  A script of deprecated calls gets the answers, and leaves the world, of the same script on the
  replacements; and each method it uses warns exactly once, at its first use, naming its replacement.
\<close>

theorem deprecated_script_delegates:
  "case run_calls (legacy L decode c) calls \<lparr>pr_called = [], pr_warnings = [], pr_world = s\<rparr> of (answers, p) \<Rightarrow>
     (answers, pr_world p) = run_calls (replacement L decode c) calls s \<and>
     (\<exists>firsts. pr_warnings p = map warning_of firsts \<and> distinct (map legacy_name firsts) \<and>
        set firsts \<subseteq> set calls \<and> legacy_name ` set firsts = legacy_name ` set calls)"
proof -
  let ?f = "first_uses [] calls"
  have sub: "set (first_uses seen cs) \<subseteq> set cs" for seen and cs :: "legacy_call list"
    by (induction seen cs rule: first_uses.induct) auto
  have "distinct (map legacy_name ?f)" "legacy_name ` set ?f = legacy_name ` set calls"
    using first_uses_distinct [of "[]" calls] sub [of "[]" calls] by auto
  then show ?thesis using sub [of "[]" calls] by (auto simp: legacy_calls_gen)
qed

subsection \<open>A client from a configuration file\<close>

definition client_from_config_file :: "('p \<Rightarrow> pydict option result) \<Rightarrow> (pydict \<Rightarrow> app_config result) \<Rightarrow>
    (verror list \<Rightarrow> string) \<Rightarrow> 's cache_ops \<Rightarrow> 'p \<Rightarrow> 's \<Rightarrow> 'u blueapi_client client_result \<times> 's" where
  "client_from_config_file read validate show_errors ops config_file s =
     (case use_values_from_yaml read [config_file] new_loader of
        (Inl e, _) \<Rightarrow> (Inl (PyError e), s)
      | (Inr _, conf) \<Rightarrow>
          (case load_config validate show_errors conf of
             Inl e \<Rightarrow> (Inl (PyError e), s)
           | Inr config \<Rightarrow> client_from_config ops config s))"

text \<open>A file that is not a valid configuration gives no client, and the token cache is not looked at.\<close>

lemma client_from_invalid_file:
  "read config_file = Inr (Some d) \<Longrightarrow> validate (rec_update [] d) = Inl (ValidationError n errs) \<Longrightarrow>
    \<exists>m. client_from_config_file read validate show_errors ops config_file s = (Inl (PyError (InvalidConfigError m)), s)"
  by (simp add: client_from_config_file_def use_values_def new_loader_def load_config_def)

end
