(* ===== verification/WorkerLoop.thy ===== *)
theory WorkerLoop
  imports WorkerSteps
begin

section \<open>Turns and runs of the worker (worker/task_worker.py: _cycle, run)\<close>

text \<open>
  The pieces of \<open>_cycle\<close> and \<open>run\<close> composed the way the methods compose them, for callers that use the
  worker one after the other: between two calls the worker thread takes its turn. The RunEngine is a
  parameter: what it calls back while a plan executes, and what its call returns. Such a sequential run
  is a run of the system of threads, and every task that is begun is completed in its turn.
\<close>

subsection \<open>Hooks\<close>

text \<open>
  What the RunEngine calls while a plan executes: the hooks \<open>run\<close> installs, and the callbacks of the
  statuses the worker watches (there are none for other statuses).
\<close>

datatype hook_call =
    StateHook raw_state "raw_state option"
  | DocumentHook string pydict
  | WaitingHook "(string \<times> re_status) list option"
  | StatusHook bool string status_update
  | StatusDone bool string

fun call_hook :: "lib \<Rightarrow> hook_call \<Rightarrow> worker \<Rightarrow> worker" where
  "call_hook L (StateHook new old) w = snd (on_state_change L new old w)"
| "call_hook L (DocumentHook name doc) w = snd (on_document L name doc w)"
| "call_hook L (WaitingHook statuses) w = waiting_hook statuses w"
| "call_hook L (StatusHook done_now u up) w =
     (if u \<in> set (w_watched w) then snd (on_status_event L done_now u up w) else w)"
| "call_hook L (StatusDone done_now u) w =
     (if u \<in> set (w_watched w) then snd (on_complete L done_now u w) else w)"

definition call_hooks :: "lib \<Rightarrow> hook_call list \<Rightarrow> worker \<Rightarrow> worker" where
  "call_hooks L = fold (call_hook L)"

type_synonym engine = "worker \<Rightarrow> hook_call list \<times> re_return result"

subsection \<open>A turn\<close>

text \<open>\<open>_cycle_with_error_handling\<close>: \<open>None\<close> while the queue is empty, where \<open>get\<close> blocks.\<close>

definition take_message :: "lib \<Rightarrow> engine \<Rightarrow> message \<Rightarrow> worker \<Rightarrow> worker" where
  "take_message L engine next_task w =
     (case next_task of
        TaskMsg r \<Rightarrow>
          (let (runs, w') = process_task L r w in
           if runs then (let (hooks, ret) = engine w' in process_task_end ret r (call_hooks L hooks w')) else w')
      | KillSignal \<Rightarrow> cycle_kill w)"

definition cycle :: "lib \<Rightarrow> engine \<Rightarrow> worker \<Rightarrow> worker option" where
  "cycle L engine w =
     (case cycle_get w of
        None \<Rightarrow> None
      | Some (next_task, w') \<Rightarrow> Some (cycle_end L (take_message L engine next_task w')))"

text \<open>
  The loop of \<open>run\<close>, up to where it waits for the next message: the flag says whether the thread is
  still in the loop. The queue holds one message, so one turn empties it. The test of the stopping flag
  before the first turn is not here: \<open>run_exit\<close> clears it, so it is clear when the thread enters the loop
  (\<open>flags_ok\<close>).
\<close>

definition loop_turn :: "lib \<Rightarrow> engine \<Rightarrow> worker \<times> bool \<Rightarrow> worker \<times> bool" where
  "loop_turn L engine = (\<lambda>(w, alive).
     if \<not> alive then (w, alive)
     else (case cycle L engine w of
         None \<Rightarrow> (w, True)
       | Some w' \<Rightarrow> if w_stopping w' then (run_exit w', False) else (w', True)))"

subsection \<open>Callers\<close>

datatype caller =
    SubmitCall string pyval task
  | ClearCall string
  | BeginCall string
  | StopCall
  | StartCall

text \<open>
  A call and the turn it causes; a caller that waits does so until that turn is over. \<open>None\<close>: \<open>stop\<close>
  blocks, putting into a full queue.
\<close>

fun serve_call :: "lib \<Rightarrow> engine \<Rightarrow> caller \<Rightarrow> worker \<times> bool \<Rightarrow> (string result \<times> worker \<times> bool) option" where
  "serve_call L engine (SubmitCall uuid baggage t) (w, alive) =
     (let (res, w') = submit_task L uuid baggage t w in Some (res, loop_turn L engine (w', alive)))"
| "serve_call L engine (ClearCall k) (w, alive) =
     (let (res, w') = clear_task k w in Some (res, loop_turn L engine (w', alive)))"
| "serve_call L engine (BeginCall k) (w, alive) =
     (case begin_task k w of
        (Inl e, w') \<Rightarrow> Some (Inl e, loop_turn L engine (w', alive))
      | (Inr (flag, sub), w') \<Rightarrow>
          (let (w'', alive') = loop_turn L engine (w', alive);
               (res, w3) = submit_trackable_wait flag sub w''
           in Some (bind_r res (\<lambda>_. Inr k), w3, alive')))"
| "serve_call L engine StopCall (w, alive) =
     (case stop_put w of
        None \<Rightarrow> None
      | Some w' \<Rightarrow>
          (let (w'', alive') = loop_turn L engine (w', alive)
           in Some (bind_r (wait_until_stopped w'') (\<lambda>_. Inr []), w'', alive')))"
| "serve_call L engine StartCall (w, alive) =
     (case start_worker w of
        Inl e \<Rightarrow> Some (Inl e, w, alive)
      | Inr _ \<Rightarrow>
          (let (w', alive') = loop_turn L engine (run_enter w, True)
           in Some (bind_r (wait_until_started w') (\<lambda>_. Inr []), w', alive')))"

fun serve_calls :: "lib \<Rightarrow> engine \<Rightarrow> caller list \<Rightarrow> worker \<times> bool \<Rightarrow> (string result list \<times> worker \<times> bool) option" where
  "serve_calls L engine [] s = Some ([], s)"
| "serve_calls L engine (c # cs) s =
     (case serve_call L engine c s of
        None \<Rightarrow> None
      | Some (res, s') \<Rightarrow>
          (case serve_calls L engine cs s' of
             None \<Rightarrow> None
           | Some (ress, s'') \<Rightarrow> Some (res # ress, s'')))"

subsection \<open>What a turn leaves alone\<close>

text \<open>The flags of the thread, and the queue.\<close>

definition thread_part :: "worker \<Rightarrow> bool \<times> bool \<times> bool \<times> message option" where
  "thread_part w = (w_started w, w_stopping w, w_stopped w, w_channel w)"

lemma thread_part_eq: "thread_part w' = thread_part w \<longleftrightarrow>
    w_started w' = w_started w \<and> w_stopping w' = w_stopping w \<and> w_stopped w' = w_stopped w \<and> w_channel w' = w_channel w"
  by (auto simp: thread_part_def)

lemma thread_part_upd [simp]:
  "thread_part (w\<lparr>w_hub := h\<rparr>) = thread_part w" "thread_part (w\<lparr>w_state := st\<rparr>) = thread_part w"
  "thread_part (w\<lparr>w_status_snapshot := sn\<rparr>) = thread_part w" "thread_part (w\<lparr>w_watched := wa\<rparr>) = thread_part w"
  "thread_part (w\<lparr>w_completed_statuses := cs\<rparr>) = thread_part w" "thread_part (w\<lparr>w_otel_context := b\<rparr>) = thread_part w"
  "thread_part (update_task r f w) = thread_part w"
  by (simp_all add: thread_part_def update_task_def)

lemma report_error_thread [simp]: "thread_part (report_error e w) = thread_part w"
  by (simp add: thread_part_def report_error_def Let_def split: option.splits)

lemma report_status_thread [simp]: "thread_part (snd (report_status L w)) = thread_part w"
  by (simp add: thread_part_def report_status_def Let_def case_prod_beta)

lemma task_failed_thread [simp]: "thread_part (task_failed r e w) = thread_part w"
  by (simp add: task_failed_def)

lemma process_task_thread [simp]: "thread_part (snd (process_task L r w)) = thread_part w"
  by (simp add: process_task_def Let_def case_prod_beta split: sum.splits) (simp add: thread_part_def update_task_def)

lemma process_task_end_thread [simp]: "thread_part (process_task_end ret r w) = thread_part w"
  by (simp add: process_task_end_def split: sum.splits)

lemma cycle_move_thread: "thread_part (snd (cycle_move w)) = thread_part w"
  by (simp add: cycle_move_def Let_def thread_part_def update_task_def split: option.splits)

lemma cycle_end_thread [simp]: "thread_part (cycle_end L w) = thread_part w"
proof -
  obtain res w1 where m: "cycle_move (w\<lparr>w_otel_context := False\<rparr>) = (res, w1)" by fastforce
  have w1: "thread_part w1 = thread_part w"
    using cycle_move_thread [of "w\<lparr>w_otel_context := False\<rparr>"] by (simp add: m)
  obtain res' w2 where r: "report_status L w1 = (res', w2)" by fastforce
  have w2: "thread_part w2 = thread_part w" using report_status_thread [of L w1] by (simp add: r w1)
  then have "thread_part (w2\<lparr>w_errors := [], w_warnings := [], w_completed_statuses := []\<rparr>) = thread_part w"
    by (simp add: thread_part_def)
  with w1 w2 show ?thesis by (cases res; cases res') (simp_all add: cycle_end_def cycle_finish_def m r)
qed

lemmas cycle_end_flags [simp] = cycle_end_thread [unfolded thread_part_eq]

lemma monitor_status_thread [simp]: "thread_part (monitor_status u st w) = thread_part w"
  by (simp add: monitor_status_def)

lemma waiting_hook_thread [simp]: "thread_part (waiting_hook sts w) = thread_part w"
proof (cases sts)
  case (Some l)
  have "thread_part (fold (\<lambda>(u, st). monitor_status u st) l w) = thread_part w"
    by (induction l arbitrary: w) (simp_all add: case_prod_beta)
  with Some show ?thesis by simp
qed simp

lemma on_status_event_thread [simp]: "thread_part (snd (on_status_event L d u up w)) = thread_part w"
  by (simp add: on_status_event_def publish_status_snapshot_def Let_def case_prod_beta split: option.splits)

lemma on_complete_thread [simp]: "thread_part (snd (on_complete L d u w)) = thread_part w"
  using on_status_event_thread [of L d u no_update w]
  by (simp add: on_complete_def case_prod_beta split: sum.splits option.splits)

lemma call_hook_thread [simp]: "thread_part (call_hook L h w) = thread_part w"
  by (cases h) (simp_all add: on_state_change_def on_document_def Let_def case_prod_beta split: sum.splits option.splits)

lemma call_hooks_thread [simp]: "thread_part (call_hooks L hs w) = thread_part w"
  by (induction hs arbitrary: w) (simp_all add: call_hooks_def)

lemma take_message_thread:
  "thread_part (take_message L engine (TaskMsg r) w) = thread_part w"
  "thread_part (take_message L engine KillSignal w) = (w_started w, True, w_stopped w, w_channel w)"
  by (simp_all add: take_message_def case_prod_beta Let_def cycle_kill_def)
    (simp add: thread_part_def)

subsection \<open>The state between calls\<close>

text \<open>
  Between two calls the flags tell whether the thread is in its loop, and the queue of a running worker
  is empty.
\<close>

definition flags_ok :: "worker \<times> bool \<Rightarrow> bool" where
  "flags_ok s \<longleftrightarrow> w_started (fst s) = snd s \<and> w_stopped (fst s) = (\<not> snd s) \<and> \<not> w_stopping (fst s)"

definition loop_ok :: "worker \<times> bool \<Rightarrow> bool" where
  "loop_ok s \<longleftrightarrow> flags_ok s \<and> (snd s \<longrightarrow> w_channel (fst s) = None)"

lemma loop_turn_idle: "w_channel w = None \<Longrightarrow> loop_turn L engine (w, alive) = (w, alive)"
  by (simp add: loop_turn_def cycle_def cycle_get_def)

lemma loop_turn_task:
  assumes "w_channel w = Some (TaskMsg r)" and "\<not> w_stopping w"
  shows "loop_turn L engine (w, True) = (cycle_end L (take_message L engine (TaskMsg r) (w\<lparr>w_channel := None\<rparr>)), True)"
proof -
  have "thread_part (take_message L engine (TaskMsg r) (w\<lparr>w_channel := None\<rparr>)) = thread_part (w\<lparr>w_channel := None\<rparr>)"
    by (rule take_message_thread)
  with assms show ?thesis by (simp add: loop_turn_def cycle_def cycle_get_def thread_part_eq)
qed

lemma loop_turn_kill:
  assumes "w_channel w = Some KillSignal"
  shows "loop_turn L engine (w, True) = (run_exit (cycle_end L (cycle_kill (w\<lparr>w_channel := None\<rparr>))), False)"
proof -
  have "thread_part (cycle_end L (cycle_kill (w\<lparr>w_channel := None\<rparr>))) = (w_started w, True, w_stopped w, None)"
    by (simp add: cycle_kill_def) (simp add: thread_part_def)
  with assms show ?thesis by (simp add: loop_turn_def cycle_def cycle_get_def take_message_def thread_part_def)
qed

lemma loop_turn_ok:
  assumes "flags_ok (w, alive)"
  shows "loop_ok (loop_turn L engine (w, alive))"
proof (cases alive)
  case True
  consider "w_channel w = None" | r where "w_channel w = Some (TaskMsg r)" | "w_channel w = Some KillSignal"
    by (metis message.exhaust option.exhaust)
  then show ?thesis
  proof cases
    case 1
    with assms True show ?thesis by (simp add: loop_turn_idle loop_ok_def)
  next
    case 2
    have "thread_part (take_message L engine (TaskMsg r) (w\<lparr>w_channel := None\<rparr>)) = thread_part (w\<lparr>w_channel := None\<rparr>)"
      by (rule take_message_thread)
    with assms True 2 show ?thesis by (simp add: loop_turn_task loop_ok_def flags_ok_def thread_part_eq)
  next
    case 3
    with True show ?thesis by (simp add: loop_turn_kill loop_ok_def flags_ok_def run_exit_def)
  qed
qed (use assms in \<open>simp add: loop_turn_def loop_ok_def\<close>)

lemma operation_flags:
  "flags_ok (snd (submit_task L uuid baggage t w), alive) = flags_ok (w, alive)"
  "flags_ok (snd (clear_task k w), alive) = flags_ok (w, alive)"
  "flags_ok (snd (begin_task k w), alive) = flags_ok (w, alive)"
  "flags_ok (snd (submit_trackable_wait flag sub w), alive) = flags_ok (w, alive)"
  "stop_put w = Some w' \<Longrightarrow> flags_ok (w', alive) = flags_ok (w, alive)"
  by (auto simp: flags_ok_def submit_task_def track_task_def clear_task_def begin_task_def submit_trackable_put_def
      submit_trackable_wait_def stop_put_def Let_def case_prod_beta split: option.splits sum.splits if_splits)

lemma wait_channel: "w_channel (snd (submit_trackable_wait flag sub w)) = w_channel w"
  by (simp add: wait_frame)

text \<open>No call blocks, and each leaves the worker as it should be between calls.\<close>

lemma serve_call_ok:
  assumes "loop_ok s"
  shows "\<exists>res s'. serve_call L engine c s = Some (res, s') \<and> loop_ok s'"
proof -
  obtain w alive where s: "s = (w, alive)" by fastforce
  from assms have f: "flags_ok (w, alive)" by (simp add: s loop_ok_def)
  show ?thesis
  proof (cases c)
    case (SubmitCall uuid baggage t)
    with loop_turn_ok f show ?thesis by (simp add: s case_prod_beta operation_flags)
  next
    case (ClearCall k)
    with loop_turn_ok f show ?thesis by (simp add: s case_prod_beta operation_flags)
  next
    case (BeginCall k)
    have t: "loop_ok (loop_turn L engine (snd (begin_task k w), alive))"
      using f by (intro loop_turn_ok) (simp add: operation_flags)
    have "loop_ok x \<Longrightarrow> loop_ok (snd (submit_trackable_wait flag sub (fst x)), snd x)" for flag sub x
      by (cases x) (simp add: loop_ok_def operation_flags wait_channel)
    with t show ?thesis
      by (cases "begin_task k w"; cases "fst (begin_task k w)") (auto simp: BeginCall s case_prod_beta)
  next
    case StopCall
    have "stop_put w \<noteq> None" using assms by (auto simp: s loop_ok_def flags_ok_def stop_put_def split: option.splits)
    then obtain w' where "stop_put w = Some w'" by blast
    with loop_turn_ok f show ?thesis by (simp add: StopCall s case_prod_beta operation_flags)
  next
    case StartCall
    have "flags_ok (run_enter w, True)" using f by (simp add: flags_ok_def run_enter_def Let_def case_prod_beta)
    then have "loop_ok (loop_turn L engine (run_enter w, True))" by (rule loop_turn_ok)
    with assms show ?thesis by (cases "start_worker w") (simp_all add: StartCall s case_prod_beta)
  qed
qed

subsection \<open>Sequential runs are runs of the system\<close>

definition at_rest :: "worker \<times> bool \<Rightarrow> sys" where
  "at_rest s = \<lparr>s_worker = fst s, s_phase = (if snd s then Awaiting else Off), s_waiters = []\<rparr>"

definition waiting_for :: "(string \<times> nat \<times> nat) list \<Rightarrow> worker \<times> bool \<Rightarrow> sys" where
  "waiting_for ws s = \<lparr>s_worker = fst s, s_phase = (if snd s then Awaiting else Off), s_waiters = ws\<rparr>"

lemma at_rest_waiting: "at_rest s = waiting_for [] s"
  by (simp add: at_rest_def waiting_for_def)

lemma call_hook_reachable:
  assumes "reachable L \<lparr>s_worker = w, s_phase = Executing r, s_waiters = ws\<rparr>"
  shows "reachable L \<lparr>s_worker = call_hook L h w, s_phase = Executing r, s_waiters = ws\<rparr>"
proof -
  let ?s = "\<lparr>s_worker = w, s_phase = Executing r, s_waiters = ws\<rparr>"
  have ex: "s_phase ?s = Executing r" by simp
  show ?thesis
  proof (cases h)
    case (StateHook new old)
    with reachable.again [OF assms step.EngineState [OF ex, of L new old]] show ?thesis by simp
  next
    case (DocumentHook name doc)
    with reachable.again [OF assms step.EngineDocument [OF ex, of L name doc]] show ?thesis by simp
  next
    case (WaitingHook sts)
    with reachable.again [OF assms step.EngineWaits [OF ex, of L sts]] show ?thesis by simp
  next
    case (StatusHook d u up)
    with assms reachable.again [OF assms step.StatusEvent [of u ?s L d up]] show ?thesis by simp
  next
    case (StatusDone d u)
    with assms reachable.again [OF assms step.StatusComplete [of u ?s L d]] show ?thesis by simp
  qed
qed

lemma call_hooks_reachable:
  "reachable L \<lparr>s_worker = w, s_phase = Executing r, s_waiters = ws\<rparr> \<Longrightarrow>
    reachable L \<lparr>s_worker = call_hooks L hs w, s_phase = Executing r, s_waiters = ws\<rparr>"
  by (induction hs arbitrary: w) (simp_all add: call_hooks_def call_hook_reachable)

lemma take_message_reachable:
  assumes "reachable L \<lparr>s_worker = w, s_phase = Awaiting, s_waiters = ws\<rparr>" and "cycle_get w = Some (m, w1)"
  shows "reachable L \<lparr>s_worker = take_message L engine m w1, s_phase = Ending, s_waiters = ws\<rparr>"
proof (cases m)
  case KillSignal
  with assms(2) reachable.again [OF assms(1) step.TakeKill [where ?w1.0 = w1]] show ?thesis
    by (simp add: take_message_def)
next
  case (TaskMsg r)
  obtain runs w2 where p: "process_task L r w1 = (runs, w2)" by fastforce
  have t: "reachable L \<lparr>s_worker = w2, s_phase = (if runs then Executing r else Ending), s_waiters = ws\<rparr>"
    using TaskMsg assms(2) reachable.again [OF assms(1) step.TakeTask [OF _ _ p]] by simp
  obtain hs ret where e: "engine w2 = (hs, ret)" by fastforce
  show ?thesis
  proof (cases runs)
    case True
    with t call_hooks_reachable [of L w2 r ws hs]
    have "reachable L \<lparr>s_worker = call_hooks L hs w2, s_phase = Executing r, s_waiters = ws\<rparr>" by simp
    from reachable.again [OF this step.PlanEnds [where ret = ret and r = r]] show ?thesis
      by (simp add: take_message_def TaskMsg p True e)
  qed (use t in \<open>simp add: take_message_def TaskMsg p\<close>)
qed

lemma loop_turn_reachable:
  assumes "reachable L (waiting_for ws s)"
  shows "reachable L (waiting_for ws (loop_turn L engine s))"
proof -
  obtain w alive where s: "s = (w, alive)" by fastforce
  show ?thesis
  proof (cases "cycle_get w")
    case None
    with assms show ?thesis by (cases alive) (simp_all add: s loop_turn_def cycle_def)
  next
    case (Some p)
    obtain m w1 where p: "p = (m, w1)" by fastforce
    show ?thesis
    proof (cases alive)
      case True
      with assms take_message_reachable [of L w ws m w1 engine] Some p
      have "reachable L \<lparr>s_worker = take_message L engine m w1, s_phase = Ending, s_waiters = ws\<rparr>"
        by (simp add: s waiting_for_def)
      from reachable.again [OF this step.TurnEnds [OF _ refl]] show ?thesis
        using True Some p
        by (cases "w_stopping (cycle_end L (take_message L engine m w1))")
          (simp_all add: s loop_turn_def cycle_def waiting_for_def)
    qed (use assms in \<open>simp add: s loop_turn_def\<close>)
  qed
qed

text \<open>The identifiers of the submitted tasks are fresh when they are drawn.\<close>

fun fresh_call :: "caller \<Rightarrow> worker \<Rightarrow> bool" where
  "fresh_call (SubmitCall uuid baggage t) w = (uuid \<notin> known_ids w)"
| "fresh_call c w = True"

fun fresh_calls :: "lib \<Rightarrow> engine \<Rightarrow> caller list \<Rightarrow> worker \<times> bool \<Rightarrow> bool" where
  "fresh_calls L engine [] s = True"
| "fresh_calls L engine (c # cs) s =
     (fresh_call c (fst s) \<and>
      (case serve_call L engine c s of None \<Rightarrow> True | Some (res, s') \<Rightarrow> fresh_calls L engine cs s'))"

lemma serve_call_reachable:
  assumes r: "reachable L (at_rest s)" and ok: "loop_ok s" and f: "fresh_call c (fst s)" and c: "serve_call L engine c s = Some (res, s')"
  shows "reachable L (at_rest s')"
proof -
  obtain w alive where s: "s = (w, alive)" by fastforce
  note again = reachable.again [OF r]
  have turn: "reachable L (at_rest (loop_turn L engine (w', alive)))" if "step L (at_rest s) (at_rest (w', alive))" for w'
    using loop_turn_reachable [of L "[]"] again [OF that] by (simp add: at_rest_waiting)
  have upd: "at_rest (w', alive) = (at_rest s)\<lparr>s_worker := w'\<rparr>" for w' by (simp add: s at_rest_def)
  have wk: "s_worker (at_rest s) = w" by (simp add: s at_rest_def)
  show ?thesis
  proof (cases c)
    case (SubmitCall uuid baggage t)
    have "step L (at_rest s) (at_rest (snd (submit_task L uuid baggage t w), alive))"
      using step.Submit [of uuid "at_rest s" L baggage t] f SubmitCall unfolding upd wk by (simp add: s)
    from turn [OF this] c show ?thesis by (simp add: SubmitCall s case_prod_beta)
  next
    case (ClearCall k)
    have "step L (at_rest s) (at_rest (snd (clear_task k w), alive))"
      using step.Clear [of L "at_rest s" k] unfolding upd wk .
    from turn [OF this] c show ?thesis by (simp add: ClearCall s case_prod_beta)
  next
    case StopCall
    then obtain w' where w': "stop_put w = Some w'" using c by (auto simp: s split: option.splits)
    then have "step L (at_rest s) (at_rest (w', alive))"
      using step.Stop [of "at_rest s" w' L] unfolding upd wk by simp
    from turn [OF this] c show ?thesis by (simp add: StopCall s w' case_prod_beta)
  next
    case StartCall
    show ?thesis
    proof (cases "start_worker w")
      case (Inr x)
      with ok have off: "s_phase (at_rest s) = Off" by (auto simp: s loop_ok_def flags_ok_def at_rest_def start_worker_def split: if_splits)
      have "step L (at_rest s) (at_rest (run_enter w, True))"
        using step.Start [OF off, of L] Inr by (simp add: s at_rest_def)
      from loop_turn_reachable [of L "[]", folded at_rest_waiting, OF again [OF this]] c show ?thesis
        by (auto simp: StartCall s Inr case_prod_beta)
    qed (use r c StartCall in \<open>simp add: s\<close>)
  next
    case (BeginCall k)
    show ?thesis
    proof (cases "begin_task k w")
      case (Pair b w')
      show ?thesis
      proof (cases b)
        case (Inl e)
        then have "step L (at_rest s) (at_rest (w', alive))"
          using step.BeginFails [of k "at_rest s" e w' L] Pair unfolding upd wk by simp
        from turn [OF this] c show ?thesis by (simp add: BeginCall s Pair Inl)
      next
        case (Inr fs)
        obtain flag sub where fs: "fs = (flag, sub)" by fastforce
        obtain w2 alive2 where t: "loop_turn L engine (w', alive) = (w2, alive2)" by fastforce
        have "step L (at_rest s) (waiting_for [(k, flag, sub)] (w', alive))"
          using step.BeginPut [of k "at_rest s" flag sub w' L] Pair Inr fs by (simp add: s at_rest_def waiting_for_def)
        from loop_turn_reachable [OF again [OF this], of engine]
        have "reachable L (waiting_for [(k, flag, sub)] (w2, alive2))" by (simp add: t)
        from reachable.again [OF this step.BeginReturns [of k flag sub]]
        have "reachable L (at_rest (snd (submit_trackable_wait flag sub w2), alive2))"
          by (simp add: waiting_for_def at_rest_def)
        with c show ?thesis by (auto simp: BeginCall s Pair Inr fs t case_prod_beta)
      qed
    qed
  qed
qed

text \<open>
  Claim C6. A sequential run never blocks: every call returns a result. Whatever the calls are and whatever
  the RunEngine does, the run goes through reachable states of the system of threads, so what holds there
  holds of it, and between two calls the flags tell whether the thread is in its loop.
\<close>

theorem sequential_runs_refine_steps:
  assumes "reachable L (at_rest s)" and "loop_ok s" and "fresh_calls L engine calls s"
  shows "\<exists>ress s'. serve_calls L engine calls s = Some (ress, s') \<and> length ress = length calls \<and>
    reachable L (at_rest s') \<and> loop_ok s'"
  using assms
proof (induction calls arbitrary: s)
  case (Cons c calls)
  from serve_call_ok [OF Cons.prems(2)] obtain res s1 where c: "serve_call L engine c s = Some (res, s1)" "loop_ok s1"
    by blast
  with serve_call_reachable [OF Cons.prems(1,2) _ c(1)] Cons.prems(3) have "reachable L (at_rest s1)" by simp
  from Cons.IH [OF this c(2)] Cons.prems(3) c show ?case by auto
qed simp

subsection \<open>A run\<close>

definition demo_engine :: engine where
  "demo_engine w = ([StateHook (StatesMember ''running'') None, StateHook (StatesMember ''idle'') (Some (StatesMember ''running''))],
     Inr (RunUids []))"

text \<open>A worker that was not started yet.\<close>

definition new_demo_worker :: worker where
  "new_demo_worker = (case new_worker demo_ctx True new_hub (StatesMember ''idle'') of Inr w \<Rightarrow> w)"

lemma new_demo_worker_new: "new_worker demo_ctx True new_hub (StatesMember ''idle'') = Inr new_demo_worker"
  by (simp add: new_demo_worker_def new_worker_def)

lemma new_demo_worker_sel [simp]:
  "w_store new_demo_worker = []" "w_pending new_demo_worker = []" "w_completed new_demo_worker = []"
  "w_ctx new_demo_worker = demo_ctx" "w_state new_demo_worker = IDLE" "w_channel new_demo_worker = None"
  "w_current new_demo_worker = None" "\<not> w_started new_demo_worker" "w_stopped new_demo_worker" "\<not> w_stopping new_demo_worker"
  by (simp_all add: new_demo_worker_def new_worker_def)

lemma fresh_without_submit:
  "\<forall>c \<in> set calls. \<forall>w. fresh_call c w \<Longrightarrow> fresh_calls L engine calls s"
  by (induction calls arbitrary: s) (auto split: option.splits)

theorem sequential_runs_refine_steps_witness:
  "\<exists>ress s'. serve_calls demo_lib demo_engine [SubmitCall ''t1'' PNone demo_task, StartCall, BeginCall ''t1'', StopCall]
      (new_demo_worker, False) = Some (ress, s') \<and> length ress = 4 \<and> reachable demo_lib (at_rest s')"
proof -
  let ?calls = "[SubmitCall ''t1'' PNone demo_task, StartCall, BeginCall ''t1'', StopCall]"
  have "reachable demo_lib (at_rest (new_demo_worker, False))"
    using reachable.init [OF new_demo_worker_new] by (simp add: at_rest_def)
  moreover have "loop_ok (new_demo_worker, False)" by (simp add: loop_ok_def flags_ok_def)
  moreover have "fresh_calls demo_lib demo_engine ?calls (new_demo_worker, False)"
    using fresh_without_submit [of "[StartCall, BeginCall ''t1'', StopCall]"]
    by (auto simp: known_ids_def simp del: serve_call.simps split: option.splits)
  ultimately show ?thesis using sequential_runs_refine_steps [of demo_lib _ demo_engine ?calls] by fastforce
qed

end
