(* ===== verification/LoopProps.thy ===== *)
theory LoopProps
  imports WorkerLoop
begin

section \<open>What the turns of the worker do to the tasks\<close>

text \<open>
  Every task that is begun on an idle worker is completed in its turn, in the order of the calls, and
  the worker is idle again; a stopped worker starts again; a begin that timed out is not taken back.
\<close>

subsection \<open>The RunEngine between two plans\<close>

text \<open>The RunEngine tells the worker that it is idle before its call returns or raises.\<close>

definition ends_idle :: "lib \<Rightarrow> engine \<Rightarrow> bool" where
  "ends_idle L engine \<longleftrightarrow> (\<forall>w. w_state (call_hooks L (fst (engine w)) w) = IDLE)"

subsection \<open>One turn\<close>

lemma call_hook_frame: "worker_ok w \<Longrightarrow> worker_ok (call_hook L h w) \<and> registry_same w (call_hook L h w)"
  by (cases h)
    (simp_all add: on_state_change_ok on_document_ok waiting_hook_ok on_status_event_ok on_complete_ok
      hooks_registry waiting_hook_registry, simp_all add: registry_same_def)

lemma call_hooks_frame: "worker_ok w \<Longrightarrow> worker_ok (call_hooks L hs w) \<and> registry_same w (call_hooks L hs w)"
proof (induction hs arbitrary: w)
  case (Cons h hs)
  from call_hook_frame [OF Cons.prems, of L h] Cons.IH [of "call_hook L h w"] show ?case
    by (simp add: call_hooks_def registry_same_def)
qed (simp add: call_hooks_def registry_same_def)

lemma process_task_other:
  assumes "i < length (w_store w)" and "i \<noteq> r"
  shows "task_at (snd (process_task L r w)) i = task_at w i"
  using assms by (simp add: process_task_def Let_def case_prod_beta task_failed_def report_error_task split: sum.splits)

lemma take_task_turn:
  fixes L engine r w
  assumes w: "worker_ok w" "current_done w" and r: "r < length (w_store w)"
  defines "p \<equiv> take_message L engine (TaskMsg r) w"
  shows "worker_ok p" "w_current p = Some r" "w_pending p = w_pending w" "w_completed p = w_completed w"
    "length (w_store p) = length (w_store w)" "tt_outcome (task_at p r) \<noteq> None"
    "\<And>i. i < length (w_store w) \<Longrightarrow> i \<noteq> r \<Longrightarrow> task_at p i = task_at w i"
    "w_state w = IDLE \<Longrightarrow> ends_idle L engine \<Longrightarrow> w_state p = IDLE"
proof -
  obtain runs w1 where p1: "process_task L r w = (runs, w1)" by fastforce
  obtain hs ret where e: "engine w1 = (hs, ret)" by fastforce
  let ?h = "call_hooks L hs w1"
  have p: "p = (if runs then process_task_end ret r ?h else w1)"
    by (simp add: p_def take_message_def p1 e)
  have w1: "worker_ok w1" "w_current w1 = Some r" "w_pending w1 = w_pending w" "w_completed w1 = w_completed w"
    "length (w_store w1) = length (w_store w)" "w_state w1 = w_state w"
    using process_task_ok [OF w r, of L] process_task_sel [of L r w] by (simp_all add: p1)
  from call_hooks_frame [OF w1(1), of L hs] have h: "worker_ok ?h" "w_store ?h = w_store w1"
    "w_pending ?h = w_pending w1" "w_completed ?h = w_completed w1" "w_current ?h = w_current w1"
    by (simp_all add: registry_same_def)
  note pe = process_task_end_ok [OF h(1), of r ret]
  show "worker_ok p" "w_current p = Some r" using w1(1,2) h(5) pe by (simp_all add: p)
  show "w_pending p = w_pending w" "w_completed p = w_completed w" "length (w_store p) = length (w_store w)"
    using w1(3-5) h(2-4) by (simp_all add: p process_task_end_sel)
  show "tt_outcome (task_at p r) \<noteq> None"
    using w1(2) h(5) pe process_task_failed [OF r, of L w1] p1 by (auto simp: p)
  show "task_at p i = task_at w i" if "i < length (w_store w)" "i \<noteq> r" for i
    using that process_task_other [OF that, of L] process_task_end_other [of i ?h r ret] h(2,5) w1(2,5)
    by (simp add: p p1)
  show "w_state p = IDLE" if "w_state w = IDLE" "ends_idle L engine"
  proof -
    from that(2) have "w_state (call_hooks L (fst (engine w1)) w1) = IDLE" unfolding ends_idle_def by blast
    with that(1) w1(6) show ?thesis by (simp add: p e process_task_end_sel)
  qed
qed

lemma cycle_end_state: "w_state (cycle_end L w) = w_state w"
  by (simp add: cycle_end_def cycle_finish_def cycle_move_def report_status_def Let_def case_prod_beta
      split: option.splits sum.splits)

subsection \<open>A task is begun\<close>

text \<open>A running worker that waits for its next task.\<close>

definition ready :: "worker \<Rightarrow> bool" where
  "ready w \<longleftrightarrow> worker_ok w \<and> current_done w \<and> w_state w = IDLE \<and> loop_ok (w, True)"

text \<open>The registry after the turn of the task \<open>k\<close>.\<close>

definition completed_by_turn :: "string \<Rightarrow> worker \<Rightarrow> worker \<Rightarrow> bool" where
  "completed_by_turn k w w' \<longleftrightarrow> w_pending w' = dict_del k (w_pending w) \<and>
     map fst (w_completed w') = map fst (w_completed w) @ [k] \<and>
     (\<exists>t. look_task w' k = Some t \<and> tt_is_complete t \<and> tt_outcome t \<noteq> None) \<and>
     (\<forall>j. j \<noteq> k \<longrightarrow> look_task w' j = look_task w j)"

lemma task_turn:
  assumes b: "worker_ok b" "current_done b" "w_state b = IDLE" "flags_ok (b, True)"
    and c: "w_channel b = Some (TaskMsg r)" and k: "map_of (w_pending b) k = Some r" and e: "ends_idle L engine"
  shows "\<exists>w'. loop_turn L engine (b, True) = (w', True) \<and> ready w' \<and> completed_by_turn k b w'"
proof -
  let ?g = "b\<lparr>w_channel := None\<rparr>"
  have g: "worker_ok ?g" "current_done ?g"
    using worker_ok_channel [OF b(1), of None] b(2) by (simp_all add: current_done_def)
  from pendingD [OF b(1) k] have r: "r < length (w_store ?g)" "tt_task_id (task_at b r) = k" by simp_all
  define p where "p = take_message L engine (TaskMsg r) ?g"
  note p = take_task_turn [OF g r(1), where L = L and engine = engine, folded p_def]
  have pk: "map_of (w_pending p) k = Some r" by (simp add: p(3) k)
  define w' where "w' = cycle_end L p"
  note e2 = turn_completes_pending [OF p(1,2) pk, where L = L, folded w'_def]
    turn_moves [OF p(1,2) pk, where L = L, folded w'_def]
  have t: "loop_turn L engine (b, True) = (w', True)"
    using loop_turn_task [OF c, of L engine] b(4) by (simp add: flags_ok_def w'_def p_def)
  have out: "current_has_outcome p" using p(2,6) by (simp add: current_has_outcome_def)
  have "worker_ok w'" "current_done w'" using cycle_end_ok [OF p(1) out] cycle_end_done [OF p(1) out] by (simp_all add: w'_def)
  moreover have "w_state w' = IDLE" using p(8) e b(3) by (simp add: w'_def cycle_end_state)
  ultimately have ready: "ready w'" using loop_turn_ok [OF b(4), of L engine] by (simp add: ready_def t)
  have new: "k \<notin> fst ` set (w_completed b)" using pending_not_completed [OF b(1) k] by (simp add: map_of_eq_None_iff)
  have others: "look_task w' j = look_task b j" if j: "j \<noteq> k" for j
  proof (rule look_task_eqI [OF b(1)])
    fix i assume i: "i < length (w_store b)" "tt_task_id (task_at b i) = j"
    with r j have "i \<noteq> r" by auto
    with i e2(7) p(5,7) show "task_at w' i = task_at b i" by simp
  qed (simp_all add: e2(5,6) [OF j] p(3,4))
  from same_but_errors_sel [OF e2(3)] p(6) e2(2) have "\<exists>t. look_task w' k = Some t \<and> tt_is_complete t \<and> tt_outcome t \<noteq> None"
    by auto
  with t ready others new show ?thesis by (simp add: completed_by_turn_def e2(8,9) p(3,4) dict_set_new)
qed

text \<open>What \<open>begin_task\<close> makes of a ready worker, and of one whose thread left its loop.\<close>

lemma begin_task_put:
  assumes "worker_ok w" "current_done w" "w_state w = IDLE" "w_channel w = None" "map_of (w_pending w) k \<noteq> None"
  obtains flag sub b r where "begin_task k w = (Inr (flag, sub), b)" "worker_ok b" "current_done b" "w_state b = IDLE"
    "w_channel b = Some (TaskMsg r)" "map_of (w_pending b) k = Some r" "registry_same w b" "\<not> h_flags (w_hub b) ! flag"
    "map_of (subscriptions (h_worker_events (w_hub b))) sub \<noteq> None"
proof (cases rule: begin_task_cases [OF assms(1), of k, case_names unknown busy full put])
  case (put r sub h)
  have "worker_ok (snd (begin_task k w))" by (rule begin_task_ok [OF assms(1)])
  moreover have "current_done (w\<lparr>w_hub := h, w_otel_context := True, w_channel := Some (TaskMsg r)\<rparr>)"
    using assms(2) by (simp add: current_done_def)
  moreover have "map_of (subscriptions (h_worker_events h)) sub \<noteq> None" by (auto simp: put(5) map_of_eq_None_iff)
  ultimately show thesis
    using put assms(3) by (intro that [OF put(4)]) (simp_all add: registry_same_def)
qed (use assms(3-5) in simp_all)

lemma look_task_same: "registry_same w w' \<Longrightarrow> look_task w' j = look_task w j"
  by (auto simp: registry_same_def look_task_cases split: option.splits)

lemma completed_by_turn_same:
  "registry_same w b \<Longrightarrow> completed_by_turn k b w' \<Longrightarrow> completed_by_turn k w w'"
  "completed_by_turn k w b \<Longrightarrow> registry_same b w' \<Longrightarrow> completed_by_turn k w w'"
  by (simp_all add: completed_by_turn_def look_task_same) (simp_all add: registry_same_def)

lemma begin_call_completes:
  assumes w: "ready w" and e: "ends_idle L engine" and k: "map_of (w_pending w) k \<noteq> None"
  shows "\<exists>res w'. serve_call L engine (BeginCall k) (w, True) = Some (res, w', True) \<and> ready w' \<and> completed_by_turn k w w'"
proof -
  from w have wok: "worker_ok w" "current_done w" "w_state w = IDLE" "w_channel w = None" "flags_ok (w, True)"
    by (simp_all add: ready_def loop_ok_def)
  obtain flag sub b r where b: "begin_task k w = (Inr (flag, sub), b)" "worker_ok b" "current_done b" "w_state b = IDLE"
    "w_channel b = Some (TaskMsg r)" "map_of (w_pending b) k = Some r" "registry_same w b"
    by (rule begin_task_put [OF wok(1-4) k])
  have "flags_ok (b, True)" using operation_flags(3) [of k w True] wok(5) by (simp add: b(1))
  from task_turn [OF b(2-4) this b(5,6) e] obtain w2 where
    t: "loop_turn L engine (b, True) = (w2, True)" "ready w2" "completed_by_turn k b w2" by blast
  let ?w3 = "snd (submit_trackable_wait flag sub w2)"
  have f: "?w3 = w2\<lparr>w_hub := snd (hub_unsubscribe_worker sub (w_hub w2))\<rparr>" by (rule wait_frame)
  have "ready ?w3"
    using t(2) submit_trackable_wait_ok [of w2 flag sub]
    by (simp add: ready_def loop_ok_def operation_flags wait_channel) (simp add: f current_done_cong)
  moreover have "registry_same w2 ?w3" by (simp add: f registry_same_def)
  ultimately show ?thesis
    using t b(1) completed_by_turn_same(2) [OF completed_by_turn_same(1) [OF b(7) t(3)]] by (auto simp: case_prod_beta)
qed

text \<open>
  Claim C1. Tasks that callers begin one after the other on a ready worker all complete, with an outcome, and are
  listed as complete in the order of the calls; other tasks do not change, and the worker is ready for
  the next call.
\<close>

theorem begun_tasks_complete_in_order:
  assumes "ready w" and "ends_idle L engine" and "distinct ks" and "\<forall>k \<in> set ks. map_of (w_pending w) k \<noteq> None"
  shows "\<exists>ress w'. serve_calls L engine (map BeginCall ks) (w, True) = Some (ress, w', True) \<and> ready w' \<and>
    map tt_task_id (get_tasks (Some TS_COMPLETE) w') = map tt_task_id (get_tasks (Some TS_COMPLETE) w) @ ks \<and>
    (\<forall>k \<in> set ks. map_of (w_pending w') k = None \<and>
      (\<exists>t. look_task w' k = Some t \<and> tt_is_complete t \<and> tt_outcome t \<noteq> None)) \<and>
    (\<forall>j. j \<notin> set ks \<longrightarrow> look_task w' j = look_task w j)"
proof -
  have "\<exists>ress w'. serve_calls L engine (map BeginCall ks) (w, True) = Some (ress, w', True) \<and> ready w' \<and>
      map fst (w_completed w') = map fst (w_completed w) @ ks \<and>
      (\<forall>k \<in> set ks. map_of (w_pending w') k = None \<and>
        (\<exists>t. look_task w' k = Some t \<and> tt_is_complete t \<and> tt_outcome t \<noteq> None)) \<and>
      (\<forall>j. map_of (w_pending w) j = None \<longrightarrow> map_of (w_pending w') j = None) \<and>
      (\<forall>j. j \<notin> set ks \<longrightarrow> look_task w' j = look_task w j)"
    using assms(1,3,4)
  proof (induction ks arbitrary: w)
    case (Cons k ks)
    have d: "dict_ok (w_pending w)" using Cons.prems(1) by (simp add: ready_def worker_okD)
    from begin_call_completes [OF Cons.prems(1) assms(2), of k] Cons.prems(3)
    obtain res w1 where 1: "serve_call L engine (BeginCall k) (w, True) = Some (res, w1, True)" "ready w1"
      "w_pending w1 = dict_del k (w_pending w)" "map fst (w_completed w1) = map fst (w_completed w) @ [k]"
      "\<exists>t. look_task w1 k = Some t \<and> tt_is_complete t \<and> tt_outcome t \<noteq> None"
      "\<forall>j. j \<noteq> k \<longrightarrow> look_task w1 j = look_task w j" by (auto simp: completed_by_turn_def)
    have "\<forall>j \<in> set ks. map_of (w_pending w1) j \<noteq> None" using Cons.prems(2,3) d by (auto simp: 1(3))
    from Cons.IH [OF 1(2) _ this] Cons.prems(2) obtain ress w' where
      2: "serve_calls L engine (map BeginCall ks) (w1, True) = Some (ress, w', True)" "ready w'"
      "map fst (w_completed w') = map fst (w_completed w1) @ ks"
      "\<forall>k \<in> set ks. map_of (w_pending w') k = None \<and> (\<exists>t. look_task w' k = Some t \<and> tt_is_complete t \<and> tt_outcome t \<noteq> None)"
      "\<forall>j. map_of (w_pending w1) j = None \<longrightarrow> map_of (w_pending w') j = None"
      "\<forall>j. j \<notin> set ks \<longrightarrow> look_task w' j = look_task w1 j" by auto
    have "k \<notin> set ks" using Cons.prems(2) by simp
    moreover have "map_of (w_pending w') k = None" using 2(5) d by (simp add: 1(3))
    moreover have "map_of (w_pending w') j = None" if "map_of (w_pending w) j = None" for j
      using 2(5) d that by (cases "j = k") (simp_all add: 1(3))
    ultimately show ?case using 1 2 by auto
  qed simp
  moreover have "map tt_task_id (get_tasks (Some TS_COMPLETE) v) = map fst (w_completed v)" if "ready v" for v
    using completed_ids [of v] that by (simp only: ready_def completed_tasks_def get_tasks.simps)
  ultimately show ?thesis using assms(1) by metis
qed

lemma demo_engine_idle: "ends_idle demo_lib demo_engine"
proof -
  have "worker_state_of (upper ''running'') = Inr RUNNING" by (simp add: worker_state_of_iff) code_simp
  then show ?thesis by (simp add: ends_idle_def demo_engine_def call_hooks_def on_state_change_def report_status_def
      Let_def case_prod_beta)
qed

definition two_pending :: worker where
  "two_pending = track_task ''t2'' (None, demo_task) one_task"

lemma two_pending_ready: "ready two_pending"
proof -
  have "worker_ok two_pending"
    unfolding two_pending_def by (rule track_task_ok [OF one_task_ok]) (simp add: trackable_def)
  moreover have "\<not> w_stopping two_pending \<and> \<not> w_stopped two_pending \<and> w_started two_pending"
    by (simp add: two_pending_def one_task_def track_task_def idle_worker_def new_worker_def run_enter_def Let_def case_prod_beta)
  ultimately show ?thesis
    by (simp add: ready_def loop_ok_def flags_ok_def current_done_def) (simp add: two_pending_def track_task_def)
qed

theorem begun_tasks_complete_in_order_witness:
  "\<exists>ress w'. serve_calls demo_lib demo_engine (map BeginCall [''t2'', ''t1'']) (two_pending, True) = Some (ress, w', True) \<and>
     map tt_task_id (get_tasks (Some TS_COMPLETE) w') = [''t2'', ''t1'']"
proof -
  have "\<forall>k \<in> set [''t2'', ''t1'']. map_of (w_pending two_pending) k \<noteq> None" "w_completed two_pending = []"
    by (simp_all add: two_pending_def track_task_def)
  then show ?thesis
    using begun_tasks_complete_in_order [OF two_pending_ready demo_engine_idle, of "[''t2'', ''t1'']"] by auto
qed

subsection \<open>Stopping and starting\<close>

text \<open>
  A running worker that waits for a task stops when it is told to, its tasks still listed, and can be
  started again.
\<close>

theorem stopped_worker_starts_again:
  assumes "loop_ok (w, True)"
  shows "\<exists>w1 w2. serve_call L engine StopCall (w, True) = Some (Inr [], w1, False) \<and>
    serve_call L engine StartCall (w1, False) = Some (Inr [], w2, True) \<and> loop_ok (w2, True)"
proof -
  from assms have w: "w_started w" "w_channel w = None" "\<not> w_stopping w" by (simp_all add: loop_ok_def flags_ok_def)
  let ?w = "w\<lparr>w_channel := Some KillSignal\<rparr>"
  have put: "stop_put w = Some ?w" using w by (simp add: stop_put_def)
  define w1 where "w1 = run_exit (cycle_end L (cycle_kill (?w\<lparr>w_channel := None\<rparr>)))"
  have stop: "serve_call L engine StopCall (w, True) = Some (Inr [], w1, False)"
    using loop_turn_kill [of ?w L engine] by (simp add: put w1_def wait_until_stopped_def run_exit_def)
  have w1: "\<not> w_started w1" "w_stopped w1" "w_channel w1 = None" "\<not> w_stopping w1"
    by (simp_all add: w1_def run_exit_def cycle_kill_def)
  have "w_channel (run_enter w1) = None" using w1(3) by (simp add: run_enter_def Let_def case_prod_beta)
  then have "loop_turn L engine (run_enter w1, True) = (run_enter w1, True)" by (rule loop_turn_idle)
  moreover have "wait_until_started (run_enter w1) = Inr ()"
    by (simp add: wait_until_started_def run_enter_def Let_def case_prod_beta)
  moreover have "start_worker w1 = Inr ()" using w1 by (simp add: start_worker_def wait_until_stopped_def)
  moreover have "loop_ok (run_enter w1, True)"
    using w1 by (simp add: loop_ok_def flags_ok_def run_enter_def Let_def case_prod_beta)
  ultimately show ?thesis using stop by auto
qed

theorem stopped_worker_starts_again_witness:
  "\<exists>w1. serve_call demo_lib demo_engine StopCall (two_pending, True) = Some (Inr [], w1, False)"
  using stopped_worker_starts_again [of two_pending demo_lib demo_engine] two_pending_ready by (auto simp: ready_def)

text \<open>
  Claim C10. A \<open>begin_task\<close> while the thread is not running raises a \<open>TimeoutError\<close>, but the task stays in the queue:
  it runs to its end as soon as the worker is started.
\<close>

theorem timed_out_begin_still_runs:
  assumes "worker_ok w" "current_done w" "w_state w = IDLE" "w_channel w = None" "flags_ok (w, False)"
    and "map_of (w_pending w) k \<noteq> None" and "ends_idle L engine"
  shows "\<exists>w1 w2 res. serve_call L engine (BeginCall k) (w, False) =
      Some (Inl (TimeoutError ''Failed to start plan within timeout''), w1, False) \<and>
    serve_call L engine StartCall (w1, False) = Some (res, w2, True) \<and> completed_by_turn k w w2"
proof -
  obtain flag sub b r where b: "begin_task k w = (Inr (flag, sub), b)" "worker_ok b" "current_done b" "w_state b = IDLE"
    "w_channel b = Some (TaskMsg r)" "map_of (w_pending b) k = Some r" "registry_same w b" "\<not> h_flags (w_hub b) ! flag"
    "map_of (subscriptions (h_worker_events (w_hub b))) sub \<noteq> None"
    by (rule begin_task_put [OF assms(1-4,6)])
  have fb: "flags_ok (b, False)" using operation_flags(3) [of k w False] assms(5) by (simp add: b(1))
  define w1 where "w1 = snd (submit_trackable_wait flag sub b)"
  have f: "w1 = b\<lparr>w_hub := snd (hub_unsubscribe_worker sub (w_hub b))\<rparr>" unfolding w1_def by (rule wait_frame)
  have "fst (submit_trackable_wait flag sub b) = Inl (TimeoutError ''Failed to start plan within timeout'')"
    using b(8,9) by (auto simp: submit_trackable_wait_def hub_unsubscribe_worker_def unsubscribe_def Let_def
        split: option.splits prod.splits sum.splits)
  then have 1: "serve_call L engine (BeginCall k) (w, False) =
      Some (Inl (TimeoutError ''Failed to start plan within timeout''), w1, False)"
    by (simp add: b(1) loop_turn_def case_prod_beta w1_def)
  let ?e = "run_enter w1"
  have e: "?e = w1\<lparr>w_state_hook := True, w_doc_sub := w_doc_sub ?e, w_hub := w_hub ?e, w_waiting_hook := w_waiting_hook ?e,
      w_stopped := False, w_started := True\<rparr>"
    by (simp add: run_enter_def Let_def case_prod_beta)
  have sel: "w_state ?e = w_state b" "w_channel ?e = w_channel b" "w_stopping ?e = w_stopping b" "w_started ?e"
    "\<not> w_stopped ?e" "registry_same b ?e" by (subst e; simp add: f registry_same_def)+
  have "worker_ok ?e" using submit_trackable_wait_ok [OF b(2), of flag sub] by (simp add: run_enter_ok w1_def)
  moreover have "current_done ?e" using b(3) sel(6) by (simp add: current_done_def registry_same_def)
  moreover have "flags_ok (?e, True)" using fb sel by (simp add: flags_ok_def)
  ultimately obtain w2 where 2: "loop_turn L engine (?e, True) = (w2, True)" "completed_by_turn k ?e w2"
    using task_turn [of ?e r k L engine] b(4-6) sel assms(7) by (auto simp: registry_same_def)
  have "start_worker w1 = Inr ()"
    using fb by (simp add: f start_worker_def wait_until_stopped_def flags_ok_def)
  with 1 2 completed_by_turn_same(1) [OF b(7)] completed_by_turn_same(1) [OF sel(6)] show ?thesis by auto
qed

theorem timed_out_begin_still_runs_witness:
  "\<exists>w1 w2 res t. serve_call demo_lib demo_engine (BeginCall ''t1'') (track_task ''t1'' (None, demo_task) new_demo_worker, False) =
      Some (Inl (TimeoutError ''Failed to start plan within timeout''), w1, False) \<and>
    serve_call demo_lib demo_engine StartCall (w1, False) = Some (res, w2, True) \<and>
    look_task w2 ''t1'' = Some t \<and> tt_is_complete t"
proof -
  let ?w = "track_task ''t1'' (None, demo_task) new_demo_worker"
  have "worker_ok new_demo_worker" by (rule new_worker_ok [OF new_hub_ok new_demo_worker_new])
  then have "worker_ok ?w" by (rule track_task_ok) simp
  moreover have "current_done ?w" "w_state ?w = IDLE" "w_channel ?w = None" "flags_ok (?w, False)"
    "map_of (w_pending ?w) ''t1'' \<noteq> None"
    by (simp_all add: current_done_def flags_ok_def track_task_def)
  ultimately show ?thesis
    using timed_out_begin_still_runs [of ?w "''t1''", OF _ _ _ _ _ _ demo_engine_idle] by (auto simp: completed_by_turn_def)
qed

end
