(* ===== verification/CliMain.thy ===== *)
theory CliMain
  imports Commands Logging Compat
begin

section \<open>The command \<open>blueapi\<close> (cli/cli.py: main, serve, the schema commands; service/openapi.py)\<close>

text \<open>
  The entry of the program: the configuration from files and options, the set-up of the logs, then the
  subcommand. \<open>load_values\<close> is pydantic's validation, uvicorn serves, FastAPI and pydantic generate the
  schemas; the file system is the last parameter.
\<close>

subsection \<open>Entry\<close>

text \<open>
  \<open>main\<close>: the subcommand gets the configuration; an error of the configuration or of the set-up of the
  logs ends the program before it.
\<close>

definition cli_main :: "(string \<Rightarrow> string option) \<Rightarrow> ('p \<Rightarrow> pydict option result) \<Rightarrow> (exn \<Rightarrow> string) \<Rightarrow>
    (loader \<Rightarrow> app_config result) \<Rightarrow> (app_config \<Rightarrow> 's \<Rightarrow> cli_end \<times> 's) option \<Rightarrow> 'p list \<Rightarrow> string option \<Rightarrow>
    string option \<Rightarrow> logger \<Rightarrow> 's \<Rightarrow> cli_end \<times> logger \<times> 's" where
  "cli_main env read file_of load_values subcommand config host level l s =
     (case cli_config read file_of load_values config host level of
        Inl e \<Rightarrow> (e, l, s)
      | Inr loaded_config \<Rightarrow>
          (case set_up_logging env (cfg_logging loaded_config) l of
             (Inl e, l') \<Rightarrow> (CliCrashed (PyError e), l', s)
           | (Inr _, l') \<Rightarrow>
               (case subcommand of
                  None \<Rightarrow> (CliPrinted [''Please invoke subcommand!''], l', s)
                | Some run \<Rightarrow> (let (e, s') = run loaded_config s in (e, l', s')))))"

text \<open>\<open>serve\<close> and the end of \<open>start\<close>: \<open>run_server\<close> is \<open>uvicorn.run\<close> of the application.\<close>

definition start_application :: "(string \<Rightarrow> nat \<Rightarrow> app_config \<Rightarrow> 's \<Rightarrow> cli_end \<times> 's) \<Rightarrow> app_config \<Rightarrow> 's \<Rightarrow> cli_end \<times> 's" where
  "start_application run_server config s =
     (case start_address config of
        Inl e \<Rightarrow> (CliCrashed (PyError e), s)
      | Inr (host, port) \<Rightarrow> run_server host port config s)"

subsection \<open>Schemas\<close>

text \<open>\<open>open(location, "w")\<close> and the writes to it.\<close>

type_synonym 's write_file = "string \<Rightarrow> string \<Rightarrow> 's \<Rightarrow> unit result \<times> 's"

definition written :: "unit result \<times> 's \<Rightarrow> cli_end \<times> 's" where
  "written = (\<lambda>(res, s). (case res of Inl e \<Rightarrow> CliCrashed (PyError e) | Inr _ \<Rightarrow> CliPrinted [], s))"

definition write_schema_as_yaml :: "'s write_file \<Rightarrow> (pydict \<Rightarrow> string) \<Rightarrow> string \<Rightarrow> pydict \<Rightarrow> 's \<Rightarrow> unit result \<times> 's" where
  "write_schema_as_yaml write dump location schema = write location (dump schema)"

definition print_schema_as_yaml :: "(pydict \<Rightarrow> string) \<Rightarrow> pydict \<Rightarrow> string list" where
  "print_schema_as_yaml safe_dump schema = [safe_dump schema]"

text \<open>\<open>docs\<close> is the location of the schema in the documentation.\<close>

definition schema_command :: "'s write_file \<Rightarrow> (pydict \<Rightarrow> string) \<Rightarrow> (pydict \<Rightarrow> string) \<Rightarrow> string \<Rightarrow> pydict result \<Rightarrow>
    string option \<Rightarrow> bool \<Rightarrow> 's \<Rightarrow> cli_end \<times> 's" where
  "schema_command write dump safe_dump docs generate output update s =
     (case generate of
        Inl e \<Rightarrow> (CliCrashed (PyError e), s)
      | Inr schema \<Rightarrow>
          (case (if update then Some docs else output) of
             Some location \<Rightarrow> written (write_schema_as_yaml write dump location schema s)
           | None \<Rightarrow> (CliPrinted (print_schema_as_yaml safe_dump schema), s)))"

text \<open>The schema of the configuration, from the one that pydantic generates.\<close>

definition config_schema_command :: "'s write_file \<Rightarrow> (pydict \<Rightarrow> string) \<Rightarrow> (pydict \<Rightarrow> string) \<Rightarrow> string \<Rightarrow> pydict result \<Rightarrow>
    string option \<Rightarrow> bool \<Rightarrow> 's \<Rightarrow> cli_end \<times> 's" where
  "config_schema_command write dumps_indented dumps docs generated output update s =
     (case bind_r generated with_ids of
        Inl e \<Rightarrow> (CliCrashed (PyError e), s)
      | Inr schema \<Rightarrow>
          (case (if update then Some docs else output) of
             Some location \<Rightarrow> written (write location (dumps_indented schema @ [newline]) s)
           | None \<Rightarrow> (CliPrinted [dumps schema], s)))"

subsection \<open>The host option\<close>

text \<open>
  The URL in the values the command line collects is the one of the host option, whatever the files say
  and whatever level is asked for.
\<close>

lemma cli_config_values:
  assumes "cli_config read file_of load_values config (Some host) level = Inr c" and "host \<noteq> []"
  shows "\<exists>d. load_values \<lparr>loader_values = d\<rparr> = Inr c \<and> value_at d [''api'', ''url''] = Some (PStr host)"
proof -
  let ?h = "use_values [(''api'', PDict [(''url'', PStr host)])]"
  obtain l where l: "use_values_from_yaml read config new_loader = (Inr (), l)"
    using assms(1) by (cases "use_values_from_yaml read config new_loader"; cases "fst (use_values_from_yaml read config new_loader)")
      (simp_all add: cli_config_def)
  have url: "value_at (loader_values (?h l)) [''api'', ''url''] = Some (PStr host)"
    by (simp add: use_values_def del: rec_update.simps value_at.simps, rule merge_path_new) simp_all
  have keep: "value_at (loader_values (use_values [(''logging'', PDict [(''level'', PStr v)])] m)) [''api'', ''url''] =
      value_at (loader_values m) [''api'', ''url'']" for v m
    by (simp add: use_values_def del: rec_update.simps value_at.simps, rule merge_path_old) simp_all
  obtain m where m: "load_values m = Inr c" "value_at (loader_values m) [''api'', ''url''] = Some (PStr host)"
  proof (cases "level = None \<or> level = Some []")
    case True
    with assms l have "load_values (?h l) = Inr c" by (auto simp: cli_config_def split: sum.splits)
    with url show thesis by (rule that [rotated])
  next
    case False
    then obtain v where "level = Some v" "v \<noteq> []" by auto
    with assms l have ld: "load_values (use_values [(''logging'', PDict [(''level'', PStr v)])] (?h l)) = Inr c"
      by (simp add: cli_config_def split: sum.splits)
    show thesis by (rule that [OF ld]) (simp only: keep url)
  qed
  then show ?thesis by (cases m) auto
qed

lemma cli_config_fails: "cli_config read file_of load_values config host level = Inl e \<Longrightarrow> e \<noteq> CliPrinted ls"
  by (auto simp: cli_config_def Let_def split: prod.splits sum.splits if_splits)

text \<open>The client of a command has no session when the cache holds none.\<close>

lemma client_without_session:
  assumes "session_from_cache ops s = (Inl e, s)"
  shows "(\<exists>x. client_from_config ops config s = (Inl x, s)) \<or>
    (\<exists>c. client_from_config ops config s = (Inr c, s) \<and> rc_config (bc_rest c) = cfg_api config \<and>
       rc_session_manager (bc_rest c) = None \<and> bc_plans c = None \<and> bc_devices c = None)"
  using assms by (simp add: client_from_config_def Let_def) (simp add: new_client_def)


text \<open>A validation that takes the URL from the values, and a client that records what it sends.\<close>

definition demo_url :: "string \<Rightarrow> url" where
  "demo_url h = (rest_url (cfg_api (default_app_config None)))\<lparr>url_host := Some h\<rparr>"

definition demo_load :: "loader \<Rightarrow> app_config result" where
  "demo_load l = (case value_at (loader_values l) [''api'', ''url''] of
     Some (PStr h) \<Rightarrow> Inr ((default_app_config None)\<lparr>cfg_api := (cfg_api (default_app_config None))\<lparr>rest_url := demo_url h\<rparr>\<rparr>)
   | _ \<Rightarrow> Inr (default_app_config None))"

definition demo_recorder :: "(string \<times> string) list client_lib" where
  "demo_recorder = recording_lib\<lparr>cl_unicode_string := (\<lambda>u. case url_host u of None \<Rightarrow> [] | Some h \<Rightarrow> h)\<rparr>"


end
