(* ===== verification/WireProtocol.thy ===== *)
theory WireProtocol
  imports Commands ClientProps "HOL-Library.Monad_Syntax"
begin

section \<open>The messages on the websocket (service/protocol.py, worker/event.py)\<close>

text \<open>
  What client and server write for a message and read from it, as JSON values; the text of JSON is
  pydantic's. A reader is the validation of a model: \<open>None\<close> is a \<open>ValidationError\<close>. Its fields, defaults,
  tags and whether it refuses other fields are the source's. \<open>coercions\<close> are pydantic's conversions of
  scalars.
\<close>

subsection \<open>Reading a model\<close>

record coercions =
  cv_bool :: "pyval \<Rightarrow> bool option"
  cv_int :: "pyval \<Rightarrow> int option"
  cv_float :: "pyval \<Rightarrow> rat option"

text \<open>A value of the type itself is read as it is.\<close>

definition reads_own_types :: "coercions \<Rightarrow> bool" where
  "reads_own_types V \<longleftrightarrow> (\<forall>b. cv_bool V (PBool b) = Some b) \<and> (\<forall>i. cv_int V (PInt i) = Some i) \<and>
     (\<forall>q. cv_float V (PFloat q) = Some q)"

fun read_str :: "pyval \<Rightarrow> string option" where
  "read_str (PStr s) = Some s"
| "read_str _ = None"

fun read_dict :: "pyval \<Rightarrow> pydict option" where
  "read_dict (PDict d) = Some d"
| "read_dict _ = None"

fun read_list :: "(pyval \<Rightarrow> 'a option) \<Rightarrow> pyval \<Rightarrow> 'a list option" where
  "read_list f (PList vs) = those (map f vs)"
| "read_list f _ = None"

definition read_optional :: "(pyval \<Rightarrow> 'a option) \<Rightarrow> pyval \<Rightarrow> 'a option option" where
  "read_optional f v = (if v = PNone then Some None else map_option Some (f v))"

text \<open>A mapping from strings.\<close>

definition read_mapping :: "(pyval \<Rightarrow> 'a option) \<Rightarrow> pyval \<Rightarrow> (string \<times> 'a) list option" where
  "read_mapping f v = do {d \<leftarrow> read_dict v; those (map (\<lambda>(k, x). map_option (Pair k) (f x)) d)}"

definition field :: "pydict \<Rightarrow> string \<Rightarrow> (pyval \<Rightarrow> 'a option) \<Rightarrow> 'a option" where
  "field d name f = do {v \<leftarrow> map_of d name; f v}"

definition field_or :: "pydict \<Rightarrow> string \<Rightarrow> (pyval \<Rightarrow> 'a option) \<Rightarrow> 'a \<Rightarrow> 'a option" where
  "field_or d name f missing = (case map_of d name of None \<Rightarrow> Some missing | Some v \<Rightarrow> f v)"

text \<open>A \<open>BlueapiBaseModel\<close> refuses fields that it does not have.\<close>

definition blueapi_model :: "string list \<Rightarrow> pyval \<Rightarrow> pydict option" where
  "blueapi_model names v = do {d \<leftarrow> read_dict v; if fst ` set d \<subseteq> set names then Some d else None}"

lemma those_same [simp]: "(\<And>x. x \<in> set xs \<Longrightarrow> f x = Some x) \<Longrightarrow> those (map f xs) = Some xs"
  by (induction xs) simp_all

subsection \<open>Events\<close>

definition read_task_result :: "pyval \<Rightarrow> outcome option" where
  "read_task_result v = do {
     d \<leftarrow> blueapi_model [''outcome'', ''result'', ''type''] v;
     result \<leftarrow> field_or d ''result'' Some PNone;
     type \<leftarrow> field d ''type'' read_str;
     Some (TaskResult result type)}"

definition read_task_error :: "pyval \<Rightarrow> outcome option" where
  "read_task_error v = do {
     d \<leftarrow> blueapi_model [''outcome'', ''type'', ''message''] v;
     type \<leftarrow> field d ''type'' read_str;
     message \<leftarrow> field d ''message'' read_str;
     Some (TaskError type message)}"

definition read_outcome :: "pyval \<Rightarrow> outcome option" where
  "read_outcome v = do {
     d \<leftarrow> read_dict v;
     outcome \<leftarrow> field d ''outcome'' read_str;
     if outcome = ''success'' then read_task_result v
     else if outcome = ''error'' then read_task_error v else None}"

definition read_task_status :: "coercions \<Rightarrow> pyval \<Rightarrow> task_status option" where
  "read_task_status V v = do {
     d \<leftarrow> blueapi_model [''task_id'', ''result'', ''task_complete'', ''task_failed''] v;
     task_id \<leftarrow> field d ''task_id'' read_str;
     result \<leftarrow> field_or d ''result'' (read_optional read_outcome) None;
     complete \<leftarrow> field d ''task_complete'' (cv_bool V);
     failed \<leftarrow> field d ''task_failed'' (cv_bool V);
     Some \<lparr>ts_task_id = task_id, ts_result = result, ts_task_complete = complete, ts_task_failed = failed\<rparr>}"

definition read_state :: "pyval \<Rightarrow> worker_state option" where
  "read_state v = do {s \<leftarrow> read_str v; case worker_state_of s of Inl _ \<Rightarrow> None | Inr st \<Rightarrow> Some st}"

definition read_worker_event :: "coercions \<Rightarrow> pyval \<Rightarrow> worker_event option" where
  "read_worker_event V v = do {
     d \<leftarrow> blueapi_model [''state'', ''task_status'', ''errors'', ''warnings''] v;
     state \<leftarrow> field d ''state'' read_state;
     status \<leftarrow> field_or d ''task_status'' (read_optional (read_task_status V)) None;
     errors \<leftarrow> field_or d ''errors'' (read_list read_str) [];
     warnings \<leftarrow> field_or d ''warnings'' (read_list read_str) [];
     Some \<lparr>we_state = state, we_task_status = status, we_errors = errors, we_warnings = warnings\<rparr>}"

definition read_status_view :: "coercions \<Rightarrow> pyval \<Rightarrow> status_view option" where
  "read_status_view V v = do {
     d \<leftarrow> blueapi_model [''display_name'', ''current'', ''initial'', ''target'', ''unit'', ''precision'', ''done'',
       ''percentage'', ''time_elapsed'', ''time_remaining''] v;
     display_name \<leftarrow> field_or d ''display_name'' read_str (sv_display_name default_status_view);
     current \<leftarrow> field_or d ''current'' (read_optional (cv_float V)) None;
     initial \<leftarrow> field_or d ''initial'' (read_optional (cv_float V)) None;
     target \<leftarrow> field_or d ''target'' (read_optional (cv_float V)) None;
     unit \<leftarrow> field_or d ''unit'' read_str (sv_unit default_status_view);
     precision \<leftarrow> field_or d ''precision'' (read_optional (cv_int V)) None;
     finished \<leftarrow> field_or d ''done'' (cv_bool V) False;
     percentage \<leftarrow> field_or d ''percentage'' (read_optional (cv_float V)) None;
     elapsed \<leftarrow> field_or d ''time_elapsed'' (read_optional (cv_float V)) None;
     remaining \<leftarrow> field_or d ''time_remaining'' (read_optional (cv_float V)) None;
     Some \<lparr>sv_display_name = display_name, sv_current = current, sv_initial = initial, sv_target = target,
       sv_unit = unit, sv_precision = precision, sv_done = finished, sv_percentage = percentage,
       sv_time_elapsed = elapsed, sv_time_remaining = remaining\<rparr>}"

definition read_progress_event :: "coercions \<Rightarrow> pyval \<Rightarrow> progress_event option" where
  "read_progress_event V v = do {
     d \<leftarrow> blueapi_model [''task_id'', ''statuses''] v;
     task_id \<leftarrow> field d ''task_id'' read_str;
     statuses \<leftarrow> field_or d ''statuses'' (read_mapping (read_status_view V)) [];
     Some \<lparr>pe_task_id = task_id, pe_statuses = statuses\<rparr>}"

definition read_data_event :: "pyval \<Rightarrow> data_event option" where
  "read_data_event v = do {
     d \<leftarrow> blueapi_model [''name'', ''doc'', ''task_id''] v;
     name \<leftarrow> field d ''name'' read_str;
     doc \<leftarrow> field d ''doc'' read_dict;
     task_id \<leftarrow> field d ''task_id'' read_str;
     Some \<lparr>de_name = name, de_doc = doc, de_task_id = task_id\<rparr>}"

text \<open>
  \<open>WorkerEvent | DataEvent | ProgressEvent\<close> without a tag: the one that validates. There is never more
  than one (\<open>event_readers_exclusive\<close>), so how pydantic chooses does not matter.
\<close>

definition read_event :: "coercions \<Rightarrow> pyval \<Rightarrow> event option" where
  "read_event V v =
     (case read_worker_event V v of
        Some e \<Rightarrow> Some (WEvent e)
      | None \<Rightarrow>
          (case read_data_event v of
             Some e \<Rightarrow> Some (DEvent e)
           | None \<Rightarrow> map_option PEvent (read_progress_event V v)))"

lemma field_present: "field d name f = Some x \<Longrightarrow> name \<in> fst ` set d"
  by (auto simp: field_def bind_eq_Some_conv dest: map_of_SomeD) (force dest: map_of_SomeD)

lemma blueapi_model_Some: "blueapi_model names v = Some d \<longleftrightarrow> v = PDict d \<and> fst ` set d \<subseteq> set names"
  by (cases v) (auto simp: blueapi_model_def)

lemma reader_fields:
  "read_worker_event V v = Some we \<Longrightarrow> \<exists>d. v = PDict d \<and> ''state'' \<in> fst ` set d \<and>
     fst ` set d \<subseteq> {''state'', ''task_status'', ''errors'', ''warnings''}"
  "read_data_event v = Some de \<Longrightarrow> \<exists>d. v = PDict d \<and> ''name'' \<in> fst ` set d \<and> fst ` set d \<subseteq> {''name'', ''doc'', ''task_id''}"
  "read_progress_event V v = Some pe \<Longrightarrow> \<exists>d. v = PDict d \<and> fst ` set d \<subseteq> {''task_id'', ''statuses''}"
  by (auto simp: read_worker_event_def read_data_event_def read_progress_event_def bind_eq_Some_conv blueapi_model_Some
      dest: field_present)

lemma event_readers_exclusive:
  "read_worker_event V v = None \<or> read_data_event v = None"
  "read_worker_event V v = None \<or> read_progress_event V v = None"
  "read_data_event v = None \<or> read_progress_event V v = None"
  using reader_fields(1,3) [of V v] reader_fields(2) [of v] by fastforce+

lemma read_own_types [simp]:
  assumes "reads_own_types V"
  shows "cv_bool V (PBool b) = Some b" "cv_int V (PInt i) = Some i" "cv_float V (PFloat q) = Some q"
    "read_optional (cv_float V) (dump_float r) = Some r"
    "read_optional (cv_int V) (case p of None \<Rightarrow> PNone | Some i \<Rightarrow> PInt i) = Some p"
  using assms by (auto simp: reads_own_types_def read_optional_def dump_float_def split: option.split)

text \<open>Every event is read back as it was written.\<close>

lemma read_outcome_dump [simp]: "read_optional read_outcome (dump_outcome r) = Some r"
  by (auto simp: dump_outcome_def read_optional_def read_outcome_def read_task_result_def read_task_error_def
      blueapi_model_def field_def field_or_def split: option.split outcome.split)

lemma read_task_status_dump [simp]: "reads_own_types V \<Longrightarrow> read_task_status V (dump_task_status t) = Some t"
  by (simp add: dump_task_status_def read_task_status_def blueapi_model_def field_def field_or_def)

lemma read_status_view_dump [simp]: "reads_own_types V \<Longrightarrow> read_status_view V (dump_status_view v) = Some v"
  by (simp add: dump_status_view_def read_status_view_def blueapi_model_def field_def field_or_def)

lemma dump_task_status_not_none [simp]: "dump_task_status t \<noteq> PNone"
  by (simp add: dump_task_status_def)

lemma read_event_dump:
  assumes "reads_own_types V"
  shows "read_event V (dump_event ev) = Some ev"
proof (cases ev)
  case (WEvent w)
  have "read_optional (read_task_status V) (case we_task_status w of None \<Rightarrow> PNone | Some t \<Rightarrow> dump_task_status t) =
      Some (we_task_status w)"
    using assms by (simp add: read_optional_def split: option.split)
  then have "read_worker_event V (dump_event ev) = Some w"
    by (simp add: WEvent dump_event_def read_worker_event_def blueapi_model_def field_def field_or_def read_state_def)
  then show ?thesis by (simp add: read_event_def WEvent)
next
  case (PEvent p)
  have "read_progress_event V (dump_event ev) = Some p"
    by (simp add: PEvent dump_event_def dump_progress_event_def read_progress_event_def blueapi_model_def field_def
        field_or_def read_mapping_def assms case_prod_beta)
  with event_readers_exclusive [where V = V and v = "dump_event ev"] show ?thesis by (auto simp: read_event_def PEvent)
next
  case (DEvent d)
  have "read_data_event (dump_event ev) = Some d"
    by (simp add: DEvent dump_event_def read_data_event_def blueapi_model_def field_def)
  with event_readers_exclusive [where V = V and v = "dump_event ev"] show ?thesis by (auto simp: read_event_def DEvent)
qed

subsection \<open>From the client\<close>

datatype control_request = Submit task_request | Pause | Resume | Abort "string option"

text \<open>
  \<open>Submit(task=req).model_dump_json()\<close>: without the fallback that \<open>create_task\<close> has, so that a device
  reference among the parameters raises.
\<close>

fun dump_plain :: "plan_argument \<Rightarrow> pyval result" and dump_plains :: "plan_argument list \<Rightarrow> pyval list result" where
  "dump_plain (JsonArg v) = Inr v"
| "dump_plain (ObjectArg obj) = Inl (ForeignError ''PydanticSerializationError'' ''Unable to serialize unknown type'')"
| "dump_plain (ListArg args) = bind_r (dump_plains args) (\<lambda>vs. Inr (PList vs))"
| "dump_plains [] = Inr []"
| "dump_plains (a # args) = bind_r (dump_plain a) (\<lambda>v. bind_r (dump_plains args) (\<lambda>vs. Inr (v # vs)))"

definition dump_submit :: "client_request \<Rightarrow> pyval result" where
  "dump_submit rq =
     bind_r (mapM_r (\<lambda>(k, a). bind_r (dump_plain a) (\<lambda>v. Inr (k, v))) (cr_params rq)) (\<lambda>params.
       Inr (PDict [(''kind'', PStr ''submit''),
         (''task'', PDict [(''name'', PStr (cr_name rq)), (''params'', PDict params), (''instrument_session'', PStr (cr_session rq))])]))"

definition read_task_request :: "pyval \<Rightarrow> task_request option" where
  "read_task_request v = do {
     d \<leftarrow> blueapi_model [''name'', ''params'', ''instrument_session''] v;
     name \<leftarrow> field d ''name'' read_str;
     params \<leftarrow> field_or d ''params'' read_dict [];
     session \<leftarrow> field d ''instrument_session'' read_str;
     Some \<lparr>tr_name = name, tr_params = params, tr_instrument_session = session\<rparr>}"

text \<open>\<open>Submit.model_validate_json\<close>: the kind has a default, other fields are ignored.\<close>

definition read_submit :: "pyval \<Rightarrow> task_request option" where
  "read_submit v = do {
     d \<leftarrow> read_dict v;
     kind \<leftarrow> field_or d ''kind'' read_str ''submit'';
     if kind = ''submit'' then field d ''task'' read_task_request else None}"

text \<open>The adapter for all requests goes by the kind, which has to be there.\<close>

definition read_control_request :: "pyval \<Rightarrow> control_request option" where
  "read_control_request v = do {
     d \<leftarrow> read_dict v;
     kind \<leftarrow> field d ''kind'' read_str;
     if kind = ''submit'' then map_option Submit (read_submit v)
     else if kind = ''pause'' then Some Pause
     else if kind = ''resume'' then Some Resume
     else if kind = ''abort'' then map_option Abort (field_or d ''reason'' (read_optional read_str) None)
     else None}"

subsection \<open>From the server\<close>

fun dump_loc :: "loc_item \<Rightarrow> pyval" where
  "dump_loc (LStr s) = PStr s"
| "dump_loc (LInt i) = PInt i"

definition dump_argument_error :: "verror \<Rightarrow> pyval" where
  "dump_argument_error e = PDict [(''loc'', PList (map dump_loc (ve_loc e))), (''msg'', PStr (ve_msg e)), (''type'', PStr (ve_type e)),
     (''input'', ve_input e)]"

definition dump_response :: "ws_message \<Rightarrow> pyval" where
  "dump_response m =
     (case m of
        PlanNotFound name \<Rightarrow> PDict [(''kind'', PStr ''plan_not_found''), (''plan_name'', PStr name)]
      | InvalidArgs errs \<Rightarrow> PDict [(''kind'', PStr ''invalid_args''), (''errors'', PList (map dump_argument_error errs))]
      | ServerBusy \<Rightarrow> PDict [(''kind'', PStr ''busy'')]
      | Unauthorized \<Rightarrow> PDict [(''kind'', PStr ''unauthorized'')]
      | Update ev \<Rightarrow> PDict [(''kind'', PStr ''update''), (''data'', dump_event ev)])"

definition read_loc :: "coercions \<Rightarrow> pyval \<Rightarrow> loc_item option" where
  "read_loc V v = (case read_str v of Some s \<Rightarrow> Some (LStr s) | None \<Rightarrow> map_option LInt (cv_int V v))"

text \<open>The message and the type of an error are always there in what the server writes; a null is not read here.\<close>

definition read_argument_error :: "coercions \<Rightarrow> pyval \<Rightarrow> verror option" where
  "read_argument_error V v = do {
     d \<leftarrow> read_dict v;
     loc \<leftarrow> field d ''loc'' (read_list (read_loc V));
     msg \<leftarrow> field d ''msg'' read_str;
     type \<leftarrow> field d ''type'' read_str;
     input \<leftarrow> field d ''input'' Some;
     Some \<lparr>ve_loc = loc, ve_msg = msg, ve_type = type, ve_input = input\<rparr>}"

definition read_response :: "coercions \<Rightarrow> pyval \<Rightarrow> ws_message option" where
  "read_response V v = do {
     d \<leftarrow> read_dict v;
     kind \<leftarrow> field d ''kind'' read_str;
     if kind = ''plan_not_found'' then map_option PlanNotFound (field d ''plan_name'' read_str)
     else if kind = ''invalid_args'' then map_option InvalidArgs (field d ''errors'' (read_list (read_argument_error V)))
     else if kind = ''busy'' then Some ServerBusy
     else if kind = ''unauthorized'' then Some Unauthorized
     else if kind = ''update'' then map_option Update (field d ''data'' (read_event V))
     else None}"

lemma read_loc_dump [simp]: "reads_own_types V \<Longrightarrow> read_loc V (dump_loc l) = Some l"
  by (cases l) (simp_all add: read_loc_def)

lemma read_argument_error_dump [simp]: "reads_own_types V \<Longrightarrow> read_argument_error V (dump_argument_error e) = Some e"
  by (simp add: read_argument_error_def dump_argument_error_def field_def)

lemma read_response_dump: "reads_own_types V \<Longrightarrow> read_response V (dump_response m) = Some m"
  by (cases m) (simp_all add: read_response_def dump_response_def field_def read_event_dump)

subsection \<open>The connection of the client\<close>

text \<open>
  \<open>connect\<close> of \<open>run_blocking\<close>: the request is sent once the connection is open, and every message is
  validated. \<open>talk\<close> is the other end: what it answers to the request, and how it closes.
\<close>

definition read_message :: "coercions \<Rightarrow> pyval \<Rightarrow> ws_message result" where
  "read_message V v = (case read_response V v of None \<Rightarrow> Inl (ValidationError ''ControlResponse'' []) | Some m \<Rightarrow> Inr m)"

definition ws_exchange :: "coercions \<Rightarrow> (string \<Rightarrow> (string \<times> string) list \<Rightarrow> 's \<Rightarrow>
      (ws_connect + (pyval \<Rightarrow> 's \<Rightarrow> (pyval list \<times> exn option) \<times> 's)) \<times> 's) \<Rightarrow>
    string \<Rightarrow> (string \<times> string) list \<Rightarrow> client_request \<Rightarrow> 's \<Rightarrow> ws_connect \<times> 's" where
  "ws_exchange V open_ws url headers rq s =
     (case open_ws url headers s of
        (Inl c, s') \<Rightarrow> (c, s')
      | (Inr talk, s') \<Rightarrow>
          (case dump_submit rq of
             Inl e \<Rightarrow> (WsConnectFailed e, s')
           | Inr v \<Rightarrow> (let ((msgs, closing), s'') = talk v s' in (WsConnected (map (read_message V) msgs) closing, s''))))"

lemma read_messages: "reads_own_types V \<Longrightarrow> map (read_message V) (map dump_response msgs) = map Inr msgs"
  by (simp add: read_message_def read_response_dump)

lemma dump_plain_argument:
  "dump_plain a = Inr v \<Longrightarrow> dump_argument a = Inr v"
  "dump_plains as = Inr vs \<Longrightarrow> dump_arguments as = Inr vs"
  by (induction a and as arbitrary: v and vs rule: dump_plain_dump_plains.induct) auto

subsection \<open>What the two ends understand\<close>

text \<open>
  Claim C31. Every message of the server is read by the client as the message that was sent, events
  included. A request that the client can write is read by the server as the plan, the session and the
  parameters that \<open>create_task\<close> would send.
\<close>

theorem protocol_round_trip:
  assumes "reads_own_types V"
  shows "read_response V (dump_response m) = Some m \<and>
    (\<forall>v. dump_submit rq = Inr v \<longrightarrow>
      (\<exists>t. read_submit v = Some t \<and> read_control_request v = Some (Submit t) \<and>
        dump_request rq = Inr (PDict [(''name'', PStr (tr_name t)), (''params'', PDict (tr_params t)),
          (''instrument_session'', PStr (tr_instrument_session t))])))"
proof (intro conjI allI impI)
  fix v assume v: "dump_submit rq = Inr v"
  have "mapM_r (\<lambda>(k, a). bind_r (dump_argument a) (\<lambda>v. Inr (k, v))) ps = Inr ds"
    if "mapM_r (\<lambda>(k, a). bind_r (dump_plain a) (\<lambda>v. Inr (k, v))) ps = Inr ds" for ps ds
    using that by (induction ps arbitrary: ds) (auto simp: dump_plain_argument(1))
  with v show "\<exists>t. read_submit v = Some t \<and> read_control_request v = Some (Submit t) \<and>
      dump_request rq = Inr (PDict [(''name'', PStr (tr_name t)), (''params'', PDict (tr_params t)),
        (''instrument_session'', PStr (tr_instrument_session t))])"
    by (auto simp: dump_submit_def dump_request_def read_submit_def read_control_request_def read_task_request_def
        blueapi_model_def field_def field_or_def)
qed (rule read_response_dump [OF assms])

definition json_types :: coercions where
  "json_types = \<lparr>cv_bool = (\<lambda>v. case v of PBool b \<Rightarrow> Some b | _ \<Rightarrow> None), cv_int = (\<lambda>v. case v of PInt i \<Rightarrow> Some i | _ \<Rightarrow> None),
     cv_float = (\<lambda>v. case v of PFloat q \<Rightarrow> Some q | PInt i \<Rightarrow> Some (of_int i) | _ \<Rightarrow> None)\<rparr>"

lemma json_types_own: "reads_own_types json_types"
  by (simp add: reads_own_types_def json_types_def)

theorem protocol_round_trip_witness:
  "read_response json_types (dump_response (InvalidArgs [\<lparr>ve_loc = [LStr ''body'', LInt 0], ve_msg = ''missing'',
     ve_type = ''missing'', ve_input = PNone\<rparr>])) = Some (InvalidArgs [\<lparr>ve_loc = [LStr ''body'', LInt 0], ve_msg = ''missing'',
     ve_type = ''missing'', ve_input = PNone\<rparr>]) \<and>
   (\<exists>v. dump_submit \<lparr>cr_name = ''count'', cr_params = [(''n'', ListArg [JsonArg (PInt 3)])], cr_session = ''cm1-1''\<rparr> = Inr v \<and>
     read_submit v \<noteq> None)"
  using protocol_round_trip [OF json_types_own, of "InvalidArgs [\<lparr>ve_loc = [LStr ''body'', LInt 0], ve_msg = ''missing'',
     ve_type = ''missing'', ve_input = PNone\<rparr>]" "\<lparr>cr_name = ''count'', cr_params = [(''n'', ListArg [JsonArg (PInt 3)])], cr_session = ''cm1-1''\<rparr>"]
  by (auto simp: dump_submit_def)

text \<open>
  The protocol names requests to pause, resume and abort a plan, but the server reads one request of a
  connection, which has to be a submission: any other is refused as an invalid message, and nothing
  changes. A request with a device reference cannot be written at all, although \<open>create_task\<close> can send it.
\<close>

theorem only_submissions_are_served:
  assumes "read_control_request v = Some rq" and "\<nexists>t. rq = Submit t"
  shows "ws_run_plan A opa user headers uuid baggage send (read_submit v) r = (WsDone [] (WsClosed 1007 ''Invalid Request''), r)"
proof -
  from assms have "read_submit v = None"
    by (auto simp: read_control_request_def read_submit_def field_def field_or_def bind_eq_Some_conv split: if_splits)
  then show ?thesis by (simp add: ws_run_plan_def)
qed

lemma mapM_r_raises: "x \<in> set xs \<Longrightarrow> f x = Inl e \<Longrightarrow> \<exists>e'. mapM_r f xs = Inl e'"
  by (induction xs) (auto simp: bind_r_Inl, metis sum.exhaust)

theorem device_references_need_rest:
  assumes "(k, ObjectArg (DeviceObject n)) \<in> set (cr_params rq)"
  shows "\<exists>e. dump_submit rq = Inl e"
  using mapM_r_raises [OF assms, of "\<lambda>(k, a). bind_r (dump_plain a) (\<lambda>v. Inr (k, v))"] by (auto simp: dump_submit_def)

subsection \<open>A run over the connection\<close>

text \<open>
  Claim C33. Server and client together, with the messages as they are on the wire: when the events of a
  task contain its completion and the client keeps listening, the client's \<open>run_blocking\<close> returns the
  status of that task, complete, and each of its callbacks was called, in the order they were added, for
  exactly the events of the task up to the completing one, whatever other tasks' events came between and
  whatever callbacks raise.
\<close>

theorem websocket_run_over_the_wire:
  assumes "reads_own_types V"
    and "worker_of_runner r = Some w" and "ep_handles (wt_pipe st) = [(h, p)]" and "unpipe_events h w = (Inr (), w')"
    and "own = until_complete (filter (\<lambda>e. event_task_id e = Some (wt_task_id st)) evts)"
    and "length own \<le> sends" and "own \<noteq> []" and "completes (last own)"
    and "rc_session_manager (bc_rest c) = None" and "ws_address (rc_config (bc_rest c)) = Inr address"
    and "dump_submit request = Inr v" and "\<forall>url headers. open_ws url headers s = (Inr talk, s1)"
    and "\<forall>msgs. ws_listen A st sends reply evts eof r = (WsDone msgs WsComplete, put_worker w' r) \<longrightarrow>
      talk v s1 = ((map dump_response msgs, None), s2)"
  shows "\<exists>status. client_run_blocking L (ws_exchange V open_ws) request None c (s, u) =
      (Inr status, s2, fold (call_all (dict_values (bc_callbacks c))) own u) \<and>
    ts_task_id status = wt_task_id st \<and> ts_task_complete status"
proof -
  from websocket_run_end_to_end [OF assms(2-8), of A reply eof "dict_values (bc_callbacks c)" u] obtain msgs status where
    m: "ws_listen A st sends reply evts eof r = (WsDone msgs WsComplete, put_worker w' r)"
      "case websocket_events (WsConnected (map Inr msgs) None) of (events, ending) \<Rightarrow>
         follow_events (dict_values (bc_callbacks c)) None events ending u =
           (Inr status, fold (call_all (dict_values (bc_callbacks c))) own u)"
      "ts_task_id status = wt_task_id st" "ts_task_complete status" by (elim exE conjE)
  have "ws_exchange V open_ws url headers request s = (WsConnected (map Inr msgs) None, s2)" for url headers
    using m(1) assms(11-13) by (simp add: ws_exchange_def read_messages [OF assms(1), simplified])
  with m(2-4) assms(9,10) show ?thesis
    by (simp add: client_run_blocking_def rc_run_blocking_def Let_def case_prod_beta)
qed

text \<open>A client with one callback, which counts, and a server that runs the task \<open>t1\<close> of \<open>one_task\<close>.\<close>

definition demo_completion :: event where
  "demo_completion = WEvent \<lparr>we_state = IDLE, we_task_status = Some \<lparr>ts_task_id = ''t1'', ts_result = None, ts_task_complete = True,
     ts_task_failed = False\<rparr>, we_errors = [], we_warnings = []\<rparr>"

definition demo_listening :: ws_progress where
  "demo_listening = fst (ws_listen demo_app \<lparr>wt_task_id = ''t1'', wt_waiting = (None, []),
     wt_pipe = \<lparr>ep_handles = [(fst (pipe_events 0 one_task), 0)]\<rparr>\<rparr> 1 (Inr ()) [demo_completion] False
     (demo_runner (snd (pipe_events 0 one_task))))"

definition demo_talk :: "pyval \<Rightarrow> unit \<Rightarrow> (pyval list \<times> exn option) \<times> unit" where
  "demo_talk v = Pair (case demo_listening of WsDone msgs _ \<Rightarrow> map dump_response msgs | _ \<Rightarrow> [], None)"

definition counting_client :: "nat blueapi_client" where
  "counting_client = demo_client\<lparr>bc_callbacks := [(0, \<lambda>e n. (Inl (RuntimeError []), Suc n))]\<rparr>"

theorem websocket_run_over_the_wire_witness:
  "\<exists>status. client_run_blocking demo_client_lib (ws_exchange json_types (\<lambda>url headers. Pair (Inr demo_talk)))
      \<lparr>cr_name = ''count'', cr_params = [], cr_session = ''cm1-1''\<rparr> None counting_client ((), 0) = (Inr status, (), 1) \<and>
    ts_task_id status = ''t1'' \<and> ts_task_complete status"
proof -
  let ?w = "snd (pipe_events 0 one_task)"
  let ?st = "\<lparr>wt_task_id = ''t1'', wt_waiting = (None, []), wt_pipe = \<lparr>ep_handles = [(fst (pipe_events 0 one_task), 0)]\<rparr>\<rparr>"
  have c: "completes demo_completion" "event_task_id demo_completion = Some ''t1''"
    by (simp_all add: demo_completion_def completes_def we_is_complete_def event_task_id_def we_task_id_def)
  have "fst (unpipe_events (fst (pipe_events 0 one_task)) ?w) = Inr ()" by code_simp
  then obtain w' where u: "unpipe_events (fst (pipe_events 0 one_task)) ?w = (Inr (), w')"
    by (metis prod.collapse)
  have "rc_session_manager (bc_rest counting_client) = None" "dict_values (bc_callbacks counting_client) = [\<lambda>e n. (Inl (RuntimeError []), Suc n)]"
    by (simp_all add: counting_client_def demo_client_def new_client_def)
  moreover obtain address where "ws_address (rc_config (bc_rest counting_client)) = Inr address"
    by (simp add: counting_client_def demo_client_def new_client_def ws_address_def default_app_config_def Let_def)
  moreover obtain v where "dump_submit \<lparr>cr_name = ''count'', cr_params = [], cr_session = ''cm1-1''\<rparr> = Inr v"
    by (simp add: dump_submit_def)
  moreover have "\<forall>msgs. ws_listen demo_app ?st 1 (Inr ()) [demo_completion] False (demo_runner ?w) =
      (WsDone msgs WsComplete, put_worker w' (demo_runner ?w)) \<longrightarrow> demo_talk v () = ((map dump_response msgs, None), ())"
    by (simp add: demo_talk_def demo_listening_def)
  ultimately show ?thesis
    using websocket_run_over_the_wire [OF json_types_own demo_runner_worker _ u, where c = counting_client and st = ?st and p = 0
        and evts = "[demo_completion]" and own = "[demo_completion]" and sends = 1 and address = address and v = v
        and talk = demo_talk and s = "()" and A = demo_app and reply = "Inr ()" and eof = False and L = demo_client_lib
        and request = "\<lparr>cr_name = ''count'', cr_params = [], cr_session = ''cm1-1''\<rparr>" and u = 0
        and open_ws = "\<lambda>url headers. Pair (Inr demo_talk)"]
    by (simp add: c)
qed

end
