(* ===== verification/Spec2Isabelle.thy ===== *)
theory Spec2Isabelle
  imports WorkerTraces ClientProps CliProps Asgi Logging Switcher ConfigHeap Polling Commands
    ReferenceSchema Compat Legacy LoopProps CliMain WireProtocol
begin

text \<open>
  \<^bold>\<open>blueapi\<close> runs Bluesky plans as a service. A REST application (\<open>service/main.py\<close>) authenticates and
  authorises requests and calls, through a dispatcher (\<open>service/runner.py\<close>), functions of the service
  interface (\<open>service/interface.py\<close>) in a worker process. There a context (\<open>core/context.py\<close>) holds the
  plans and devices the configuration (\<open>config.py\<close>) names, and a worker (\<open>worker/task_worker.py\<close>) keeps
  the submitted tasks and runs them one at a time on a RunEngine, publishing events
  (\<open>core/event.py\<close>). A Python client (\<open>client\<close>) and a command line (\<open>cli\<close>) use the REST application, a
  websocket (\<open>service/protocol.py\<close>) or a message bus. All paths are below \<open>src/blueapi\<close>.

  \<^bold>\<open>Conventions.\<close> A dictionary is an association list in insertion order, a class of the sources a record,
  an enumeration or a union a datatype. What can raise returns \<open>exn + 'a\<close> (in the client
  \<open>client_exn + 'a\<close>), and every \<open>raise\<close> and early return is a branch. State is passed explicitly: an
  operation returns its result and the new state, also when it raises. Objects the worker shares between
  its registries are indices into a store. A method that blocks is split where it waits, so that other
  steps can come between. Libraries the sources call (pydantic, FastAPI, the RunEngine, requests,
  websockets, STOMP, git, PyJWT, tqdm) are parameters; what is relied on of them is a hypothesis of the
  property, and its witness has a concrete instance. Strings are ASCII, floats rationals.

  \<^bold>\<open>Theories, in the order of the layers.\<close>
  \<^item> \<open>Prelude\<close>, \<open>PyStrings\<close>: values, exceptions, dictionaries (the locales \<open>keyed_store\<close> and
    \<open>removable_store\<close>, interpreted on dictionaries, on the registries of the context and of the worker),
    string operations. \<open>Base64\<close>: the encoding, with its round trip.
  \<^item> \<open>Events\<close> (\<open>core/event.py\<close>): the publisher; the locales \<open>event_source\<close> and \<open>event_stream\<close>, interpreted
    on the publisher and on the callbacks of the client.
  \<^item> \<open>Config\<close>, \<open>ConfigLoader\<close> (\<open>config.py\<close>): the records and their rules; merging values and expanding
    environment variables. \<open>ConfigHeap\<close>: the merge in place, on dictionaries in a heap.
  \<^item> \<open>Devices\<close>, \<open>TypeSpecs\<close>, \<open>PlanContext\<close> (\<open>core/device_lookup.py\<close>, \<open>core/bluesky_types.py\<close>,
    \<open>core/context.py\<close>, \<open>utils/modules.py\<close>): the lookup of devices by address, against the paths of the
    object tree; the types of plan parameters; the registries and how configurations fill them.
    \<open>ReferenceSchema\<close>: the schema of a reference against its validator.
  \<^item> \<open>WorkerEvents\<close>, \<open>Channels\<close>, \<open>TaskWorker\<close> (\<open>worker\<close>): states, events and tasks; the publishers with
    the callbacks of the program; every operation of the worker and the pieces of its loop.
    \<open>WorkerInv\<close> has the invariant \<open>worker_ok\<close> and its preservation by each operation, \<open>WorkerProps\<close>
    the registry laws (the locale \<open>task_registry\<close>) and what beginning a task and a turn of the loop do.
    \<open>WorkerSteps\<close> is the system of worker thread, RunEngine hooks and callers as a step relation
    with an invariant of the reachable states and a refinement of the abstract life cycle of tasks;
    \<open>WorkerTraces\<close> evaluates a run with two races. \<open>WorkerLoop\<close> composes the pieces of \<open>_cycle\<close> and
    \<open>run\<close> as the methods do and refines the step relation by sequential runs; \<open>LoopProps\<close>: what whole
    turns do to the tasks.
  \<^item> \<open>Support\<close>, \<open>Numtracker\<close> (\<open>utils\<close>): access blobs, the path provider, permissions; the client of
    numtracker and how a run takes its number and directory from it.
  \<^item> \<open>Interface\<close>, \<open>InterfaceProps\<close> (\<open>service/interface.py\<close>, \<open>service/model.py\<close>): set-up, submission,
    starting with Tiled writers, piping of events, and what they leave subscribed.
  \<^item> \<open>Runner\<close> (\<open>service/runner.py\<close>): the dispatcher, its environment state and the event pipes.
  \<^item> \<open>TokenCache\<close>, \<open>Sessions\<close>, \<open>SessionProps\<close> (\<open>service/authentication.py\<close>): the cache file (the locale
    \<open>cache_manager\<close>, interpreted on the file system), sessions over any cache (\<open>session_client\<close>), bearer
    tokens. \<open>Polling\<close>: the polling loops of login and reload end in time. \<open>Authz\<close> (\<open>service/authorization.py\<close>): the policy client.
  \<^item> \<open>Rest\<close>, \<open>RestProps\<close> (\<open>service/main.py\<close>): the handlers from their dependencies to statuses, and what
    they do to a live worker. \<open>RestApp\<close>, \<open>RestAppProps\<close>: the application as one function of routed requests.
    \<open>Websocket\<close>: \<open>run_plan\<close> against the sequence of a task's events; \<open>WireProtocol\<close>
    (\<open>service/protocol.py\<close>, with the models of \<open>worker/event.py\<close>): the messages as they are written and
    read, and a run of client and server over them.
  \<^item> \<open>RestClient\<close>, \<open>Client\<close>, \<open>ClientRun\<close>, \<open>ClientProps\<close> (\<open>client\<close>): requests and what responses mean,
    plans as callables, caches, runs, reload, login; then client and server together.
  \<^item> \<open>Scratch\<close>, \<open>ScratchProps\<close>, \<open>Display\<close>, \<open>Cli\<close>, \<open>CliProps\<close> (\<open>cli\<close>): the scratch area, the texts, the
    commands; \<open>Commands\<close>: those that hand a request on, every output format, listening;
    \<open>CliMain\<close>: the entry of the program, \<open>serve\<close> and the schema commands.
    \<open>Legacy\<close>: the deprecated methods of the client and a client from a configuration file.
  \<^item> \<open>Asgi\<close> (\<open>service/middleware.py\<close>): programs that receive and send, every middleware and their order;
    \<open>Logging\<close> (\<open>log.py\<close>); \<open>Compat\<close>: deprecated names, serialisation; \<open>Switcher\<close>, the script of
    the documentation.

  \<^bold>\<open>What the properties show.\<close> For the worker: beginning a task, a turn of the loop
  and submission have their full outcome; reachable states are consistent; the system refines the life
  cycle pending, running, complete; a successful start means the task was taken; tasks begun one after
  the other all complete, in order. For events: delivery to every subscriber and along pipes. For the
  service: tasks belong to their users, state changes are the documented ones, a reload forgets the
  past, a Tiled writer lives as long as its task. End to end: errors of a submission reach the caller of
  the client with the paths of the parameters; a websocket run, over the messages on the wire, gives the
  status of its own task after its own events; a reload is waited for; a host given to the command line
  is the one that is asked. Several theorems state behaviour that is a defect of the code (a task
  cleared while it runs, a begin that timed out and still runs, the kill after a completed task, a task
  begun twice, the old error after a reload, an uncaught error of the command line, the logged cookie,
  device references that the websocket cannot send); the manifest lists them.

  \<^bold>\<open>Bounds and fuel.\<close> Only the merge in place has fuel, for the depth of a document.
  Loops over what the environment delivers (polls, messages, rounds of the worker) take the list of what
  is delivered and say when they still wait; the others are structural or have a measure.

  \<^bold>\<open>Not modelled.\<close> Tracing spans; how FastAPI and pydantic generate the schemas that
  \<open>service/openapi.py\<close> and \<open>generate_config_schema\<close> write, and pydantic's own
  validation of plan parameters and scalars; the text of JSON; the umask and the logging set-up of
  uvicorn; the tutorial devices and the configuration of the documentation; package files without logic.
\<close>

end
